(* ===== verification/Prelude.thy ===== *)
theory Prelude
  imports Complex_Main "HOL-Library.AList" "HOL-Library.Sublist"
begin

text \<open>
  Shared vocabulary of the development. Python values are modelled as follows:
  \<^item> a \<open>float\<close> is a \<open>real\<close> (rounding is not modelled); a float that the code can make
    infinite (\<open>float('inf')\<close>) is an \<open>xreal\<close>, a real or the sentinel \<open>PInf\<close>;
  \<^item> \<open>int(x)\<close> of a float truncates towards zero: \<open>py_int\<close>;
  \<^item> a \<open>dict\<close> keyed by strings is an association list (\<open>'v dict\<close>), which keeps
    Python's insertion order; \<open>d[k] = v\<close> is \<open>AList.update\<close>, which keeps the position
    of an existing key, and \<open>del d[k]\<close> is \<open>AList.delete\<close>;
  \<^item> a raised exception is the left value of a sum, \<open>py_error + 'a\<close>.
\<close>

named_theorems dict_simps "characteristic equations of dictionary operations"

type_synonym 'v dict = "(string \<times> 'v) list"
type_synonym money = real
type_synonym timestamp = real

datatype py_error = ZeroDivisionError | ValueError

text \<open>Sequencing of code that may raise: the first exception propagates.\<close>

fun py_bind :: "py_error + 'a \<Rightarrow> ('a \<Rightarrow> py_error + 'b) \<Rightarrow> py_error + 'b" where
  "py_bind (Inl e) f = Inl e"
| "py_bind (Inr x) f = f x"

text \<open>A list comprehension whose element expression may raise.\<close>

fun py_map :: "('a \<Rightarrow> py_error + 'b) \<Rightarrow> 'a list \<Rightarrow> py_error + 'b list" where
  "py_map f [] = Inr []"
| "py_map f (x # xs) = py_bind (f x) (\<lambda>y. py_bind (py_map f xs) (\<lambda>ys. Inr (y # ys)))"

text \<open>Float division \<open>a / b\<close>, which raises \<open>ZeroDivisionError\<close> on a zero divisor.\<close>

definition py_div :: "real \<Rightarrow> real \<Rightarrow> py_error + real" where
  "py_div a b = (if b = 0 then Inl ZeroDivisionError else Inr (a / b))"

text \<open>\<open>max(xs)\<close> of a list of floats, which raises \<open>ValueError\<close> on an empty list.\<close>

fun py_max :: "real list \<Rightarrow> py_error + real" where
  "py_max [] = Inl ValueError"
| "py_max (x # xs) = Inr (fold max xs x)"

text \<open>
  SQLite's \<open>INSERT OR REPLACE\<close> on a table with a unique key: the row holding the key
  is deleted and the new row is appended (it receives a fresh rowid).
\<close>

definition sql_replace :: "'k \<Rightarrow> 'v \<Rightarrow> ('k \<times> 'v) list \<Rightarrow> ('k \<times> 'v) list" where
  "sql_replace k v tbl = AList.delete k tbl @ [(k, v)]"

section \<open>Python's \<open>int()\<close> on floats\<close>

definition py_int :: "real \<Rightarrow> int" where
  "py_int x = (if 0 \<le> x then \<lfloor>x\<rfloor> else \<lceil>x\<rceil>)"

lemma py_int_pos_le:
  assumes "0 < py_int x"
  shows "real_of_int (py_int x) \<le> x"
  using assms by (auto simp: py_int_def split: if_splits)

lemma py_int_nonneg_eq: "0 \<le> x \<Longrightarrow> py_int x = \<lfloor>x\<rfloor>"
  by (simp add: py_int_def)

lemma py_int_pos_iff: "0 < py_int x \<longleftrightarrow> 1 \<le> x"
proof (cases "0 \<le> x")
  case True
  then show ?thesis by (simp add: py_int_def le_floor_iff)
next
  case False
  then have "\<lceil>x\<rceil> \<le> 0" by (simp add: ceiling_le_iff)
  with False show ?thesis by (simp add: py_int_def)
qed

section \<open>Floats that may be infinite\<close>

datatype xreal = Fin real | PInf

instantiation xreal :: linorder
begin

fun less_eq_xreal :: "xreal \<Rightarrow> xreal \<Rightarrow> bool" where
  "less_eq_xreal (Fin a) (Fin b) = (a \<le> b)"
| "less_eq_xreal _ PInf = True"
| "less_eq_xreal PInf (Fin _) = False"

definition less_xreal :: "xreal \<Rightarrow> xreal \<Rightarrow> bool" where
  "less_xreal a b = (a \<le> b \<and> \<not> b \<le> a)"

instance
proof
  fix x y z :: xreal
  show "(x < y) = (x \<le> y \<and> \<not> y \<le> x)" by (simp add: less_xreal_def)
  show "x \<le> x" by (cases x) auto
  show "x \<le> y \<Longrightarrow> y \<le> z \<Longrightarrow> x \<le> z" by (cases x; cases y; cases z) auto
  show "x \<le> y \<Longrightarrow> y \<le> x \<Longrightarrow> x = y" by (cases x; cases y) auto
  show "x \<le> y \<or> y \<le> x" by (cases x; cases y) auto
qed

end

text \<open>The finite part, as \<open>min(1, max(0, ...))\<close> sees it: \<open>PInf\<close> clamps to the top.\<close>

fun clamp01_x :: "xreal \<Rightarrow> real" where
  "clamp01_x (Fin a) = max 0 (min 1 a)"
| "clamp01_x PInf = 1"

lemma clamp01_x_bounds: "0 \<le> clamp01_x x \<and> clamp01_x x \<le> 1"
  by (cases x) auto

lemma option_eq_by_Some: "(\<And>p. a = Some p \<longleftrightarrow> b = Some p) \<Longrightarrow> a = b"
  by (cases a; cases b) auto

lemma restrict_map_upd_None: "(m(k := None)) |` (- S) = m |` (- insert k S)"
  by (auto simp: restrict_map_def fun_eq_iff)

section \<open>Dictionaries as association lists\<close>

abbreviation dict_keys :: "'v dict \<Rightarrow> string list" where
  "dict_keys d \<equiv> map fst d"

abbreviation dict_values :: "'v dict \<Rightarrow> 'v list" where
  "dict_values d \<equiv> map snd d"

lemma map_of_update_dict [dict_simps]:
  "map_of (AList.update k v d) = (map_of d)(k \<mapsto> v)"
  by (rule update_conv')

lemma map_of_delete_dict [dict_simps]:
  "map_of (AList.delete k d) = (map_of d)(k := None)"
  by (rule delete_conv')

lemma distinct_update_dict [dict_simps]:
  "distinct (dict_keys d) \<Longrightarrow> distinct (dict_keys (AList.update k v d))"
  by (rule distinct_update)

lemma distinct_delete_dict [dict_simps]:
  "distinct (dict_keys d) \<Longrightarrow> distinct (dict_keys (AList.delete k d))"
  by (rule distinct_delete)

lemma update_new_append [dict_simps]:
  "map_of d k = None \<Longrightarrow> AList.update k v d = d @ [(k, v)]"
  by (induction d) auto

lemma dict_split_at:
  assumes "distinct (dict_keys d)" and "map_of d k = Some v0"
  shows "\<exists>xs ys. d = xs @ (k, v0) # ys \<and> k \<notin> set (dict_keys xs) \<and> k \<notin> set (dict_keys ys)"
proof -
  have "(k, v0) \<in> set d" using assms(2) by (rule map_of_SomeD)
  then obtain xs ys where d: "d = xs @ (k, v0) # ys" by (auto simp: in_set_conv_decomp)
  with assms(1) show ?thesis by auto
qed

lemma update_at_split:
  "k \<notin> set (dict_keys xs) \<Longrightarrow> AList.update k v (xs @ (k, v0) # ys) = xs @ (k, v) # ys"
  by (induction xs) auto

lemma delete_at_split:
  "k \<notin> set (dict_keys xs) \<Longrightarrow> k \<notin> set (dict_keys ys) \<Longrightarrow>
   AList.delete k (xs @ (k, v0) # ys) = xs @ ys"
  by (induction xs) (auto intro: delete_id)

lemma dict_update_delete_split:
  assumes "distinct (dict_keys d)" and "map_of d k = Some v0"
  obtains xs ys where "d = xs @ (k, v0) # ys"
    and "\<And>v. AList.update k v d = xs @ (k, v) # ys"
    and "AList.delete k d = xs @ ys"
proof -
  obtain xs ys where d: "d = xs @ (k, v0) # ys" and xs: "k \<notin> set (dict_keys xs)"
    and ys: "k \<notin> set (dict_keys ys)"
    using dict_split_at [OF assms] by blast
  show ?thesis
  proof (rule that)
    show "d = xs @ (k, v0) # ys" by (rule d)
    show "\<And>v. AList.update k v d = xs @ (k, v) # ys" using xs by (simp add: d update_at_split)
    show "AList.delete k d = xs @ ys" using xs ys by (simp add: d delete_at_split)
  qed
qed

lemma set_update_dict:
  "x \<in> set (AList.update k v d) \<Longrightarrow> x = (k, v) \<or> x \<in> set d"
  by (induction d) (auto split: if_splits)

lemma set_delete_dict: "x \<in> set (AList.delete k d) \<Longrightarrow> x \<in> set d"
  by (simp add: AList.delete_eq)

lemma distinct_concat_middle:
  assumes "distinct (concat (map g (xs @ v # ys)))"
  shows "set (g v) \<inter> set (concat (map g (xs @ ys))) = {}"
  using assms by (simp only: map_append list.map concat_append concat.simps distinct_append
      set_append) blast

lemma distinct_concat_unique:
  "distinct (concat (map g L)) \<Longrightarrow> a \<in> set L \<Longrightarrow> b \<in> set L \<Longrightarrow>
   x \<in> set (g a) \<Longrightarrow> x \<in> set (g b) \<Longrightarrow> a = b"
  by (induction L) auto

lemma distinct_concat_replace:
  assumes "distinct (concat (map g (xs @ v # ys)))" and "distinct (g v')"
    and "set (g v') \<inter> set (concat (map g (xs @ ys))) = {}"
  shows "distinct (concat (map g (xs @ v' # ys)))"
  using assms by auto

lemma map_of_sql_replace [dict_simps]: "map_of (sql_replace k v tbl) = (map_of tbl)(k \<mapsto> v)"
  by (auto simp: sql_replace_def fun_eq_iff map_add_def delete_conv' split: option.splits)

lemma distinct_sql_replace [dict_simps]:
  "distinct (map fst tbl) \<Longrightarrow> distinct (map fst (sql_replace k v tbl))"
proof -
  assume d: "distinct (map fst tbl)"
  have "map_of (AList.delete k tbl) k = None" by (simp add: delete_conv')
  then have "k \<notin> set (map fst (AList.delete k tbl))" by (simp add: map_of_eq_None_iff)
  with distinct_delete [OF d] show ?thesis by (simp add: sql_replace_def)
qed

lemma py_bind_Inr_iff: "py_bind r f = Inr y \<longleftrightarrow> (\<exists>x. r = Inr x \<and> f x = Inr y)"
  by (cases r) auto

lemma py_max_mem: "py_max xs = Inr m \<Longrightarrow> m \<in> set xs"
proof (cases xs)
  case (Cons x ys)
  have "fold max ys x \<in> insert x (set ys)"
    by (induction ys arbitrary: x) (auto simp: max_def)
  with Cons show "py_max xs = Inr m \<Longrightarrow> m \<in> set xs" by simp
qed simp

lemma py_max_ge: "py_max xs = Inr m \<Longrightarrow> x \<in> set xs \<Longrightarrow> x \<le> m"
proof (cases xs)
  case (Cons y ys)
  have "\<forall>z\<in>insert y (set ys). z \<le> fold max ys y"
  proof (induction ys arbitrary: y)
    case (Cons a ys)
    have "\<forall>z\<in>insert (max a y) (set ys). z \<le> fold max ys (max a y)" by (rule Cons.IH)
    then show ?case by (auto intro: order_trans)
  qed simp
  with Cons show "py_max xs = Inr m \<Longrightarrow> x \<in> set xs \<Longrightarrow> x \<le> m" by auto
qed simp

section \<open>Sums over lists\<close>

lemma sum_list_map_filter_split:
  "(\<Sum>x\<leftarrow>xs. f x) = (\<Sum>x\<leftarrow>filter P xs. f x) + (\<Sum>x\<leftarrow>filter (\<lambda>x. \<not> P x) xs. f x)"
  for f :: "'a \<Rightarrow> 'b::comm_monoid_add"
  by (induction xs) (auto simp: add_ac)

lemma sum_list_map_nonneg:
  "(\<And>x. x \<in> set xs \<Longrightarrow> 0 \<le> f x) \<Longrightarrow> 0 \<le> (\<Sum>x\<leftarrow>xs. f x)"
  for f :: "'a \<Rightarrow> real"
  by (induction xs) auto

lemma sum_list_map_pos:
  "(\<And>x. x \<in> set xs \<Longrightarrow> 0 < f x) \<Longrightarrow> xs \<noteq> [] \<Longrightarrow> 0 < (\<Sum>x\<leftarrow>xs. f x)"
  for f :: "'a \<Rightarrow> real"
proof (induction xs)
  case Nil
  then show ?case by simp
next
  case (Cons a xs)
  have "0 < f a" using Cons.prems(1) by simp
  moreover have "0 \<le> (\<Sum>x\<leftarrow>xs. f x)"
    using Cons.prems(1) by (intro sum_list_map_nonneg) (simp add: less_imp_le)
  ultimately show ?case by simp
qed

lemma sum_list_map_mono:
  "(\<And>x. x \<in> set xs \<Longrightarrow> f x \<le> g x) \<Longrightarrow> (\<Sum>x\<leftarrow>xs. f x) \<le> (\<Sum>x\<leftarrow>xs. g x)"
  for f g :: "'a \<Rightarrow> real"
  by (induction xs) (auto intro: add_mono)

lemma sum_list_map_scale:
  "(\<Sum>x\<leftarrow>xs. c * f x) = c * (\<Sum>x\<leftarrow>xs. f x)"
  for f :: "'a \<Rightarrow> real"
  by (induction xs) (auto simp: algebra_simps)

lemma sum_list_map_nonpos:
  "(\<And>x. x \<in> set xs \<Longrightarrow> f x \<le> 0) \<Longrightarrow> (\<Sum>x\<leftarrow>xs. f x) \<le> 0"
  for f :: "'a \<Rightarrow> real"
  by (induction xs) (auto simp: add_nonpos_nonpos)

lemma sum_list_map_nonpos_neg_iff:
  "(\<And>x. x \<in> set xs \<Longrightarrow> f x \<le> 0) \<Longrightarrow> ((\<Sum>x\<leftarrow>xs. f x) < 0 \<longleftrightarrow> (\<exists>x\<in>set xs. f x < 0))"
  for f :: "'a \<Rightarrow> real"
proof (induction xs)
  case (Cons a xs)
  have fa: "f a \<le> 0" using Cons.prems by simp
  have S: "(\<Sum>x\<leftarrow>xs. f x) \<le> 0"
    using Cons.prems by (intro sum_list_map_nonpos) simp
  have IH: "(\<Sum>x\<leftarrow>xs. f x) < 0 \<longleftrightarrow> (\<exists>x\<in>set xs. f x < 0)"
    using Cons.prems by (intro Cons.IH) simp
  have "f a + (\<Sum>x\<leftarrow>xs. f x) < 0 \<longleftrightarrow> f a < 0 \<or> (\<Sum>x\<leftarrow>xs. f x) < 0"
    using fa S by linarith
  then show ?case using IH by simp
qed simp

lemma sum_list_map_scale_right:
  "(\<Sum>x\<leftarrow>xs. f x * c) = (\<Sum>x\<leftarrow>xs. f x) * c"
  for f :: "'a \<Rightarrow> real"
  by (induction xs) (auto simp: algebra_simps)

lemma sum_list_map_member_le:
  "x \<in> set xs \<Longrightarrow> (\<And>y. y \<in> set xs \<Longrightarrow> 0 \<le> f y) \<Longrightarrow> f x \<le> (\<Sum>y\<leftarrow>xs. f y)"
  for f :: "'a \<Rightarrow> real"
proof (induction xs)
  case (Cons a xs)
  have fa: "0 \<le> f a" and s: "0 \<le> (\<Sum>y\<leftarrow>xs. f y)"
    using Cons.prems(2) by (auto intro: sum_list_map_nonneg)
  show ?case
  proof (cases "x = a")
    case True
    with s show ?thesis by simp
  next
    case False
    then have "f x \<le> (\<Sum>y\<leftarrow>xs. f y)" using Cons by simp
    with fa show ?thesis by simp
  qed
qed simp

lemma sum_list_map_update_dict:
  fixes f :: "'a \<Rightarrow> real"
  assumes "distinct (dict_keys d)" and "map_of d k = Some v0"
  shows "(\<Sum>v\<leftarrow>dict_values (AList.update k v d). f v) = (\<Sum>v\<leftarrow>dict_values d. f v) - f v0 + f v"
proof -
  obtain xs ys where "d = xs @ (k, v0) # ys" and "AList.update k v d = xs @ (k, v) # ys"
    using dict_update_delete_split [OF assms] by metis
  then show ?thesis by simp
qed

section \<open>Python strings\<close>

text \<open>
  \<open>p in s\<close> on strings is \<open>str_contains\<close>, equal to \<open>Sublist.sublist\<close>; \<open>str.upper\<close> is
  modelled on ASCII letters (Python upper-cases every Unicode letter).
\<close>

fun str_contains :: "string \<Rightarrow> string \<Rightarrow> bool" where
  "str_contains pat [] = (pat = [])"
| "str_contains pat (c # s) = (prefix pat (c # s) \<or> str_contains pat s)"

definition char_upper :: "char \<Rightarrow> char" where
  "char_upper c =
     (if (97::nat) \<le> of_char c \<and> of_char c \<le> (122::nat) then char_of (of_char c - (32::nat)) else c)"

definition str_upper :: "string \<Rightarrow> string" where
  "str_upper s = map char_upper s"

lemma str_contains_sublist: "str_contains pat s \<longleftrightarrow> sublist pat s"
  by (induction s) (auto simp: sublist_Cons_right)

lemma str_contains_mono: "str_contains pat s \<Longrightarrow> sublist q pat \<Longrightarrow> str_contains q s"
  by (auto simp: str_contains_sublist intro: sublist_order.order_trans)


lemma list_all_values_update:
  "list_all P (dict_values d) \<Longrightarrow> P v \<Longrightarrow> list_all P (dict_values (AList.update k v d))"
  by (auto simp: list_all_iff dest!: set_update_dict)

lemma list_all_values_delete:
  "list_all P (dict_values d) \<Longrightarrow> list_all P (dict_values (AList.delete k d))"
  by (auto simp: list_all_iff dest!: set_delete_dict)


lemma remdups_append_remdups: "remdups (xs @ remdups ys) = remdups (xs @ ys)"
  by (induction xs) auto

lemma update_keys_first:
  "map fst (AList.update k v al) = rev (remdups (rev (map fst al @ [k])))" if "distinct (map fst al)"
  using that by (auto simp: update_keys distinct_remdups_id)

end
