(* ===== verification/Portfolio.thy ===== *)
theory Portfolio
  imports Prelude
begin

text \<open>
  The data model of src/src/paper_trader.py: \<open>PositionStatus\<close>, \<open>PaperPosition\<close> with its
  derived \<open>pnl\<close> and \<open>pnl_pct\<close>, and \<open>StrategyPortfolio\<close> with its derived exposure,
  available capital, realised P\&L and win statistics. Timestamps are reals (seconds);
  the \<open>side\<close> string is the datatype \<open>side\<close> of the three values the strategies emit
  (\<open>'yes'\<close>, \<open>'no'\<close>, \<open>'both'\<close>); metadata is a dict of strings or numbers.
\<close>

datatype position_status = OPEN | CLOSED | EXPIRED

datatype side = Yes | No | Both

datatype meta_val = MStr string | MNum real

type_synonym metadata = "meta_val dict"

record paper_position =
  pos_id :: string
  pos_strategy_name :: string
  market_id :: string
  ticker :: string
  side :: side
  quantity :: int
  entry_price :: real
  entry_time :: timestamp
  entry_cost :: money
  exit_price :: "real option"
  exit_time :: "timestamp option"
  exit_value :: "money option"
  status :: position_status
  metadata :: metadata

definition pnl :: "paper_position \<Rightarrow> money" where
  "pnl p = (if status p = OPEN then 0
            else case exit_value p of Some v \<Rightarrow> v - entry_cost p | None \<Rightarrow> 0)"

definition pnl_pct :: "paper_position \<Rightarrow> real" where
  "pnl_pct p = (if entry_cost p = 0 then 0 else (pnl p / entry_cost p) * 100)"

record strategy_portfolio =
  strategy_name :: string
  initial_capital :: money
  current_capital :: money
  positions :: "paper_position dict"
  closed_positions :: "paper_position list"

definition open_positions :: "strategy_portfolio \<Rightarrow> paper_position list" where
  "open_positions pf = filter (\<lambda>p. status p = OPEN) (dict_values (positions pf))"

definition total_exposure :: "strategy_portfolio \<Rightarrow> money" where
  "total_exposure pf = (\<Sum>p\<leftarrow>open_positions pf. entry_cost p)"

definition available_capital :: "strategy_portfolio \<Rightarrow> money" where
  "available_capital pf = current_capital pf - total_exposure pf"

definition total_pnl :: "strategy_portfolio \<Rightarrow> money" where
  "total_pnl pf = (\<Sum>p\<leftarrow>closed_positions pf. pnl p)"

definition total_trades :: "strategy_portfolio \<Rightarrow> nat" where
  "total_trades pf = length (closed_positions pf)"

definition winning_trades :: "strategy_portfolio \<Rightarrow> nat" where
  "winning_trades pf = length (filter (\<lambda>p. 0 < pnl p) (closed_positions pf))"

definition win_rate :: "strategy_portfolio \<Rightarrow> real" where
  "win_rate pf = (if total_trades pf = 0 then 0
                  else (real (winning_trades pf) / real (total_trades pf)) * 100)"

definition new_portfolio :: "string \<Rightarrow> money \<Rightarrow> strategy_portfolio" where
  "new_portfolio name capital =
     \<lparr>strategy_name = name, initial_capital = capital, current_capital = capital,
      positions = [], closed_positions = []\<rparr>"

section \<open>Lemmas on the data model\<close>

lemma pnl_open [simp]: "status p = OPEN \<Longrightarrow> pnl p = 0"
  by (simp add: pnl_def)

lemma pnl_closed:
  "status p \<noteq> OPEN \<Longrightarrow> exit_value p = Some v \<Longrightarrow> pnl p = v - entry_cost p"
  by (simp add: pnl_def)

lemma win_rate_bounds: "0 \<le> win_rate pf \<and> win_rate pf \<le> 100"
proof (cases "total_trades pf = 0")
  case True
  then show ?thesis by (simp add: win_rate_def)
next
  case False
  have "winning_trades pf \<le> total_trades pf"
    by (simp add: winning_trades_def total_trades_def)
  with False have "real (winning_trades pf) * 100 / real (total_trades pf) \<le> 100"
    by (simp add: divide_le_eq)
  with False show ?thesis by (simp add: win_rate_def)
qed

lemma open_positions_cong:
  "positions pf' = positions pf \<Longrightarrow> open_positions pf' = open_positions pf"
  by (simp add: open_positions_def)

lemma total_exposure_cong:
  "positions pf' = positions pf \<Longrightarrow> total_exposure pf' = total_exposure pf"
  by (simp add: total_exposure_def open_positions_def)

lemma open_positions_update_new:
  "map_of (positions pf) k = None \<Longrightarrow> status p = OPEN \<Longrightarrow>
   open_positions (pf\<lparr>positions := AList.update k p (positions pf)\<rparr>) = open_positions pf @ [p]"
  by (simp add: open_positions_def update_new_append)

lemma total_exposure_update_new:
  "map_of (positions pf) k = None \<Longrightarrow> status p = OPEN \<Longrightarrow>
   total_exposure (pf\<lparr>positions := AList.update k p (positions pf)\<rparr>) =
   total_exposure pf + entry_cost p"
  by (simp add: total_exposure_def open_positions_update_new)

lemma open_positions_delete:
  assumes "distinct (dict_keys (positions pf))" and "map_of (positions pf) k = Some p"
    and "status p = OPEN"
  shows "\<exists>xs ys. open_positions pf = xs @ p # ys \<and>
    open_positions (pf\<lparr>positions := AList.delete k (positions pf)\<rparr>) = xs @ ys"
proof -
  obtain xs ys where d: "positions pf = xs @ (k, p) # ys"
    and "k \<notin> set (dict_keys xs)" and "k \<notin> set (dict_keys ys)"
    using dict_split_at [OF assms(1,2)] by blast
  then have del: "AList.delete k (positions pf) = xs @ ys" by (simp add: delete_at_split)
  let ?f = "filter (\<lambda>p. status p = OPEN)"
  have "open_positions pf = ?f (dict_values xs) @ p # ?f (dict_values ys)"
    using d assms(3) by (simp add: open_positions_def)
  moreover have "open_positions (pf\<lparr>positions := AList.delete k (positions pf)\<rparr>) =
                 ?f (dict_values xs) @ ?f (dict_values ys)"
    using del by (simp add: open_positions_def)
  ultimately show ?thesis by blast
qed

lemma total_exposure_delete:
  assumes "distinct (dict_keys (positions pf))" and "map_of (positions pf) k = Some p"
    and "status p = OPEN"
  shows "total_exposure (pf\<lparr>positions := AList.delete k (positions pf)\<rparr>) =
         total_exposure pf - entry_cost p"
proof -
  obtain xs ys where "open_positions pf = xs @ p # ys"
    and "open_positions (pf\<lparr>positions := AList.delete k (positions pf)\<rparr>) = xs @ ys"
    using open_positions_delete [OF assms] by blast
  then show ?thesis by (simp add: total_exposure_def)
qed

lemma length_open_positions_delete:
  assumes "distinct (dict_keys (positions pf))" and "map_of (positions pf) k = Some p"
    and "status p = OPEN"
  shows "length (open_positions (pf\<lparr>positions := AList.delete k (positions pf)\<rparr>)) =
         length (open_positions pf) - 1 \<and> 0 < length (open_positions pf)"
proof -
  obtain xs ys where "open_positions pf = xs @ p # ys"
    and "open_positions (pf\<lparr>positions := AList.delete k (positions pf)\<rparr>) = xs @ ys"
    using open_positions_delete [OF assms] by blast
  then show ?thesis by simp
qed

end
