(* ===== verification/PaperTrader.thy ===== *)
theory PaperTrader
  imports Portfolio
begin

text \<open>
  The paper-trading engine, class \<open>PaperTrader\<close> of src/src/paper_trader.py, with the
  risk limits of \<open>RiskConfig\<close> (src/src/config.py) and the \<open>Signal\<close> it consumes
  (src/src/strategies/base.py). The engine's state is the record \<open>paper_trader\<close>;
  each method is a function that returns the new state. \<open>execute_signal\<close> returns a
  rejection reason (\<open>Inl\<close>) where the code logs one and returns \<open>None\<close>; the id the
  code draws from \<open>uuid4()\<close> and the time it reads from the clock are arguments.
  A strategy's exit predicate is a parameter of \<open>check_exits\<close>: the lemmas here hold
  for every predicate.
\<close>

record risk_config =
  max_total_capital :: money
  max_position_size :: money
  max_daily_loss :: money
  max_concurrent_positions :: int
  max_exposure_pct :: real

definition default_risk_config :: risk_config where
  "default_risk_config =
     \<lparr>max_total_capital = 200, max_position_size = 10, max_daily_loss = 20,
      max_concurrent_positions = 10, max_exposure_pct = 0.20\<rparr>"

record signal =
  sig_market_id :: string
  sig_side :: side
  confidence :: real
  sig_size :: money
  sig_strategy_name :: string
  sig_timestamp :: timestamp
  sig_metadata :: "metadata option"

text \<open>
  The market dict of \<open>MarketData.to_dict\<close> (src/src/scanner.py), the fields the core and
  the strategies read; the parsed order book is its best bid and best ask, or \<open>None\<close>
  for the empty dict of a market whose book was not fetched.
\<close>

record market_snapshot =
  snap_market_id :: string
  snap_ticker :: string
  snap_yes_price :: real
  snap_close_in_hours :: real
  snap_order_book :: "(real \<times> real) option"

text \<open>The reduced view \<open>pos_dict\<close> that \<open>check_exits\<close> hands to a strategy.\<close>

record position_view =
  pv_entry_price :: real
  pv_side :: side
  pv_metadata :: metadata

record paper_trader =
  risk :: risk_config
  portfolios :: "strategy_portfolio dict"
  daily_pnl :: money
  daily_start_date :: "int option"

datatype reject =
  NoPortfolio | InsufficientCapital | PositionTooLarge | ExceedsMaxExposure
  | MaxPositionsReached | DailyLossLimit | QuantityTooSmall

definition init_trader :: "risk_config \<Rightarrow> paper_trader" where
  "init_trader rc = \<lparr>risk = rc, portfolios = [], daily_pnl = 0, daily_start_date = None\<rparr>"

definition initialize_portfolio :: "paper_trader \<Rightarrow> string \<Rightarrow> money \<Rightarrow> paper_trader" where
  "initialize_portfolio t name capital =
     t\<lparr>portfolios := AList.update name (new_portfolio name capital) (portfolios t)\<rparr>"

definition get_portfolio :: "paper_trader \<Rightarrow> string \<Rightarrow> strategy_portfolio option" where
  "get_portfolio t name = map_of (portfolios t) name"

text \<open>The two sums over all portfolios that \<open>_check_risk_limits\<close> computes.\<close>

definition all_exposure :: "paper_trader \<Rightarrow> money" where
  "all_exposure t = (\<Sum>pf\<leftarrow>dict_values (portfolios t). total_exposure pf)"

definition all_open_count :: "paper_trader \<Rightarrow> nat" where
  "all_open_count t = (\<Sum>pf\<leftarrow>dict_values (portfolios t). length (open_positions pf))"

definition check_risk_limits :: "paper_trader \<Rightarrow> signal \<Rightarrow> strategy_portfolio \<Rightarrow> reject option" where
  "check_risk_limits t sg pf =
     (if sig_size sg > available_capital pf then Some InsufficientCapital
      else if sig_size sg > max_position_size (risk t) then Some PositionTooLarge
      else if all_exposure t + sig_size sg > max_total_capital (risk t) * max_exposure_pct (risk t)
        then Some ExceedsMaxExposure
      else if int (all_open_count t) \<ge> max_concurrent_positions (risk t)
        then Some MaxPositionsReached
      else if daily_pnl t < - max_daily_loss (risk t) then Some DailyLossLimit
      else None)"

definition effective_price :: "side \<Rightarrow> real \<Rightarrow> real" where
  "effective_price s p = (if s = Yes then p else 1 - p)"

definition contract_quantity :: "money \<Rightarrow> real \<Rightarrow> int" where
  "contract_quantity sz price = (if price > 0 then py_int (sz / price) else 0)"

definition open_position_of ::
  "signal \<Rightarrow> string \<Rightarrow> timestamp \<Rightarrow> int \<Rightarrow> real \<Rightarrow> paper_position" where
  "open_position_of sg pid now q price =
     \<lparr>pos_id = pid, pos_strategy_name = sig_strategy_name sg, market_id = sig_market_id sg,
      ticker = sig_market_id sg, side = sig_side sg, quantity = q, entry_price = price,
      entry_time = now, entry_cost = of_int q * price, exit_price = None, exit_time = None,
      exit_value = None, status = OPEN,
      metadata = (case sig_metadata sg of None \<Rightarrow> [] | Some m \<Rightarrow> m)\<rparr>"

definition execute_signal ::
  "paper_trader \<Rightarrow> signal \<Rightarrow> real \<Rightarrow> string \<Rightarrow> timestamp \<Rightarrow>
   reject + (paper_trader \<times> paper_position)" where
  "execute_signal t sg market_price pid now =
     (case get_portfolio t (sig_strategy_name sg) of
        None \<Rightarrow> Inl NoPortfolio
      | Some pf \<Rightarrow>
          (case check_risk_limits t sg pf of
             Some r \<Rightarrow> Inl r
           | None \<Rightarrow>
               (let price = effective_price (sig_side sg) market_price;
                    q = contract_quantity (sig_size sg) price
                in if q \<le> 0 then Inl QuantityTooSmall
                   else
                     (let pos = open_position_of sg pid now q price;
                          pf' = pf\<lparr>positions := AList.update pid pos (positions pf)\<rparr>
                      in Inr (t\<lparr>portfolios :=
                                 AList.update (sig_strategy_name sg) pf' (portfolios t)\<rparr>, pos)))))"

text \<open>\<open>close_position\<close>: the first portfolio (in dict order) whose open map holds the id.\<close>

definition find_holder ::
  "strategy_portfolio dict \<Rightarrow> string \<Rightarrow> (string \<times> strategy_portfolio) option" where
  "find_holder ps pid = find (\<lambda>(n, pf). map_of (positions pf) pid \<noteq> None) ps"

definition closed_position_of ::
  "paper_position \<Rightarrow> real \<Rightarrow> string \<Rightarrow> timestamp \<Rightarrow> paper_position" where
  "closed_position_of pos xp reason now =
     (let price = effective_price (side pos) xp
      in pos\<lparr>exit_price := Some price, exit_time := Some now,
             exit_value := Some (of_int (quantity pos) * price), status := CLOSED,
             metadata := AList.update ''close_reason'' (MStr reason) (metadata pos)\<rparr>)"

definition close_position ::
  "paper_trader \<Rightarrow> string \<Rightarrow> real \<Rightarrow> string \<Rightarrow> timestamp \<Rightarrow>
   (paper_trader \<times> paper_position) option" where
  "close_position t pid xp reason now =
     (case find_holder (portfolios t) pid of
        None \<Rightarrow> None
      | Some (n, pf) \<Rightarrow>
          (case map_of (positions pf) pid of
             None \<Rightarrow> None
           | Some pos \<Rightarrow>
               (let pos' = closed_position_of pos xp reason now;
                    pf' = pf\<lparr>current_capital := current_capital pf + pnl pos',
                             closed_positions := closed_positions pf @ [pos'],
                             positions := AList.delete pid (positions pf)\<rparr>
                in Some (t\<lparr>portfolios := AList.update n pf' (portfolios t),
                           daily_pnl := daily_pnl t + pnl pos'\<rparr>, pos'))))"

definition view_of :: "paper_position \<Rightarrow> position_view" where
  "view_of p = \<lparr>pv_entry_price = entry_price p, pv_side = side p, pv_metadata = metadata p\<rparr>"

type_synonym exit_pred = "position_view \<Rightarrow> market_snapshot \<Rightarrow> bool"

fun exit_scan ::
  "exit_pred \<Rightarrow> market_snapshot \<Rightarrow> timestamp \<Rightarrow> paper_position list \<Rightarrow> paper_trader \<Rightarrow>
   paper_trader \<times> paper_position list" where
  "exit_scan ex m now [] t = (t, [])"
| "exit_scan ex m now (p # ps) t =
     (if ticker p \<noteq> snap_market_id m then exit_scan ex m now ps t
      else if ex (view_of p) m then
        (case close_position t (pos_id p) (snap_yes_price m) ''strategy_exit'' now of
           None \<Rightarrow> exit_scan ex m now ps t
         | Some (t', r) \<Rightarrow> (let (t'', rs) = exit_scan ex m now ps t' in (t'', r # rs)))
      else exit_scan ex m now ps t)"

definition check_exits ::
  "paper_trader \<Rightarrow> string \<Rightarrow> exit_pred \<Rightarrow> market_snapshot \<Rightarrow> timestamp \<Rightarrow>
   paper_trader \<times> paper_position list" where
  "check_exits t name ex m now =
     (case get_portfolio t name of
        None \<Rightarrow> (t, [])
      | Some pf \<Rightarrow> exit_scan ex m now (open_positions pf) t)"

definition reset_daily_stats :: "paper_trader \<Rightarrow> int \<Rightarrow> paper_trader" where
  "reset_daily_stats t today = t\<lparr>daily_pnl := 0, daily_start_date := Some today\<rparr>"

record strategy_summary =
  ss_capital :: money
  ss_available :: money
  ss_exposure :: money
  ss_open_positions :: nat
  ss_total_trades :: nat
  ss_win_rate :: real
  ss_total_pnl :: money

record trader_summary =
  sum_total_capital :: money
  sum_total_pnl :: money
  sum_daily_pnl :: money
  sum_strategies :: "strategy_summary dict"

definition get_summary :: "paper_trader \<Rightarrow> trader_summary" where
  "get_summary t =
     \<lparr>sum_total_capital = (\<Sum>pf\<leftarrow>dict_values (portfolios t). current_capital pf),
      sum_total_pnl = (\<Sum>pf\<leftarrow>dict_values (portfolios t). total_pnl pf),
      sum_daily_pnl = daily_pnl t,
      sum_strategies = map (\<lambda>(n, pf). (n,
         \<lparr>ss_capital = current_capital pf, ss_available = available_capital pf,
          ss_exposure = total_exposure pf, ss_open_positions = length (open_positions pf),
          ss_total_trades = total_trades pf, ss_win_rate = win_rate pf,
          ss_total_pnl = total_pnl pf\<rparr>)) (portfolios t)\<rparr>"

definition get_all_positions :: "paper_trader \<Rightarrow> string \<Rightarrow> paper_position list" where
  "get_all_positions t st =
     concat (map (\<lambda>pf. if st = ''open'' then open_positions pf
                       else if st = ''closed'' then closed_positions pf
                       else dict_values (positions pf) @ closed_positions pf)
                 (dict_values (portfolios t)))"

section \<open>Well-formedness of the engine and its preservation\<close>


lemma contract_quantity_pos:
  assumes "0 < contract_quantity sz price"
  shows "0 < price \<and> contract_quantity sz price = \<lfloor>sz / price\<rfloor>
         \<and> of_int (contract_quantity sz price) * price \<le> sz"
proof -
  have p: "0 < price" using assms by (simp add: contract_quantity_def split: if_splits)
  then have q: "contract_quantity sz price = py_int (sz / price)"
    by (simp add: contract_quantity_def)
  with assms have "1 \<le> sz / price" by (simp add: py_int_pos_iff)
  then have fl: "contract_quantity sz price = \<lfloor>sz / price\<rfloor>"
    using q by (simp add: py_int_nonneg_eq)
  have "of_int \<lfloor>sz / price\<rfloor> \<le> sz / price" by (rule of_int_floor_le)
  with p have "of_int \<lfloor>sz / price\<rfloor> * price \<le> sz" by (simp add: le_divide_eq)
  with p fl show ?thesis by simp
qed

lemma execute_signal_Inr:
  assumes "execute_signal t sg mp pid now = Inr (t', pos)"
  obtains pf where "get_portfolio t (sig_strategy_name sg) = Some pf"
    and "check_risk_limits t sg pf = None"
    and "0 < contract_quantity (sig_size sg) (effective_price (sig_side sg) mp)"
    and "pos = open_position_of sg pid now (contract_quantity (sig_size sg) (effective_price (sig_side sg) mp))
                 (effective_price (sig_side sg) mp)"
    and "t' = t\<lparr>portfolios := AList.update (sig_strategy_name sg)
                 (pf\<lparr>positions := AList.update pid pos (positions pf)\<rparr>) (portfolios t)\<rparr>"
  using assms by (auto simp: execute_signal_def Let_def split: option.splits if_splits)

definition pos_wf :: "string \<Rightarrow> paper_position \<Rightarrow> bool" where
  "pos_wf k p \<longleftrightarrow> pos_id p = k \<and> status p = OPEN \<and> 0 < quantity p \<and> 0 < entry_price p
                 \<and> entry_cost p = of_int (quantity p) * entry_price p"

definition portfolio_wf :: "strategy_portfolio \<Rightarrow> bool" where
  "portfolio_wf pf \<longleftrightarrow> distinct (dict_keys (positions pf))
     \<and> (\<forall>(k, p) \<in> set (positions pf). pos_wf k p)
     \<and> (\<forall>p \<in> set (closed_positions pf). status p = CLOSED)"

definition all_open_ids :: "paper_trader \<Rightarrow> string list" where
  "all_open_ids t = concat (map (\<lambda>pf. dict_keys (positions pf)) (dict_values (portfolios t)))"

definition trader_inv :: "paper_trader \<Rightarrow> bool" where
  "trader_inv t \<longleftrightarrow> distinct (dict_keys (portfolios t))
     \<and> (\<forall>pf \<in> set (dict_values (portfolios t)). portfolio_wf pf)
     \<and> distinct (all_open_ids t)"

definition risk_inv :: "paper_trader \<Rightarrow> bool" where
  "risk_inv t \<longleftrightarrow> all_exposure t \<le> max_total_capital (risk t) * max_exposure_pct (risk t)
     \<and> int (all_open_count t) \<le> max_concurrent_positions (risk t)"

lemma pos_wf_cost_nonneg: "pos_wf k p \<Longrightarrow> 0 \<le> entry_cost p"
  by (simp add: pos_wf_def)

lemma open_positions_wf:
  "portfolio_wf pf \<Longrightarrow> open_positions pf = dict_values (positions pf)"
  by (auto simp: portfolio_wf_def open_positions_def pos_wf_def filter_id_conv)

lemma total_exposure_nonneg: "portfolio_wf pf \<Longrightarrow> 0 \<le> total_exposure pf"
  unfolding total_exposure_def open_positions_wf
  by (rule sum_list_map_nonneg) (auto simp: portfolio_wf_def pos_wf_def)

text \<open>Replacing one portfolio of the engine: the engine's sums and id list split around it.\<close>

lemma trader_update_split:
  assumes "distinct (dict_keys (portfolios t))" and "map_of (portfolios t) n = Some pf"
  obtains xs ys where "portfolios t = xs @ (n, pf) # ys"
    and "AList.update n pf' (portfolios t) = xs @ (n, pf') # ys"
  using dict_update_delete_split [OF assms] by blast

lemma find_holder_Some:
  assumes "find_holder ps pid = Some (n, pf)"
  shows "(n, pf) \<in> set ps \<and> map_of (positions pf) pid \<noteq> None"
  using assms unfolding find_holder_def by (induction ps) (auto split: if_splits)

lemma find_holder_None:
  "find_holder ps pid = None \<longleftrightarrow> (\<forall>pf \<in> set (dict_values ps). map_of (positions pf) pid = None)"
  by (auto simp: find_holder_def find_None_iff)

lemma not_in_open_ids:
  "pid \<notin> set (all_open_ids t) \<longleftrightarrow> (\<forall>pf \<in> set (dict_values (portfolios t)). map_of (positions pf) pid = None)"
  by (auto simp: all_open_ids_def map_of_eq_None_iff)

lemma trader_replace:
  assumes inv: "trader_inv t" and mo: "map_of (portfolios t) n = Some pf"
    and pt': "portfolios t' = AList.update n pf' (portfolios t)"
    and wf': "portfolio_wf pf'"
    and ids: "set (dict_keys (positions pf')) \<subseteq> set (dict_keys (positions pf)) \<union> K"
    and fresh: "K \<inter> set (all_open_ids t) = {}"
  shows "trader_inv t'"
    and "all_exposure t' = all_exposure t - total_exposure pf + total_exposure pf'"
    and "all_open_count t' + length (open_positions pf) =
         all_open_count t + length (open_positions pf')"
proof -
  have dk: "distinct (dict_keys (portfolios t))" using inv by (simp add: trader_inv_def)
  obtain xs ys where ps: "portfolios t = xs @ (n, pf) # ys"
    and ps': "AList.update n pf' (portfolios t) = xs @ (n, pf') # ys"
    using trader_update_split [OF dk mo] by blast
  have pt: "portfolios t' = xs @ (n, pf') # ys" using pt' ps' by simp
  let ?g = "\<lambda>pf. dict_keys (positions pf)"
  have d0: "distinct (concat (map ?g (dict_values xs @ pf # dict_values ys)))"
    using inv ps by (simp add: trader_inv_def all_open_ids_def)
  have "distinct (?g pf')" using wf' by (simp add: portfolio_wf_def)
  moreover have "set (?g pf') \<inter> set (concat (map ?g (dict_values xs @ dict_values ys))) = {}"
  proof -
    let ?A = "set (concat (map ?g (dict_values xs @ dict_values ys)))"
    have "set (?g pf) \<inter> ?A = {}" using d0 by (rule distinct_concat_middle)
    moreover have "?A \<subseteq> set (all_open_ids t)" using ps by (auto simp: all_open_ids_def)
    ultimately show ?thesis using ids fresh by blast
  qed
  ultimately have "distinct (concat (map ?g (dict_values xs @ pf' # dict_values ys)))"
    using d0 by (rule distinct_concat_replace [rotated 1])
  then have "distinct (all_open_ids t')" by (simp add: all_open_ids_def pt)
  moreover have "distinct (dict_keys (portfolios t'))" using dk ps pt by simp
  moreover have "\<forall>p \<in> set (dict_values (portfolios t')). portfolio_wf p"
    using inv wf' ps pt by (auto simp: trader_inv_def)
  ultimately show "trader_inv t'" by (simp add: trader_inv_def)
  show "all_exposure t' = all_exposure t - total_exposure pf + total_exposure pf'"
    by (simp add: all_exposure_def ps pt)
  show "all_open_count t' + length (open_positions pf) =
        all_open_count t + length (open_positions pf')"
    by (simp add: all_open_count_def ps pt)
qed

lemma open_position_of_wf:
  "0 < contract_quantity sz price \<Longrightarrow>
   pos_wf pid (open_position_of sg pid now (contract_quantity sz price) price)"
  using contract_quantity_pos [of sz price] by (simp add: pos_wf_def open_position_of_def)

lemma execute_signal_step:
  assumes inv: "trader_inv t" and fresh: "pid \<notin> set (all_open_ids t)"
    and ex: "execute_signal t sg mp pid now = Inr (t', pos)"
  shows "trader_inv t'" and "all_exposure t' = all_exposure t + entry_cost pos"
    and "all_open_count t' = Suc (all_open_count t)" and "entry_cost pos \<le> sig_size sg"
    and "risk t' = risk t" and "daily_pnl t' = daily_pnl t"
proof -
  let ?n = "sig_strategy_name sg" and ?price = "effective_price (sig_side sg) mp"
  obtain pf where get: "get_portfolio t ?n = Some pf" and chk: "check_risk_limits t sg pf = None"
    and q: "0 < contract_quantity (sig_size sg) ?price"
    and pos: "pos = open_position_of sg pid now (contract_quantity (sig_size sg) ?price) ?price"
    and t': "t' = t\<lparr>portfolios := AList.update ?n
                 (pf\<lparr>positions := AList.update pid pos (positions pf)\<rparr>) (portfolios t)\<rparr>"
    using execute_signal_Inr [OF ex] by blast
  let ?pf' = "pf\<lparr>positions := AList.update pid pos (positions pf)\<rparr>"
  have mo: "map_of (portfolios t) ?n = Some pf" using get by (simp add: get_portfolio_def)
  then have "pf \<in> set (dict_values (portfolios t))" by (force dest: map_of_SomeD)
  with inv fresh have wf: "portfolio_wf pf" and none: "map_of (positions pf) pid = None"
    by (auto simp: trader_inv_def not_in_open_ids)
  have pwf: "pos_wf pid pos" using q pos by (simp add: open_position_of_wf)
  have open_pos: "status pos = OPEN" using pwf by (simp add: pos_wf_def)
  have upd: "positions ?pf' = positions pf @ [(pid, pos)]" using none by (simp add: update_new_append)
  have "pid \<notin> set (dict_keys (positions pf))" using none by (simp add: map_of_eq_None_iff)
  with wf pwf upd have wf': "portfolio_wf ?pf'" by (auto simp: portfolio_wf_def)
  have ids: "set (dict_keys (positions ?pf')) \<subseteq> set (dict_keys (positions pf)) \<union> {pid}"
    using upd by auto
  have pt': "portfolios t' = AList.update ?n ?pf' (portfolios t)" using t' by simp
  note rep = trader_replace [OF inv mo pt' wf' ids] fresh
  show "trader_inv t'" using rep by simp
  show "all_exposure t' = all_exposure t + entry_cost pos"
    using rep total_exposure_update_new [OF none open_pos] by simp
  show "all_open_count t' = Suc (all_open_count t)"
    using rep open_positions_update_new [OF none open_pos] by simp
  have "entry_cost pos = of_int (contract_quantity (sig_size sg) ?price) * ?price"
    using pos by (simp add: open_position_of_def)
  with contract_quantity_pos [OF q] show "entry_cost pos \<le> sig_size sg" by linarith
  show "risk t' = risk t" and "daily_pnl t' = daily_pnl t" using t' by simp_all
qed

lemma close_position_Some:
  assumes "close_position t pid xp reason now = Some (t', pos')"
  obtains n pf pos where "find_holder (portfolios t) pid = Some (n, pf)"
    and "map_of (positions pf) pid = Some pos"
    and "pos' = closed_position_of pos xp reason now"
    and "t' = t\<lparr>portfolios := AList.update n
            (pf\<lparr>current_capital := current_capital pf + pnl pos',
                closed_positions := closed_positions pf @ [pos'],
                positions := AList.delete pid (positions pf)\<rparr>) (portfolios t),
               daily_pnl := daily_pnl t + pnl pos'\<rparr>"
  using assms by (auto simp: close_position_def Let_def split: option.splits)

lemma closed_position_of_simps [simp]:
  "status (closed_position_of pos xp reason now) = CLOSED"
  "entry_cost (closed_position_of pos xp reason now) = entry_cost pos"
  "entry_price (closed_position_of pos xp reason now) = entry_price pos"
  "quantity (closed_position_of pos xp reason now) = quantity pos"
  "side (closed_position_of pos xp reason now) = side pos"
  "pos_id (closed_position_of pos xp reason now) = pos_id pos"
  "ticker (closed_position_of pos xp reason now) = ticker pos"
  "exit_price (closed_position_of pos xp reason now) = Some (effective_price (side pos) xp)"
  by (simp_all add: closed_position_of_def Let_def)

lemma pnl_closed_position_of:
  "pnl (closed_position_of pos xp reason now) =
   of_int (quantity pos) * effective_price (side pos) xp - entry_cost pos"
  by (simp add: pnl_def closed_position_of_def Let_def)

lemma holder_in_trader:
  assumes inv: "trader_inv t" and fh: "find_holder (portfolios t) pid = Some (n, pf)"
  shows "map_of (portfolios t) n = Some pf" and "portfolio_wf pf"
  using find_holder_Some [OF fh] inv
  by (auto simp: trader_inv_def intro: map_of_is_SomeI)

lemma id_not_elsewhere:
  assumes "distinct (concat (map (\<lambda>pf. dict_keys (positions pf)) (dict_values (xs @ (n, pf) # ys))))"
    and "pid \<in> set (dict_keys (positions pf))"
  shows "\<forall>q \<in> set (dict_values xs @ dict_values ys). map_of (positions q) pid = None"
proof -
  have "set (dict_keys (positions pf)) \<inter>
        set (concat (map (\<lambda>pf. dict_keys (positions pf)) (dict_values xs @ dict_values ys))) = {}"
    using assms(1) by (intro distinct_concat_middle) simp
  with assms(2) show ?thesis by (auto simp: map_of_eq_None_iff)
qed

lemma close_position_step:
  assumes inv: "trader_inv t" and cl: "close_position t pid xp reason now = Some (t', pos')"
  shows "trader_inv t'" and "all_exposure t' = all_exposure t - entry_cost pos'"
    and "Suc (all_open_count t') = all_open_count t"
    and "pid \<notin> set (all_open_ids t')" and "pid \<in> set (all_open_ids t)"
    and "daily_pnl t' = daily_pnl t + pnl pos'" and "risk t' = risk t"
    and "0 \<le> entry_cost pos'"
proof -
  obtain n pf pos where fh: "find_holder (portfolios t) pid = Some (n, pf)"
    and mp: "map_of (positions pf) pid = Some pos"
    and pos': "pos' = closed_position_of pos xp reason now"
    and t': "t' = t\<lparr>portfolios := AList.update n
            (pf\<lparr>current_capital := current_capital pf + pnl pos',
                closed_positions := closed_positions pf @ [pos'],
                positions := AList.delete pid (positions pf)\<rparr>) (portfolios t),
               daily_pnl := daily_pnl t + pnl pos'\<rparr>"
    using close_position_Some [OF cl] by blast
  let ?pf' = "pf\<lparr>current_capital := current_capital pf + pnl pos',
                closed_positions := closed_positions pf @ [pos'],
                positions := AList.delete pid (positions pf)\<rparr>"
  have mo: "map_of (portfolios t) n = Some pf" and wf: "portfolio_wf pf"
    using holder_in_trader [OF inv fh] by blast+
  have dpos: "distinct (dict_keys (positions pf))" using wf by (simp add: portfolio_wf_def)
  have pwf: "pos_wf pid pos" using wf mp by (auto simp: portfolio_wf_def dest: map_of_SomeD)
  then have op: "status pos = OPEN" by (simp add: pos_wf_def)
  have "distinct (dict_keys (positions ?pf'))" using dpos by (simp add: distinct_delete)
  moreover have "\<forall>(k, p) \<in> set (positions ?pf'). pos_wf k p"
    using wf by (auto simp: portfolio_wf_def dest: set_delete_dict)
  moreover have "\<forall>p \<in> set (closed_positions ?pf'). status p = CLOSED"
    using wf pos' by (simp add: portfolio_wf_def)
  ultimately have wf': "portfolio_wf ?pf'" by (simp add: portfolio_wf_def)
  have ids: "set (dict_keys (positions ?pf')) \<subseteq> set (dict_keys (positions pf)) \<union> {}"
    by (auto dest: set_delete_dict)
  have pt': "portfolios t' = AList.update n ?pf' (portfolios t)" using t' by simp
  note rep = trader_replace [OF inv mo pt' wf' ids Int_empty_left]
  show "trader_inv t'" using rep by simp
  have "total_exposure ?pf' = total_exposure (pf\<lparr>positions := AList.delete pid (positions pf)\<rparr>)"
    by (rule total_exposure_cong) simp
  then show "all_exposure t' = all_exposure t - entry_cost pos'"
    using rep total_exposure_delete [OF dpos mp op] pos' by simp
  have "open_positions ?pf' = open_positions (pf\<lparr>positions := AList.delete pid (positions pf)\<rparr>)"
    by (rule open_positions_cong) simp
  with length_open_positions_delete [OF dpos mp op]
  have "length (open_positions ?pf') = length (open_positions pf) - 1"
    and "0 < length (open_positions pf)" by simp_all
  with rep(3) show "Suc (all_open_count t') = all_open_count t" by arith
  show "0 \<le> entry_cost pos'" using pwf pos' by (simp add: pos_wf_def)
  obtain xs ys where ps: "portfolios t = xs @ (n, pf) # ys"
    and ps': "AList.update n ?pf' (portfolios t) = xs @ (n, ?pf') # ys"
  proof -
    have "distinct (dict_keys (portfolios t))" using inv by (simp add: trader_inv_def)
    then show "(\<And>xs ys. portfolios t = xs @ (n, pf) # ys \<Longrightarrow>
        AList.update n ?pf' (portfolios t) = xs @ (n, ?pf') # ys \<Longrightarrow> thesis) \<Longrightarrow> thesis"
      using mo by (rule trader_update_split)
  qed
  have pin: "pid \<in> set (dict_keys (positions pf))" using mp by (force dest: map_of_SomeD)
  then show "pid \<in> set (all_open_ids t)" using ps by (simp add: all_open_ids_def)
  have "\<forall>q \<in> set (dict_values xs @ dict_values ys). map_of (positions q) pid = None"
    using inv ps pin by (intro id_not_elsewhere) (simp_all add: trader_inv_def all_open_ids_def)
  moreover have "map_of (positions ?pf') pid = None" by (simp add: delete_conv')
  ultimately show "pid \<notin> set (all_open_ids t')"
    using pt' ps' unfolding not_in_open_ids by simp
  show "daily_pnl t' = daily_pnl t + pnl pos'" and "risk t' = risk t" using t' by simp_all
qed

section \<open>Behaviour of the engine's operations\<close>


text \<open>C1: a signal that execute_signal accepts opens a position of floor(size / p) contracts, at least one, where p is the yes price for a yes signal and one minus it otherwise; the entry price is p, the entry cost is quantity times p and never exceeds the requested size, and the position is OPEN under the new id.\<close>

theorem execute_signal_position:
  assumes "execute_signal t sg mp pid now = Inr (t', pos)"
  shows "quantity pos = \<lfloor>sig_size sg / effective_price (sig_side sg) mp\<rfloor> \<and> 0 < quantity pos
       \<and> entry_price pos = effective_price (sig_side sg) mp
       \<and> entry_cost pos = of_int (quantity pos) * entry_price pos \<and> entry_cost pos \<le> sig_size sg
       \<and> status pos = OPEN \<and> pos_id pos = pid"
proof -
  let ?price = "effective_price (sig_side sg) mp"
  obtain pf where q: "0 < contract_quantity (sig_size sg) ?price"
    and pos: "pos = open_position_of sg pid now (contract_quantity (sig_size sg) ?price) ?price"
    using execute_signal_Inr [OF assms] by blast
  have cq: "contract_quantity (sig_size sg) ?price = \<lfloor>sig_size sg / ?price\<rfloor>"
    and le: "of_int (contract_quantity (sig_size sg) ?price) * ?price \<le> sig_size sg"
    using contract_quantity_pos [OF q] by blast+
  have "entry_cost pos \<le> sig_size sg" using pos le by (simp add: open_position_of_def)
  moreover have "quantity pos = \<lfloor>sig_size sg / ?price\<rfloor>" using pos cq by (simp add: open_position_of_def)
  moreover have "entry_price pos = ?price" and "entry_cost pos = of_int (quantity pos) * entry_price pos"
    and "status pos = OPEN" and "pos_id pos = pid"
    using pos by (simp_all add: open_position_of_def)
  ultimately show ?thesis using q cq by simp
qed

theorem execute_signal_position_witness:
  "\<exists>t' pos. execute_signal (initialize_portfolio (init_trader default_risk_config) ''MeanReversion'' 66)
       \<lparr>sig_market_id = ''KXMKT'', sig_side = Yes, confidence = 0.9, sig_size = 5,
        sig_strategy_name = ''MeanReversion'', sig_timestamp = 0, sig_metadata = None\<rparr>
       (1/5) ''p1'' 0 = Inr (t', pos) \<and> quantity pos = 25 \<and> entry_cost pos = 5"
proof -
  let ?t = "initialize_portfolio (init_trader default_risk_config) ''MeanReversion'' 66"
  let ?sg = "\<lparr>sig_market_id = ''KXMKT'', sig_side = Yes, confidence = 0.9, sig_size = 5,
        sig_strategy_name = ''MeanReversion'', sig_timestamp = 0, sig_metadata = None\<rparr>"
  have "\<exists>t' pos. execute_signal ?t ?sg (1/5) ''p1'' 0 = Inr (t', pos)"
    by (simp add: execute_signal_def get_portfolio_def initialize_portfolio_def init_trader_def
        new_portfolio_def check_risk_limits_def available_capital_def total_exposure_def
        open_positions_def all_exposure_def all_open_count_def default_risk_config_def
        contract_quantity_def effective_price_def py_int_def Let_def)
  then obtain t' pos where ex: "execute_signal ?t ?sg (1/5) ''p1'' 0 = Inr (t', pos)" by blast
  from execute_signal_position [OF ex] have "quantity pos = 25" and "entry_cost pos = of_int (quantity pos) * (1/5)"
    by (simp_all add: effective_price_def)
  with ex show ?thesis by auto
qed

text \<open>C2: an accepted signal changes only its strategy's open-position map, where the new position is stored under its id; no capital is debited at open time, every other portfolio, the daily P\&L and the risk limits are unchanged.\<close>

theorem execute_signal_books:
  assumes "execute_signal t sg mp pid now = Inr (t', pos)"
  shows "\<exists>pf. get_portfolio t (sig_strategy_name sg) = Some pf
     \<and> get_portfolio t' (sig_strategy_name sg) =
          Some (pf\<lparr>positions := AList.update pid pos (positions pf)\<rparr>)
     \<and> (\<forall>n. n \<noteq> sig_strategy_name sg \<longrightarrow> get_portfolio t' n = get_portfolio t n)
     \<and> daily_pnl t' = daily_pnl t \<and> risk t' = risk t"
proof -
  obtain pf where get: "get_portfolio t (sig_strategy_name sg) = Some pf"
    and t': "t' = t\<lparr>portfolios := AList.update (sig_strategy_name sg)
                 (pf\<lparr>positions := AList.update pid pos (positions pf)\<rparr>) (portfolios t)\<rparr>"
    using execute_signal_Inr [OF assms] by blast
  with get show ?thesis by (auto simp: get_portfolio_def update_conv')
qed

text \<open>C3: a signal whose requested size exceeds its portfolio's available capital is rejected with reason InsufficientCapital, the first risk check, whatever the other limits say.\<close>

theorem execute_signal_insufficient_capital:
  assumes "get_portfolio t (sig_strategy_name sg) = Some pf"
    and "available_capital pf < sig_size sg"
  shows "execute_signal t sg mp pid now = Inl InsufficientCapital"
  using assms by (simp add: execute_signal_def check_risk_limits_def)

theorem execute_signal_insufficient_capital_witness:
  "get_portfolio (initialize_portfolio (init_trader default_risk_config) ''Momentum'' 3) ''Momentum''
     = Some (new_portfolio ''Momentum'' 3)
   \<and> available_capital (new_portfolio ''Momentum'' 3) < 5
   \<and> execute_signal (initialize_portfolio (init_trader default_risk_config) ''Momentum'' 3)
       \<lparr>sig_market_id = ''KXMKT'', sig_side = Yes, confidence = 0.9, sig_size = 5,
        sig_strategy_name = ''Momentum'', sig_timestamp = 0, sig_metadata = None\<rparr>
       (1/5) ''p1'' 0 = Inl InsufficientCapital"
proof -
  have get: "get_portfolio (initialize_portfolio (init_trader default_risk_config) ''Momentum'' 3) ''Momentum''
     = Some (new_portfolio ''Momentum'' 3)"
    by (simp add: get_portfolio_def initialize_portfolio_def init_trader_def)
  have av: "available_capital (new_portfolio ''Momentum'' 3) < 5"
    by (simp add: available_capital_def total_exposure_def open_positions_def new_portfolio_def)
  from execute_signal_insufficient_capital [of _ "\<lparr>sig_market_id = ''KXMKT'', sig_side = Yes,
      confidence = 0.9, sig_size = 5, sig_strategy_name = ''Momentum'', sig_timestamp = 0,
      sig_metadata = None\<rparr>", simplified, OF get av]
  show ?thesis using get av by simp
qed

text \<open>C4: once the running daily P\&L is below minus max_daily_loss, execute_signal accepts no signal at all (the circuit breaker).\<close>

theorem execute_signal_daily_loss_blocks:
  assumes "daily_pnl t < - max_daily_loss (risk t)"
  shows "\<forall>r. execute_signal t sg mp pid now \<noteq> Inr r"
  using assms by (auto simp: execute_signal_def check_risk_limits_def split: option.splits)

text \<open>C6: closing is not repeatable: after a position id has been closed, closing the same id again finds nothing and changes nothing, so the P\&L is never applied twice.\<close>

theorem close_position_twice:
  assumes "trader_inv t" and "close_position t pid xp reason now = Some (t', pos')"
  shows "close_position t' pid xp' reason' now' = None"
proof -
  have "pid \<notin> set (all_open_ids t')" by (rule close_position_step(4) [OF assms])
  then have "find_holder (portfolios t') pid = None" by (simp add: find_holder_None not_in_open_ids)
  then show ?thesis by (simp add: close_position_def)
qed

lemma trader_inv_init: "trader_inv (init_trader rc)"
  by (simp add: trader_inv_def init_trader_def all_open_ids_def)

lemma initialize_portfolio_step:
  assumes "trader_inv t" and "map_of (portfolios t) name = None"
  shows "trader_inv (initialize_portfolio t name c)"
    and "all_exposure (initialize_portfolio t name c) = all_exposure t"
    and "all_open_count (initialize_portfolio t name c) = all_open_count t"
    and "all_open_ids (initialize_portfolio t name c) = all_open_ids t"
  using assms
  by (auto simp: trader_inv_def initialize_portfolio_def update_new_append new_portfolio_def
      portfolio_wf_def all_open_ids_def all_exposure_def all_open_count_def total_exposure_def
      open_positions_def map_of_eq_None_iff)

lemmas trader_eval_simps = execute_signal_def get_portfolio_def initialize_portfolio_def
  init_trader_def new_portfolio_def check_risk_limits_def available_capital_def
  total_exposure_def open_positions_def all_exposure_def all_open_count_def
  default_risk_config_def contract_quantity_def effective_price_def py_int_def
  open_position_of_def close_position_def find_holder_def closed_position_of_def pnl_def Let_def

text \<open>C5: closing an open position marks it CLOSED with exit value quantity times the side-adjusted exit price, so its P\&L is quantity times (exit price minus entry price); the owning portfolio's current capital grows by that P\&L, the position moves from the open map to the end of the closed list, and the daily P\&L grows by the same amount.\<close>

theorem close_position_effect:
  assumes inv: "trader_inv t" and cl: "close_position t pid xp reason now = Some (t', pos')"
  shows "\<exists>n pf pos. get_portfolio t n = Some pf \<and> map_of (positions pf) pid = Some pos
     \<and> pos' = closed_position_of pos xp reason now \<and> status pos' = CLOSED
     \<and> pnl pos' = of_int (quantity pos) * (effective_price (side pos) xp - entry_price pos)
     \<and> get_portfolio t' n = Some (pf\<lparr>current_capital := current_capital pf + pnl pos',
            closed_positions := closed_positions pf @ [pos'],
            positions := AList.delete pid (positions pf)\<rparr>)
     \<and> daily_pnl t' = daily_pnl t + pnl pos'"
proof -
  obtain n pf pos where fh: "find_holder (portfolios t) pid = Some (n, pf)"
    and mp: "map_of (positions pf) pid = Some pos"
    and pos': "pos' = closed_position_of pos xp reason now"
    and t': "t' = t\<lparr>portfolios := AList.update n
            (pf\<lparr>current_capital := current_capital pf + pnl pos',
                closed_positions := closed_positions pf @ [pos'],
                positions := AList.delete pid (positions pf)\<rparr>) (portfolios t),
               daily_pnl := daily_pnl t + pnl pos'\<rparr>"
    using close_position_Some [OF cl] by blast
  have mo: "map_of (portfolios t) n = Some pf" and wf: "portfolio_wf pf"
    using holder_in_trader [OF inv fh] by blast+
  have "pos_wf pid pos" using wf mp by (auto simp: portfolio_wf_def dest: map_of_SomeD)
  then have pnl: "pnl pos' = of_int (quantity pos) * (effective_price (side pos) xp - entry_price pos)"
    using pos' by (simp add: pnl_closed_position_of pos_wf_def algebra_simps)
  have get: "get_portfolio t n = Some pf" using mo by (simp add: get_portfolio_def)
  have get': "get_portfolio t' n = Some (pf\<lparr>current_capital := current_capital pf + pnl pos',
            closed_positions := closed_positions pf @ [pos'],
            positions := AList.delete pid (positions pf)\<rparr>)"
    using t' by (simp add: get_portfolio_def update_conv')
  have "status pos' = CLOSED" and "daily_pnl t' = daily_pnl t + pnl pos'"
    using pos' t' by simp_all
  with get mp pos' pnl get' show ?thesis by blast
qed

abbreviation demo_signal :: signal where
  "demo_signal \<equiv> \<lparr>sig_market_id = ''KXMKT'', sig_side = Yes, confidence = 0.9, sig_size = 5,
     sig_strategy_name = ''MeanReversion'', sig_timestamp = 0, sig_metadata = None\<rparr>"

abbreviation demo_trader0 :: paper_trader where
  "demo_trader0 \<equiv> initialize_portfolio (init_trader default_risk_config) ''MeanReversion'' 66"

abbreviation demo_trader1 :: paper_trader where
  "demo_trader1 \<equiv> fst (projr (execute_signal demo_trader0 demo_signal (1/5) ''p1'' 0))"

abbreviation demo_pos1 :: paper_position where
  "demo_pos1 \<equiv> snd (projr (execute_signal demo_trader0 demo_signal (1/5) ''p1'' 0))"

abbreviation demo_trader2 :: paper_trader where
  "demo_trader2 \<equiv> fst (the (close_position demo_trader1 ''p1'' (3/10) ''strategy_exit'' 60))"

abbreviation demo_pos2 :: paper_position where
  "demo_pos2 \<equiv> snd (the (close_position demo_trader1 ''p1'' (3/10) ''strategy_exit'' 60))"

lemma demo_run:
  "trader_inv demo_trader0"
  "execute_signal demo_trader0 demo_signal (1/5) ''p1'' 0 = Inr (demo_trader1, demo_pos1)"
  "trader_inv demo_trader1"
  "close_position demo_trader1 ''p1'' (3/10) ''strategy_exit'' 60 = Some (demo_trader2, demo_pos2)"
proof -
  show inv0: "trader_inv demo_trader0"
    by (rule initialize_portfolio_step(1) [OF trader_inv_init]) (simp add: init_trader_def)
  show ex: "execute_signal demo_trader0 demo_signal (1/5) ''p1'' 0 = Inr (demo_trader1, demo_pos1)"
    by (simp add: trader_eval_simps)
  show "trader_inv demo_trader1"
    by (rule execute_signal_step(1) [OF inv0 _ ex])
       (simp add: all_open_ids_def initialize_portfolio_def init_trader_def new_portfolio_def)
  show "close_position demo_trader1 ''p1'' (3/10) ''strategy_exit'' 60 = Some (demo_trader2, demo_pos2)"
    by (simp add: trader_eval_simps)
qed

theorem close_position_effect_witness:
  "trader_inv demo_trader1
   \<and> close_position demo_trader1 ''p1'' (3/10) ''strategy_exit'' 60 = Some (demo_trader2, demo_pos2)
   \<and> pnl demo_pos2 = 5/2 \<and> daily_pnl demo_trader2 = 5/2"
proof -
  have "daily_pnl demo_trader2 = daily_pnl demo_trader1 + pnl demo_pos2"
    using close_position_effect [OF demo_run(3,4)] by blast
  moreover have "daily_pnl demo_trader1 = 0" and "pnl demo_pos2 = 5/2"
    by (simp_all add: trader_eval_simps)
  ultimately show ?thesis using demo_run by simp
qed

theorem close_position_twice_witness:
  "trader_inv demo_trader1
   \<and> close_position demo_trader1 ''p1'' (3/10) ''strategy_exit'' 60 = Some (demo_trader2, demo_pos2)
   \<and> close_position demo_trader2 ''p1'' (1/2) ''signal'' 120 = None"
  using demo_run(3,4) close_position_twice [OF demo_run(3,4)] by blast

theorem execute_signal_books_witness:
  "execute_signal demo_trader0 demo_signal (1/5) ''p1'' 0 = Inr (demo_trader1, demo_pos1)
   \<and> get_portfolio demo_trader1 ''MeanReversion'' =
       Some (new_portfolio ''MeanReversion'' 66\<lparr>positions := [(''p1'', demo_pos1)]\<rparr>)"
proof -
  obtain pf where g0: "get_portfolio demo_trader0 ''MeanReversion'' = Some pf"
    and g1: "get_portfolio demo_trader1 ''MeanReversion'' =
         Some (pf\<lparr>positions := AList.update ''p1'' demo_pos1 (positions pf)\<rparr>)"
    using execute_signal_books [OF demo_run(2)] by auto
  have "pf = new_portfolio ''MeanReversion'' 66"
    using g0 by (simp add: get_portfolio_def initialize_portfolio_def init_trader_def)
  with g1 show ?thesis using demo_run(2) by (simp add: new_portfolio_def)
qed

theorem execute_signal_daily_loss_blocks_witness:
  "daily_pnl (demo_trader0\<lparr>daily_pnl := -21\<rparr>) < - max_daily_loss (risk (demo_trader0\<lparr>daily_pnl := -21\<rparr>))
   \<and> (\<forall>r. execute_signal (demo_trader0\<lparr>daily_pnl := -21\<rparr>) demo_signal (1/5) ''p1'' 0 \<noteq> Inr r)"
proof -
  have h: "daily_pnl (demo_trader0\<lparr>daily_pnl := -21\<rparr>) < - max_daily_loss (risk (demo_trader0\<lparr>daily_pnl := -21\<rparr>))"
    by (simp add: initialize_portfolio_def init_trader_def default_risk_config_def)
  show ?thesis using h execute_signal_daily_loss_blocks [OF h] by blast
qed

section \<open>Refinement of the engine by an abstract book of open positions\<close>


definition open_book :: "paper_trader \<Rightarrow> string \<rightharpoonup> paper_position" where
  "open_book t pid = (case find_holder (portfolios t) pid of
                        None \<Rightarrow> None
                      | Some (n, pf) \<Rightarrow> map_of (positions pf) pid)"

lemma open_book_iff:
  assumes "trader_inv t"
  shows "open_book t q = Some p \<longleftrightarrow>
         (\<exists>pf \<in> set (dict_values (portfolios t)). map_of (positions pf) q = Some p)"
proof
  assume "open_book t q = Some p"
  then obtain n pf where "find_holder (portfolios t) q = Some (n, pf)"
    and "map_of (positions pf) q = Some p"
    by (auto simp: open_book_def split: option.splits)
  then show "\<exists>pf \<in> set (dict_values (portfolios t)). map_of (positions pf) q = Some p"
    using find_holder_Some by force
next
  assume "\<exists>pf \<in> set (dict_values (portfolios t)). map_of (positions pf) q = Some p"
  then obtain pf where pf: "pf \<in> set (dict_values (portfolios t))"
    and mp: "map_of (positions pf) q = Some p" by blast
  then have "find_holder (portfolios t) q \<noteq> None" by (auto simp: find_holder_None)
  then obtain n' pf' where fh: "find_holder (portfolios t) q = Some (n', pf')" by auto
  then have pf': "pf' \<in> set (dict_values (portfolios t))"
    and q': "map_of (positions pf') q \<noteq> None"
    using find_holder_Some by force+
  have "distinct (concat (map (\<lambda>pf. dict_keys (positions pf)) (dict_values (portfolios t))))"
    using assms by (simp add: trader_inv_def all_open_ids_def)
  moreover have "q \<in> set (dict_keys (positions pf))" using mp by (force dest: map_of_SomeD)
  moreover have "q \<in> set (dict_keys (positions pf'))" using q' by (auto simp: map_of_eq_None_iff)
  ultimately have "pf' = pf" using pf pf' by (blast intro: distinct_concat_unique)
  with fh mp show "open_book t q = Some p" by (simp add: open_book_def)
qed

lemma open_book_None_iff:
  "open_book t q = None \<longleftrightarrow> q \<notin> set (all_open_ids t)"
proof -
  have "open_book t q = None \<longleftrightarrow> find_holder (portfolios t) q = None"
    by (cases "find_holder (portfolios t) q") (auto simp: open_book_def dest: find_holder_Some)
  then show ?thesis by (simp add: find_holder_None not_in_open_ids)
qed

lemma open_book_replace:
  assumes inv: "trader_inv t" and inv': "trader_inv t'"
    and mo: "map_of (portfolios t) n = Some pf"
    and pt': "portfolios t' = AList.update n pf' (portfolios t)"
  shows "open_book t' q =
    (if q \<in> set (dict_keys (positions pf)) \<union> set (dict_keys (positions pf'))
     then map_of (positions pf') q else open_book t q)"
proof -
  have dk: "distinct (dict_keys (portfolios t))" using inv by (simp add: trader_inv_def)
  obtain xs ys where ps: "portfolios t = xs @ (n, pf) # ys"
    and ps0: "AList.update n pf' (portfolios t) = xs @ (n, pf') # ys"
    using trader_update_split [OF dk mo] by blast
  have ps': "portfolios t' = xs @ (n, pf') # ys" using pt' ps0 by simp
  let ?g = "\<lambda>pf. dict_keys (positions pf)"
  let ?A = "set (concat (map ?g (dict_values xs @ dict_values ys)))"
  have dis: "set (?g pf) \<inter> ?A = {}"
    using inv ps by (intro distinct_concat_middle) (simp add: trader_inv_def all_open_ids_def)
  have dis': "set (?g pf') \<inter> ?A = {}"
    using inv' ps' by (intro distinct_concat_middle) (simp add: trader_inv_def all_open_ids_def)
  have nx: "\<forall>r \<in> set (dict_values xs @ dict_values ys). map_of (positions r) q = None"
    if qq: "q \<in> set (?g pf) \<union> set (?g pf')"
  proof
    fix r assume r: "r \<in> set (dict_values xs @ dict_values ys)"
    then have "set (?g r) \<subseteq> ?A" by auto
    with qq dis dis' have "q \<notin> set (?g r)" by blast
    then show "map_of (positions r) q = None" by (simp add: map_of_eq_None_iff)
  qed
  show ?thesis
  proof (cases "q \<in> set (?g pf) \<union> set (?g pf')")
    case True
    have "open_book t' q = map_of (positions pf') q"
    proof (rule option_eq_by_Some)
      fix p
      show "open_book t' q = Some p \<longleftrightarrow> map_of (positions pf') q = Some p"
        using nx [OF True] unfolding open_book_iff [OF inv'] ps' by auto
    qed
    with True show ?thesis by simp
  next
    case False
    then have "map_of (positions pf) q = None" and "map_of (positions pf') q = None"
      by (simp_all add: map_of_eq_None_iff)
    then have "open_book t' q = open_book t q"
      by (intro option_eq_by_Some) (auto simp: open_book_iff [OF inv'] open_book_iff [OF inv] ps ps')
    with False show ?thesis by simp
  qed
qed

lemma open_book_of_holder:
  assumes inv: "trader_inv t" and mo: "map_of (portfolios t) n = Some pf"
    and q: "q \<in> set (dict_keys (positions pf))"
  shows "open_book t q = map_of (positions pf) q"
proof -
  obtain p where mp: "map_of (positions pf) q = Some p"
    using q by (cases "map_of (positions pf) q") (auto simp: map_of_eq_None_iff)
  have "pf \<in> set (dict_values (portfolios t))" using mo by (force dest: map_of_SomeD)
  with mp show ?thesis by (simp add: open_book_iff [OF inv]) blast
qed

text \<open>C7: refinement of execute_signal against an abstract book of open positions (one map from position id to position across all strategies): on a well-formed engine, accepting a signal under a fresh id is exactly inserting the new position into the abstract book.\<close>

theorem execute_signal_open_book:
  assumes inv: "trader_inv t" and fresh: "open_book t pid = None"
    and ex: "execute_signal t sg mp pid now = Inr (t', pos)"
  shows "open_book t' = (open_book t)(pid \<mapsto> pos)"
proof
  fix q
  let ?n = "sig_strategy_name sg"
  obtain pf where get: "get_portfolio t ?n = Some pf"
    and t': "t' = t\<lparr>portfolios := AList.update ?n
                 (pf\<lparr>positions := AList.update pid pos (positions pf)\<rparr>) (portfolios t)\<rparr>"
    using execute_signal_Inr [OF ex] by blast
  let ?pf' = "pf\<lparr>positions := AList.update pid pos (positions pf)\<rparr>"
  have fresh': "pid \<notin> set (all_open_ids t)" using fresh by (simp add: open_book_None_iff)
  have inv': "trader_inv t'" by (rule execute_signal_step(1) [OF inv fresh' ex])
  have mo: "map_of (portfolios t) ?n = Some pf" using get by (simp add: get_portfolio_def)
  have pt': "portfolios t' = AList.update ?n ?pf' (portfolios t)" using t' by simp
  have "pf \<in> set (dict_values (portfolios t))" using mo by (force dest: map_of_SomeD)
  then have none: "map_of (positions pf) pid = None" using fresh' by (force simp: not_in_open_ids)
  have upd: "map_of (positions ?pf') = (map_of (positions pf))(pid \<mapsto> pos)"
    by (simp add: update_conv')
  have keys': "set (dict_keys (positions ?pf')) = insert pid (set (dict_keys (positions pf)))"
    using none by (simp add: update_new_append)
  note rep = open_book_replace [OF inv inv' mo pt', of q]
  show "open_book t' q = ((open_book t)(pid \<mapsto> pos)) q"
  proof (cases "q = pid")
    case True
    then show ?thesis using rep keys' upd by simp
  next
    case False
    then show ?thesis
      using rep keys' upd open_book_of_holder [OF inv mo, of q] by (cases "q \<in> set (dict_keys (positions pf))") simp_all
  qed
qed

lemma close_position_None_iff:
  assumes "trader_inv t"
  shows "close_position t pid xp reason now = None \<longleftrightarrow> open_book t pid = None"
proof -
  have "close_position t pid xp reason now = None \<longleftrightarrow> find_holder (portfolios t) pid = None"
    by (cases "find_holder (portfolios t) pid")
       (auto simp: close_position_def Let_def split: option.splits dest: find_holder_Some)
  also have "\<dots> \<longleftrightarrow> open_book t pid = None"
    by (simp add: open_book_None_iff find_holder_None not_in_open_ids)
  finally show ?thesis .
qed

text \<open>C8: refinement of close_position against the abstract book: on a well-formed engine, a successful close removes exactly the closed id from the abstract book, and the returned position is the book entry marked closed at the given exit price and time.\<close>

theorem close_position_open_book:
  assumes inv: "trader_inv t" and cl: "close_position t pid xp reason now = Some (t', pos')"
  shows "\<exists>pos. open_book t pid = Some pos \<and> pos' = closed_position_of pos xp reason now
         \<and> open_book t' = (open_book t)(pid := None)"
proof -
  obtain n pf pos where fh: "find_holder (portfolios t) pid = Some (n, pf)"
    and mpos: "map_of (positions pf) pid = Some pos"
    and pos': "pos' = closed_position_of pos xp reason now"
    and t': "t' = t\<lparr>portfolios := AList.update n
            (pf\<lparr>current_capital := current_capital pf + pnl pos',
                closed_positions := closed_positions pf @ [pos'],
                positions := AList.delete pid (positions pf)\<rparr>) (portfolios t),
               daily_pnl := daily_pnl t + pnl pos'\<rparr>"
    using close_position_Some [OF cl] by blast
  let ?pf' = "pf\<lparr>current_capital := current_capital pf + pnl pos',
                closed_positions := closed_positions pf @ [pos'],
                positions := AList.delete pid (positions pf)\<rparr>"
  have mo: "map_of (portfolios t) n = Some pf" using holder_in_trader [OF inv fh] by blast
  have inv': "trader_inv t'" by (rule close_position_step(1) [OF inv cl])
  have pt': "portfolios t' = AList.update n ?pf' (portfolios t)" using t' by simp
  have ob: "open_book t pid = Some pos" using fh mpos by (simp add: open_book_def)
  have "open_book t' = (open_book t)(pid := None)"
  proof
    fix q
    have del: "map_of (positions ?pf') = (map_of (positions pf))(pid := None)"
      by (simp add: delete_conv')
    have keys': "set (dict_keys (positions ?pf')) \<subseteq> set (dict_keys (positions pf))"
      by (auto dest: set_delete_dict)
    have pin: "pid \<in> set (dict_keys (positions pf))" using mpos by (force dest: map_of_SomeD)
    note rep = open_book_replace [OF inv inv' mo pt', of q]
    show "open_book t' q = ((open_book t)(pid := None)) q"
    proof (cases "q \<in> set (dict_keys (positions pf))")
      case True
      with keys' have "open_book t' q = map_of (positions ?pf') q" using rep by auto
      with True del open_book_of_holder [OF inv mo True] show ?thesis by simp
    next
      case False
      with keys' pin have "q \<noteq> pid" and "open_book t' q = open_book t q" using rep by auto
      then show ?thesis by simp
    qed
  qed
  with ob pos' show ?thesis by blast
qed

lemma exit_scan_spec:
  assumes "trader_inv t" and "\<forall>p \<in> set ps. open_book t (pos_id p) = Some p"
    and "distinct (map pos_id ps)" and "exit_scan ex m now ps t = (t', rs)"
  shows "map pos_id rs = map pos_id (filter (\<lambda>p. ticker p = snap_market_id m \<and> ex (view_of p) m) ps)
    \<and> (\<forall>r \<in> set rs. status r = CLOSED \<and> ticker r = snap_market_id m)
    \<and> trader_inv t' \<and> open_book t' = open_book t |` (- set (map pos_id rs))
    \<and> all_exposure t' \<le> all_exposure t \<and> all_open_count t' \<le> all_open_count t
    \<and> risk t' = risk t"
  using assms
proof (induction ps arbitrary: t t' rs)
  case Nil
  then show ?case by simp
next
  case (Cons p ps)
  let ?pid = "pos_id p"
  have ob: "open_book t ?pid = Some p" and rest: "\<forall>q \<in> set ps. open_book t (pos_id q) = Some q"
    and dps: "distinct (map pos_id ps)" and notin: "?pid \<notin> set (map pos_id ps)"
    using Cons.prems(2,3) by auto
  show ?case
  proof (cases "ticker p = snap_market_id m \<and> ex (view_of p) m")
    case False
    then have sc0: "exit_scan ex m now ps t = (t', rs)" using Cons.prems(4) by (auto split: if_splits)
    have eq: "filter (\<lambda>p. ticker p = snap_market_id m \<and> ex (view_of p) m) (p # ps) =
              filter (\<lambda>p. ticker p = snap_market_id m \<and> ex (view_of p) m) ps"
      using False by simp
    show ?thesis unfolding eq by (rule Cons.IH [OF Cons.prems(1) rest dps sc0])
  next
    case True
    have "close_position t ?pid (snap_yes_price m) ''strategy_exit'' now \<noteq> None"
      using ob by (simp add: close_position_None_iff [OF Cons.prems(1)])
    then obtain t1 r where cl: "close_position t ?pid (snap_yes_price m) ''strategy_exit'' now = Some (t1, r)"
      by auto
    obtain t2 rs' where sc: "exit_scan ex m now ps t1 = (t2, rs')" by (cases "exit_scan ex m now ps t1")
    have res: "t' = t2" "rs = r # rs'" using Cons.prems(4) True cl sc by auto
    have r: "r = closed_position_of p (snap_yes_price m) ''strategy_exit'' now"
      and ob1: "open_book t1 = (open_book t)(?pid := None)"
      using close_position_open_book [OF Cons.prems(1) cl] ob by auto
    note st = close_position_step [OF Cons.prems(1) cl]
    have rest1: "\<forall>q \<in> set ps. open_book t1 (pos_id q) = Some q"
    proof
      fix q assume q: "q \<in> set ps"
      then have "pos_id q \<in> set (map pos_id ps)" by simp
      then have "pos_id q \<noteq> ?pid" using notin by auto
      with q rest ob1 show "open_book t1 (pos_id q) = Some q" by simp
    qed
    note IH = Cons.IH [OF st(1) rest1 dps sc]
    have "open_book t2 = open_book t1 |` (- set (map pos_id rs'))" using IH by blast
    also have "\<dots> = open_book t |` (- set (map pos_id (r # rs')))"
      using ob1 r by (simp only: restrict_map_upd_None list.map list.set closed_position_of_simps)
    finally have c4: "open_book t' = open_book t |` (- set (map pos_id rs))" using res by simp
    have c1: "map pos_id rs =
              map pos_id (filter (\<lambda>p. ticker p = snap_market_id m \<and> ex (view_of p) m) (p # ps))"
      using IH True r res by simp
    have c2: "\<forall>r \<in> set rs. status r = CLOSED \<and> ticker r = snap_market_id m"
      using IH True r res by simp
    have e2: "all_exposure t2 \<le> all_exposure t1" and n2: "all_open_count t2 \<le> all_open_count t1"
      using IH by blast+
    have c5: "all_exposure t' \<le> all_exposure t"
      unfolding res(1) using e2 st(2) st(8) by linarith
    have c6: "all_open_count t' \<le> all_open_count t"
      unfolding res(1) using n2 st(3) by linarith
    have c7: "trader_inv t' \<and> risk t' = risk t" using IH st res by simp
    show ?thesis using c1 c2 c4 c5 c6 c7 by blast
  qed
qed

lemma open_positions_in_book:
  assumes "trader_inv t" and "get_portfolio t name = Some pf"
  shows "(\<forall>p \<in> set (open_positions pf). open_book t (pos_id p) = Some p)
         \<and> distinct (map pos_id (open_positions pf))"
proof -
  have mo: "map_of (portfolios t) name = Some pf" using assms(2) by (simp add: get_portfolio_def)
  then have pfin: "pf \<in> set (dict_values (portfolios t))" by (force dest: map_of_SomeD)
  then have wf: "portfolio_wf pf" using assms(1) by (force simp: trader_inv_def)
  have "\<forall>p \<in> set (open_positions pf). open_book t (pos_id p) = Some p"
  proof
    fix p assume "p \<in> set (open_positions pf)"
    then obtain k where kp: "(k, p) \<in> set (positions pf)" by (auto simp: open_positions_def)
    with wf have "pos_id p = k" by (auto simp: portfolio_wf_def pos_wf_def)
    moreover have "map_of (positions pf) k = Some p"
      using kp wf by (simp add: portfolio_wf_def)
    ultimately show "open_book t (pos_id p) = Some p"
      using pfin by (auto simp: open_book_iff [OF assms(1)])
  qed
  moreover have "distinct (map pos_id (open_positions pf))"
  proof -
    have "\<forall>x \<in> set (positions pf). pos_id (snd x) = fst x"
      using wf by (auto simp: portfolio_wf_def pos_wf_def)
    then have eqn: "map (pos_id \<circ> snd) (positions pf) = map fst (positions pf)"
      by (intro map_cong) auto
    have "distinct (map (pos_id \<circ> snd) (positions pf))"
      unfolding eqn using wf by (simp add: portfolio_wf_def)
    then show ?thesis using wf by (simp add: open_positions_wf)
  qed
  ultimately show ?thesis by blast
qed

lemma check_exits_step:
  assumes "trader_inv t" and "check_exits t name ex m now = (t', rs)"
  shows "trader_inv t' \<and> all_exposure t' \<le> all_exposure t \<and> all_open_count t' \<le> all_open_count t
         \<and> risk t' = risk t \<and> open_book t' = open_book t |` (- set (map pos_id rs))"
proof (cases "get_portfolio t name")
  case None
  then show ?thesis using assms by (auto simp: check_exits_def restrict_map_def)
next
  case (Some pf)
  then have "exit_scan ex m now (open_positions pf) t = (t', rs)"
    using assms(2) by (simp add: check_exits_def)
  with open_positions_in_book [OF assms(1) Some] show ?thesis using exit_scan_spec [OF assms(1)] by blast
qed

text \<open>Realised P\&L: what each operation does to the daily counter and to the sum of the
  portfolios' realised P\&L that \<open>get_summary\<close> reports.\<close>

lemma sum_total_pnl_eq:
  "sum_total_pnl (get_summary t) = (\<Sum>pf\<leftarrow>dict_values (portfolios t). total_pnl pf)"
  by (simp add: get_summary_def)

lemma execute_signal_realised:
  assumes "trader_inv t" and "execute_signal t sg mp pid now = Inr (t', pos)"
  shows "sum_total_pnl (get_summary t') = sum_total_pnl (get_summary t)"
proof -
  obtain pf where g: "get_portfolio t (sig_strategy_name sg) = Some pf"
    and t': "t' = t\<lparr>portfolios := AList.update (sig_strategy_name sg)
                 (pf\<lparr>positions := AList.update pid pos (positions pf)\<rparr>) (portfolios t)\<rparr>"
    using execute_signal_Inr [OF assms(2)] by blast
  have dk: "distinct (dict_keys (portfolios t))" using assms(1) by (simp add: trader_inv_def)
  have mo: "map_of (portfolios t) (sig_strategy_name sg) = Some pf"
    using g by (simp add: get_portfolio_def)
  have "(\<Sum>v\<leftarrow>dict_values (AList.update (sig_strategy_name sg)
            (pf\<lparr>positions := AList.update pid pos (positions pf)\<rparr>) (portfolios t)). total_pnl v) =
        (\<Sum>v\<leftarrow>dict_values (portfolios t). total_pnl v) - total_pnl pf
          + total_pnl (pf\<lparr>positions := AList.update pid pos (positions pf)\<rparr>)"
    by (rule sum_list_map_update_dict [OF dk mo])
  then show ?thesis by (simp add: t' sum_total_pnl_eq total_pnl_def)
qed

lemma close_position_realised:
  assumes "trader_inv t" and "close_position t pid xp reason now = Some (t', pos')"
  shows "sum_total_pnl (get_summary t') = sum_total_pnl (get_summary t) + pnl pos'"
proof -
  obtain n pf pos where fh: "find_holder (portfolios t) pid = Some (n, pf)"
    and t': "t' = t\<lparr>portfolios := AList.update n
            (pf\<lparr>current_capital := current_capital pf + pnl pos',
                closed_positions := closed_positions pf @ [pos'],
                positions := AList.delete pid (positions pf)\<rparr>) (portfolios t),
               daily_pnl := daily_pnl t + pnl pos'\<rparr>"
    using close_position_Some [OF assms(2)] by blast
  have dk: "distinct (dict_keys (portfolios t))" using assms(1) by (simp add: trader_inv_def)
  have "(n, pf) \<in> set (portfolios t)" using find_holder_Some [OF fh] by blast
  with dk have mo: "map_of (portfolios t) n = Some pf" by simp
  let ?pf' = "pf\<lparr>current_capital := current_capital pf + pnl pos',
                closed_positions := closed_positions pf @ [pos'],
                positions := AList.delete pid (positions pf)\<rparr>"
  have "(\<Sum>v\<leftarrow>dict_values (AList.update n ?pf' (portfolios t)). total_pnl v) =
        (\<Sum>v\<leftarrow>dict_values (portfolios t). total_pnl v) - total_pnl pf + total_pnl ?pf'"
    by (rule sum_list_map_update_dict [OF dk mo])
  then show ?thesis by (simp add: t' sum_total_pnl_eq total_pnl_def)
qed

lemma exit_scan_daily_realised:
  assumes "trader_inv t" and "exit_scan ex m now ps t = (t', rs)"
  shows "daily_pnl t' - sum_total_pnl (get_summary t') = daily_pnl t - sum_total_pnl (get_summary t)"
  using assms
proof (induction ps arbitrary: t t' rs)
  case Nil
  then show ?case by simp
next
  case (Cons p ps)
  show ?case
  proof (cases "ticker p \<noteq> snap_market_id m \<or> \<not> ex (view_of p) m")
    case True
    then have "exit_scan ex m now ps t = (t', rs)"
      using Cons.prems(2) by (cases "ticker p = snap_market_id m") auto
    then show ?thesis using Cons.IH [OF Cons.prems(1)] by blast
  next
    case False
    show ?thesis
    proof (cases "close_position t (pos_id p) (snap_yes_price m) ''strategy_exit'' now")
      case None
      then have "exit_scan ex m now ps t = (t', rs)" using Cons.prems(2) False by auto
      then show ?thesis using Cons.IH [OF Cons.prems(1)] by blast
    next
      case (Some r)
      then obtain t1 r1 where cl: "close_position t (pos_id p) (snap_yes_price m) ''strategy_exit'' now = Some (t1, r1)"
        by (cases r) auto
      obtain rs1 where "exit_scan ex m now ps t1 = (t', rs1)"
        using Cons.prems(2) False cl by (auto split: prod.splits)
      then have "daily_pnl t' - sum_total_pnl (get_summary t') = daily_pnl t1 - sum_total_pnl (get_summary t1)"
        using Cons.IH close_position_step(1) [OF Cons.prems(1) cl] by blast
      moreover have "daily_pnl t1 = daily_pnl t + pnl r1"
        by (rule close_position_step(6) [OF Cons.prems(1) cl])
      moreover have "sum_total_pnl (get_summary t1) = sum_total_pnl (get_summary t) + pnl r1"
        by (rule close_position_realised [OF Cons.prems(1) cl])
      ultimately show ?thesis by simp
    qed
  qed
qed

lemma check_exits_daily_realised:
  assumes "trader_inv t" and "check_exits t name ex m now = (t', rs)"
  shows "daily_pnl t' - sum_total_pnl (get_summary t') = daily_pnl t - sum_total_pnl (get_summary t)"
proof (cases "get_portfolio t name")
  case None
  then show ?thesis using assms by (simp add: check_exits_def)
next
  case (Some pf)
  then show ?thesis using assms exit_scan_daily_realised by (simp add: check_exits_def)
qed

text \<open>C9: check_exits on a strategy closes exactly the open positions of that strategy whose ticker is the market's and whose exit predicate holds, in the portfolio's order; each returned position is CLOSED, the engine stays well formed, and the abstract book loses exactly the returned ids.\<close>

theorem check_exits_closes_matching:
  assumes "trader_inv t" and "get_portfolio t name = Some pf"
    and "check_exits t name ex m now = (t', rs)"
  shows "map pos_id rs =
         map pos_id (filter (\<lambda>p. ticker p = snap_market_id m \<and> ex (view_of p) m) (open_positions pf))
    \<and> (\<forall>r \<in> set rs. status r = CLOSED \<and> ticker r = snap_market_id m)
    \<and> open_book t' = open_book t |` (- set (map pos_id rs))"
proof -
  have "exit_scan ex m now (open_positions pf) t = (t', rs)"
    using assms(2,3) by (simp add: check_exits_def)
  with open_positions_in_book [OF assms(1,2)] show ?thesis using exit_scan_spec [OF assms(1)] by blast
qed

theorem execute_signal_open_book_witness:
  "open_book demo_trader1 = (open_book demo_trader0)(''p1'' \<mapsto> demo_pos1)
   \<and> open_book demo_trader0 ''p1'' = None \<and> trader_inv demo_trader0"
proof -
  have fresh: "open_book demo_trader0 ''p1'' = None"
    by (simp add: open_book_def find_holder_def initialize_portfolio_def init_trader_def
        new_portfolio_def)
  show ?thesis using execute_signal_open_book [OF demo_run(1) fresh demo_run(2)] fresh demo_run(1)
    by blast
qed

theorem close_position_open_book_witness:
  "trader_inv demo_trader1
   \<and> close_position demo_trader1 ''p1'' (3/10) ''strategy_exit'' 60 = Some (demo_trader2, demo_pos2)
   \<and> open_book demo_trader1 ''p1'' = Some demo_pos1 \<and> open_book demo_trader2 ''p1'' = None"
proof -
  obtain pos where "open_book demo_trader1 ''p1'' = Some pos"
    and "open_book demo_trader2 = (open_book demo_trader1)(''p1'' := None)"
    using close_position_open_book [OF demo_run(3,4)] by blast
  moreover have "open_book demo_trader1 ''p1'' = Some demo_pos1"
    by (simp add: open_book_def trader_eval_simps)
  ultimately show ?thesis using demo_run(3,4) by simp
qed

abbreviation demo_market :: market_snapshot where
  "demo_market \<equiv> \<lparr>snap_market_id = ''KXMKT'', snap_ticker = ''KXMKT'', snap_yes_price = 3/10,
                   snap_close_in_hours = 5, snap_order_book = None\<rparr>"

theorem check_exits_closes_matching_witness:
  "trader_inv demo_trader1
   \<and> get_portfolio demo_trader1 ''MeanReversion'' \<noteq> None
   \<and> map pos_id (snd (check_exits demo_trader1 ''MeanReversion'' (\<lambda>_ _. True) demo_market 60)) = [''p1'']"
proof -
  define pf where "pf = new_portfolio ''MeanReversion'' 66\<lparr>positions := [(''p1'', demo_pos1)]\<rparr>"
  have get: "get_portfolio demo_trader1 ''MeanReversion'' = Some pf"
    by (simp add: pf_def trader_eval_simps)
  obtain t' rs where ce: "check_exits demo_trader1 ''MeanReversion'' (\<lambda>_ _. True) demo_market 60 = (t', rs)"
    by (cases "check_exits demo_trader1 ''MeanReversion'' (\<lambda>_ _. True) demo_market 60")
  have "map pos_id rs = map pos_id (filter (\<lambda>p. ticker p = ''KXMKT'' \<and> True) (open_positions pf))"
    using check_exits_closes_matching [OF demo_run(3) get ce] by simp
  also have "\<dots> = [''p1'']"
    by (simp add: pf_def trader_eval_simps)
  finally show ?thesis using demo_run(3) get ce by simp
qed

end
