(* ===== verification/Performance.thy ===== *)
theory Performance
  imports Portfolio "HOL-Library.Multiset"
begin

text \<open>
  The metrics engine, class \<open>PerformanceTracker\<close> of src/src/performance.py, with
  \<open>PerformanceConfig\<close> of src/src/config.py. The tracker's state is the record
  \<open>perf_tracker\<close>: the in-memory caches \<open>_metrics\<close> and \<open>_capital_history\<close>, and the three
  SQLite tables as lists of rows (a table with a unique key as an association list,
  \<open>INSERT OR REPLACE\<close> as \<open>sql_replace\<close>). \<open>calculate_metrics\<close> returns the exception it
  would raise as a left value; its clock reading is an argument. Floats are reals,
  \<open>float('inf')\<close> is \<open>PInf\<close>; ISO timestamps are the reals they print.
\<close>

record perf_config =
  db_path :: string
  rolling_window_days :: int
  min_trades_for_ranking :: int

definition default_perf_config :: perf_config where
  "default_perf_config =
     \<lparr>db_path = ''data/performance.db'', rolling_window_days = 30, min_trades_for_ranking = 5\<rparr>"

record strategy_metrics =
  m_strategy_name :: string
  total_return :: money
  total_return_pct :: real
  sharpe_ratio :: real
  sortino_ratio :: xreal
  max_drawdown :: real
  m_total_trades :: nat
  m_winning_trades :: nat
  losing_trades :: nat
  m_win_rate :: real
  average_win :: money
  average_loss :: money
  profit_factor :: xreal
  expectancy :: money
  average_hold_time_hours :: real
  m_current_capital :: money
  peak_capital :: money
  last_updated :: timestamp

text \<open>\<open>StrategyMetrics(strategy_name=name)\<close>: every field at its default.\<close>

definition new_metrics :: "string \<Rightarrow> timestamp \<Rightarrow> strategy_metrics" where
  "new_metrics name now =
     \<lparr>m_strategy_name = name, total_return = 0, total_return_pct = 0, sharpe_ratio = 0,
      sortino_ratio = Fin 0, max_drawdown = 0, m_total_trades = 0, m_winning_trades = 0,
      losing_trades = 0, m_win_rate = 0, average_win = 0, average_loss = 0,
      profit_factor = Fin 0, expectancy = 0, average_hold_time_hours = 0,
      m_current_capital = 0, peak_capital = 0, last_updated = now\<rparr>"

text \<open>A row of the \<open>trades\<close> table; \<open>side\<close> and \<open>status\<close> are stored as their strings.\<close>

record trade_row =
  row_id :: string
  row_strategy_name :: string
  row_market_id :: string
  row_ticker :: string
  row_side :: string
  row_quantity :: int
  row_entry_price :: real
  row_entry_time :: timestamp
  row_entry_cost :: money
  row_exit_price :: "real option"
  row_exit_time :: "timestamp option"
  row_exit_value :: "money option"
  row_pnl :: money
  row_status :: string
  row_metadata :: metadata

text \<open>A row of the \<open>daily_metrics\<close> table, unique on (date, strategy_name).\<close>

record daily_row =
  dr_capital :: money
  dr_pnl :: money
  dr_trades :: nat
  dr_win_rate :: real
  dr_sharpe :: real

record perf_tracker =
  perf_cfg :: perf_config
  metrics_cache :: "strategy_metrics dict"
  capital_history :: "money list dict"
  trades_table :: "trade_row dict"
  daily_metrics_table :: "((string \<times> string) \<times> daily_row) list"
  capital_history_table :: "(timestamp \<times> string \<times> money) list"

definition init_tracker :: "perf_config \<Rightarrow> perf_tracker" where
  "init_tracker cfg =
     \<lparr>perf_cfg = cfg, metrics_cache = [], capital_history = [], trades_table = [],
      daily_metrics_table = [], capital_history_table = []\<rparr>"

section \<open>Persistence: trades and capital snapshots\<close>

fun side_str :: "side \<Rightarrow> string" where
  "side_str Yes = ''yes''"
| "side_str No = ''no''"
| "side_str Both = ''both''"

fun status_value :: "position_status \<Rightarrow> string" where
  "status_value OPEN = ''open''"
| "status_value CLOSED = ''closed''"
| "status_value EXPIRED = ''expired''"

definition trade_row_of :: "paper_position \<Rightarrow> trade_row" where
  "trade_row_of p =
     \<lparr>row_id = pos_id p, row_strategy_name = pos_strategy_name p, row_market_id = market_id p,
      row_ticker = ticker p, row_side = side_str (side p), row_quantity = quantity p,
      row_entry_price = entry_price p, row_entry_time = entry_time p,
      row_entry_cost = entry_cost p, row_exit_price = exit_price p, row_exit_time = exit_time p,
      row_exit_value = exit_value p, row_pnl = pnl p, row_status = status_value (status p),
      row_metadata = metadata p\<rparr>"

definition record_trade :: "perf_tracker \<Rightarrow> paper_position \<Rightarrow> perf_tracker" where
  "record_trade tr p =
     tr\<lparr>trades_table := sql_replace (pos_id p) (trade_row_of p) (trades_table tr)\<rparr>"

text \<open>Reading a row back into a position, the conversion the rolling-window query needs.\<close>

definition side_of_str :: "string \<Rightarrow> side option" where
  "side_of_str s = (if s = ''yes'' then Some Yes else if s = ''no'' then Some No
                    else if s = ''both'' then Some Both else None)"

definition status_of_value :: "string \<Rightarrow> position_status option" where
  "status_of_value s = (if s = ''open'' then Some OPEN else if s = ''closed'' then Some CLOSED
                        else if s = ''expired'' then Some EXPIRED else None)"

definition position_of_row :: "trade_row \<Rightarrow> paper_position option" where
  "position_of_row r =
     (case (side_of_str (row_side r), status_of_value (row_status r)) of
        (Some s, Some st) \<Rightarrow>
          Some \<lparr>pos_id = row_id r, pos_strategy_name = row_strategy_name r,
                market_id = row_market_id r, ticker = row_ticker r, side = s,
                quantity = row_quantity r, entry_price = row_entry_price r,
                entry_time = row_entry_time r, entry_cost = row_entry_cost r,
                exit_price = row_exit_price r, exit_time = row_exit_time r,
                exit_value = row_exit_value r, status = st, metadata = row_metadata r\<rparr>
      | _ \<Rightarrow> None)"

definition record_capital_snapshot ::
  "perf_tracker \<Rightarrow> string \<Rightarrow> money \<Rightarrow> timestamp \<Rightarrow> perf_tracker" where
  "record_capital_snapshot tr name capital now =
     (let hist = (case map_of (capital_history tr) name of None \<Rightarrow> [] | Some h \<Rightarrow> h)
      in tr\<lparr>capital_history_table := capital_history_table tr @ [(now, name, capital)],
            capital_history := AList.update name (hist @ [capital]) (capital_history tr)\<rparr>)"

definition save_daily_metrics ::
  "perf_tracker \<Rightarrow> string \<Rightarrow> strategy_metrics \<Rightarrow> string \<Rightarrow> perf_tracker" where
  "save_daily_metrics tr name m today =
     tr\<lparr>daily_metrics_table :=
          sql_replace (today, name)
            \<lparr>dr_capital = m_current_capital m, dr_pnl = total_return m,
             dr_trades = m_total_trades m, dr_win_rate = m_win_rate m,
             dr_sharpe = sharpe_ratio m\<rparr>
            (daily_metrics_table tr)\<rparr>"

section \<open>Ratios and drawdown\<close>

definition trades_per_year :: real where
  "trades_per_year = 2500"

definition trade_returns :: "paper_position list \<Rightarrow> money \<Rightarrow> real list" where
  "trade_returns trades initial = map (\<lambda>t. pnl t / initial) trades"

definition calculate_sharpe :: "paper_position list \<Rightarrow> money \<Rightarrow> real \<Rightarrow> py_error + real" where
  "calculate_sharpe trades initial rf =
     (if length trades < 2 then Inr 0
      else if initial = 0 then Inl ZeroDivisionError
      else
        (let returns = trade_returns trades initial;
             mean_return = sum_list returns / real (length returns);
             variance = (\<Sum>r\<leftarrow>returns. (r - mean_return)\<^sup>2) / real (length returns);
             std_return = (if variance > 0 then sqrt variance else 0)
         in if std_return = 0 then Inr 0
            else Inr ((mean_return * trades_per_year - rf) / (std_return * sqrt trades_per_year))))"

definition calculate_sortino :: "paper_position list \<Rightarrow> money \<Rightarrow> real \<Rightarrow> py_error + xreal" where
  "calculate_sortino trades initial rf =
     (if length trades < 2 then Inr (Fin 0)
      else if initial = 0 then Inl ZeroDivisionError
      else
        (let returns = trade_returns trades initial;
             mean_return = sum_list returns / real (length returns);
             negative_returns = filter (\<lambda>r. r < 0) returns
         in if negative_returns = [] then Inr PInf
            else
              (let downside_variance = (\<Sum>r\<leftarrow>negative_returns. r\<^sup>2) / real (length returns);
                   downside_std = sqrt downside_variance
               in if downside_std = 0 then Inr (Fin 0)
                  else Inr (Fin ((mean_return * trades_per_year - rf) /
                                 (downside_std * sqrt trades_per_year))))))"

text \<open>The sort key \<open>t.exit_time or t.entry_time\<close> (a datetime is always true).\<close>

definition trade_time :: "paper_position \<Rightarrow> timestamp" where
  "trade_time t = (case exit_time t of Some x \<Rightarrow> x | None \<Rightarrow> entry_time t)"

fun capital_path :: "money \<Rightarrow> paper_position list \<Rightarrow> money list" where
  "capital_path capital [] = []"
| "capital_path capital (t # ts) = (capital + pnl t) # capital_path (capital + pnl t) ts"

definition synthetic_history :: "money \<Rightarrow> paper_position list \<Rightarrow> money list" where
  "synthetic_history initial trades = initial # capital_path initial (sort_key trade_time trades)"

fun drawdown_scan :: "money \<Rightarrow> real \<Rightarrow> money list \<Rightarrow> real" where
  "drawdown_scan peak max_dd [] = max_dd"
| "drawdown_scan peak max_dd (capital # cs) =
     (let peak' = (if capital > peak then capital else peak);
          drawdown = (if peak' > 0 then (peak' - capital) / peak' else 0)
      in drawdown_scan peak' (max max_dd drawdown) cs)"

text \<open>The series the drawdown walks: the snapshots, or one rebuilt from the closed trades.\<close>

definition drawdown_history :: "perf_tracker \<Rightarrow> string \<Rightarrow> strategy_portfolio \<Rightarrow> money list" where
  "drawdown_history tr name pf =
     (let h = (case map_of (capital_history tr) name of None \<Rightarrow> [] | Some h \<Rightarrow> h)
      in if h = [] then synthetic_history (initial_capital pf) (closed_positions pf) else h)"

definition calculate_max_drawdown :: "perf_tracker \<Rightarrow> string \<Rightarrow> strategy_portfolio \<Rightarrow> real" where
  "calculate_max_drawdown tr name pf =
     (let history = drawdown_history tr name pf
      in if length history < 2 then 0 else drawdown_scan (hd history) 0 history * 100)"

fun hold_times :: "paper_position list \<Rightarrow> real list" where
  "hold_times [] = []"
| "hold_times (t # ts) =
     (case exit_time t of
        Some x \<Rightarrow> (x - entry_time t) / 3600 # hold_times ts
      | None \<Rightarrow> hold_times ts)"

section \<open>The metrics of a portfolio\<close>

text \<open>
  \<open>calculate_metrics\<close>: a portfolio without closed trades gets the default record and
  leaves the cache alone; otherwise every statistic is computed and the record is cached.
\<close>

definition calculate_metrics ::
  "perf_tracker \<Rightarrow> strategy_portfolio \<Rightarrow> timestamp \<Rightarrow>
   py_error + (strategy_metrics \<times> perf_tracker)" where
  "calculate_metrics tr pf now =
     (let name = strategy_name pf; trades = closed_positions pf;
          metrics = (new_metrics name now)\<lparr>m_current_capital := current_capital pf\<rparr>
      in if trades = [] then Inr (metrics, tr)
      else
        (let total_ret = (\<Sum>t\<leftarrow>trades. pnl t);
             wins = filter (\<lambda>t. 0 < pnl t) trades;
             losses = filter (\<lambda>t. pnl t \<le> 0) trades
         in py_bind (py_div total_ret (initial_capital pf)) (\<lambda>ret_ratio.
            let avg_win = (if wins = [] then 0 else (\<Sum>t\<leftarrow>wins. pnl t) / real (length wins));
                avg_loss = (if losses = [] then 0
                            else (\<Sum>t\<leftarrow>losses. pnl t) / real (length losses));
                gross_profit = (if wins = [] then 0 else (\<Sum>t\<leftarrow>wins. pnl t));
                gross_loss = (if losses = [] then 0 else \<bar>\<Sum>t\<leftarrow>losses. pnl t\<bar>);
                pfactor = (if gross_loss > 0 then Fin (gross_profit / gross_loss) else PInf);
                holds = hold_times trades;
                avg_hold = (if holds = [] then 0 else sum_list holds / real (length holds))
            in py_bind (calculate_sharpe trades (initial_capital pf) 0.05) (\<lambda>sharpe.
               py_bind (calculate_sortino trades (initial_capital pf) 0.05) (\<lambda>sortino.
               let dd = calculate_max_drawdown tr name pf
               in py_bind (py_max (case map_of (capital_history tr) name of
                                     None \<Rightarrow> [initial_capital pf] | Some h \<Rightarrow> h)) (\<lambda>peak.
               let m = metrics\<lparr>m_total_trades := length trades, total_return := total_ret,
                         total_return_pct := ret_ratio * 100,
                         m_winning_trades := length wins, losing_trades := length losses,
                         m_win_rate := real (length wins) / real (length trades) * 100,
                         average_win := avg_win, average_loss := avg_loss,
                         profit_factor := pfactor,
                         expectancy := total_ret / real (length trades),
                         average_hold_time_hours := avg_hold,
                         sharpe_ratio := sharpe, sortino_ratio := sortino,
                         max_drawdown := dd, peak_capital := peak, last_updated := now\<rparr>
               in Inr (m, tr\<lparr>metrics_cache := AList.update name m (metrics_cache tr)\<rparr>)))))))"

definition get_metrics :: "perf_tracker \<Rightarrow> string \<Rightarrow> strategy_metrics option" where
  "get_metrics tr name = map_of (metrics_cache tr) name"

definition get_all_metrics :: "perf_tracker \<Rightarrow> strategy_metrics dict" where
  "get_all_metrics tr = metrics_cache tr"

text \<open>The rolling query's rows are not converted yet: the cached record is returned.\<close>

definition get_rolling_metrics :: "perf_tracker \<Rightarrow> string \<Rightarrow> timestamp \<Rightarrow> strategy_metrics" where
  "get_rolling_metrics tr name now =
     (case map_of (metrics_cache tr) name of Some m \<Rightarrow> m | None \<Rightarrow> new_metrics name now)"

text \<open>Python's \<open>sorted(..., key=sharpe, reverse=True)\<close> is a stable descending sort.\<close>

definition get_leaderboard :: "perf_tracker \<Rightarrow> strategy_metrics list" where
  "get_leaderboard tr =
     sort_key (\<lambda>m. - sharpe_ratio m)
       (filter (\<lambda>m. int (m_total_trades m) \<ge> min_trades_for_ranking (perf_cfg tr))
          (dict_values (metrics_cache tr)))"

text \<open>
  The tracker's invariant: a capital history in memory is never empty (so \<open>max()\<close> of it
  cannot raise), and the keyed tables hold one row per key.
\<close>

definition tracker_inv :: "perf_tracker \<Rightarrow> bool" where
  "tracker_inv tr \<longleftrightarrow>
     list_all (\<lambda>(name, h). h \<noteq> []) (capital_history tr) \<and>
     distinct (map fst (trades_table tr)) \<and> distinct (map fst (daily_metrics_table tr))"

section \<open>Lemmas on the metrics\<close>

lemma calculate_sharpe_Inr:
  "initial \<noteq> 0 \<Longrightarrow> \<exists>s. calculate_sharpe trades initial rf = Inr s"
  by (simp add: calculate_sharpe_def Let_def)

lemma calculate_sortino_Inr:
  "initial \<noteq> 0 \<Longrightarrow> \<exists>s. calculate_sortino trades initial rf = Inr s"
  by (simp add: calculate_sortino_def Let_def)

lemma calculate_metrics_no_trades:
  "closed_positions pf = [] \<Longrightarrow>
   calculate_metrics tr pf now =
     Inr ((new_metrics (strategy_name pf) now)\<lparr>m_current_capital := current_capital pf\<rparr>, tr)"
  by (simp add: calculate_metrics_def)

lemma calculate_metrics_div_zero:
  "closed_positions pf \<noteq> [] \<Longrightarrow> initial_capital pf = 0 \<Longrightarrow>
   calculate_metrics tr pf now = Inl ZeroDivisionError"
  by (simp add: calculate_metrics_def py_div_def)

lemma calculate_metrics_trades:
  assumes "closed_positions pf \<noteq> []" and "initial_capital pf \<noteq> 0"
    and "calculate_sharpe (closed_positions pf) (initial_capital pf) 0.05 = Inr sh"
    and "calculate_sortino (closed_positions pf) (initial_capital pf) 0.05 = Inr so"
    and "py_max (case map_of (capital_history tr) (strategy_name pf) of
                   None \<Rightarrow> [initial_capital pf] | Some h \<Rightarrow> h) = Inr pk"
  shows "\<exists>m. calculate_metrics tr pf now =
              Inr (m, tr\<lparr>metrics_cache := AList.update (strategy_name pf) m (metrics_cache tr)\<rparr>)
           \<and> m_strategy_name m = strategy_name pf \<and> m_current_capital m = current_capital pf
           \<and> m_total_trades m = length (closed_positions pf)
           \<and> total_return m = (\<Sum>t\<leftarrow>closed_positions pf. pnl t)
           \<and> total_return_pct m = (\<Sum>t\<leftarrow>closed_positions pf. pnl t) / initial_capital pf * 100
           \<and> m_winning_trades m = length (filter (\<lambda>t. 0 < pnl t) (closed_positions pf))
           \<and> losing_trades m = length (filter (\<lambda>t. pnl t \<le> 0) (closed_positions pf))
           \<and> m_win_rate m = real (length (filter (\<lambda>t. 0 < pnl t) (closed_positions pf))) /
                             real (length (closed_positions pf)) * 100
           \<and> profit_factor m =
               (let wins = filter (\<lambda>t. 0 < pnl t) (closed_positions pf);
                    losses = filter (\<lambda>t. pnl t \<le> 0) (closed_positions pf);
                    gp = (if wins = [] then 0 else \<Sum>t\<leftarrow>wins. pnl t);
                    gl = (if losses = [] then 0 else \<bar>\<Sum>t\<leftarrow>losses. pnl t\<bar>)
                in if gl > 0 then Fin (gp / gl) else PInf)
           \<and> average_win m = (let wins = filter (\<lambda>t. 0 < pnl t) (closed_positions pf)
                               in if wins = [] then 0 else (\<Sum>t\<leftarrow>wins. pnl t) / real (length wins))
           \<and> average_loss m = (let losses = filter (\<lambda>t. pnl t \<le> 0) (closed_positions pf)
                               in if losses = [] then 0
                                  else (\<Sum>t\<leftarrow>losses. pnl t) / real (length losses))
           \<and> expectancy m = (\<Sum>t\<leftarrow>closed_positions pf. pnl t) / real (length (closed_positions pf))
           \<and> sharpe_ratio m = sh \<and> sortino_ratio m = so
           \<and> max_drawdown m = calculate_max_drawdown tr (strategy_name pf) pf
           \<and> peak_capital m = pk \<and> last_updated m = now"
  using assms by (simp add: calculate_metrics_def py_div_def Let_def new_metrics_def)

lemma tracker_inv_init: "tracker_inv (init_tracker cfg)"
  by (simp add: tracker_inv_def list_all_iff init_tracker_def)

lemma tracker_inv_record_trade: "tracker_inv tr \<Longrightarrow> tracker_inv (record_trade tr p)"
  by (simp add: tracker_inv_def list_all_iff record_trade_def distinct_sql_replace)

lemma tracker_inv_save_daily_metrics:
  "tracker_inv tr \<Longrightarrow> tracker_inv (save_daily_metrics tr name m today)"
  by (simp add: tracker_inv_def list_all_iff save_daily_metrics_def distinct_sql_replace)

lemma tracker_inv_record_capital_snapshot:
  assumes "tracker_inv tr"
  shows "tracker_inv (record_capital_snapshot tr name capital now)"
proof -
  let ?h = "case map_of (capital_history tr) name of None \<Rightarrow> [] | Some h \<Rightarrow> h"
  have "\<forall>(n, h) \<in> set (AList.update name (?h @ [capital]) (capital_history tr)). h \<noteq> []"
    using assms by (auto simp: tracker_inv_def list_all_iff dest!: set_update_dict)
  with assms show ?thesis
    by (simp add: tracker_inv_def list_all_iff record_capital_snapshot_def Let_def)
qed

lemma peak_source_Inr:
  assumes "tracker_inv tr"
  shows "\<exists>pk. py_max (case map_of (capital_history tr) name of
                        None \<Rightarrow> [initial] | Some h \<Rightarrow> h) = Inr pk"
proof (cases "map_of (capital_history tr) name")
  case (Some h)
  then have "(name, h) \<in> set (capital_history tr)" by (rule map_of_SomeD)
  with assms have "h \<noteq> []" by (auto simp: tracker_inv_def list_all_iff)
  with Some show ?thesis by (cases h) auto
qed simp

lemma calculate_metrics_peak_error:
  assumes "closed_positions pf \<noteq> []" and "initial_capital pf \<noteq> 0"
    and "py_max (case map_of (capital_history tr) (strategy_name pf) of
                   None \<Rightarrow> [initial_capital pf] | Some h \<Rightarrow> h) = Inl e"
  shows "calculate_metrics tr pf now = Inl e"
proof -
  obtain sh so where "calculate_sharpe (closed_positions pf) (initial_capital pf) 0.05 = Inr sh"
    and "calculate_sortino (closed_positions pf) (initial_capital pf) 0.05 = Inr so"
    using calculate_sharpe_Inr calculate_sortino_Inr assms(2) by blast
  with assms show ?thesis by (simp add: calculate_metrics_def py_div_def Let_def)
qed

lemma calculate_metrics_Inr_cases:
  assumes "calculate_metrics tr pf now = Inr (m, tr')" and "closed_positions pf \<noteq> []"
  obtains sh so pk where "initial_capital pf \<noteq> 0"
    and "calculate_sharpe (closed_positions pf) (initial_capital pf) 0.05 = Inr sh"
    and "calculate_sortino (closed_positions pf) (initial_capital pf) 0.05 = Inr so"
    and "py_max (case map_of (capital_history tr) (strategy_name pf) of
                   None \<Rightarrow> [initial_capital pf] | Some h \<Rightarrow> h) = Inr pk"
proof -
  have ic: "initial_capital pf \<noteq> 0"
    using assms calculate_metrics_div_zero by fastforce
  obtain sh so where "calculate_sharpe (closed_positions pf) (initial_capital pf) 0.05 = Inr sh"
    and "calculate_sortino (closed_positions pf) (initial_capital pf) 0.05 = Inr so"
    using calculate_sharpe_Inr calculate_sortino_Inr ic by blast
  moreover obtain pk where "py_max (case map_of (capital_history tr) (strategy_name pf) of
                   None \<Rightarrow> [initial_capital pf] | Some h \<Rightarrow> h) = Inr pk"
    using calculate_metrics_peak_error [OF assms(2) ic] assms(1) by (metis Inl_Inr_False sumE)
  ultimately show ?thesis using ic that by blast
qed

lemma calculate_metrics_InrD:
  assumes "calculate_metrics tr pf now = Inr (m, tr')" and "closed_positions pf \<noteq> []"
  shows "tr' = tr\<lparr>metrics_cache := AList.update (strategy_name pf) m (metrics_cache tr)\<rparr>
           \<and> initial_capital pf \<noteq> 0
           \<and> m_strategy_name m = strategy_name pf \<and> m_current_capital m = current_capital pf
           \<and> m_total_trades m = length (closed_positions pf)
           \<and> total_return m = (\<Sum>t\<leftarrow>closed_positions pf. pnl t)
           \<and> total_return_pct m = (\<Sum>t\<leftarrow>closed_positions pf. pnl t) / initial_capital pf * 100
           \<and> m_winning_trades m = length (filter (\<lambda>t. 0 < pnl t) (closed_positions pf))
           \<and> losing_trades m = length (filter (\<lambda>t. pnl t \<le> 0) (closed_positions pf))
           \<and> m_win_rate m = real (length (filter (\<lambda>t. 0 < pnl t) (closed_positions pf))) /
                             real (length (closed_positions pf)) * 100
           \<and> profit_factor m =
               (let wins = filter (\<lambda>t. 0 < pnl t) (closed_positions pf);
                    losses = filter (\<lambda>t. pnl t \<le> 0) (closed_positions pf);
                    gp = (if wins = [] then 0 else \<Sum>t\<leftarrow>wins. pnl t);
                    gl = (if losses = [] then 0 else \<bar>\<Sum>t\<leftarrow>losses. pnl t\<bar>)
                in if gl > 0 then Fin (gp / gl) else PInf)
           \<and> average_win m = (let wins = filter (\<lambda>t. 0 < pnl t) (closed_positions pf)
                               in if wins = [] then 0 else (\<Sum>t\<leftarrow>wins. pnl t) / real (length wins))
           \<and> average_loss m = (let losses = filter (\<lambda>t. pnl t \<le> 0) (closed_positions pf)
                               in if losses = [] then 0
                                  else (\<Sum>t\<leftarrow>losses. pnl t) / real (length losses))
           \<and> expectancy m = (\<Sum>t\<leftarrow>closed_positions pf. pnl t) / real (length (closed_positions pf))
           \<and> calculate_sharpe (closed_positions pf) (initial_capital pf) 0.05 = Inr (sharpe_ratio m)
           \<and> calculate_sortino (closed_positions pf) (initial_capital pf) 0.05 = Inr (sortino_ratio m)
           \<and> max_drawdown m = calculate_max_drawdown tr (strategy_name pf) pf
           \<and> py_max (case map_of (capital_history tr) (strategy_name pf) of
                       None \<Rightarrow> [initial_capital pf] | Some h \<Rightarrow> h) = Inr (peak_capital m)
           \<and> last_updated m = now"
proof -
  obtain sh so pk where ic: "initial_capital pf \<noteq> 0"
    and sh: "calculate_sharpe (closed_positions pf) (initial_capital pf) 0.05 = Inr sh"
    and so: "calculate_sortino (closed_positions pf) (initial_capital pf) 0.05 = Inr so"
    and pk: "py_max (case map_of (capital_history tr) (strategy_name pf) of
                   None \<Rightarrow> [initial_capital pf] | Some h \<Rightarrow> h) = Inr pk"
    using calculate_metrics_Inr_cases [OF assms] .
  from calculate_metrics_trades [OF assms(2) ic sh so pk, of now] assms(1) ic sh so pk
  show ?thesis by (elim exE conjE) auto
qed

lemma pnl_filter_map: "map pnl (filter (\<lambda>t. P (pnl t)) ts) = filter P (map pnl ts)"
  by (induction ts) auto

lemma length_filter_pnl: "length (filter (\<lambda>t. P (pnl t)) ts) = length (filter P (map pnl ts))"
  by (induction ts) auto

lemma calculate_sortino_PInf_iff:
  "initial \<noteq> 0 \<Longrightarrow>
   calculate_sortino trades initial rf = Inr PInf \<longleftrightarrow>
     2 \<le> length trades \<and> (\<forall>t\<in>set trades. \<not> pnl t / initial < 0)"
  by (auto simp: calculate_sortino_def Let_def trade_returns_def filter_empty_conv)

lemma calculate_metrics_Inr_ex:
  assumes "tracker_inv tr" and "closed_positions pf = [] \<or> initial_capital pf \<noteq> 0"
  shows "\<exists>m tr'. calculate_metrics tr pf now = Inr (m, tr')"
proof (cases "closed_positions pf = []")
  case True
  then show ?thesis by (simp add: calculate_metrics_no_trades)
next
  case False
  with assms(2) have ic: "initial_capital pf \<noteq> 0" by simp
  obtain pk where pk: "py_max (case map_of (capital_history tr) (strategy_name pf) of
                   None \<Rightarrow> [initial_capital pf] | Some h \<Rightarrow> h) = Inr pk"
    using peak_source_Inr [OF assms(1)] by blast
  obtain sh so where "calculate_sharpe (closed_positions pf) (initial_capital pf) 0.05 = Inr sh"
    and "calculate_sortino (closed_positions pf) (initial_capital pf) 0.05 = Inr so"
    using calculate_sharpe_Inr calculate_sortino_Inr ic by blast
  from calculate_metrics_trades [OF False ic this pk, of now] show ?thesis by blast
qed

text \<open>C10: the example of the specification: three closed trades of P\&L +10, -4 and +6 on an initial capital of 100 give total return 12 (12 percent), win rate 200/3 percent, profit factor 16/4 = 4, expectancy 4, average win 8 and average loss -4.\<close>

theorem calculate_metrics_example:
  assumes "map pnl (closed_positions pf) = [10, -4, 6]" and "initial_capital pf = 100"
    and "tracker_inv tr"
  shows "\<exists>m tr'. calculate_metrics tr pf now = Inr (m, tr') \<and> total_return m = 12
           \<and> total_return_pct m = 12 \<and> m_win_rate m = 200 / 3 \<and> profit_factor m = Fin 4
           \<and> expectancy m = 4 \<and> average_win m = 8 \<and> average_loss m = -4"
proof -
  have ne: "closed_positions pf \<noteq> []" using assms(1) by auto
  obtain m tr' where r: "calculate_metrics tr pf now = Inr (m, tr')"
    using calculate_metrics_Inr_ex [OF assms(3), of pf now] assms(2) by auto
  note f = calculate_metrics_InrD [OF r ne]
  have w: "map pnl (filter (\<lambda>t. 0 < pnl t) (closed_positions pf)) = [10, 6]"
    using assms(1) pnl_filter_map [of "\<lambda>x. 0 < x"] by simp
  have l: "map pnl (filter (\<lambda>t. pnl t \<le> 0) (closed_positions pf)) = [-4]"
    using assms(1) pnl_filter_map [of "\<lambda>x. x \<le> 0"] by simp
  have n: "length (closed_positions pf) = 3" using arg_cong [OF assms(1), of length] by simp
  have nw: "filter (\<lambda>t. 0 < pnl t) (closed_positions pf) \<noteq> []"
    and nl: "filter (\<lambda>t. pnl t \<le> 0) (closed_positions pf) \<noteq> []"
    using w l by auto
  have lw: "length (filter (\<lambda>t. 0 < pnl t) (closed_positions pf)) = 2"
    and ll: "length (filter (\<lambda>t. pnl t \<le> 0) (closed_positions pf)) = 1"
    using arg_cong [OF w, of length] arg_cong [OF l, of length] by simp_all
  show ?thesis
    using r f assms(1,2) by (simp add: Let_def w l n nw nl lw ll)
qed

text \<open>C11: profit factor: for a portfolio with closed trades, the computed profit factor is infinite exactly when no closed trade lost money; a break-even trade counts among the losses but contributes nothing to the gross loss.\<close>

theorem profit_factor_PInf_iff:
  assumes "calculate_metrics tr pf now = Inr (m, tr')" and "closed_positions pf \<noteq> []"
  shows "profit_factor m = PInf \<longleftrightarrow> (\<forall>t\<in>set (closed_positions pf). 0 \<le> pnl t)"
proof -
  let ?L = "filter (\<lambda>t. pnl t \<le> 0) (closed_positions pf)"
  have pfm: "profit_factor m =
               (let wins = filter (\<lambda>t. 0 < pnl t) (closed_positions pf);
                    gp = (if wins = [] then 0 else \<Sum>t\<leftarrow>wins. pnl t);
                    gl = (if ?L = [] then 0 else \<bar>\<Sum>t\<leftarrow>?L. pnl t\<bar>)
                in if gl > 0 then Fin (gp / gl) else PInf)"
    using calculate_metrics_InrD [OF assms] by (simp add: Let_def)
  have neg: "(\<Sum>t\<leftarrow>?L. pnl t) < 0 \<longleftrightarrow> (\<exists>t\<in>set ?L. pnl t < 0)"
    by (rule sum_list_map_nonpos_neg_iff) simp
  have "(\<Sum>t\<leftarrow>?L. pnl t) \<le> 0"
    by (rule sum_list_map_nonpos) simp
  then have "(if ?L = [] then 0 else \<bar>\<Sum>t\<leftarrow>?L. pnl t\<bar>) > 0 \<longleftrightarrow> (\<exists>t\<in>set ?L. pnl t < 0)"
    using neg by auto
  then show ?thesis using pfm by (auto simp: Let_def not_le)
qed

text \<open>Sortino ratio: the computed Sortino ratio is infinite exactly when there are at least two closed trades and none has a negative return pnl / initial capital.\<close>

theorem sortino_PInf_iff:
  assumes "calculate_metrics tr pf now = Inr (m, tr')"
  shows "sortino_ratio m = PInf \<longleftrightarrow>
           2 \<le> length (closed_positions pf) \<and>
           (\<forall>t\<in>set (closed_positions pf). \<not> pnl t / initial_capital pf < 0)"
proof (cases "closed_positions pf = []")
  case True
  then show ?thesis using assms by (auto simp: calculate_metrics_no_trades new_metrics_def)
next
  case False
  have ic: "initial_capital pf \<noteq> 0"
    and so: "calculate_sortino (closed_positions pf) (initial_capital pf) 0.05 = Inr (sortino_ratio m)"
    using calculate_metrics_InrD [OF assms False] by simp_all
  show ?thesis
  proof
    assume "sortino_ratio m = PInf"
    with so calculate_sortino_PInf_iff [OF ic] show "2 \<le> length (closed_positions pf) \<and>
           (\<forall>t\<in>set (closed_positions pf). \<not> pnl t / initial_capital pf < 0)" by simp
  next
    assume "2 \<le> length (closed_positions pf) \<and>
           (\<forall>t\<in>set (closed_positions pf). \<not> pnl t / initial_capital pf < 0)"
    with so calculate_sortino_PInf_iff [OF ic, of "closed_positions pf" "0.05"]
    show "sortino_ratio m = PInf" by auto
  qed
qed

section \<open>Drawdown, leaderboard and persistence\<close>

lemma drawdown_scan_sorted:
  "sorted cs \<Longrightarrow> (\<forall>c\<in>set cs. peak \<le> c) \<Longrightarrow> 0 \<le> mx \<Longrightarrow> drawdown_scan peak mx cs = mx"
proof (induction cs arbitrary: peak)
  case (Cons c cs)
  have "(if c > peak then c else peak) = c" using Cons.prems(2) by auto
  moreover have "drawdown_scan c mx cs = mx" using Cons.prems by (intro Cons.IH) auto
  moreover have "max mx 0 = mx" using Cons.prems(3) by simp
  ultimately show ?case by (simp add: Let_def)
qed simp

lemma drawdown_scan_ge: "mx \<le> drawdown_scan peak mx cs"
  by (induction cs arbitrary: peak mx) (auto simp: Let_def intro: order_trans [OF max.cobounded1])

lemma drawdown_scan_le_1:
  "mx \<le> 1 \<Longrightarrow> (\<forall>c\<in>set cs. 0 \<le> c) \<Longrightarrow> drawdown_scan peak mx cs \<le> 1"
proof (induction cs arbitrary: peak mx)
  case (Cons c cs)
  let ?p = "if c > peak then c else peak"
  have "(if ?p > 0 then (?p - c) / ?p else 0) \<le> 1"
    using Cons.prems(2) by (simp add: divide_le_eq)
  with Cons.prems show ?case by (simp add: Let_def Cons.IH)
qed simp

lemma sorted_capital_path:
  "(\<forall>t\<in>set ts. 0 \<le> pnl t) \<Longrightarrow> sorted (c # capital_path c ts)"
proof (induction ts arbitrary: c)
  case (Cons t ts)
  have s: "sorted ((c + pnl t) # capital_path (c + pnl t) ts)" using Cons by simp
  have "\<forall>x\<in>set (capital_path (c + pnl t) ts). c \<le> x"
  proof
    fix x assume "x \<in> set (capital_path (c + pnl t) ts)"
    with s have "c + pnl t \<le> x" by simp
    moreover have "0 \<le> pnl t" using Cons.prems by simp
    ultimately show "c \<le> x" by linarith
  qed
  with s Cons.prems show ?case by simp
qed simp

lemma sorted_synthetic_history:
  "(\<forall>t\<in>set ts. 0 \<le> pnl t) \<Longrightarrow> sorted (synthetic_history initial ts)"
  unfolding synthetic_history_def by (rule sorted_capital_path) simp

lemma drawdown_history_synthetic:
  "map_of (capital_history tr) name = None \<Longrightarrow>
   drawdown_history tr name pf = synthetic_history (initial_capital pf) (closed_positions pf)"
  by (simp add: drawdown_history_def)

text \<open>The maximum drawdown of a monotonically non-decreasing capital series is 0: whenever the series the code walks (the recorded snapshots, or the series rebuilt from the closed trades) is sorted, calculate_max_drawdown returns 0.\<close>

theorem max_drawdown_monotone:
  assumes "sorted (drawdown_history tr name pf)"
  shows "calculate_max_drawdown tr name pf = 0"
proof (cases "drawdown_history tr name pf")
  case (Cons c cs)
  then have "drawdown_scan c 0 (c # cs) = 0"
    using assms by (intro drawdown_scan_sorted) auto
  with Cons show ?thesis by (simp add: calculate_max_drawdown_def Let_def del: drawdown_scan.simps)
qed (simp add: calculate_max_drawdown_def)


text \<open>C15: the leaderboard lists exactly the cached metrics of strategies with at least min_trades_for_ranking trades (as a multiset), in descending order of Sharpe ratio, and strategies with equal Sharpe ratio keep the order of the cache (a stable sort).\<close>

theorem get_leaderboard_spec:
  "sorted_wrt (\<ge>) (map sharpe_ratio (get_leaderboard tr)) \<and>
   mset (get_leaderboard tr) =
     mset (filter (\<lambda>m. int (m_total_trades m) \<ge> min_trades_for_ranking (perf_cfg tr))
             (dict_values (metrics_cache tr))) \<and>
   (\<forall>s. filter (\<lambda>m. sharpe_ratio m = s) (get_leaderboard tr) =
        filter (\<lambda>m. sharpe_ratio m = s)
          (filter (\<lambda>m. int (m_total_trades m) \<ge> min_trades_for_ranking (perf_cfg tr))
             (dict_values (metrics_cache tr))))"
proof (intro conjI allI)
  let ?f = "\<lambda>m. - sharpe_ratio m"
  let ?q = "filter (\<lambda>m. int (m_total_trades m) \<ge> min_trades_for_ranking (perf_cfg tr))
             (dict_values (metrics_cache tr))"
  have "sorted (map ?f (sort_key ?f ?q))" by (rule sorted_sort_key)
  then show "sorted_wrt (\<ge>) (map sharpe_ratio (get_leaderboard tr))"
    by (simp add: get_leaderboard_def sorted_map sorted_wrt_map)
  show "mset (get_leaderboard tr) = mset ?q" by (simp add: get_leaderboard_def)
  fix s
  have "filter (\<lambda>m. ?f m = - s) (sort_key ?f ?q) = filter (\<lambda>m. ?f m = - s) ?q"
    by (rule sort_key_stable)
  then show "filter (\<lambda>m. sharpe_ratio m = s) (get_leaderboard tr) = filter (\<lambda>m. sharpe_ratio m = s) ?q"
    by (simp add: get_leaderboard_def)
qed


section \<open>Errors, agreement with the portfolio and the invariant\<close>

lemma tracker_inv_calculate_metrics:
  assumes "tracker_inv tr" and "calculate_metrics tr pf now = Inr (m, tr')"
  shows "tracker_inv tr'"
proof (cases "closed_positions pf = []")
  case True
  then show ?thesis using assms by (simp add: calculate_metrics_no_trades)
next
  case False
  then have "tr' = tr\<lparr>metrics_cache := AList.update (strategy_name pf) m (metrics_cache tr)\<rparr>"
    using calculate_metrics_InrD [OF assms(2)] by blast
  with assms(1) show ?thesis by (simp add: tracker_inv_def list_all_iff)
qed


text \<open>C18: calculate_metrics raises only ZeroDivisionError, and exactly when the portfolio has closed trades and an initial capital of 0 (on a tracker satisfying its invariant); in every other case it returns metrics.\<close>

theorem calculate_metrics_raises_iff:
  assumes "tracker_inv tr"
  shows "calculate_metrics tr pf now = Inl e \<longleftrightarrow>
           e = ZeroDivisionError \<and> closed_positions pf \<noteq> [] \<and> initial_capital pf = 0"
proof (cases "closed_positions pf \<noteq> [] \<and> initial_capital pf = 0")
  case True
  then show ?thesis using calculate_metrics_div_zero by auto
next
  case False
  then obtain m tr' where "calculate_metrics tr pf now = Inr (m, tr')"
    using calculate_metrics_Inr_ex [OF assms] by blast
  with False show ?thesis by auto
qed

text \<open>C19: the metrics agree with the portfolio's own statistics (StrategyPortfolio.total_pnl, total_trades, winning_trades and win_rate) and carry its current capital; a portfolio with closed trades has its record cached, while one without closed trades gets the default record and the tracker, cache included, is left unchanged.\<close>

theorem calculate_metrics_agrees:
  assumes "calculate_metrics tr pf now = Inr (m, tr')"
  shows "total_return m = total_pnl pf \<and> m_total_trades m = total_trades pf \<and>
         m_winning_trades m = winning_trades pf \<and> m_win_rate m = win_rate pf \<and>
         m_current_capital m = current_capital pf \<and>
         (if closed_positions pf = [] then tr' = tr
          else get_metrics tr' (strategy_name pf) = Some m)"
proof (cases "closed_positions pf = []")
  case True
  then show ?thesis using assms
    by (auto simp: calculate_metrics_no_trades new_metrics_def total_pnl_def total_trades_def
        winning_trades_def win_rate_def)
next
  case False
  note f = calculate_metrics_InrD [OF assms False]
  then show ?thesis using False
    by (simp add: total_pnl_def total_trades_def winning_trades_def win_rate_def get_metrics_def
        map_of_update_dict)
qed

text \<open>A Sharpe ratio is never infinite for lack of dispersion: when every closed trade has the same P\&L, the standard deviation is 0 and calculate_sharpe returns 0 (for a non-zero initial capital).\<close>

theorem calculate_sharpe_constant:
  assumes "initial \<noteq> 0" and "\<forall>t\<in>set trades. pnl t = c"
  shows "calculate_sharpe trades initial rf = Inr 0"
proof (cases "length trades < 2")
  case False
  have r: "trade_returns trades initial = replicate (length trades) (c / initial)"
    using assms(2) by (simp add: trade_returns_def map_replicate_const [symmetric] cong: map_cong)
  have n: "real (length trades) \<noteq> 0" using False by (cases trades) simp_all
  then have "sum_list (replicate (length trades) (c / initial)) / real (length trades) = c / initial"
    by (simp add: sum_list_replicate)
  with r n False assms(1) show ?thesis
    by (simp add: calculate_sharpe_def Let_def sum_list_replicate)
qed (simp add: calculate_sharpe_def)

section \<open>Ranges of the computed metrics\<close>

lemma calculate_max_drawdown_nonneg: "0 \<le> calculate_max_drawdown tr name pf"
proof (cases "drawdown_history tr name pf")
  case (Cons c cs)
  have "0 \<le> drawdown_scan c 0 (c # cs)" by (rule drawdown_scan_ge)
  then show ?thesis
    using Cons by (auto simp: calculate_max_drawdown_def Let_def simp del: drawdown_scan.simps)
qed (simp add: calculate_max_drawdown_def)

lemma calculate_metrics_ranges:
  assumes "calculate_metrics tr pf now = Inr (m, tr')"
  shows "0 \<le> m_win_rate m \<and> m_win_rate m \<le> 100 \<and> 0 \<le> max_drawdown m"
proof (cases "closed_positions pf = []")
  case True
  then show ?thesis using assms by (auto simp: calculate_metrics_no_trades new_metrics_def)
next
  case False
  have "m_win_rate m = win_rate pf \<and> max_drawdown m = calculate_max_drawdown tr (strategy_name pf) pf"
    using calculate_metrics_InrD [OF assms False] False
    by (simp add: win_rate_def winning_trades_def total_trades_def)
  then show ?thesis using win_rate_bounds [of pf] calculate_max_drawdown_nonneg by simp
qed

section \<open>Witnesses on concrete portfolios\<close>

lemma calculate_metrics_projr:
  assumes "tracker_inv tr" and "closed_positions pf = [] \<or> initial_capital pf \<noteq> 0"
  shows "calculate_metrics tr pf now =
           Inr (fst (projr (calculate_metrics tr pf now)), snd (projr (calculate_metrics tr pf now)))"
  using calculate_metrics_Inr_ex [OF assms, of now] by auto

abbreviation demo_trade :: "string \<Rightarrow> money \<Rightarrow> paper_position" where
  "demo_trade i v \<equiv>
     \<lparr>pos_id = i, pos_strategy_name = ''MarketMaking'', market_id = ''KXM'', ticker = ''KXM'',
      side = Yes, quantity = 10, entry_price = 1/2, entry_time = 0, entry_cost = 5,
      exit_price = None, exit_time = Some 3600, exit_value = Some (5 + v), status = CLOSED,
      metadata = []\<rparr>"

abbreviation demo_pf :: "money \<Rightarrow> paper_position list \<Rightarrow> strategy_portfolio" where
  "demo_pf ic ts \<equiv> (new_portfolio ''MarketMaking'' ic)\<lparr>closed_positions := ts\<rparr>"

abbreviation demo_tracker :: perf_tracker where
  "demo_tracker \<equiv> init_tracker default_perf_config"

abbreviation example_pf :: strategy_portfolio where
  "example_pf \<equiv> demo_pf 100 [demo_trade ''t1'' 10, demo_trade ''t2'' (-4), demo_trade ''t3'' 6]"

abbreviation break_even_pf :: strategy_portfolio where
  "break_even_pf \<equiv> demo_pf 50 [demo_trade ''t1'' 0, demo_trade ''t2'' 0]"

lemma demo_run_metrics:
  "calculate_metrics demo_tracker example_pf 0 =
     Inr (fst (projr (calculate_metrics demo_tracker example_pf 0)),
          snd (projr (calculate_metrics demo_tracker example_pf 0)))"
  "calculate_metrics demo_tracker break_even_pf 0 =
     Inr (fst (projr (calculate_metrics demo_tracker break_even_pf 0)),
          snd (projr (calculate_metrics demo_tracker break_even_pf 0)))"
  by (rule calculate_metrics_projr; simp add: tracker_inv_init new_portfolio_def)+

theorem calculate_metrics_example_witness:
  "map pnl (closed_positions example_pf) = [10, -4, 6] \<and> initial_capital example_pf = 100 \<and>
   tracker_inv demo_tracker \<and>
   (\<exists>m tr'. calculate_metrics demo_tracker example_pf 0 = Inr (m, tr') \<and> total_return m = 12
      \<and> total_return_pct m = 12 \<and> m_win_rate m = 200 / 3 \<and> profit_factor m = Fin 4
      \<and> expectancy m = 4 \<and> average_win m = 8 \<and> average_loss m = -4)"
  using calculate_metrics_example [of example_pf demo_tracker 0]
  by (simp add: pnl_def new_portfolio_def tracker_inv_init)

theorem profit_factor_PInf_iff_witness:
  "calculate_metrics demo_tracker break_even_pf 0 =
     Inr (fst (projr (calculate_metrics demo_tracker break_even_pf 0)),
          snd (projr (calculate_metrics demo_tracker break_even_pf 0))) \<and>
   closed_positions break_even_pf \<noteq> [] \<and>
   profit_factor (fst (projr (calculate_metrics demo_tracker break_even_pf 0))) = PInf \<and>
   m_winning_trades (fst (projr (calculate_metrics demo_tracker break_even_pf 0))) = 0"
proof -
  note r = demo_run_metrics(2)
  have ne: "closed_positions break_even_pf \<noteq> []" by (simp add: new_portfolio_def)
  have "m_winning_trades (fst (projr (calculate_metrics demo_tracker break_even_pf 0))) = 0"
    using calculate_metrics_InrD [OF r ne] by (simp add: pnl_def new_portfolio_def)
  with profit_factor_PInf_iff [OF r ne] r ne show ?thesis by (simp add: pnl_def new_portfolio_def)
qed

theorem sortino_PInf_iff_witness:
  "calculate_metrics demo_tracker break_even_pf 0 =
     Inr (fst (projr (calculate_metrics demo_tracker break_even_pf 0)),
          snd (projr (calculate_metrics demo_tracker break_even_pf 0))) \<and>
   sortino_ratio (fst (projr (calculate_metrics demo_tracker break_even_pf 0))) = PInf"
  using sortino_PInf_iff [OF demo_run_metrics(2)] demo_run_metrics(2)
  by (simp add: pnl_def new_portfolio_def)

abbreviation snapshots_tracker :: "money \<Rightarrow> money \<Rightarrow> perf_tracker" where
  "snapshots_tracker a b \<equiv>
     record_capital_snapshot (record_capital_snapshot demo_tracker ''MarketMaking'' a 0)
       ''MarketMaking'' b 60"

theorem max_drawdown_monotone_witness:
  "sorted (drawdown_history (snapshots_tracker 50 60) ''MarketMaking'' break_even_pf) \<and>
   calculate_max_drawdown (snapshots_tracker 50 60) ''MarketMaking'' break_even_pf = 0"
proof -
  have "sorted (drawdown_history (snapshots_tracker 50 60) ''MarketMaking'' break_even_pf)"
    by (simp add: drawdown_history_def record_capital_snapshot_def init_tracker_def)
  with max_drawdown_monotone [OF this] show ?thesis by simp
qed



theorem calculate_metrics_raises_iff_witness:
  "tracker_inv demo_tracker \<and>
   calculate_metrics demo_tracker (demo_pf 0 [demo_trade ''t1'' 1]) 0 = Inl ZeroDivisionError"
  using calculate_metrics_raises_iff [OF tracker_inv_init, of default_perf_config
      "demo_pf 0 [demo_trade ''t1'' 1]" 0 ZeroDivisionError]
  by (simp add: tracker_inv_init new_portfolio_def)

theorem calculate_metrics_agrees_witness:
  "calculate_metrics demo_tracker example_pf 0 =
     Inr (fst (projr (calculate_metrics demo_tracker example_pf 0)),
          snd (projr (calculate_metrics demo_tracker example_pf 0))) \<and>
   m_win_rate (fst (projr (calculate_metrics demo_tracker example_pf 0))) = win_rate example_pf \<and>
   get_metrics (snd (projr (calculate_metrics demo_tracker example_pf 0))) ''MarketMaking'' =
     Some (fst (projr (calculate_metrics demo_tracker example_pf 0)))"
  using calculate_metrics_agrees [OF demo_run_metrics(1)] demo_run_metrics(1)
  by (simp add: new_portfolio_def)

theorem calculate_sharpe_constant_witness:
  "map pnl [demo_trade ''t1'' 0, demo_trade ''t2'' 0] = [0, 0] \<and>
   calculate_sharpe [demo_trade ''t1'' 0, demo_trade ''t2'' 0] 50 0.05 = Inr 0"
  using calculate_sharpe_constant [of 50 "[demo_trade ''t1'' 0, demo_trade ''t2'' 0]" 0 "0.05"]
  by (simp add: pnl_def)

end
