(* ===== verification/Allocator.thy ===== *)
theory Allocator
  imports PaperTrader Performance
begin

text \<open>
  The capital allocator, class \<open>CapitalAllocator\<close> of src/src/allocator.py, with
  \<open>AllocatorConfig\<close> of src/src/config.py. The allocator's own state is the record
  \<open>capital_allocator\<close>; its operations also read and change the performance tracker
  (\<open>calculate_metrics\<close> caches) and the paper trader (\<open>rebalance\<close> overwrites capital),
  so they take and return all three. Ranking is split, as in the code, from the
  allocation of capital to a ranking (\<open>allocate\<close>). The clock is an argument.
\<close>

record allocator_config =
  rebalance_interval_hours :: real
  min_sharpe_ratio :: real
  performance_weight :: real
  risk_weight :: real

definition default_allocator_config :: allocator_config where
  "default_allocator_config =
     \<lparr>rebalance_interval_hours = 24, min_sharpe_ratio = 0.5, performance_weight = 0.7,
      risk_weight = 0.3\<rparr>"

datatype alloc_reason =
  EqualAllocationNoQualified | HighPerformer | ModeratePerformer | InsufficientHistory
  | LowPerformer

record allocation_result =
  ar_strategy_name :: string
  ar_current_capital :: money
  new_allocation :: money
  allocation_change :: money
  rank :: nat
  score :: real
  reason :: alloc_reason

record capital_allocator =
  alloc_cfg :: allocator_config
  total_capital :: money
  last_rebalance :: "timestamp option"
  allocation_history :: "(timestamp \<times> allocation_result list) list"

definition init_allocator :: "allocator_config \<Rightarrow> money \<Rightarrow> capital_allocator" where
  "init_allocator cfg total_cap =
     \<lparr>alloc_cfg = cfg, total_capital = total_cap, last_rebalance = None, allocation_history = []\<rparr>"

section \<open>Scoring and ranking\<close>

text \<open>\<open>max(0, min(1, (profit_factor - 1) / 2))\<close>, where \<open>inf - 1\<close> is \<open>inf\<close> and clamps to 1.\<close>

fun profit_factor_score :: "xreal \<Rightarrow> real" where
  "profit_factor_score (Fin a) = max 0 (min 1 ((a - 1) / 2))"
| "profit_factor_score PInf = 1"

definition calculate_strategy_score :: "allocator_config \<Rightarrow> strategy_metrics \<Rightarrow> real" where
  "calculate_strategy_score cfg m =
     (if m_total_trades m < 3 then 0
      else
        (let sharpe_score = max 0 (min 1 (sharpe_ratio m / 2));
             win_rate_score = m_win_rate m / 100;
             pf_score = profit_factor_score (profit_factor m);
             drawdown_penalty = min 1 (max_drawdown m / 20);
             performance_score = 0.4 * sharpe_score + 0.3 * win_rate_score + 0.3 * pf_score;
             s = performance_weight cfg * performance_score - risk_weight cfg * drawdown_penalty
         in max 0 s))"

type_synonym ranking = "string \<times> real \<times> strategy_metrics"

text \<open>The loop of \<open>rank_strategies\<close>: fresh metrics for every portfolio, in dict order.\<close>

fun score_portfolios ::
  "allocator_config \<Rightarrow> perf_tracker \<Rightarrow> strategy_portfolio dict \<Rightarrow> timestamp \<Rightarrow>
   py_error + (ranking list \<times> perf_tracker)" where
  "score_portfolios cfg tr [] now = Inr ([], tr)"
| "score_portfolios cfg tr ((name, pf) # ps) now =
     py_bind (calculate_metrics tr pf now) (\<lambda>(m, tr').
       py_bind (score_portfolios cfg tr' ps now) (\<lambda>(rs, tr'').
         Inr ((name, calculate_strategy_score cfg m, m) # rs, tr'')))"

text \<open>\<open>rankings.sort(key=score, reverse=True)\<close>: a stable sort by descending score.\<close>

definition rank_strategies ::
  "capital_allocator \<Rightarrow> perf_tracker \<Rightarrow> paper_trader \<Rightarrow> timestamp \<Rightarrow>
   py_error + (ranking list \<times> perf_tracker)" where
  "rank_strategies a tr t now =
     py_bind (score_portfolios (alloc_cfg a) tr (portfolios t) now) (\<lambda>(rs, tr').
       Inr (sort_key (\<lambda>(name, s, m). - s) rs, tr'))"

section \<open>Allocation\<close>

definition portfolio_capital :: "paper_trader \<Rightarrow> string \<Rightarrow> money" where
  "portfolio_capital t name =
     (case get_portfolio t name of Some pf \<Rightarrow> current_capital pf | None \<Rightarrow> 0)"

definition alloc_reason_of :: "real \<Rightarrow> strategy_metrics \<Rightarrow> alloc_reason" where
  "alloc_reason_of s m =
     (if s \<ge> 0.5 then HighPerformer else if s \<ge> 0.25 then ModeratePerformer
      else if m_total_trades m < 5 then InsufficientHistory else LowPerformer)"

definition equal_result :: "paper_trader \<Rightarrow> money \<Rightarrow> nat \<times> ranking \<Rightarrow> allocation_result" where
  "equal_result t per = (\<lambda>(k, (name, s, m)).
     \<lparr>ar_strategy_name = name, ar_current_capital = portfolio_capital t name,
      new_allocation = per, allocation_change = per - portfolio_capital t name,
      rank = k, score = s, reason = EqualAllocationNoQualified\<rparr>)"

text \<open>One iteration of the allocation loop over the qualified strategies.\<close>

definition proportional_result ::
  "paper_trader \<Rightarrow> money \<Rightarrow> real \<Rightarrow> nat \<Rightarrow> money \<Rightarrow> nat \<times> ranking \<Rightarrow> allocation_result" where
  "proportional_result t total_cap total_score nq min_allocation = (\<lambda>(k, (name, s, m)).
     (let current = portfolio_capital t name;
          base_allocation = (if total_score > 0 then s / total_score * total_cap
                             else total_cap / real nq);
          na = min (max min_allocation base_allocation) (total_cap * 0.5)
      in \<lparr>ar_strategy_name = name, ar_current_capital = current, new_allocation = na,
          allocation_change = na - current, rank = k, score = s,
          reason = alloc_reason_of s m\<rparr>))"

definition normalize_allocations ::
  "money \<Rightarrow> allocation_result list \<Rightarrow> py_error + allocation_result list" where
  "normalize_allocations total_cap rs =
     (let total_allocated = (\<Sum>r\<leftarrow>rs. new_allocation r)
      in if total_allocated > total_cap then
           py_bind (py_div total_cap total_allocated) (\<lambda>scale.
             Inr (map (\<lambda>r. let na = new_allocation r * scale
                           in r\<lparr>new_allocation := na,
                                allocation_change := na - ar_current_capital r\<rparr>) rs))
         else Inr rs)"

definition qualifies :: "int \<Rightarrow> ranking \<Rightarrow> bool" where
  "qualifies min_trades = (\<lambda>(name, s, m). s > 0 \<or> int (m_total_trades m) < min_trades)"

definition allocate ::
  "money \<Rightarrow> int \<Rightarrow> paper_trader \<Rightarrow> ranking list \<Rightarrow> py_error + allocation_result list" where
  "allocate total_cap min_trades t rankings =
     (if rankings = [] then Inr []
      else
        (let qualified = filter (qualifies min_trades) rankings
         in if qualified = [] then
              Inr (map (equal_result t (total_cap / real (length rankings))) (enumerate 1 rankings))
            else
              (let total_score = (\<Sum>r\<leftarrow>qualified. fst (snd r));
                   min_allocation = total_cap / real (length qualified) * 0.1
               in normalize_allocations total_cap
                    (map (proportional_result t total_cap total_score (length qualified) min_allocation)
                       (enumerate 1 qualified)))))"

definition calculate_allocations ::
  "capital_allocator \<Rightarrow> perf_tracker \<Rightarrow> paper_trader \<Rightarrow> timestamp \<Rightarrow>
   py_error + (allocation_result list \<times> perf_tracker)" where
  "calculate_allocations a tr t now =
     py_bind (rank_strategies a tr t now) (\<lambda>(rankings, tr').
       py_bind (allocate (total_capital a) (min_trades_for_ranking (perf_cfg tr)) t rankings)
         (\<lambda>rs. Inr (rs, tr')))"

section \<open>Rebalancing\<close>

definition should_rebalance :: "capital_allocator \<Rightarrow> timestamp \<Rightarrow> bool" where
  "should_rebalance a now =
     (case last_rebalance a of
        None \<Rightarrow> True
      | Some last_time \<Rightarrow> now - last_time \<ge> rebalance_interval_hours (alloc_cfg a) * 3600)"

text \<open>The body of the rebalance loop: overwrite the capital and reset the baseline.\<close>

definition set_allocation :: "allocation_result \<Rightarrow> paper_trader \<Rightarrow> paper_trader" where
  "set_allocation ar t =
     (case get_portfolio t (ar_strategy_name ar) of
        None \<Rightarrow> t
      | Some pf \<Rightarrow>
          t\<lparr>portfolios := AList.update (ar_strategy_name ar)
             (pf\<lparr>current_capital := new_allocation ar, initial_capital := new_allocation ar\<rparr>)
             (portfolios t)\<rparr>)"

definition rebalance ::
  "capital_allocator \<Rightarrow> perf_tracker \<Rightarrow> paper_trader \<Rightarrow> timestamp \<Rightarrow>
   py_error + (allocation_result list \<times> capital_allocator \<times> perf_tracker \<times> paper_trader)" where
  "rebalance a tr t now =
     (if \<not> should_rebalance a now then Inr ([], a, tr, t)
      else
        py_bind (calculate_allocations a tr t now) (\<lambda>(allocs, tr').
          Inr (allocs,
               a\<lparr>last_rebalance := Some now,
                 allocation_history := allocation_history a @ [(now, allocs)]\<rparr>,
               tr', fold set_allocation allocs t)))"

record summary_row =
  sr_name :: string
  sr_allocation :: money
  sr_allocation_pct :: real
  sr_rank :: nat
  sr_score :: real
  sr_reason :: alloc_reason

definition summary_row_of :: "money \<Rightarrow> allocation_result \<Rightarrow> py_error + summary_row" where
  "summary_row_of total_cap ar =
     py_bind (py_div (new_allocation ar) total_cap) (\<lambda>frac.
       Inr \<lparr>sr_name = ar_strategy_name ar, sr_allocation = new_allocation ar,
            sr_allocation_pct = frac * 100, sr_rank = rank ar, sr_score = score ar,
            sr_reason = reason ar\<rparr>)"

definition get_allocation_summary ::
  "capital_allocator \<Rightarrow> perf_tracker \<Rightarrow> paper_trader \<Rightarrow> timestamp \<Rightarrow>
   py_error + ((money \<times> timestamp option \<times> summary_row list) \<times> perf_tracker)" where
  "get_allocation_summary a tr t now =
     py_bind (calculate_allocations a tr t now) (\<lambda>(allocs, tr').
       py_bind (py_map (summary_row_of (total_capital a)) allocs) (\<lambda>rows.
         Inr ((total_capital a, last_rebalance a, rows), tr')))"

section \<open>Allocation bounds\<close>

lemma map_snd_enumerate: "map (\<lambda>p. g (snd p)) (enumerate n xs) = map g xs"
  by (induction xs arbitrary: n) auto

lemma sum_equal_results:
  "(\<Sum>r\<leftarrow>map (equal_result t per) xs. new_allocation r) = real (length xs) * per"
  by (induction xs) (auto simp: equal_result_def split_def algebra_simps)

lemma equal_result_simps [simp]:
  "new_allocation (equal_result t per p) = per"
  "ar_strategy_name (equal_result t per p) = fst (snd p)"
  by (simp_all add: equal_result_def split_def)

lemma proportional_result_simps [simp]:
  "ar_strategy_name (proportional_result t tc ts nq ma p) = fst (snd p)"
  "new_allocation (proportional_result t tc ts nq ma p) =
     min (max ma (if ts > 0 then fst (snd (snd p)) / ts * tc else tc / real nq)) (tc * 0.5)"
  by (simp_all add: proportional_result_def split_def Let_def)

lemma normalize_allocations_Inr:
  assumes "normalize_allocations tc rs = Inr rs'"
  shows "(\<Sum>r\<leftarrow>rs'. new_allocation r) \<le> tc \<and> map ar_strategy_name rs' = map ar_strategy_name rs \<and>
         ((\<forall>r\<in>set rs. 0 \<le> new_allocation r) \<longrightarrow> 0 \<le> tc \<longrightarrow> (\<forall>r\<in>set rs'. 0 \<le> new_allocation r))"
proof (cases "(\<Sum>r\<leftarrow>rs. new_allocation r) > tc")
  case True
  let ?S = "\<Sum>r\<leftarrow>rs. new_allocation r"
  have S0: "?S \<noteq> 0"
  proof
    assume "?S = 0"
    then have "normalize_allocations tc rs = Inl ZeroDivisionError"
      using True by (simp add: normalize_allocations_def py_div_def)
    with assms show False by simp
  qed
  define sc where "sc = tc / ?S"
  then have rs': "rs' = map (\<lambda>r. r\<lparr>new_allocation := new_allocation r * sc,
                         allocation_change := new_allocation r * sc - ar_current_capital r\<rparr>) rs"
    using assms True S0 by (simp add: normalize_allocations_def py_div_def Let_def)
  have "(\<Sum>r\<leftarrow>rs'. new_allocation r) = ?S * sc"
    by (simp add: rs' o_def sum_list_map_scale_right)
  also have "\<dots> = tc" using S0 by (simp add: sc_def)
  finally have "(\<Sum>r\<leftarrow>rs'. new_allocation r) \<le> tc" by simp
  moreover have "(\<forall>r\<in>set rs. 0 \<le> new_allocation r) \<longrightarrow> 0 \<le> tc \<longrightarrow> (\<forall>r\<in>set rs'. 0 \<le> new_allocation r)"
    using True by (auto simp: rs' sc_def)
  ultimately show ?thesis by (simp add: rs' o_def)
next
  case False
  then show ?thesis using assms by (simp add: normalize_allocations_def Let_def)
qed

lemma allocate_Inr:
  assumes "allocate tc mt t rankings = Inr allocs" and "0 \<le> tc"
  shows "(\<Sum>r\<leftarrow>allocs. new_allocation r) \<le> tc \<and> (\<forall>r\<in>set allocs. 0 \<le> new_allocation r) \<and>
         map ar_strategy_name allocs =
           map fst (if filter (qualifies mt) rankings = [] then rankings
                    else filter (qualifies mt) rankings)"
proof -
  let ?q = "filter (qualifies mt) rankings"
  consider (none) "rankings = []" | (eq) "rankings \<noteq> []" "?q = []"
    | (some) "rankings \<noteq> []" "?q \<noteq> []" by blast
  then show ?thesis
  proof cases
    case none
    then show ?thesis using assms by (simp add: allocate_def)
  next
    case eq
    then have a: "allocs = map (equal_result t (tc / real (length rankings))) (enumerate 1 rankings)"
      using assms(1) by (simp add: allocate_def)
    have "(\<Sum>r\<leftarrow>allocs. new_allocation r) =
          real (length (enumerate 1 rankings)) * (tc / real (length rankings))"
      by (simp only: a sum_equal_results)
    then have "(\<Sum>r\<leftarrow>allocs. new_allocation r) = tc" using eq(1) by simp
    with a eq assms(2) show ?thesis
      by (simp add: o_def map_snd_enumerate [of "\<lambda>r. fst r"])
  next
    case some
    let ?ma = "tc / real (length ?q) * 0.1"
    let ?rs = "map (proportional_result t tc (\<Sum>r\<leftarrow>?q. fst (snd r)) (length ?q) ?ma) (enumerate 1 ?q)"
    have n: "normalize_allocations tc ?rs = Inr allocs"
      using assms(1) some by (simp add: allocate_def Let_def)
    have ma0: "0 \<le> ?ma" using assms(2) by simp
    have "\<forall>r\<in>set ?rs. 0 \<le> new_allocation r"
    proof
      fix r assume "r \<in> set ?rs"
      then obtain p where "r = proportional_result t tc (\<Sum>r\<leftarrow>?q. fst (snd r)) (length ?q) ?ma p"
        by auto
      then show "0 \<le> new_allocation r"
        using ma0 assms(2) by (simp only: proportional_result_simps min.bounded_iff le_max_iff_disj) simp
    qed
    moreover have "map ar_strategy_name ?rs = map fst ?q"
      by (simp add: o_def map_snd_enumerate [of "\<lambda>r. fst r"])
    ultimately show ?thesis using normalize_allocations_Inr [OF n] assms(2) some by simp
  qed
qed

section \<open>Scores and ranking\<close>

abbreviation spec_rankings :: "strategy_metrics \<Rightarrow> strategy_metrics \<Rightarrow> ranking list" where
  "spec_rankings mA mB \<equiv>
     [(''A'', 0.6, mA), (''B'', 0.3, mB),
      (''C'', 0, (new_metrics ''C'' 0)\<lparr>m_total_trades := 2\<rparr>)]"

lemma profit_factor_score_le_1: "profit_factor_score x \<le> 1"
  by (cases x) auto

lemma strategy_score_le:
  assumes "0 \<le> performance_weight cfg" and "0 \<le> risk_weight cfg"
    and "0 \<le> max_drawdown m" and "m_win_rate m \<le> 100"
  shows "calculate_strategy_score cfg m \<le> performance_weight cfg"
proof -
  let ?ps = "0.4 * max 0 (min 1 (sharpe_ratio m / 2)) + 0.3 * (m_win_rate m / 100)
             + 0.3 * profit_factor_score (profit_factor m)"
  let ?pen = "min 1 (max_drawdown m / 20)"
  have "?ps \<le> 1" using assms(4) profit_factor_score_le_1 [of "profit_factor m"] by auto
  then have "performance_weight cfg * ?ps \<le> performance_weight cfg"
    using assms(1) by (simp add: mult_left_le)
  moreover have "0 \<le> risk_weight cfg * ?pen" using assms(2,3) by simp
  ultimately show ?thesis using assms(1)
    by (simp add: calculate_strategy_score_def Let_def)
qed

lemma score_portfolios_Inr:
  assumes "score_portfolios cfg tr ps now = Inr (rs, tr')"
  shows "map fst rs = dict_keys ps \<and>
         (\<forall>r\<in>set rs. \<exists>pf tr0 tr1. (fst r, pf) \<in> set ps \<and>
             calculate_metrics tr0 pf now = Inr (snd (snd r), tr1) \<and>
             fst (snd r) = calculate_strategy_score cfg (snd (snd r)))"
  using assms
proof (induction ps arbitrary: tr rs tr')
  case Nil
  then show ?case by simp
next
  case (Cons p ps)
  obtain name pf where p: "p = (name, pf)" by fastforce
  from Cons.prems obtain m tr1 rs1 tr2 where c: "calculate_metrics tr pf now = Inr (m, tr1)"
    and s: "score_portfolios cfg tr1 ps now = Inr (rs1, tr2)"
    and rs: "rs = (name, calculate_strategy_score cfg m, m) # rs1" and "tr' = tr2"
    by (auto simp: p py_bind_Inr_iff split: prod.splits)
  from Cons.IH [OF s] c show ?case by (simp add: p rs) (metis prod.collapse)
qed

text \<open>C28: ranking: rank_strategies lists every portfolio of the engine once, each with its composite score of freshly computed metrics, in descending order of score, and strategies with equal scores keep the order of the engine's portfolio dict (a stable sort).\<close>

theorem rank_strategies_spec:
  assumes "rank_strategies a tr t now = Inr (rs, tr')"
  shows "sorted_wrt (\<ge>) (map (\<lambda>r. fst (snd r)) rs) \<and>
         (\<exists>rs0. map fst rs0 = dict_keys (portfolios t) \<and> mset rs = mset rs0 \<and>
            (\<forall>s. filter (\<lambda>r. fst (snd r) = s) rs = filter (\<lambda>r. fst (snd r) = s) rs0) \<and>
            (\<forall>r\<in>set rs0. \<exists>pf tr0 tr1. (fst r, pf) \<in> set (portfolios t) \<and>
               calculate_metrics tr0 pf now = Inr (snd (snd r), tr1) \<and>
               fst (snd r) = calculate_strategy_score (alloc_cfg a) (snd (snd r))))"
proof -
  obtain rs0 tr0 where s: "score_portfolios (alloc_cfg a) tr (portfolios t) now = Inr (rs0, tr0)"
    and rs: "rs = sort_key (\<lambda>(name, s, m). - s) rs0"
    using assms by (auto simp: rank_strategies_def py_bind_Inr_iff split: prod.splits)
  let ?f = "\<lambda>(name::string, s::real, m::strategy_metrics). - s"
  have "sorted (map ?f rs)" unfolding rs by (rule sorted_sort_key)
  then have "sorted_wrt (\<ge>) (map (\<lambda>r. fst (snd r)) rs)"
    by (simp add: sorted_map sorted_wrt_map split_def)
  moreover have "\<forall>s. filter (\<lambda>r. fst (snd r) = s) rs = filter (\<lambda>r. fst (snd r) = s) rs0"
  proof
    fix s
    have "filter (\<lambda>r. ?f r = - s) (sort_key ?f rs0) = filter (\<lambda>r. ?f r = - s) rs0"
      by (rule sort_key_stable)
    then show "filter (\<lambda>r. fst (snd r) = s) rs = filter (\<lambda>r. fst (snd r) = s) rs0"
      by (simp add: rs split_def)
  qed
  ultimately show ?thesis using score_portfolios_Inr [OF s] rs by auto
qed

section \<open>Rebalancing and the ledger\<close>

lemma values_update_positions:
  assumes "distinct (dict_keys ps)" and "map_of ps n = Some pf"
    and "positions pf' = positions pf"
  shows "positions ` set (dict_values (AList.update n pf' ps)) = positions ` set (dict_values ps)"
proof -
  obtain xs ys where "ps = xs @ (n, pf) # ys" and "AList.update n pf' ps = xs @ (n, pf') # ys"
    using dict_update_delete_split [OF assms(1,2)] by metis
  then show ?thesis using assms(3) by auto
qed

lemma set_allocation_step:
  assumes "trader_inv t"
  shows "trader_inv (set_allocation ar t) \<and> all_exposure (set_allocation ar t) = all_exposure t \<and>
         all_open_count (set_allocation ar t) = all_open_count t \<and>
         open_book (set_allocation ar t) = open_book t \<and>
         risk (set_allocation ar t) = risk t \<and> daily_pnl (set_allocation ar t) = daily_pnl t"
proof (cases "get_portfolio t (ar_strategy_name ar)")
  case None
  then show ?thesis using assms by (simp add: set_allocation_def)
next
  case (Some pf)
  let ?n = "ar_strategy_name ar"
  let ?pf' = "pf\<lparr>current_capital := new_allocation ar, initial_capital := new_allocation ar\<rparr>"
  let ?t' = "set_allocation ar t"
  have mo: "map_of (portfolios t) ?n = Some pf" using Some by (simp add: get_portfolio_def)
  have pt': "portfolios ?t' = AList.update ?n ?pf' (portfolios t)"
    using Some by (simp add: set_allocation_def)
  have wf: "portfolio_wf pf"
    using assms mo by (auto simp: trader_inv_def dest: map_of_SomeD)
  then have wf': "portfolio_wf ?pf'" by (simp add: portfolio_wf_def)
  have ids: "set (dict_keys (positions ?pf')) \<subseteq> set (dict_keys (positions pf)) \<union> {}" by simp
  have fr: "{} \<inter> set (all_open_ids t) = {}" by simp
  note r = trader_replace [OF assms mo pt' wf' ids fr]
  have inv': "trader_inv ?t'" by (rule r(1))
  have "all_exposure ?t' = all_exposure t"
    using r(2) total_exposure_cong [of ?pf' pf] by simp
  moreover have "all_open_count ?t' = all_open_count t"
    using r(3) open_positions_cong [of ?pf' pf] by simp
  moreover have "open_book ?t' = open_book t"
  proof (rule ext, rule option_eq_by_Some)
    fix q p
    have dk: "distinct (dict_keys (portfolios t))" using assms by (simp add: trader_inv_def)
    have "positions ` set (dict_values (AList.update ?n ?pf' (portfolios t))) =
          positions ` set (dict_values (portfolios t))"
      by (rule values_update_positions [OF dk mo]) simp
    then have "positions ` set (dict_values (portfolios ?t')) = positions ` set (dict_values (portfolios t))"
      by (simp only: pt')
    then have "(\<exists>pf\<in>set (dict_values (portfolios ?t')). map_of (positions pf) q = Some p) \<longleftrightarrow>
               (\<exists>pf\<in>set (dict_values (portfolios t)). map_of (positions pf) q = Some p)"
      by (metis (mono_tags, lifting) image_iff)
    then show "open_book ?t' q = Some p \<longleftrightarrow> open_book t q = Some p"
      using open_book_iff [OF inv'] open_book_iff [OF assms] by simp
  qed
  ultimately show ?thesis using inv' Some by (simp add: set_allocation_def)
qed

lemma fold_set_allocation_step:
  assumes "trader_inv t"
  shows "trader_inv (fold set_allocation allocs t) \<and>
         all_exposure (fold set_allocation allocs t) = all_exposure t \<and>
         all_open_count (fold set_allocation allocs t) = all_open_count t \<and>
         open_book (fold set_allocation allocs t) = open_book t \<and>
         risk (fold set_allocation allocs t) = risk t \<and>
         daily_pnl (fold set_allocation allocs t) = daily_pnl t"
  using assms
proof (induction allocs arbitrary: t)
  case (Cons ar allocs)
  from set_allocation_step [OF Cons.prems] Cons.IH [of "set_allocation ar t"] show ?case by simp
qed simp

lemma get_portfolio_set_allocation:
  "get_portfolio (set_allocation ar t) n =
     (if n = ar_strategy_name ar
      then map_option (\<lambda>pf. pf\<lparr>current_capital := new_allocation ar,
                              initial_capital := new_allocation ar\<rparr>) (get_portfolio t n)
      else get_portfolio t n)"
  by (auto simp: set_allocation_def get_portfolio_def map_of_update_dict split: option.splits)

lemma get_portfolio_fold_set_allocation:
  "get_portfolio (fold set_allocation allocs t) n =
     map_option (\<lambda>pf. case map_of (rev (map (\<lambda>r. (ar_strategy_name r, new_allocation r)) allocs)) n of
                        None \<Rightarrow> pf
                      | Some v \<Rightarrow> pf\<lparr>current_capital := v, initial_capital := v\<rparr>)
       (get_portfolio t n)"
proof (induction allocs arbitrary: t)
  case (Cons ar allocs)
  show ?case
    by (cases "map_of (rev (map (\<lambda>r. (ar_strategy_name r, new_allocation r)) allocs)) n")
      (auto simp: Cons.IH get_portfolio_set_allocation map_add_def option.map_comp o_def)
qed (simp add: option.map_ident)

section \<open>Behaviour of the allocator\<close>

lemma calculate_allocations_InrD:
  assumes "calculate_allocations a tr t now = Inr (allocs, tr')"
  obtains rs where "rank_strategies a tr t now = Inr (rs, tr')"
    and "allocate (total_capital a) (min_trades_for_ranking (perf_cfg tr)) t rs = Inr allocs"
  using assms by (auto simp: calculate_allocations_def py_bind_Inr_iff split: prod.splits)

lemma score_portfolios_Inr_ex:
  assumes "tracker_inv tr"
    and "\<forall>p\<in>set ps. closed_positions (snd p) = [] \<or> initial_capital (snd p) \<noteq> 0"
  shows "\<exists>rs tr'. score_portfolios cfg tr ps now = Inr (rs, tr')"
  using assms
proof (induction ps arbitrary: tr)
  case (Cons p ps)
  obtain name pf where p: "p = (name, pf)" by fastforce
  obtain m tr1 where c: "calculate_metrics tr pf now = Inr (m, tr1)"
    using calculate_metrics_Inr_ex [OF Cons.prems(1), of pf now] Cons.prems(2) p by auto
  have "tracker_inv tr1" by (rule tracker_inv_calculate_metrics [OF Cons.prems(1) c])
  then obtain rs tr2 where "score_portfolios cfg tr1 ps now = Inr (rs, tr2)"
    using Cons.IH Cons.prems(2) by fastforce
  with c show ?case by (simp add: p)
qed simp

lemma allocate_Inr_ex: "0 \<le> tc \<Longrightarrow> \<exists>allocs. allocate tc mt t rankings = Inr allocs"
  by (auto simp: allocate_def Let_def normalize_allocations_def py_div_def)

lemma calculate_allocations_Inr_ex:
  assumes "tracker_inv tr" and "0 \<le> total_capital a"
    and "\<forall>p\<in>set (portfolios t). closed_positions (snd p) = [] \<or> initial_capital (snd p) \<noteq> 0"
  shows "\<exists>allocs tr'. calculate_allocations a tr t now = Inr (allocs, tr')"
proof -
  obtain rs tr' where "score_portfolios (alloc_cfg a) tr (portfolios t) now = Inr (rs, tr')"
    using score_portfolios_Inr_ex [OF assms(1,3)] by blast
  moreover obtain allocs where "allocate (total_capital a) (min_trades_for_ranking (perf_cfg tr)) t
      (sort_key (\<lambda>(name, s, m). - s) rs) = Inr allocs"
    using allocate_Inr_ex [OF assms(2)] by blast
  ultimately show ?thesis by (simp add: calculate_allocations_def rank_strategies_def)
qed

text \<open>C21: the allocation never commits more than the total capital: whenever calculate_allocations returns (for a non-negative total capital), every new allocation is between 0 and the total capital and the allocations sum to at most the total capital.\<close>

theorem calculate_allocations_bounds:
  assumes "calculate_allocations a tr t now = Inr (allocs, tr')" and "0 \<le> total_capital a"
  shows "(\<Sum>r\<leftarrow>allocs. new_allocation r) \<le> total_capital a \<and>
         (\<forall>r\<in>set allocs. 0 \<le> new_allocation r \<and> new_allocation r \<le> total_capital a)"
proof -
  obtain rs where "allocate (total_capital a) (min_trades_for_ranking (perf_cfg tr)) t rs = Inr allocs"
    using calculate_allocations_InrD [OF assms(1)] by blast
  note al = allocate_Inr [OF this assms(2)]
  have "\<forall>r\<in>set allocs. new_allocation r \<le> (\<Sum>r\<leftarrow>allocs. new_allocation r)"
    using al by (auto intro: sum_list_map_member_le)
  with al show ?thesis by fastforce
qed

text \<open>Which strategies receive an allocation: the results name exactly the qualified strategies (positive score, or fewer trades than min_trades_for_ranking) in rank order, or every ranked strategy when none qualifies; an unqualified strategy gets no result at all.\<close>

theorem calculate_allocations_names:
  assumes "calculate_allocations a tr t now = Inr (allocs, tr')" and "0 \<le> total_capital a"
  shows "\<exists>rs. rank_strategies a tr t now = Inr (rs, tr') \<and>
           map ar_strategy_name allocs =
             map fst (if filter (qualifies (min_trades_for_ranking (perf_cfg tr))) rs = [] then rs
                      else filter (qualifies (min_trades_for_ranking (perf_cfg tr))) rs)"
proof -
  obtain rs where r: "rank_strategies a tr t now = Inr (rs, tr')"
    and al: "allocate (total_capital a) (min_trades_for_ranking (perf_cfg tr)) t rs = Inr allocs"
    using calculate_allocations_InrD [OF assms(1)] by blast
  with allocate_Inr [OF al assms(2)] show ?thesis by blast
qed


text \<open>The composite score of computed metrics is never negative and never exceeds the configured performance weight (for non-negative weights).\<close>

theorem strategy_score_bounds:
  assumes "calculate_metrics tr pf now = Inr (m, tr')"
    and "0 \<le> performance_weight cfg" and "0 \<le> risk_weight cfg"
  shows "0 \<le> calculate_strategy_score cfg m \<and> calculate_strategy_score cfg m \<le> performance_weight cfg"
proof
  show "0 \<le> calculate_strategy_score cfg m" by (simp add: calculate_strategy_score_def Let_def)
  show "calculate_strategy_score cfg m \<le> performance_weight cfg"
    using strategy_score_le [OF assms(2,3)] calculate_metrics_ranges [OF assms(1)] by blast
qed

text \<open>C25: rebalance: when a rebalance is not due it returns no allocation and changes nothing; when it is due it returns the allocations, records the time and appends them to the history, and overwrites both the current and the initial capital of each allocated portfolio with its (last) new allocation, leaving every other portfolio as it was.\<close>

theorem rebalance_effect:
  assumes "rebalance a tr t now = Inr (allocs, a', tr', t')"
  shows "if should_rebalance a now then
           calculate_allocations a tr t now = Inr (allocs, tr') \<and> last_rebalance a' = Some now \<and>
           allocation_history a' = allocation_history a @ [(now, allocs)] \<and>
           (\<forall>n. get_portfolio t' n =
              map_option (\<lambda>pf. case map_of (rev (map (\<lambda>r. (ar_strategy_name r, new_allocation r)) allocs)) n of
                                 None \<Rightarrow> pf
                               | Some v \<Rightarrow> pf\<lparr>current_capital := v, initial_capital := v\<rparr>)
                (get_portfolio t n))
         else allocs = [] \<and> a' = a \<and> tr' = tr \<and> t' = t"
proof (cases "should_rebalance a now")
  case True
  then obtain tr1 where c: "calculate_allocations a tr t now = Inr (allocs, tr1)"
    and r: "a' = a\<lparr>last_rebalance := Some now, allocation_history := allocation_history a @ [(now, allocs)]\<rparr>"
      "tr' = tr1" "t' = fold set_allocation allocs t"
    using assms by (auto simp: rebalance_def py_bind_Inr_iff split: prod.splits)
  then show ?thesis using True by (simp add: get_portfolio_fold_set_allocation)
next
  case False
  then show ?thesis using assms by (simp add: rebalance_def)
qed

text \<open>C26: rebalancing only rewrites capital: on a well-formed engine it keeps the engine well formed, leaves the abstract book of open positions, the aggregate exposure, the open-position count, the risk limits and the daily P\&L unchanged.\<close>

theorem rebalance_preserves_ledger:
  assumes "trader_inv t" and "rebalance a tr t now = Inr (allocs, a', tr', t')"
  shows "trader_inv t' \<and> open_book t' = open_book t \<and> all_exposure t' = all_exposure t \<and>
         all_open_count t' = all_open_count t \<and> risk t' = risk t \<and> daily_pnl t' = daily_pnl t"
proof (cases "should_rebalance a now")
  case True
  then have "t' = fold set_allocation allocs t"
    using assms(2) by (auto simp: rebalance_def py_bind_Inr_iff split: prod.splits)
  then show ?thesis using fold_set_allocation_step [OF assms(1)] by simp
next
  case False
  then show ?thesis using assms by (simp add: rebalance_def)
qed

abbreviation overcommit_trader :: paper_trader where
  "overcommit_trader \<equiv> (init_trader default_risk_config)\<lparr>portfolios :=
     [(''Loser'', new_portfolio ''Loser'' 150), (''New'', new_portfolio ''New'' 50)]\<rparr>"

abbreviation overcommit_rankings :: "ranking list" where
  "overcommit_rankings \<equiv>
     [(''Loser'', 0, (new_metrics ''Loser'' 0)\<lparr>m_total_trades := 6\<rparr>),
      (''New'', 0, new_metrics ''New'' 0)]"


section \<open>Witnesses\<close>

abbreviation alloc_trader :: paper_trader where
  "alloc_trader \<equiv> (init_trader default_risk_config)\<lparr>portfolios :=
     [(''MeanReversion'', example_pf), (''MarketMaking'', break_even_pf)]\<rparr>"

abbreviation demo_allocator :: capital_allocator where
  "demo_allocator \<equiv> init_allocator default_allocator_config 200"

lemma demo_alloc_run:
  "calculate_allocations demo_allocator demo_tracker alloc_trader 0 =
     Inr (fst (projr (calculate_allocations demo_allocator demo_tracker alloc_trader 0)),
          snd (projr (calculate_allocations demo_allocator demo_tracker alloc_trader 0)))"
  "rank_strategies demo_allocator demo_tracker alloc_trader 0 =
     Inr (fst (projr (rank_strategies demo_allocator demo_tracker alloc_trader 0)),
          snd (projr (rank_strategies demo_allocator demo_tracker alloc_trader 0)))"
  "rebalance demo_allocator demo_tracker alloc_trader 0 =
     Inr (fst (projr (rebalance demo_allocator demo_tracker alloc_trader 0)),
          fst (snd (projr (rebalance demo_allocator demo_tracker alloc_trader 0))),
          fst (snd (snd (projr (rebalance demo_allocator demo_tracker alloc_trader 0)))),
          snd (snd (snd (projr (rebalance demo_allocator demo_tracker alloc_trader 0)))))"
proof -
  have pre: "\<forall>p\<in>set (portfolios alloc_trader). closed_positions (snd p) = [] \<or> initial_capital (snd p) \<noteq> 0"
    by (simp add: new_portfolio_def)
  have tc: "0 \<le> total_capital demo_allocator" by (simp add: init_allocator_def)
  obtain allocs tr' where c: "calculate_allocations demo_allocator demo_tracker alloc_trader 0 = Inr (allocs, tr')"
    using calculate_allocations_Inr_ex [OF tracker_inv_init tc pre] by blast
  then show "calculate_allocations demo_allocator demo_tracker alloc_trader 0 =
     Inr (fst (projr (calculate_allocations demo_allocator demo_tracker alloc_trader 0)),
          snd (projr (calculate_allocations demo_allocator demo_tracker alloc_trader 0)))" by simp
  obtain rs tr1 where "score_portfolios (alloc_cfg demo_allocator) demo_tracker (portfolios alloc_trader) 0 = Inr (rs, tr1)"
    using score_portfolios_Inr_ex [OF tracker_inv_init pre] by blast
  then show "rank_strategies demo_allocator demo_tracker alloc_trader 0 =
     Inr (fst (projr (rank_strategies demo_allocator demo_tracker alloc_trader 0)),
          snd (projr (rank_strategies demo_allocator demo_tracker alloc_trader 0)))"
    by (simp add: rank_strategies_def)
  have "should_rebalance demo_allocator 0" by (simp add: should_rebalance_def init_allocator_def)
  with c show "rebalance demo_allocator demo_tracker alloc_trader 0 =
     Inr (fst (projr (rebalance demo_allocator demo_tracker alloc_trader 0)),
          fst (snd (projr (rebalance demo_allocator demo_tracker alloc_trader 0))),
          fst (snd (snd (projr (rebalance demo_allocator demo_tracker alloc_trader 0)))),
          snd (snd (snd (projr (rebalance demo_allocator demo_tracker alloc_trader 0)))))"
    by (simp add: rebalance_def)
qed

theorem calculate_allocations_bounds_witness:
  "calculate_allocations demo_allocator demo_tracker alloc_trader 0 =
     Inr (fst (projr (calculate_allocations demo_allocator demo_tracker alloc_trader 0)),
          snd (projr (calculate_allocations demo_allocator demo_tracker alloc_trader 0))) \<and>
   0 \<le> total_capital demo_allocator \<and>
   (\<Sum>r\<leftarrow>fst (projr (calculate_allocations demo_allocator demo_tracker alloc_trader 0)).
      new_allocation r) \<le> 200"
  using calculate_allocations_bounds [OF demo_alloc_run(1)] demo_alloc_run(1)
  by (simp add: init_allocator_def)

theorem calculate_allocations_names_witness:
  "calculate_allocations demo_allocator demo_tracker alloc_trader 0 =
     Inr (fst (projr (calculate_allocations demo_allocator demo_tracker alloc_trader 0)),
          snd (projr (calculate_allocations demo_allocator demo_tracker alloc_trader 0))) \<and>
   0 \<le> total_capital demo_allocator \<and>
   (\<exists>rs. rank_strategies demo_allocator demo_tracker alloc_trader 0 =
           Inr (rs, snd (projr (calculate_allocations demo_allocator demo_tracker alloc_trader 0))))"
  using calculate_allocations_names [OF demo_alloc_run(1)] demo_alloc_run(1)
  by (auto simp: init_allocator_def)

theorem strategy_score_bounds_witness:
  "calculate_metrics demo_tracker example_pf 0 =
     Inr (fst (projr (calculate_metrics demo_tracker example_pf 0)),
          snd (projr (calculate_metrics demo_tracker example_pf 0))) \<and>
   0 \<le> performance_weight default_allocator_config \<and> 0 \<le> risk_weight default_allocator_config \<and>
   calculate_strategy_score default_allocator_config
     (fst (projr (calculate_metrics demo_tracker example_pf 0))) \<le> 0.7"
  using strategy_score_bounds [OF demo_run_metrics(1), of default_allocator_config] demo_run_metrics(1)
  by (simp add: default_allocator_config_def)

theorem rebalance_effect_witness:
  "rebalance demo_allocator demo_tracker alloc_trader 0 =
     Inr (fst (projr (rebalance demo_allocator demo_tracker alloc_trader 0)),
          fst (snd (projr (rebalance demo_allocator demo_tracker alloc_trader 0))),
          fst (snd (snd (projr (rebalance demo_allocator demo_tracker alloc_trader 0)))),
          snd (snd (snd (projr (rebalance demo_allocator demo_tracker alloc_trader 0))))) \<and>
   last_rebalance (fst (snd (projr (rebalance demo_allocator demo_tracker alloc_trader 0)))) = Some 0"
  using rebalance_effect [OF demo_alloc_run(3)] demo_alloc_run(3)
  by (simp add: should_rebalance_def init_allocator_def)

theorem rebalance_preserves_ledger_witness:
  "trader_inv alloc_trader \<and>
   rebalance demo_allocator demo_tracker alloc_trader 0 =
     Inr (fst (projr (rebalance demo_allocator demo_tracker alloc_trader 0)),
          fst (snd (projr (rebalance demo_allocator demo_tracker alloc_trader 0))),
          fst (snd (snd (projr (rebalance demo_allocator demo_tracker alloc_trader 0)))),
          snd (snd (snd (projr (rebalance demo_allocator demo_tracker alloc_trader 0))))) \<and>
   trader_inv (snd (snd (snd (projr (rebalance demo_allocator demo_tracker alloc_trader 0)))))"
proof -
  have inv: "trader_inv alloc_trader"
    by (simp add: trader_inv_def portfolio_wf_def all_open_ids_def new_portfolio_def)
  from rebalance_preserves_ledger [OF inv demo_alloc_run(3)] inv demo_alloc_run(3)
  show ?thesis by simp
qed

theorem rank_strategies_spec_witness:
  "rank_strategies demo_allocator demo_tracker alloc_trader 0 =
     Inr (fst (projr (rank_strategies demo_allocator demo_tracker alloc_trader 0)),
          snd (projr (rank_strategies demo_allocator demo_tracker alloc_trader 0))) \<and>
   sorted_wrt (\<ge>) (map (\<lambda>r. fst (snd r)) (fst (projr (rank_strategies demo_allocator demo_tracker alloc_trader 0))))"
  using rank_strategies_spec [OF demo_alloc_run(2)] demo_alloc_run(2) by simp

end
