(* ===== verification/Strategies.thy ===== *)
theory Strategies
  imports PaperTrader
begin

text \<open>
  The three strategies the orchestrator builds (src/src/strategies/mean_reversion.py,
  momentum.py and market_making.py), as one datatype of variants with their \<open>analyze\<close>
  and \<open>should_exit\<close> (the interface \<open>BaseStrategy\<close> of base.py). Momentum is the only
  strategy with state, its per-market price history (a \<open>deque\<close> with a maximum length);
  \<open>analyze\<close> returns the strategy with its updated state. A strategy's parameters are
  the values \<open>config.get\<close> reads, with the code's defaults. The clock is an argument.
\<close>

record mean_reversion_config =
  extreme_threshold :: real
  min_threshold :: real
  exit_target :: real
  base_position_size :: money
  mr_max_position_size :: money

definition default_mean_reversion_config :: mean_reversion_config where
  "default_mean_reversion_config =
     \<lparr>extreme_threshold = 0.95, min_threshold = 0.05, exit_target = 0.50,
      base_position_size = 5, mr_max_position_size = 10\<rparr>"

record momentum_config =
  short_ma_period :: nat
  long_ma_period :: nat
  momentum_threshold :: real
  mom_position_size :: money

definition default_momentum_config :: momentum_config where
  "default_momentum_config =
     \<lparr>short_ma_period = 5, long_ma_period = 20, momentum_threshold = 0.02, mom_position_size = 5\<rparr>"

record market_making_config =
  min_spread :: real
  mm_position_size :: money

definition default_market_making_config :: market_making_config where
  "default_market_making_config = \<lparr>min_spread = 0.05, mm_position_size = 5\<rparr>"

datatype strategy =
  MeanReversion mean_reversion_config
| Momentum momentum_config "real list dict"
| MarketMaking market_making_config

fun strategy_name_of :: "strategy \<Rightarrow> string" where
  "strategy_name_of (MeanReversion c) = ''MeanReversion''"
| "strategy_name_of (Momentum c h) = ''Momentum''"
| "strategy_name_of (MarketMaking c) = ''MarketMaking''"

section \<open>Mean reversion\<close>

definition mr_position_size :: "mean_reversion_config \<Rightarrow> real \<Rightarrow> money" where
  "mr_position_size c price =
     min (base_position_size c * (1 + \<bar>price - 0.5\<bar> * 2)) (mr_max_position_size c)"

definition mr_analyze :: "mean_reversion_config \<Rightarrow> market_snapshot \<Rightarrow> timestamp \<Rightarrow> signal option" where
  "mr_analyze c m now =
     (let yes_price = snap_yes_price m
      in if yes_price \<ge> extreme_threshold c then
           Some \<lparr>sig_market_id = snap_market_id m, sig_side = No,
                 confidence = min 0.95 yes_price, sig_size = mr_position_size c yes_price,
                 sig_strategy_name = ''MeanReversion'', sig_timestamp = now,
                 sig_metadata = Some [(''reason'', MStr ''extreme_yes_price''),
                                      (''price'', MNum yes_price)]\<rparr>
         else if yes_price \<le> min_threshold c then
           Some \<lparr>sig_market_id = snap_market_id m, sig_side = Yes,
                 confidence = min 0.95 (1 - yes_price), sig_size = mr_position_size c yes_price,
                 sig_strategy_name = ''MeanReversion'', sig_timestamp = now,
                 sig_metadata = Some [(''reason'', MStr ''extreme_no_price''),
                                      (''price'', MNum yes_price)]\<rparr>
         else None)"

definition mr_should_exit :: "mean_reversion_config \<Rightarrow> position_view \<Rightarrow> market_snapshot \<Rightarrow> bool" where
  "mr_should_exit c pv m =
     (let entry_price = pv_entry_price pv; current_price = snap_yes_price m
      in if entry_price > 0.5 \<and> current_price \<le> exit_target c then True
         else if entry_price < 0.5 \<and> current_price \<ge> exit_target c then True
         else if snap_close_in_hours m < 1 then True
         else False)"

section \<open>Momentum\<close>

text \<open>\<open>deque(maxlen=n).append(x)\<close>: the oldest elements are dropped beyond \<open>n\<close>.\<close>

definition deque_append :: "nat \<Rightarrow> real list \<Rightarrow> real \<Rightarrow> real list" where
  "deque_append n xs x = (let ys = xs @ [x] in drop (length ys - n) ys)"

text \<open>\<open>prices[-k:]\<close>, the last \<open>k\<close> prices (all of them if there are fewer; none for 0).\<close>

definition last_prices :: "nat \<Rightarrow> real list \<Rightarrow> real list" where
  "last_prices k xs = (if k = 0 then xs else drop (length xs - k) xs)"

definition moving_averages :: "momentum_config \<Rightarrow> real list \<Rightarrow> py_error + (real \<times> real)" where
  "moving_averages c prices =
     py_bind (py_div (sum_list (last_prices (short_ma_period c) prices)) (real (short_ma_period c)))
       (\<lambda>short_ma. py_bind (py_div (sum_list prices) (real (long_ma_period c)))
         (\<lambda>long_ma. Inr (short_ma, long_ma)))"

definition momentum_signal ::
  "momentum_config \<Rightarrow> market_snapshot \<Rightarrow> timestamp \<Rightarrow> side \<Rightarrow> string \<Rightarrow> real \<Rightarrow> real \<Rightarrow> signal" where
  "momentum_signal c m now s why short_ma long_ma =
     (let momentum = short_ma - long_ma
      in \<lparr>sig_market_id = snap_market_id m, sig_side = s,
          confidence = min 0.9 (0.5 + \<bar>momentum\<bar>), sig_size = mom_position_size c,
          sig_strategy_name = ''Momentum'', sig_timestamp = now,
          sig_metadata = Some [(''reason'', MStr why), (''short_ma'', MNum short_ma),
                               (''long_ma'', MNum long_ma), (''momentum'', MNum momentum)]\<rparr>)"

text \<open>
  \<open>MomentumStrategy.analyze\<close>: the price is appended to the market's history first, so the
  new history is kept even where the averages raise (a zero period), which
  \<open>generate_signals\<close> catches as no signal.
\<close>

definition mom_analyze ::
  "momentum_config \<Rightarrow> real list dict \<Rightarrow> market_snapshot \<Rightarrow> timestamp \<Rightarrow>
   real list dict \<times> (py_error + signal option)" where
  "mom_analyze c hist m now =
     (let mid = snap_market_id m; yes_price = snap_yes_price m;
          h = (case map_of hist mid of None \<Rightarrow> [] | Some h \<Rightarrow> h);
          prices = deque_append (long_ma_period c) h yes_price;
          hist' = AList.update mid prices hist
      in (hist',
          if length prices < long_ma_period c then Inr None
          else py_bind (moving_averages c prices) (\<lambda>(short_ma, long_ma).
            let momentum = short_ma - long_ma
            in if momentum > momentum_threshold c \<and> yes_price > short_ma then
                 Inr (Some (momentum_signal c m now Yes ''upward_momentum'' short_ma long_ma))
               else if momentum < - momentum_threshold c \<and> yes_price < short_ma then
                 Inr (Some (momentum_signal c m now No ''downward_momentum'' short_ma long_ma))
               else Inr None)))"

text \<open>
  \<open>position.get("metadata", {}).get("momentum", 0)\<close>; the value is the number the
  strategy stored when it opened the position.
\<close>

definition entry_momentum :: "metadata \<Rightarrow> real" where
  "entry_momentum md = (case map_of md ''momentum'' of Some (MNum v) \<Rightarrow> v | _ \<Rightarrow> 0)"

text \<open>
  \<open>MomentumStrategy.should_exit\<close>. It is a predicate, as the engine's \<open>check_exits\<close>
  expects; with a zero moving-average period Python would raise \<open>ZeroDivisionError\<close>
  here, which this predicate does not track (HOL's division by 0 gives 0): both periods
  are positive in the code's defaults (5 and 20).
\<close>

definition mom_should_exit ::
  "momentum_config \<Rightarrow> real list dict \<Rightarrow> position_view \<Rightarrow> market_snapshot \<Rightarrow> bool" where
  "mom_should_exit c hist pv m =
     (case map_of hist (snap_market_id m) of
        None \<Rightarrow> False
      | Some prices \<Rightarrow>
          if length prices < long_ma_period c then False
          else
            (let short_ma = sum_list (last_prices (short_ma_period c) prices) / real (short_ma_period c);
                 long_ma = sum_list prices / real (long_ma_period c);
                 current_momentum = short_ma - long_ma;
                 em = entry_momentum (pv_metadata pv)
             in if em > 0 \<and> current_momentum < 0 then True
                else if em < 0 \<and> current_momentum > 0 then True
                else if snap_close_in_hours m < 2 then True
                else False))"

section \<open>Market making\<close>

definition mm_analyze :: "market_making_config \<Rightarrow> market_snapshot \<Rightarrow> timestamp \<Rightarrow> signal option" where
  "mm_analyze c m now =
     (let (best_bid, best_ask) = (case snap_order_book m of None \<Rightarrow> (0, 1) | Some ba \<Rightarrow> ba);
          spread = best_ask - best_bid
      in if spread < min_spread c \<or> best_bid = 0 then None
         else Some \<lparr>sig_market_id = snap_market_id m, sig_side = Both, confidence = spread,
                    sig_size = mm_position_size c, sig_strategy_name = ''MarketMaking'',
                    sig_timestamp = now,
                    sig_metadata = Some [(''spread'', MNum spread),
                                         (''mid'', MNum ((best_bid + best_ask) / 2))]\<rparr>)"

section \<open>The strategy interface\<close>

fun analyze :: "strategy \<Rightarrow> market_snapshot \<Rightarrow> timestamp \<Rightarrow> strategy \<times> (py_error + signal option)" where
  "analyze (MeanReversion c) m now = (MeanReversion c, Inr (mr_analyze c m now))"
| "analyze (Momentum c h) m now = (let (h', r) = mom_analyze c h m now in (Momentum c h', r))"
| "analyze (MarketMaking c) m now = (MarketMaking c, Inr (mm_analyze c m now))"

fun should_exit :: "strategy \<Rightarrow> exit_pred" where
  "should_exit (MeanReversion c) pv m = mr_should_exit c pv m"
| "should_exit (Momentum c h) pv m = mom_should_exit c h pv m"
| "should_exit (MarketMaking c) pv m = False"

text \<open>The momentum state is well formed when no history is longer than the deque's bound.\<close>

definition momentum_hist_wf :: "momentum_config \<Rightarrow> real list dict \<Rightarrow> bool" where
  "momentum_hist_wf c hist \<longleftrightarrow> list_all (\<lambda>(mid, h). length h \<le> long_ma_period c) hist"

section \<open>Behaviour of the strategies\<close>

lemma mr_analyze_No:
  assumes "mr_analyze c m now = Some sg" and "sig_side sg = No"
  shows "extreme_threshold c \<le> snap_yes_price m"
  using assms by (auto simp: mr_analyze_def Let_def split: if_splits)

text \<open>C29: mean reversion's no side is closed as soon as it opens: a no signal (yes price at or above the extreme threshold) opens a position whose entry price is the no price 1 - p, below 1/2, while should_exit compares it with the yes price p, at or above the exit target; so the strategy exits the position at the very snapshot it entered on, at zero P\&L (for any threshold above 1/2 and exit target at most the threshold, the defaults 0.95 and 0.50 included).\<close>

theorem mean_reversion_no_exits_at_once:
  assumes "exit_target c \<le> extreme_threshold c" and "1 / 2 < extreme_threshold c"
    and "mr_analyze c m now = Some sg" and "sig_side sg = No"
    and "execute_signal t sg (snap_yes_price m) pid now = Inr (t', pos)"
  shows "should_exit (MeanReversion c) (view_of pos) m \<and>
         pnl (closed_position_of pos (snap_yes_price m) reason now') = 0"
proof -
  let ?p = "snap_yes_price m"
  have hi: "extreme_threshold c \<le> ?p" by (rule mr_analyze_No [OF assms(3,4)])
  obtain pf where q: "0 < contract_quantity (sig_size sg) (effective_price (sig_side sg) ?p)"
    and pos: "pos = open_position_of sg pid now
                 (contract_quantity (sig_size sg) (effective_price (sig_side sg) ?p))
                 (effective_price (sig_side sg) ?p)"
    using execute_signal_Inr [OF assms(5)] by blast
  have ep: "entry_price pos = 1 - ?p" and sd: "side pos = No"
    using pos assms(4) by (simp_all add: open_position_of_def effective_price_def)
  have "entry_price pos < 0.5" using ep hi assms(2) by simp
  moreover have "?p \<ge> exit_target c" using hi assms(1) by simp
  ultimately have ex: "should_exit (MeanReversion c) (view_of pos) m"
    by (simp add: mr_should_exit_def view_of_def)
  have "entry_cost pos = of_int (quantity pos) * (1 - ?p)"
    using pos assms(4) by (simp add: open_position_of_def effective_price_def)
  then have "pnl (closed_position_of pos ?p reason now') = 0"
    using sd by (simp add: pnl_closed_position_of effective_price_def)
  with ex show ?thesis by simp
qed

text \<open>Mean reversion sizes a position between its base size and its maximum (for a non-negative base below the maximum), so with the defaults every signal asks for 5 to 10 dollars.\<close>

theorem mr_position_size_bounds:
  assumes "0 \<le> base_position_size c" and "base_position_size c \<le> mr_max_position_size c"
  shows "base_position_size c \<le> mr_position_size c price \<and> mr_position_size c price \<le> mr_max_position_size c"
proof -
  have "base_position_size c * 1 \<le> base_position_size c * (1 + \<bar>price - 0.5\<bar> * 2)"
    using assms(1) by (intro mult_left_mono) simp_all
  with assms(2) show ?thesis by (simp add: mr_position_size_def)
qed

lemma length_deque_append: "length (deque_append n xs x) = min n (length xs + 1)"
  by (simp add: deque_append_def)

text \<open>The momentum strategy's state: analyze appends the price to the market's history, which keeps at most long_ma_period prices (the deque's maximum length), and leaves the other markets' histories as they were.\<close>

theorem mom_analyze_history:
  assumes "momentum_hist_wf c hist"
  shows "momentum_hist_wf c (fst (mom_analyze c hist m now)) \<and>
         map_of (fst (mom_analyze c hist m now)) (snap_market_id m) =
           Some (deque_append (long_ma_period c)
                   (case map_of hist (snap_market_id m) of None \<Rightarrow> [] | Some h \<Rightarrow> h) (snap_yes_price m)) \<and>
         (\<forall>k. k \<noteq> snap_market_id m \<longrightarrow> map_of (fst (mom_analyze c hist m now)) k = map_of hist k)"
proof -
  let ?h = "deque_append (long_ma_period c)
              (case map_of hist (snap_market_id m) of None \<Rightarrow> [] | Some h \<Rightarrow> h) (snap_yes_price m)"
  have eq: "fst (mom_analyze c hist m now) = AList.update (snap_market_id m) ?h hist"
    by (simp add: mom_analyze_def Let_def)
  have "list_all (\<lambda>(mid, h). length h \<le> long_ma_period c) (AList.update (snap_market_id m) ?h hist)"
    using assms by (auto simp: momentum_hist_wf_def list_all_iff length_deque_append
        dest!: set_update_dict)
  then show ?thesis by (simp add: eq momentum_hist_wf_def map_of_update_dict)
qed

abbreviation extreme_market :: market_snapshot where
  "extreme_market \<equiv> \<lparr>snap_market_id = ''KXHIGH'', snap_ticker = ''KXHIGH'', snap_yes_price = 0.96,
                      snap_close_in_hours = 48, snap_order_book = None\<rparr>"

abbreviation mr_trader :: paper_trader where
  "mr_trader \<equiv> initialize_portfolio (init_trader default_risk_config) ''MeanReversion'' 50"

abbreviation mr_signal :: signal where
  "mr_signal \<equiv> the (mr_analyze default_mean_reversion_config extreme_market 0)"

lemma mr_signal_eval:
  "mr_analyze default_mean_reversion_config extreme_market 0 = Some mr_signal"
  "sig_side mr_signal = No" "sig_size mr_signal = 9.6"
  "sig_strategy_name mr_signal = ''MeanReversion''"
  by (simp_all add: mr_analyze_def default_mean_reversion_config_def mr_position_size_def)

lemma mr_trader_execute:
  "execute_signal mr_trader mr_signal 0.96 ''p1'' 0 =
     Inr (fst (projr (execute_signal mr_trader mr_signal 0.96 ''p1'' 0)),
          snd (projr (execute_signal mr_trader mr_signal 0.96 ''p1'' 0)))"
proof -
  have q: "contract_quantity 9.6 (1 - 0.96) = 240"
    by (simp add: contract_quantity_def py_int_def)
  show ?thesis
    using mr_signal_eval q
    by (simp add: trader_eval_simps check_risk_limits_def available_capital_def all_exposure_def
        all_open_count_def total_exposure_def open_positions_def default_risk_config_def
        init_trader_def new_portfolio_def effective_price_def)
qed

theorem mean_reversion_no_exits_at_once_witness:
  "exit_target default_mean_reversion_config \<le> extreme_threshold default_mean_reversion_config \<and>
   mr_analyze default_mean_reversion_config extreme_market 0 = Some mr_signal \<and>
   sig_side mr_signal = No \<and>
   should_exit (MeanReversion default_mean_reversion_config)
     (view_of (snd (projr (execute_signal mr_trader mr_signal 0.96 ''p1'' 0)))) extreme_market"
proof -
  have ex: "execute_signal mr_trader mr_signal (snap_yes_price extreme_market) ''p1'' 0 =
     Inr (fst (projr (execute_signal mr_trader mr_signal 0.96 ''p1'' 0)),
          snd (projr (execute_signal mr_trader mr_signal 0.96 ''p1'' 0)))"
    using mr_trader_execute by simp
  have c: "exit_target default_mean_reversion_config \<le> extreme_threshold default_mean_reversion_config"
    "1 / 2 < extreme_threshold default_mean_reversion_config"
    by (simp_all add: default_mean_reversion_config_def)
  from mean_reversion_no_exits_at_once [OF c mr_signal_eval(1,2) ex] c mr_signal_eval
  show ?thesis by simp
qed

theorem mr_position_size_bounds_witness:
  "0 \<le> base_position_size default_mean_reversion_config \<and>
   base_position_size default_mean_reversion_config \<le> mr_max_position_size default_mean_reversion_config \<and>
   mr_position_size default_mean_reversion_config 0.96 \<le> 10"
  using mr_position_size_bounds [of default_mean_reversion_config "0.96"]
  by (simp add: default_mean_reversion_config_def)

theorem mom_analyze_history_witness:
  "momentum_hist_wf default_momentum_config [] \<and>
   map_of (fst (mom_analyze default_momentum_config [] extreme_market 0)) ''KXHIGH'' = Some [0.96]"
  using mom_analyze_history [of default_momentum_config "[]" extreme_market 0]
  by (simp add: momentum_hist_wf_def deque_append_def default_momentum_config_def)

end
