(* ===== verification/Scanner.thy ===== *)
theory Scanner
  imports Strategies "HOL-Library.Sublist"
begin

text \<open>
  The market scanner, class \<open>MarketScanner\<close> of src/src/scanner.py, with \<open>ScannerConfig\<close>
  of src/src/config.py. The API is not modelled: the pages \<open>get_markets\<close> returns are
  a list of responses (markets and cursor) and \<open>get_orderbook\<close> is a function from
  tickers to a raw book, \<open>None\<close> when the request raises. A raw market is the part of
  the API's JSON that \<open>_parse_market\<close> and \<open>_passes_filters\<close> read, with \<open>None\<close> for a
  missing key; \<open>close_time\<close> is the parsed time (\<open>None\<close> also when it does not parse)
  and the clock is an argument. A raw book is the list of yes bids and the list of no
  bids, each level a pair (price in cents, quantity).
\<close>

record scanner_config =
  poll_interval_seconds :: real
  min_volume :: int
  min_liquidity :: real
  market_status :: string
  max_markets :: int

definition default_scanner_config :: scanner_config where
  "default_scanner_config =
     \<lparr>poll_interval_seconds = 30, min_volume = 100, min_liquidity = 50, market_status = ''open'',
      max_markets = 500\<rparr>"

record raw_market =
  raw_id :: "string option"
  raw_ticker :: string
  raw_yes_bid :: "int option"
  raw_volume_24h :: "int option"
  raw_status :: "string option"
  raw_close_time :: "timestamp option"

type_synonym raw_orderbook = "(int \<times> int) list \<times> (int \<times> int) list"

type_synonym markets_response = "raw_market list \<times> string option"

section \<open>Parsing and filtering\<close>

text \<open>\<open>MarketData.close_in_hours\<close>: 9999 without a close time, never negative.\<close>

definition close_in_hours :: "timestamp option \<Rightarrow> timestamp \<Rightarrow> real" where
  "close_in_hours ct now = (case ct of None \<Rightarrow> 9999 | Some t \<Rightarrow> max 0 ((t - now) / 3600))"

text \<open>
  \<open>_parse_orderbook\<close>, reduced to the two keys the strategies read. The best no bid
  (\<open>best_yes_ask\<close>) is computed by the code but never used: the ask is \<open>1 - best_bid\<close>.
\<close>

definition parse_orderbook :: "raw_orderbook \<Rightarrow> real \<times> real" where
  "parse_orderbook ob =
     (let yes_bids = fst ob;
          best_yes_bid = (if yes_bids = [] then 0 else of_int (Max (set (map fst yes_bids))) / 100)
      in (best_yes_bid, if best_yes_bid > 0 then 1 - best_yes_bid else 1))"

text \<open>\<open>_parse_market\<close>: the id is the API's \<open>id\<close> when present, else the ticker.\<close>

definition parse_market :: "raw_market \<Rightarrow> timestamp \<Rightarrow> market_snapshot" where
  "parse_market raw now =
     \<lparr>snap_market_id = (case raw_id raw of Some i \<Rightarrow> i | None \<Rightarrow> raw_ticker raw),
      snap_ticker = raw_ticker raw,
      snap_yes_price = of_int (case raw_yes_bid raw of None \<Rightarrow> 50 | Some b \<Rightarrow> b) / 100,
      snap_close_in_hours = close_in_hours (raw_close_time raw) now,
      snap_order_book = None\<rparr>"

definition passes_filters :: "scanner_config \<Rightarrow> raw_market \<Rightarrow> timestamp \<Rightarrow> bool" where
  "passes_filters cfg raw now =
     (if (case raw_volume_24h raw of None \<Rightarrow> 0 | Some v \<Rightarrow> v) < min_volume cfg then False
      else if (case raw_status raw of None \<Rightarrow> ''unknown'' | Some s \<Rightarrow> s) \<noteq> ''open'' then False
      else if close_in_hours (raw_close_time raw) now < 1 then False
      else True)"

text \<open>The order book of a qualifying market; a failed request leaves the empty dict.\<close>

definition attach_orderbook :: "market_snapshot \<Rightarrow> raw_orderbook option \<Rightarrow> market_snapshot" where
  "attach_orderbook m ob =
     (case ob of None \<Rightarrow> m | Some r \<Rightarrow> m\<lparr>snap_order_book := Some (parse_orderbook r)\<rparr>)"

section \<open>The scan\<close>

text \<open>
  The inner loop of \<open>scan_once\<close> over one page: the running count of scanned markets
  and the qualifying markets so far; the loop stops once the count exceeds
  \<open>max_markets\<close>.
\<close>

fun scan_page ::
  "scanner_config \<Rightarrow> timestamp \<Rightarrow> (string \<Rightarrow> raw_orderbook option) \<Rightarrow> raw_market list \<Rightarrow>
   int \<Rightarrow> market_snapshot list \<Rightarrow> int \<times> market_snapshot list" where
  "scan_page cfg now books [] scanned acc = (scanned, acc)"
| "scan_page cfg now books (r # rs) scanned acc =
     (if scanned + 1 > max_markets cfg then (scanned + 1, acc)
      else scan_page cfg now books rs (scanned + 1)
             (if passes_filters cfg r now
              then acc @ [attach_orderbook (parse_market r now) (books (raw_ticker r))]
              else acc))"

text \<open>
  The outer loop of \<open>scan_once\<close> over the responses: it stops on an empty page, once
  \<open>max_markets\<close> markets were scanned, or when the response has no cursor (\<open>None\<close> or
  the empty string). A run out of responses stands for the API returning no more.
\<close>

fun scan_pages ::
  "scanner_config \<Rightarrow> timestamp \<Rightarrow> (string \<Rightarrow> raw_orderbook option) \<Rightarrow> markets_response list \<Rightarrow>
   int \<Rightarrow> market_snapshot list \<Rightarrow> market_snapshot list" where
  "scan_pages cfg now books [] scanned acc = acc"
| "scan_pages cfg now books ((ms, cursor) # rs) scanned acc =
     (if ms = [] then acc
      else let (scanned', acc') = scan_page cfg now books ms scanned acc
           in if max_markets cfg \<le> scanned' then acc'
              else if cursor = None \<or> cursor = Some '''' then acc'
              else scan_pages cfg now books rs scanned' acc')"

definition scan_once ::
  "scanner_config \<Rightarrow> timestamp \<Rightarrow> (string \<Rightarrow> raw_orderbook option) \<Rightarrow> markets_response list \<Rightarrow>
   market_snapshot list" where
  "scan_once cfg now books responses = scan_pages cfg now books responses 0 []"

text \<open>The cache update of \<open>scan_once\<close> for the markets that pass the filters.\<close>

definition cache_markets :: "market_snapshot dict \<Rightarrow> market_snapshot list \<Rightarrow> market_snapshot dict" where
  "cache_markets cache ms = fold (\<lambda>m c. AList.update (snap_ticker m) m c) ms cache"

text \<open>\<open>get_market\<close> (\<open>self._market_cache.get(ticker)\<close>) and \<open>get_all_markets\<close>
  (\<open>list(self._market_cache.values())\<close>, in insertion order).\<close>

definition scanner_get_market :: "market_snapshot dict \<Rightarrow> string \<Rightarrow> market_snapshot option" where
  "scanner_get_market cache tk = map_of cache tk"

definition get_all_markets :: "market_snapshot dict \<Rightarrow> market_snapshot list" where
  "get_all_markets cache = dict_values cache"

text \<open>The cache keys every market by its own ticker, once.\<close>

definition cache_keyed :: "market_snapshot dict \<Rightarrow> bool" where
  "cache_keyed cache \<longleftrightarrow> distinct (dict_keys cache) \<and> (\<forall>(k, m) \<in> set cache. snap_ticker m = k)"

section \<open>Signal generation\<close>

text \<open>
  The inner loop of \<open>generate_signals\<close>: every strategy analyses the market (every
  strategy is active: \<open>active\<close> is only ever set to true); an exception raised by
  \<open>analyze\<close> is caught and yields no signal.
\<close>

fun signals_for_market ::
  "strategy list \<Rightarrow> market_snapshot \<Rightarrow> timestamp \<Rightarrow> strategy list \<times> signal list" where
  "signals_for_market [] m now = ([], [])"
| "signals_for_market (s # ss) m now =
     (let (s', r) = analyze s m now;
          (ss', sigs) = signals_for_market ss m now
      in (s' # ss', (case r of Inr (Some sg) \<Rightarrow> [sg] | _ \<Rightarrow> []) @ sigs))"

fun generate_signals ::
  "strategy list \<Rightarrow> market_snapshot list \<Rightarrow> timestamp \<Rightarrow> strategy list \<times> signal list" where
  "generate_signals ss [] now = (ss, [])"
| "generate_signals ss (m # ms) now =
     (let (ss1, a) = signals_for_market ss m now;
          (ss2, b) = generate_signals ss1 ms now
      in (ss2, a @ b))"

section \<open>Properties of the scan\<close>

declare scanner_get_market_def [simp] get_all_markets_def [simp]

lemma scan_page_spec:
  assumes "scan_page cfg now books ms n acc = (n', acc')" and "n \<le> max 0 (max_markets cfg)"
  shows "\<exists>k\<le>length ms.
           acc' = acc @ map (\<lambda>r. attach_orderbook (parse_market r now) (books (raw_ticker r)))
                          (filter (\<lambda>r. passes_filters cfg r now) (take k ms)) \<and>
           n + int k \<le> max 0 (max_markets cfg) \<and>
           (k = length ms \<and> n' = n + int k \<or> max_markets cfg \<le> n')"
  using assms
proof (induction ms arbitrary: n acc)
  case Nil
  then show ?case by simp
next
  case (Cons r rs)
  show ?case
  proof (cases "n + 1 > max_markets cfg")
    case True
    then show ?thesis using Cons.prems by (intro exI [of _ 0]) auto
  next
    case False
    let ?acc = "if passes_filters cfg r now
                then acc @ [attach_orderbook (parse_market r now) (books (raw_ticker r))] else acc"
    have s: "scan_page cfg now books rs (n + 1) ?acc = (n', acc')" using Cons.prems(1) False by simp
    have "n + 1 \<le> max 0 (max_markets cfg)" using False by simp
    from Cons.IH [OF s this] obtain k where "k \<le> length rs"
      and "acc' = ?acc @ map (\<lambda>r. attach_orderbook (parse_market r now) (books (raw_ticker r)))
                          (filter (\<lambda>r. passes_filters cfg r now) (take k rs))"
      and "n + 1 + int k \<le> max 0 (max_markets cfg)"
      and "k = length rs \<and> n' = n + 1 + int k \<or> max_markets cfg \<le> n'"
      by blast
    then show ?thesis by (intro exI [of _ "Suc k"]) auto
  qed
qed

lemma scan_pages_spec:
  assumes "n \<le> max 0 (max_markets cfg)"
  shows "\<exists>xs. prefix xs (concat (map fst rs)) \<and> n + int (length xs) \<le> max 0 (max_markets cfg) \<and>
           scan_pages cfg now books rs n acc =
             acc @ map (\<lambda>r. attach_orderbook (parse_market r now) (books (raw_ticker r)))
                     (filter (\<lambda>r. passes_filters cfg r now) xs)"
  using assms
proof (induction rs arbitrary: n acc)
  case Nil
  then show ?case by (intro exI [of _ "[]"]) simp
next
  case (Cons resp rs)
  obtain ms cursor where resp: "resp = (ms, cursor)" by fastforce
  show ?case
  proof (cases "ms = []")
    case True
    then show ?thesis using Cons.prems resp by (intro exI [of _ "[]"]) simp
  next
    case False
    obtain n' acc' where sp: "scan_page cfg now books ms n acc = (n', acc')" by fastforce
    from scan_page_spec [OF sp Cons.prems] obtain k where k: "k \<le> length ms"
      and acc': "acc' = acc @ map (\<lambda>r. attach_orderbook (parse_market r now) (books (raw_ticker r)))
                          (filter (\<lambda>r. passes_filters cfg r now) (take k ms))"
      and b: "n + int k \<le> max 0 (max_markets cfg)"
      and d: "k = length ms \<and> n' = n + int k \<or> max_markets cfg \<le> n'"
      by blast
    have pre: "prefix (take k ms) (concat (map fst (resp # rs)))"
      using resp by (simp add: prefix_def) (metis append_take_drop_id append.assoc)
    show ?thesis
    proof (cases "max_markets cfg \<le> n' \<or> cursor = None \<or> cursor = Some ''''")
      case True
      then have "scan_pages cfg now books (resp # rs) n acc = acc'"
        using resp False sp by auto
      with pre b acc' show ?thesis by (intro exI [of _ "take k ms"]) simp
    next
      case stop: False
      then have k': "k = length ms" and n': "n' = n + int (length ms)" using d by auto
      from stop have "n' < max_markets cfg" by simp
      then have "n' \<le> max 0 (max_markets cfg)" by simp
      from Cons.IH [OF this, of acc'] obtain xs where "prefix xs (concat (map fst rs))"
        and "n' + int (length xs) \<le> max 0 (max_markets cfg)"
        and "scan_pages cfg now books rs n' acc' =
               acc' @ map (\<lambda>r. attach_orderbook (parse_market r now) (books (raw_ticker r)))
                        (filter (\<lambda>r. passes_filters cfg r now) xs)"
        by blast
      moreover have "scan_pages cfg now books (resp # rs) n acc = scan_pages cfg now books rs n' acc'"
        using resp False sp stop by auto
      ultimately show ?thesis using resp acc' k' n'
        by (intro exI [of _ "ms @ xs"]) auto
    qed
  qed
qed

text \<open>C39: one scan examines a prefix of the markets the API returns, page after page, of at most \<open>max_markets\<close> markets, and returns exactly those of them that pass the filters, in order, parsed and with their order book.\<close>

theorem scan_once_spec:
  "\<exists>xs. prefix xs (concat (map fst rs)) \<and> int (length xs) \<le> max 0 (max_markets cfg) \<and>
        scan_once cfg now books rs =
          map (\<lambda>r. attach_orderbook (parse_market r now) (books (raw_ticker r)))
            (filter (\<lambda>r. passes_filters cfg r now) xs)"
  using scan_pages_spec [of 0 cfg rs now books "[]"] by (simp add: scan_once_def)

text \<open>C40: the market-making signal never depends on the no side of the order book, and its confidence (the spread it reads) is \<open>1 - 2 * best_bid\<close>: \<open>_parse_orderbook\<close> sets the ask to \<open>1 - best_bid\<close> instead of using the no bids.\<close>

theorem market_making_ignores_no_bids:
  "mm_analyze c (attach_orderbook m (Some (yes, no))) now =
     mm_analyze c (attach_orderbook m (Some (yes, no'))) now \<and>
   (list_all (\<lambda>l. 0 \<le> fst l) yes \<and> mm_analyze c (attach_orderbook m (Some (yes, no))) now = Some sg \<longrightarrow>
      confidence sg = 1 - 2 * fst (parse_orderbook (yes, no)))"
proof -
  have "0 \<le> Max (fst ` set yes)" if "yes \<noteq> []" and "list_all (\<lambda>l. 0 \<le> fst l) yes"
  proof -
    have "Max (fst ` set yes) \<in> fst ` set yes" using that(1) by (intro Max_in) auto
    with that(2) show ?thesis by (auto simp: list_all_iff)
  qed
  then show ?thesis
    by (auto simp: mm_analyze_def attach_orderbook_def parse_orderbook_def Let_def split: if_splits)
qed

theorem market_making_ignores_no_bids_witness:
  "mm_analyze default_market_making_config
     (attach_orderbook extreme_market (Some ([(30, 10)], [(50, 5)]))) 0 =
   mm_analyze default_market_making_config
     (attach_orderbook extreme_market (Some ([(30, 10)], []))) 0 \<and>
   list_all (\<lambda>l. 0 \<le> fst l) [(30::int, 10::int)] \<and>
   confidence (the (mm_analyze default_market_making_config
     (attach_orderbook extreme_market (Some ([(30, 10)], [(50, 5)]))) 0)) = 0.4"
proof -
  have s: "mm_analyze default_market_making_config
     (attach_orderbook extreme_market (Some ([(30, 10)], [(50, 5)]))) 0 =
     Some (the (mm_analyze default_market_making_config
     (attach_orderbook extreme_market (Some ([(30, 10)], [(50, 5)]))) 0))"
    by (simp add: mm_analyze_def attach_orderbook_def parse_orderbook_def default_market_making_config_def Let_def)
  from market_making_ignores_no_bids [of default_market_making_config extreme_market "[(30, 10)]"
        "[(50, 5)]" 0 "[]"] s
  show ?thesis by (simp add: parse_orderbook_def)
qed




section \<open>The cache\<close>

text \<open>Every scan keeps the cache keyed by ticker, so \<open>get_market\<close> finds a market under its
  own ticker and \<open>get_all_markets\<close> lists each cached ticker once.\<close>

lemma cache_markets_keyed:
  "cache_keyed cache \<Longrightarrow> cache_keyed (cache_markets cache ms)"
proof (induction ms arbitrary: cache)
  case Nil
  then show ?case by (simp add: cache_markets_def)
next
  case (Cons m ms)
  have "cache_keyed (AList.update (snap_ticker m) m cache)"
    using Cons.prems by (auto simp: cache_keyed_def distinct_update dest!: set_update_dict)
  then show ?case using Cons.IH by (simp add: cache_markets_def)
qed

lemma cache_keyed_get_all_markets:
  "cache_keyed cache \<Longrightarrow> map snap_ticker (get_all_markets cache) = map fst cache"
  by (induction cache) (auto simp: cache_keyed_def)

lemma cache_keyed_scanner_get_market:
  "cache_keyed cache \<Longrightarrow> scanner_get_market cache t = Some m \<Longrightarrow> snap_ticker m = t"
  by (auto simp: cache_keyed_def dest: map_of_SomeD)

lemma cache_markets_tickers:
  "cache_keyed cache \<Longrightarrow>
   distinct (map snap_ticker (get_all_markets (cache_markets cache ms))) \<and>
   set (map snap_ticker (get_all_markets (cache_markets cache ms))) = fst ` set cache \<union> snap_ticker ` set ms"
proof -
  assume k: "cache_keyed cache"
  have "set (map fst (cache_markets cache ms)) = fst ` set cache \<union> snap_ticker ` set ms"
    by (induction ms arbitrary: cache) (simp_all add: cache_markets_def AList.dom_update insert_commute)
  moreover have "map snap_ticker (get_all_markets (cache_markets cache ms)) = dict_keys (cache_markets cache ms)"
    by (rule cache_keyed_get_all_markets [OF cache_markets_keyed [OF k]])
  moreover have "distinct (dict_keys (cache_markets cache ms))"
    using cache_markets_keyed [OF k] by (simp add: cache_keyed_def)
  ultimately show ?thesis by (simp only:)
qed

end
