(* ===== verification/Orchestrator.thy ===== *)
theory Orchestrator
  imports Allocator Scanner
begin

text \<open>
  The orchestration of src/src/orchestrator.py and the scanning loop of
  src/src/scanner.py. The bot's state is the record \<open>bot\<close>: the paper trader, the
  performance tracker, the allocator, the strategies (shared with the scanner, so the
  momentum state that \<open>generate_signals\<close> updates is the one \<open>should_exit\<close> reads) and the
  scanner's market cache, keyed by ticker, with the scanner's configuration. One
  iteration of \<open>Orchestrator.run\<close> is \<open>scan_cycle\<close> (\<open>scan_once\<close>, caching the markets that
  passed the scanner's filters, and \<open>generate_signals\<close>) followed by \<open>process_cycle\<close>; an
  exception ends the loop. The API's responses and order books, the clock and the
  position ids (\<open>uuid4\<close>) are arguments; logging and the status line are not modelled.

  The lemmas show that every phase of a cycle keeps the bot invariant \<open>bot_inv\<close> (ledger
  and tracker well formed, risk limits, daily counter equal to realised P\&L), and
  characterise signal routing (C32) and initialisation (C34); no position is ever
  both-sided, and a due exit is never missed (C23). The cycle reads the cache through the
  scanner's \<open>get_market\<close> and \<open>get_all_markets\<close> (\<open>scanner_get_market\<close>,
  \<open>get_all_markets\<close> of the theory Scanner).
\<close>

record strategy_config =
  sc_name :: string
  sc_enabled :: bool
  sc_initial_capital :: money
  sc_max_position_size :: money
  sc_params :: "mean_reversion_config \<times> momentum_config \<times> market_making_config"

record bot_config =
  bc_risk :: risk_config
  bc_strategies :: "strategy_config list"
  bc_performance :: perf_config
  bc_allocator :: allocator_config
  bc_scanner :: scanner_config

record bot =
  b_trader :: paper_trader
  b_tracker :: perf_tracker
  b_allocator :: capital_allocator
  b_strategies :: "strategy list"
  b_market_cache :: "market_snapshot dict"
  b_scanner_config :: scanner_config

section \<open>Initialisation\<close>

text \<open>\<open>_create_strategies\<close>: enabled entries with a known name, in config order.\<close>

fun create_strategies :: "strategy_config list \<Rightarrow> strategy list" where
  "create_strategies [] = []"
| "create_strategies (sc # scs) =
     (if \<not> sc_enabled sc then create_strategies scs
      else if sc_name sc = ''MeanReversion'' then
        MeanReversion ((fst (sc_params sc))\<lparr>mr_max_position_size := sc_max_position_size sc\<rparr>)
        # create_strategies scs
      else if sc_name sc = ''Momentum'' then
        Momentum (fst (snd (sc_params sc))) [] # create_strategies scs
      else if sc_name sc = ''MarketMaking'' then
        MarketMaking (snd (snd (sc_params sc))) # create_strategies scs
      else create_strategies scs)"

text \<open>The portfolio loop of \<open>initialize\<close>: every enabled entry, known name or not.\<close>

definition init_portfolios :: "paper_trader \<Rightarrow> strategy_config list \<Rightarrow> paper_trader" where
  "init_portfolios t scs =
     fold (\<lambda>sc t. if sc_enabled sc then initialize_portfolio t (sc_name sc) (sc_initial_capital sc)
                  else t) scs t"

text \<open>\<open>Orchestrator.initialize\<close> after the API checks: \<open>None\<close> when no strategy is enabled.\<close>

definition initialize :: "bot_config \<Rightarrow> bot option" where
  "initialize cfg =
     (let strategies = create_strategies (bc_strategies cfg)
      in if strategies = [] then None
         else Some \<lparr>b_trader = init_portfolios (init_trader (bc_risk cfg)) (bc_strategies cfg),
                    b_tracker = init_tracker (bc_performance cfg),
                    b_allocator = init_allocator (bc_allocator cfg)
                                    (max_total_capital (bc_risk cfg)),
                    b_strategies = strategies, b_market_cache = [],
                    b_scanner_config = bc_scanner cfg\<rparr>)"

section \<open>Scanning\<close>

text \<open>
  One iteration of \<open>run_continuous\<close>: \<open>scan_once\<close> on the API's responses and books
  (caching the qualifying markets), then \<open>generate_signals\<close> on them.
\<close>

definition scan_cycle ::
  "bot \<Rightarrow> markets_response list \<Rightarrow> (string \<Rightarrow> raw_orderbook option) \<Rightarrow> timestamp \<Rightarrow>
   bot \<times> signal list" where
  "scan_cycle b rs books now =
     (let ms = scan_once (b_scanner_config b) now books rs;
          cache = cache_markets (b_market_cache b) ms;
          (ss, sigs) = generate_signals (b_strategies b) ms now
      in (b\<lparr>b_market_cache := cache, b_strategies := ss\<rparr>, sigs))"

section \<open>One cycle of the trading loop\<close>

text \<open>
  Step 1 of \<open>_process_cycle\<close>: \<open>both\<close> signals are skipped, as are signals whose market is
  not cached; a rejected signal leaves the engine unchanged. The \<open>i\<close>-th signal's
  position gets the id \<open>ids i\<close>.
\<close>

fun execute_signals ::
  "paper_trader \<Rightarrow> market_snapshot dict \<Rightarrow> (nat \<Rightarrow> string) \<Rightarrow> nat \<Rightarrow> timestamp \<Rightarrow>
   signal list \<Rightarrow> paper_trader" where
  "execute_signals t cache ids i now [] = t"
| "execute_signals t cache ids i now (sg # sgs) =
     (if sig_side sg = Both then execute_signals t cache ids (Suc i) now sgs
      else case scanner_get_market cache (sig_market_id sg) of
        None \<Rightarrow> execute_signals t cache ids (Suc i) now sgs
      | Some m \<Rightarrow>
          (case execute_signal t sg (snap_yes_price m) (ids i) now of
             Inl r \<Rightarrow> execute_signals t cache ids (Suc i) now sgs
           | Inr (t', pos) \<Rightarrow> execute_signals t' cache ids (Suc i) now sgs))"

text \<open>
  Recording the positions one \<open>check_exits\<close> closed: the trade, then a snapshot of the
  strategy's capital after the exits.
\<close>

fun record_closed ::
  "perf_tracker \<Rightarrow> paper_trader \<Rightarrow> string \<Rightarrow> timestamp \<Rightarrow> paper_position list \<Rightarrow> perf_tracker" where
  "record_closed tr t name now [] = tr"
| "record_closed tr t name now (p # ps) =
     (let tr1 = record_trade tr p;
          tr2 = (case get_portfolio t name of
                   None \<Rightarrow> tr1
                 | Some pf \<Rightarrow> record_capital_snapshot tr1 name (current_capital pf) now)
      in record_closed tr2 t name now ps)"

fun exits_for_market ::
  "paper_trader \<times> perf_tracker \<Rightarrow> strategy list \<Rightarrow> market_snapshot \<Rightarrow> timestamp \<Rightarrow>
   paper_trader \<times> perf_tracker" where
  "exits_for_market (t, tr) [] m now = (t, tr)"
| "exits_for_market (t, tr) (s # ss) m now =
     (let (t', closed) = check_exits t (strategy_name_of s) (should_exit s) m now
      in exits_for_market (t', record_closed tr t' (strategy_name_of s) now closed) ss m now)"

text \<open>Step 2: every cached market (\<open>get_all_markets\<close>, in cache order), every strategy.\<close>

definition exit_phase ::
  "paper_trader \<times> perf_tracker \<Rightarrow> strategy list \<Rightarrow> market_snapshot list \<Rightarrow> timestamp \<Rightarrow>
   paper_trader \<times> perf_tracker" where
  "exit_phase st ss ms now = fold (\<lambda>m st. exits_for_market st ss m now) ms st"

text \<open>\<open>_process_cycle\<close>: execute, exit, then rebalance when due (which may raise).\<close>

definition process_cycle ::
  "bot \<Rightarrow> signal list \<Rightarrow> (nat \<Rightarrow> string) \<Rightarrow> timestamp \<Rightarrow> py_error + bot" where
  "process_cycle b sigs ids now =
     (let t1 = execute_signals (b_trader b) (b_market_cache b) ids 0 now sigs;
          (t2, tr2) = exit_phase (t1, b_tracker b) (b_strategies b)
                        (get_all_markets (b_market_cache b)) now
      in if should_rebalance (b_allocator b) now then
           py_bind (rebalance (b_allocator b) tr2 t2 now) (\<lambda>(allocs, a', tr3, t3).
             Inr (b\<lparr>b_trader := t3, b_tracker := tr3, b_allocator := a'\<rparr>))
         else Inr (b\<lparr>b_trader := t2, b_tracker := tr2\<rparr>))"

text \<open>One iteration of \<open>run\<close>: a scan, then the cycle on its signals.\<close>

definition run_step ::
  "bot \<Rightarrow> markets_response list \<Rightarrow> (string \<Rightarrow> raw_orderbook option) \<Rightarrow> (nat \<Rightarrow> string) \<Rightarrow>
   timestamp \<Rightarrow> py_error + bot" where
  "run_step b rs books ids now =
     (let (b1, sigs) = scan_cycle b rs books now in process_cycle b1 sigs ids now)"

text \<open>\<open>cleanup\<close>: final metrics of every portfolio, saved as the day's row.\<close>

fun save_final_metrics ::
  "perf_tracker \<Rightarrow> strategy_portfolio dict \<Rightarrow> timestamp \<Rightarrow> string \<Rightarrow> py_error + perf_tracker" where
  "save_final_metrics tr [] now today = Inr tr"
| "save_final_metrics tr ((name, pf) # ps) now today =
     py_bind (calculate_metrics tr pf now) (\<lambda>(m, tr1).
       save_final_metrics (save_daily_metrics tr1 name m today) ps now today)"

definition cleanup :: "bot \<Rightarrow> timestamp \<Rightarrow> string \<Rightarrow> py_error + bot" where
  "cleanup b now today =
     py_bind (save_final_metrics (b_tracker b) (portfolios (b_trader b)) now today) (\<lambda>tr.
       Inr (b\<lparr>b_tracker := tr\<rparr>))"

text \<open>
  The invariant of the bot between two cycles: the ledger is well formed and within its
  risk limits, the tracker is well formed, and the daily P\&L counter equals the realised
  P\&L summed over all portfolios.
\<close>

definition bot_inv :: "risk_config \<Rightarrow> bot \<Rightarrow> bool" where
  "bot_inv rc b \<longleftrightarrow> risk (b_trader b) = rc \<and> trader_inv (b_trader b) \<and> risk_inv (b_trader b) \<and> tracker_inv (b_tracker b)
     \<and> daily_pnl (b_trader b) = sum_total_pnl (get_summary (b_trader b))"

text \<open>
  The type discipline of the ledger: the side of a position is a \<open>str\<close> that the code
  compares with "yes" and "no"; no open position may have the market-making side
  \<open>both\<close>, which has no price of its own.
\<close>

definition sided_positions :: "paper_trader \<Rightarrow> bool" where
  "sided_positions t \<longleftrightarrow>
     list_all (\<lambda>pf. list_all (\<lambda>p. side p \<noteq> Both) (dict_values (positions pf))) (dict_values (portfolios t))"

text \<open>A position is held by a portfolio: the portfolio of that name has it under its id.\<close>

definition position_held :: "paper_trader \<Rightarrow> string \<Rightarrow> paper_position \<Rightarrow> bool" where
  "position_held t name p \<longleftrightarrow>
     (case get_portfolio t name of None \<Rightarrow> False | Some pf \<Rightarrow> map_of (positions pf) (pos_id p) = Some p)"

section \<open>Invariants of the cycle\<close>

text \<open>
  Each phase of \<open>_process_cycle\<close> keeps the ledger and the tracker well formed, the risk
  limits, and the difference between the daily counter and the realised P\&L; the ids
  given to new positions are assumed distinct and unused (\<open>uuid4\<close>).
\<close>

lemma execute_signal_risk:
  assumes "trader_inv t" and "pid \<notin> set (all_open_ids t)"
    and "execute_signal t sg mp pid now = Inr (t', pos)"
  shows "risk_inv t'"
proof -
  obtain pf where "check_risk_limits t sg pf = None"
    using execute_signal_Inr [OF assms(3)] by blast
  then have e: "all_exposure t + sig_size sg \<le> max_total_capital (risk t) * max_exposure_pct (risk t)"
    and c: "int (all_open_count t) < max_concurrent_positions (risk t)"
    by (auto simp: check_risk_limits_def split: if_splits)
  note st = execute_signal_step [OF assms]
  show ?thesis using e c st(2-5) by (simp add: risk_inv_def)
qed

lemma execute_signal_open_ids:
  assumes "trader_inv t" and "pid \<notin> set (all_open_ids t)"
    and "execute_signal t sg mp pid now = Inr (t', pos)"
  shows "set (all_open_ids t') = insert pid (set (all_open_ids t))"
proof -
  obtain pf where g: "get_portfolio t (sig_strategy_name sg) = Some pf"
    and t': "t' = t\<lparr>portfolios := AList.update (sig_strategy_name sg)
                 (pf\<lparr>positions := AList.update pid pos (positions pf)\<rparr>) (portfolios t)\<rparr>"
    using execute_signal_Inr [OF assms(3)] by blast
  have dk: "distinct (dict_keys (portfolios t))" using assms(1) by (simp add: trader_inv_def)
  have mo: "map_of (portfolios t) (sig_strategy_name sg) = Some pf"
    using g by (simp add: get_portfolio_def)
  obtain xs ys where ps: "portfolios t = xs @ (sig_strategy_name sg, pf) # ys"
    and ps': "AList.update (sig_strategy_name sg) (pf\<lparr>positions := AList.update pid pos (positions pf)\<rparr>)
                (portfolios t) = xs @ (sig_strategy_name sg, pf\<lparr>positions := AList.update pid pos (positions pf)\<rparr>) # ys"
    using dict_update_delete_split [OF dk mo] by metis
  have "pf \<in> set (dict_values (portfolios t))" using ps by simp
  then have "map_of (positions pf) pid = None" using assms(2) by (auto simp: not_in_open_ids)
  then have "AList.update pid pos (positions pf) = positions pf @ [(pid, pos)]"
    by (rule update_new_append)
  then show ?thesis using ps ps' by (auto simp: t' all_open_ids_def)
qed

lemma execute_signals_step:
  assumes "trader_inv t" and "risk_inv t" and "inj ids"
    and "\<forall>j\<ge>i. ids j \<notin> set (all_open_ids t)"
  shows "trader_inv (execute_signals t cache ids i now sgs) \<and> risk_inv (execute_signals t cache ids i now sgs) \<and>
         risk (execute_signals t cache ids i now sgs) = risk t \<and>
         daily_pnl (execute_signals t cache ids i now sgs)
           - sum_total_pnl (get_summary (execute_signals t cache ids i now sgs)) =
         daily_pnl t - sum_total_pnl (get_summary t)"
  using assms
proof (induction sgs arbitrary: t i)
  case Nil
  then show ?case by simp
next
  case (Cons sg sgs)
  have fr: "\<forall>j\<ge>Suc i. ids j \<notin> set (all_open_ids t)" using Cons.prems(4) by simp
  show ?case
  proof (cases "sig_side sg = Both \<or> map_of cache (sig_market_id sg) = None")
    case True
    then have "execute_signals t cache ids i now (sg # sgs) = execute_signals t cache ids (Suc i) now sgs"
      by auto
    with Cons.IH [OF Cons.prems(1-3) fr] show ?thesis by simp
  next
    case False
    then obtain m where side: "sig_side sg \<noteq> Both" and mc: "map_of cache (sig_market_id sg) = Some m"
      by auto
    show ?thesis
    proof (cases "execute_signal t sg (snap_yes_price m) (ids i) now")
      case (Inl r)
      then have "execute_signals t cache ids i now (sg # sgs) = execute_signals t cache ids (Suc i) now sgs"
        using side mc by simp
      with Cons.IH [OF Cons.prems(1-3) fr] show ?thesis by simp
    next
      case (Inr res)
      then obtain t' pos where ex: "execute_signal t sg (snap_yes_price m) (ids i) now = Inr (t', pos)"
        by (cases res) auto
      have f0: "ids i \<notin> set (all_open_ids t)" using Cons.prems(4) by simp
      note st = execute_signal_step [OF Cons.prems(1) f0 ex]
      have inv': "trader_inv t'" by (rule st(1))
      have risk': "risk_inv t'" by (rule execute_signal_risk [OF Cons.prems(1) f0 ex])
      have fr': "\<forall>j\<ge>Suc i. ids j \<notin> set (all_open_ids t')"
      proof (intro allI impI)
        fix j assume j: "Suc i \<le> j"
        then have "ids j \<noteq> ids i" using Cons.prems(3) by (auto dest: injD)
        with fr j show "ids j \<notin> set (all_open_ids t')"
          using execute_signal_open_ids [OF Cons.prems(1) f0 ex] by auto
      qed
      have "execute_signals t cache ids i now (sg # sgs) = execute_signals t' cache ids (Suc i) now sgs"
        using side mc ex by simp
      moreover have "risk t' = risk t" by (rule st(5))
      moreover have "daily_pnl t' - sum_total_pnl (get_summary t') = daily_pnl t - sum_total_pnl (get_summary t)"
        using st(6) execute_signal_realised [OF Cons.prems(1) ex] by simp
      ultimately show ?thesis using Cons.IH [OF inv' risk' Cons.prems(3) fr'] by simp
    qed
  qed
qed

lemma record_closed_inv: "tracker_inv tr \<Longrightarrow> tracker_inv (record_closed tr t name now ps)"
  by (induction ps arbitrary: tr)
    (auto simp: Let_def tracker_inv_record_trade tracker_inv_record_capital_snapshot split: option.splits)

lemma exits_for_market_step:
  assumes "trader_inv t" and "risk_inv t" and "tracker_inv tr"
    and "exits_for_market (t, tr) ss m now = (t', tr')"
  shows "trader_inv t' \<and> risk_inv t' \<and> tracker_inv tr' \<and> risk t' = risk t \<and>
         daily_pnl t' - sum_total_pnl (get_summary t') = daily_pnl t - sum_total_pnl (get_summary t)"
  using assms
proof (induction ss arbitrary: t tr)
  case Nil
  then show ?case by simp
next
  case (Cons s ss)
  obtain t1 rs where ce: "check_exits t (strategy_name_of s) (should_exit s) m now = (t1, rs)"
    by fastforce
  note st = check_exits_step [OF Cons.prems(1) ce]
  have risk1: "risk_inv t1" using st Cons.prems(2) by (auto simp: risk_inv_def)
  have tr1: "tracker_inv (record_closed tr t1 (strategy_name_of s) now rs)"
    by (rule record_closed_inv [OF Cons.prems(3)])
  have "exits_for_market (t1, record_closed tr t1 (strategy_name_of s) now rs) ss m now = (t', tr')"
    using Cons.prems(4) ce by simp
  from Cons.IH [OF _ risk1 tr1 this] st check_exits_daily_realised [OF Cons.prems(1) ce]
  show ?case by simp
qed

lemma exit_phase_step:
  assumes "trader_inv t" and "risk_inv t" and "tracker_inv tr"
    and "exit_phase (t, tr) ss ms now = (t', tr')"
  shows "trader_inv t' \<and> risk_inv t' \<and> tracker_inv tr' \<and> risk t' = risk t \<and>
         daily_pnl t' - sum_total_pnl (get_summary t') = daily_pnl t - sum_total_pnl (get_summary t)"
  using assms
proof (induction ms arbitrary: t tr)
  case Nil
  then show ?case by (simp add: exit_phase_def)
next
  case (Cons m ms)
  obtain t1 tr1 where e: "exits_for_market (t, tr) ss m now = (t1, tr1)" by fastforce
  note st = exits_for_market_step [OF Cons.prems(1-3) e]
  have "exit_phase (t1, tr1) ss ms now = (t', tr')" using Cons.prems(4) e by (simp add: exit_phase_def)
  with Cons.IH [of t1 tr1] st show ?case by simp
qed

lemma set_allocation_realised:
  assumes "trader_inv t"
  shows "sum_total_pnl (get_summary (set_allocation ar t)) = sum_total_pnl (get_summary t)"
proof (cases "get_portfolio t (ar_strategy_name ar)")
  case None
  then show ?thesis by (simp add: set_allocation_def)
next
  case (Some pf)
  let ?pf' = "pf\<lparr>current_capital := new_allocation ar, initial_capital := new_allocation ar\<rparr>"
  have dk: "distinct (dict_keys (portfolios t))" using assms by (simp add: trader_inv_def)
  have mo: "map_of (portfolios t) (ar_strategy_name ar) = Some pf"
    using Some by (simp add: get_portfolio_def)
  have "(\<Sum>v\<leftarrow>dict_values (AList.update (ar_strategy_name ar) ?pf' (portfolios t)). total_pnl v) =
        (\<Sum>v\<leftarrow>dict_values (portfolios t). total_pnl v) - total_pnl pf + total_pnl ?pf'"
    by (rule sum_list_map_update_dict [OF dk mo])
  then show ?thesis using Some by (simp add: set_allocation_def sum_total_pnl_eq total_pnl_def)
qed

lemma fold_set_allocation_realised:
  "trader_inv t \<Longrightarrow>
   sum_total_pnl (get_summary (fold set_allocation allocs t)) = sum_total_pnl (get_summary t)"
proof (induction allocs arbitrary: t)
  case (Cons ar allocs)
  have "trader_inv (set_allocation ar t)" using set_allocation_step [OF Cons.prems] by simp
  from Cons.IH [OF this] set_allocation_realised [OF Cons.prems] show ?case by simp
qed simp

lemma score_portfolios_tracker_inv:
  "tracker_inv tr \<Longrightarrow> score_portfolios cfg tr ps now = Inr (rs, tr') \<Longrightarrow> tracker_inv tr'"
proof (induction ps arbitrary: tr rs)
  case (Cons p ps)
  obtain name pf where p: "p = (name, pf)" by fastforce
  from Cons.prems(2) obtain m tr1 rs1 where c: "calculate_metrics tr pf now = Inr (m, tr1)"
    and s: "score_portfolios cfg tr1 ps now = Inr (rs1, tr')"
    by (auto simp: p py_bind_Inr_iff split: prod.splits)
  show ?case by (rule Cons.IH [OF tracker_inv_calculate_metrics [OF Cons.prems(1) c] s])
qed simp

lemma rebalance_tracker_inv:
  assumes "tracker_inv tr" and "rebalance a tr t now = Inr (allocs, a', tr', t')"
  shows "tracker_inv tr'"
proof -
  have "tr' = tr \<or> (\<exists>rs. score_portfolios (alloc_cfg a) tr (portfolios t) now = Inr (rs, tr'))"
    using assms(2)
    by (auto simp: rebalance_def calculate_allocations_def rank_strategies_def py_bind_Inr_iff
        split: if_splits prod.splits)
  then show ?thesis using assms(1) score_portfolios_tracker_inv by blast
qed

lemma rebalance_trader_step:
  assumes "trader_inv t" and "risk_inv t" and "rebalance a tr t now = Inr (allocs, a', tr', t')"
  shows "trader_inv t' \<and> risk_inv t' \<and> risk t' = risk t \<and>
         daily_pnl t' - sum_total_pnl (get_summary t') = daily_pnl t - sum_total_pnl (get_summary t)"
proof -
  have "t' = t \<or> t' = fold set_allocation allocs t"
    using assms(3)
    by (auto simp: rebalance_def py_bind_Inr_iff split: if_splits prod.splits)
  then show ?thesis
    using assms(1,2) fold_set_allocation_step [OF assms(1), of allocs]
      fold_set_allocation_realised [OF assms(1), of allocs]
    by (auto simp: risk_inv_def)
qed

lemma process_cycle_inv:
  assumes "bot_inv rc b" and "inj ids" and "\<forall>i. ids i \<notin> set (all_open_ids (b_trader b))"
    and "process_cycle b sigs ids now = Inr b'"
  shows "bot_inv rc b'"
proof -
  let ?t1 = "execute_signals (b_trader b) (b_market_cache b) ids 0 now sigs"
  have inv: "trader_inv (b_trader b)" "risk_inv (b_trader b)" "tracker_inv (b_tracker b)"
    and d0: "daily_pnl (b_trader b) = sum_total_pnl (get_summary (b_trader b))"
    and r0: "risk (b_trader b) = rc"
    using assms(1) by (simp_all add: bot_inv_def)
  have e: "trader_inv ?t1 \<and> risk_inv ?t1 \<and> risk ?t1 = risk (b_trader b) \<and>
           daily_pnl ?t1 - sum_total_pnl (get_summary ?t1) =
           daily_pnl (b_trader b) - sum_total_pnl (get_summary (b_trader b))"
    using execute_signals_step [OF inv(1,2) assms(2)] assms(3) by blast
  obtain t2 tr2 where x: "exit_phase (?t1, b_tracker b) (b_strategies b)
                            (dict_values (b_market_cache b)) now = (t2, tr2)"
    by fastforce
  have x2: "trader_inv t2 \<and> risk_inv t2 \<and> tracker_inv tr2 \<and> risk t2 = rc \<and>
            daily_pnl t2 = sum_total_pnl (get_summary t2)"
    using exit_phase_step [OF _ _ inv(3) x] e d0 r0 by simp
  show ?thesis
  proof (cases "should_rebalance (b_allocator b) now")
    case False
    then have "b' = b\<lparr>b_trader := t2, b_tracker := tr2\<rparr>"
      using assms(4) x by (simp add: process_cycle_def Let_def)
    with x2 show ?thesis by (simp add: bot_inv_def)
  next
    case True
    then obtain allocs a' tr3 t3 where r: "rebalance (b_allocator b) tr2 t2 now = Inr (allocs, a', tr3, t3)"
      and b': "b' = b\<lparr>b_trader := t3, b_tracker := tr3, b_allocator := a'\<rparr>"
      using assms(4) x by (auto simp: process_cycle_def Let_def py_bind_Inr_iff)
    have "tracker_inv tr3" using rebalance_tracker_inv [OF _ r] x2 by simp
    with rebalance_trader_step [OF _ _ r] x2 b' show ?thesis by (simp add: bot_inv_def)
  qed
qed

lemma scan_cycle_keeps_engine:
  assumes "scan_cycle b rs books now = (b1, sigs)"
  shows "b_trader b1 = b_trader b \<and> b_tracker b1 = b_tracker b \<and> b_allocator b1 = b_allocator b"
  using assms by (auto simp: scan_cycle_def Let_def split: prod.splits)

lemma run_step_inv:
  assumes "bot_inv rc b" and "inj ids" and "\<forall>i. ids i \<notin> set (all_open_ids (b_trader b))"
    and "run_step b rs books ids now = Inr b'"
  shows "bot_inv rc b'"
proof -
  obtain b1 sigs where sc: "scan_cycle b rs books now = (b1, sigs)" by fastforce
  note k = scan_cycle_keeps_engine [OF sc]
  have "bot_inv rc b1" using assms(1) k by (simp add: bot_inv_def)
  moreover have "\<forall>i. ids i \<notin> set (all_open_ids (b_trader b1))" using assms(3) k by simp
  moreover have "process_cycle b1 sigs ids now = Inr b'" using assms(4) sc by (simp add: run_step_def)
  ultimately show ?thesis using process_cycle_inv assms(2) by blast
qed

lemma init_portfolios_step:
  assumes "trader_inv t" and "distinct (dict_keys (portfolios t) @ map sc_name (filter sc_enabled scs))"
  shows "trader_inv (init_portfolios t scs) \<and> all_exposure (init_portfolios t scs) = all_exposure t \<and>
         all_open_count (init_portfolios t scs) = all_open_count t \<and>
         risk (init_portfolios t scs) = risk t \<and> daily_pnl (init_portfolios t scs) = daily_pnl t \<and>
         sum_total_pnl (get_summary (init_portfolios t scs)) = sum_total_pnl (get_summary t)"
  using assms unfolding init_portfolios_def
proof (induction scs arbitrary: t)
  case (Cons sc scs)
  show ?case
  proof (cases "sc_enabled sc")
    case True
    let ?t = "initialize_portfolio t (sc_name sc) (sc_initial_capital sc)"
    have none: "map_of (portfolios t) (sc_name sc) = None"
      using Cons.prems(2) True by (auto simp: map_of_eq_None_iff)
    have pt: "portfolios ?t = portfolios t @ [(sc_name sc, new_portfolio (sc_name sc) (sc_initial_capital sc))]"
      using none by (simp add: initialize_portfolio_def update_new_append)
    have "distinct (dict_keys (portfolios ?t) @ map sc_name (filter sc_enabled scs))"
      using Cons.prems(2) True by (simp add: pt)
    note ih = Cons.IH [OF initialize_portfolio_step(1) [OF Cons.prems(1) none] this]
    have "sum_total_pnl (get_summary ?t) = sum_total_pnl (get_summary t)"
      by (simp add: sum_total_pnl_eq pt total_pnl_def new_portfolio_def)
    with ih initialize_portfolio_step(2,3) [OF Cons.prems(1) none] True show ?thesis
      by (simp add: initialize_portfolio_def)
  next
    case False
    with Cons show ?thesis by simp
  qed
qed simp

lemma initialize_inv:
  assumes "initialize cfg = Some b" and "distinct (map sc_name (bc_strategies cfg))"
    and "0 \<le> max_total_capital (bc_risk cfg) * max_exposure_pct (bc_risk cfg)"
    and "0 \<le> max_concurrent_positions (bc_risk cfg)"
  shows "bot_inv (bc_risk cfg) b"
proof -
  let ?t0 = "init_trader (bc_risk cfg)"
  have b: "b_trader b = init_portfolios ?t0 (bc_strategies cfg) \<and> b_tracker b = init_tracker (bc_performance cfg)"
    using assms(1) by (auto simp: initialize_def Let_def split: if_splits)
  have "distinct (dict_keys (portfolios ?t0) @ map sc_name (filter sc_enabled (bc_strategies cfg)))"
    using assms(2) by (simp add: init_trader_def distinct_map_filter)
  note st = init_portfolios_step [OF trader_inv_init this]
  have z: "all_exposure ?t0 = 0" "all_open_count ?t0 = 0" "sum_total_pnl (get_summary ?t0) = 0"
    by (simp_all add: init_trader_def all_exposure_def all_open_count_def sum_total_pnl_eq)
  show ?thesis
    using st z b assms(3,4) tracker_inv_init
    by (simp add: bot_inv_def risk_inv_def init_trader_def)
qed

section \<open>Signal routing and initialisation\<close>

text \<open>
  Signals carry the market's id (\<open>market_data["market_id"]\<close>, the API's \<open>id\<close> field when
  present), while the cache the executor reads is keyed by ticker.
\<close>

lemma analyze_market_id:
  "analyze s m now = (s', Inr (Some sg)) \<Longrightarrow> sig_market_id sg = snap_market_id m"
proof (cases s)
  case (Momentum c h)
  assume a: "analyze s m now = (s', Inr (Some sg))"
  then show ?thesis using Momentum
    by (auto simp: mom_analyze_def momentum_signal_def Let_def py_bind_Inr_iff split: if_splits prod.splits)
qed (auto simp: mr_analyze_def mm_analyze_def Let_def split: if_splits prod.splits)

lemma signals_for_market_ids:
  "signals_for_market ss m now = (ss', sigs) \<Longrightarrow> list_all (\<lambda>sg. sig_market_id sg = snap_market_id m) sigs"
proof (induction ss arbitrary: ss' sigs)
  case (Cons s ss)
  obtain s1 r where a: "analyze s m now = (s1, r)" by fastforce
  obtain ss1 sgs1 where r: "signals_for_market ss m now = (ss1, sgs1)" by fastforce
  have "sigs = (case r of Inr (Some sg) \<Rightarrow> [sg] | _ \<Rightarrow> []) @ sgs1"
    using Cons.prems a r by simp
  then show ?case using Cons.IH [OF r] analyze_market_id [of s m now s1] a
    by (auto split: sum.splits option.splits)
qed simp

lemma generate_signals_ids:
  "generate_signals ss ms now = (ss', sigs) \<Longrightarrow>
   list_all (\<lambda>sg. sig_market_id sg \<in> snap_market_id ` set ms) sigs"
proof (induction ms arbitrary: ss ss' sigs)
  case (Cons m ms)
  obtain ss1 a where s: "signals_for_market ss m now = (ss1, a)" by fastforce
  obtain ss2 b where g: "generate_signals ss1 ms now = (ss2, b)" by fastforce
  have "sigs = a @ b" using Cons.prems s g by simp
  then show ?case using Cons.IH [OF g] signals_for_market_ids [OF s]
    by (auto simp: list_all_iff)
qed simp

lemma execute_signals_uncached:
  "list_all (\<lambda>sg. map_of cache (sig_market_id sg) = None) sgs \<Longrightarrow> execute_signals t cache ids i now sgs = t"
  by (induction sgs arbitrary: i) auto

lemma create_strategies_Nil_iff:
  "create_strategies scs = [] \<longleftrightarrow>
   list_all (\<lambda>sc. sc_enabled sc \<longrightarrow> sc_name sc \<notin> {''MeanReversion'', ''Momentum'', ''MarketMaking''}) scs"
  by (induction scs) auto

lemma create_strategies_names:
  "map strategy_name_of (create_strategies scs) =
   filter (\<lambda>n. n \<in> {''MeanReversion'', ''Momentum'', ''MarketMaking''}) (map sc_name (filter sc_enabled scs))"
  by (induction scs) auto

lemma init_portfolios_keys:
  "distinct (dict_keys (portfolios t) @ map sc_name (filter sc_enabled scs)) \<Longrightarrow>
   dict_keys (portfolios (init_portfolios t scs)) = dict_keys (portfolios t) @ map sc_name (filter sc_enabled scs)"
  unfolding init_portfolios_def
proof (induction scs arbitrary: t)
  case (Cons sc scs)
  show ?case
  proof (cases "sc_enabled sc")
    case True
    have "map_of (portfolios t) (sc_name sc) = None"
      using Cons.prems True by (auto simp: map_of_eq_None_iff)
    then have pt: "portfolios (initialize_portfolio t (sc_name sc) (sc_initial_capital sc)) =
                   portfolios t @ [(sc_name sc, new_portfolio (sc_name sc) (sc_initial_capital sc))]"
      by (simp add: initialize_portfolio_def update_new_append)
    from Cons.prems True have "distinct (dict_keys (portfolios
        (initialize_portfolio t (sc_name sc) (sc_initial_capital sc))) @ map sc_name (filter sc_enabled scs))"
      by (simp add: pt)
    from Cons.IH [OF this] True show ?thesis by (simp add: pt)
  qed (use Cons in simp)
qed simp

text \<open>C32: a signal is executed only if its market id is a ticker of the cache: signals generated for markets whose id is not a cached ticker leave the engine unchanged.\<close>

theorem signals_skipped_uncached:
  assumes "generate_signals ss ms now = (ss', sigs)"
    and "\<forall>m\<in>set ms. map_of cache (snap_market_id m) = None"
  shows "execute_signals t cache ids i now sigs = t"
  using generate_signals_ids [OF assms(1)] assms(2)
  by (intro execute_signals_uncached) (auto simp: list_all_iff)

text \<open>Initialisation fails exactly when no enabled entry of the configuration names a known strategy.\<close>

theorem initialize_none_iff:
  "Orchestrator.initialize cfg = None \<longleftrightarrow>
   list_all (\<lambda>sc. sc_enabled sc \<longrightarrow> sc_name sc \<notin> {''MeanReversion'', ''Momentum'', ''MarketMaking''})
     (bc_strategies cfg)"
  by (simp add: initialize_def Let_def create_strategies_Nil_iff)

text \<open>C34: after initialisation every enabled entry has a portfolio, in configuration order, while only the entries with a known name have a strategy.\<close>

theorem initialize_portfolios:
  assumes "Orchestrator.initialize cfg = Some b" and "distinct (map sc_name (bc_strategies cfg))"
  shows "dict_keys (portfolios (b_trader b)) = map sc_name (filter sc_enabled (bc_strategies cfg)) \<and>
         map strategy_name_of (b_strategies b) =
           filter (\<lambda>n. n \<in> {''MeanReversion'', ''Momentum'', ''MarketMaking''})
             (map sc_name (filter sc_enabled (bc_strategies cfg)))"
proof -
  have b: "b_trader b = init_portfolios (init_trader (bc_risk cfg)) (bc_strategies cfg) \<and>
           b_strategies b = create_strategies (bc_strategies cfg)"
    using assms(1) by (auto simp: initialize_def Let_def split: if_splits)
  have "distinct (dict_keys (portfolios (init_trader (bc_risk cfg))) @ map sc_name (filter sc_enabled (bc_strategies cfg)))"
    using assms(2) by (simp add: init_trader_def distinct_map_filter)
  from init_portfolios_keys [OF this] b show ?thesis
    by (simp add: create_strategies_names init_trader_def)
qed

abbreviation listed_market :: market_snapshot where
  "listed_market \<equiv> extreme_market\<lparr>snap_market_id := ''3f9c2a''\<rparr>"

abbreviation demo_params :: "mean_reversion_config \<times> momentum_config \<times> market_making_config" where
  "demo_params \<equiv> (default_mean_reversion_config, default_momentum_config, default_market_making_config)"

abbreviation demo_bot_config :: bot_config where
  "demo_bot_config \<equiv>
     \<lparr>bc_risk = default_risk_config,
      bc_strategies = [\<lparr>sc_name = ''MeanReversion'', sc_enabled = True, sc_initial_capital = 100,
                         sc_max_position_size = 10, sc_params = demo_params\<rparr>,
                       \<lparr>sc_name = ''Arbitrage'', sc_enabled = True, sc_initial_capital = 50,
                         sc_max_position_size = 10, sc_params = demo_params\<rparr>,
                       \<lparr>sc_name = ''Momentum'', sc_enabled = False, sc_initial_capital = 50,
                         sc_max_position_size = 10, sc_params = demo_params\<rparr>],
      bc_performance = default_perf_config, bc_allocator = default_allocator_config,
      bc_scanner = default_scanner_config\<rparr>"

theorem signals_skipped_uncached_witness:
  "snd (generate_signals [MeanReversion default_mean_reversion_config] [listed_market] 0) \<noteq> [] \<and>
   execute_signals mr_trader (cache_markets [] [listed_market]) (\<lambda>n. ''p1'') 0 0
     (snd (generate_signals [MeanReversion default_mean_reversion_config] [listed_market] 0)) = mr_trader"
proof -
  let ?g = "generate_signals [MeanReversion default_mean_reversion_config] [listed_market] 0"
  have g: "?g = (fst ?g, snd ?g)" by simp
  have c: "\<forall>m\<in>set [listed_market]. map_of (cache_markets [] [listed_market]) (snap_market_id m) = None"
    by (simp add: cache_markets_def)
  have "snd ?g \<noteq> []"
    by (simp add: mr_analyze_def default_mean_reversion_config_def Let_def)
  with signals_skipped_uncached [OF g c] show ?thesis by simp
qed

theorem initialize_none_iff_witness:
  "Orchestrator.initialize (demo_bot_config\<lparr>bc_strategies := tl (bc_strategies demo_bot_config)\<rparr>) = None"
  using initialize_none_iff [of "demo_bot_config\<lparr>bc_strategies := tl (bc_strategies demo_bot_config)\<rparr>"]
  by simp

theorem initialize_portfolios_witness:
  "\<exists>b. Orchestrator.initialize demo_bot_config = Some b \<and>
       dict_keys (portfolios (b_trader b)) = [''MeanReversion'', ''Arbitrage''] \<and>
       map strategy_name_of (b_strategies b) = [''MeanReversion'']"
proof -
  obtain b where b: "Orchestrator.initialize demo_bot_config = Some b"
    by (simp add: initialize_def)
  from initialize_portfolios [OF b] b show ?thesis by auto
qed

section \<open>No position is both-sided\<close>

lemma sided_member:
  "sided_positions t \<Longrightarrow> (n, pf) \<in> set (portfolios t) \<Longrightarrow>
   list_all (\<lambda>p. side p \<noteq> Both) (dict_values (positions pf))"
  by (force simp: sided_positions_def list_all_iff)

lemma execute_signal_sided:
  assumes "sided_positions t" and "sig_side sg \<noteq> Both"
    and "execute_signal t sg mp pid now = Inr (t', pos)"
  shows "sided_positions t'"
proof -
  obtain pf where g: "get_portfolio t (sig_strategy_name sg) = Some pf"
    and pos: "pos = open_position_of sg pid now (contract_quantity (sig_size sg) (effective_price (sig_side sg) mp))
                 (effective_price (sig_side sg) mp)"
    and t': "t' = t\<lparr>portfolios := AList.update (sig_strategy_name sg)
                 (pf\<lparr>positions := AList.update pid pos (positions pf)\<rparr>) (portfolios t)\<rparr>"
    using execute_signal_Inr [OF assms(3)] by blast
  have "(sig_strategy_name sg, pf) \<in> set (portfolios t)"
    using g by (simp add: get_portfolio_def map_of_SomeD)
  then have "list_all (\<lambda>p. side p \<noteq> Both) (dict_values (positions pf))"
    by (rule sided_member [OF assms(1)])
  moreover have "side pos \<noteq> Both" using pos assms(2) by (simp add: open_position_of_def)
  ultimately show ?thesis
    using assms(1) by (simp add: t' sided_positions_def list_all_values_update)
qed

lemma close_position_sided:
  assumes "sided_positions t" and "close_position t pid xp why now = Some (t', pos')"
  shows "sided_positions t'"
proof -
  obtain n pf pos where fh: "find_holder (portfolios t) pid = Some (n, pf)"
    and t': "t' = t\<lparr>portfolios := AList.update n
            (pf\<lparr>current_capital := current_capital pf + pnl pos',
                closed_positions := closed_positions pf @ [pos'],
                positions := AList.delete pid (positions pf)\<rparr>) (portfolios t),
               daily_pnl := daily_pnl t + pnl pos'\<rparr>"
    using close_position_Some [OF assms(2)] by blast
  have "list_all (\<lambda>p. side p \<noteq> Both) (dict_values (positions pf))"
    using find_holder_Some [OF fh] by (blast intro: sided_member [OF assms(1)])
  then show ?thesis
    using assms(1) by (simp add: t' sided_positions_def list_all_values_update list_all_values_delete)
qed

lemma exit_scan_sided:
  "sided_positions t \<Longrightarrow> exit_scan ex m now ps t = (t', rs) \<Longrightarrow> sided_positions t'"
proof (induction ex m now ps t arbitrary: t' rs rule: exit_scan.induct)
  case (2 ex m now p ps t)
  then show ?case
    by (auto simp: Let_def split: if_splits option.splits prod.splits dest: close_position_sided)
qed simp

lemma check_exits_sided:
  "sided_positions t \<Longrightarrow> check_exits t name ex m now = (t', rs) \<Longrightarrow> sided_positions t'"
  by (auto simp: check_exits_def split: option.splits intro: exit_scan_sided)

lemma set_allocation_sided:
  assumes "sided_positions t"
  shows "sided_positions (set_allocation ar t)"
proof (cases "get_portfolio t (ar_strategy_name ar)")
  case None
  then show ?thesis using assms by (simp add: set_allocation_def)
next
  case (Some pf)
  then have "(ar_strategy_name ar, pf) \<in> set (portfolios t)"
    by (simp add: get_portfolio_def map_of_SomeD)
  from sided_member [OF assms this] Some assms show ?thesis
    by (simp add: set_allocation_def sided_positions_def list_all_values_update)
qed

lemma execute_signals_sided:
  "sided_positions t \<Longrightarrow> sided_positions (execute_signals t cache ids i now sgs)"
proof (induction sgs arbitrary: t i)
  case (Cons sg sgs)
  then show ?case
    by (auto split: option.splits sum.splits prod.splits dest: execute_signal_sided)
qed simp

lemma exits_for_market_sided:
  "sided_positions t \<Longrightarrow> exits_for_market (t, tr) ss m now = (t', tr') \<Longrightarrow> sided_positions t'"
proof (induction ss arbitrary: t tr)
  case (Cons s ss)
  obtain t1 rs where ce: "check_exits t (strategy_name_of s) (should_exit s) m now = (t1, rs)"
    by fastforce
  from Cons.prems ce show ?case
    by (auto intro: Cons.IH [OF check_exits_sided [OF Cons.prems(1) ce]])
qed simp

lemma exit_phase_sided:
  "sided_positions t \<Longrightarrow> exit_phase (t, tr) ss ms now = (t', tr') \<Longrightarrow> sided_positions t'"
proof (induction ms arbitrary: t tr)
  case (Cons m ms)
  obtain t1 tr1 where e: "exits_for_market (t, tr) ss m now = (t1, tr1)" by fastforce
  from Cons.prems e show ?case
    by (auto simp: exit_phase_def intro: Cons.IH [OF exits_for_market_sided [OF Cons.prems(1) e],
          unfolded exit_phase_def])
qed (simp add: exit_phase_def)

lemma rebalance_sided:
  assumes "sided_positions t" and "rebalance a tr t now = Inr (allocs, a', tr', t')"
  shows "sided_positions t'"
proof -
  have fold: "sided_positions (fold set_allocation as t)" for as
    using assms(1) by (induction as arbitrary: t) (auto intro: set_allocation_sided)
  have "t' = t \<or> t' = fold set_allocation allocs t"
    using assms(2) by (auto simp: rebalance_def py_bind_Inr_iff split: if_splits prod.splits)
  then show ?thesis using assms(1) fold by auto
qed

lemma process_cycle_sided:
  assumes "sided_positions (b_trader b)" and "process_cycle b sigs ids now = Inr b'"
  shows "sided_positions (b_trader b')"
proof -
  let ?t1 = "execute_signals (b_trader b) (b_market_cache b) ids 0 now sigs"
  obtain t2 tr2 where x: "exit_phase (?t1, b_tracker b) (b_strategies b)
                            (dict_values (b_market_cache b)) now = (t2, tr2)"
    by fastforce
  have s2: "sided_positions t2"
    by (rule exit_phase_sided [OF execute_signals_sided [OF assms(1)] x])
  show ?thesis
  proof (cases "should_rebalance (b_allocator b) now")
    case False
    then show ?thesis using assms(2) x s2 by (auto simp: process_cycle_def Let_def)
  next
    case True
    then obtain allocs a' tr3 t3 where r: "rebalance (b_allocator b) tr2 t2 now = Inr (allocs, a', tr3, t3)"
      and b': "b' = b\<lparr>b_trader := t3, b_tracker := tr3, b_allocator := a'\<rparr>"
      using assms(2) x by (auto simp: process_cycle_def Let_def py_bind_Inr_iff)
    from rebalance_sided [OF s2 r] b' show ?thesis by simp
  qed
qed

lemma run_step_sided:
  assumes "sided_positions (b_trader b)" and "run_step b rs books ids now = Inr b'"
  shows "sided_positions (b_trader b')"
proof -
  obtain b1 sigs where sc: "scan_cycle b rs books now = (b1, sigs)" by fastforce
  have "sided_positions (b_trader b1)" using assms(1) scan_cycle_keeps_engine [OF sc] by simp
  moreover have "process_cycle b1 sigs ids now = Inr b'" using assms(2) sc by (simp add: run_step_def)
  ultimately show ?thesis by (rule process_cycle_sided)
qed

lemma initialize_sided:
  assumes "initialize cfg = Some b"
  shows "sided_positions (b_trader b)"
proof -
  have step: "sided_positions (init_portfolios t scs)" if "sided_positions t" for t scs
    using that unfolding init_portfolios_def
    by (induction scs arbitrary: t)
      (auto simp: initialize_portfolio_def sided_positions_def new_portfolio_def list_all_values_update)
  have "sided_positions (init_trader (bc_risk cfg))" by (simp add: sided_positions_def init_trader_def)
  with assms show ?thesis by (auto simp: initialize_def Let_def split: if_splits intro: step)
qed

section \<open>Exits are not missed\<close>

text \<open>
  A position whose strategy's exit condition holds at a cached market leaves the book in
  the next cycle: nothing before the exit phase removes it from its portfolio (new
  positions have fresh ids), the exit phase visits every cached market and every strategy,
  and nothing after it reopens a position.
\<close>

lemma close_position_keeps_held:
  assumes inv: "trader_inv t" and cl: "close_position t q xp why now = Some (t', r)"
    and h: "position_held t name p" and q: "q \<noteq> pos_id p"
  shows "position_held t' name p"
proof -
  obtain n pf pos where fh: "find_holder (portfolios t) q = Some (n, pf)"
    and t': "t' = t\<lparr>portfolios := AList.update n
            (pf\<lparr>current_capital := current_capital pf + pnl r,
                closed_positions := closed_positions pf @ [r],
                positions := AList.delete q (positions pf)\<rparr>) (portfolios t),
               daily_pnl := daily_pnl t + pnl r\<rparr>"
    using close_position_Some [OF cl] by metis
  have "map_of (portfolios t) n = Some pf"
    using find_holder_Some [OF fh] inv by (auto simp: trader_inv_def intro: map_of_is_SomeI)
  then show ?thesis using h q
    by (cases "n = name") (simp_all add: position_held_def get_portfolio_def t' update_conv' delete_conv')
qed

lemma close_position_keeps_closed:
  assumes "close_position t q xp why now = Some (t', r)" and "open_book t pid = None"
  shows "open_book t' pid = None"
proof -
  obtain n pf pos where fh: "find_holder (portfolios t) q = Some (n, pf)"
    and t': "t' = t\<lparr>portfolios := AList.update n
            (pf\<lparr>current_capital := current_capital pf + pnl r,
                closed_positions := closed_positions pf @ [r],
                positions := AList.delete q (positions pf)\<rparr>) (portfolios t),
               daily_pnl := daily_pnl t + pnl r\<rparr>"
    using close_position_Some [OF assms(1)] by metis
  have none: "list_all (\<lambda>pf. map_of (positions pf) pid = None) (dict_values (portfolios t))"
    using assms(2) by (simp add: open_book_None_iff not_in_open_ids list_all_iff)
  moreover have "pf \<in> set (dict_values (portfolios t))"
    using find_holder_Some [OF fh] by force
  ultimately have "map_of (positions pf) pid = None" by (force simp: list_all_iff)
  then have "map_of (AList.delete q (positions pf)) pid = None" by (simp add: delete_conv')
  with none have "list_all (\<lambda>pf. map_of (positions pf) pid = None) (dict_values (portfolios t'))"
    by (simp add: t' list_all_values_update)
  then show ?thesis by (simp add: open_book_None_iff not_in_open_ids list_all_iff)
qed

lemma exit_scan_tracks:
  assumes "trader_inv t" and "exit_scan ex m now ps t = (t', rs)"
  shows "(open_book t pid = None \<longrightarrow> open_book t' pid = None)
       \<and> (position_held t name p \<longrightarrow> open_book t' (pos_id p) = None \<or> position_held t' name p)"
  using assms
proof (induction ex m now ps t arbitrary: rs pid p rule: exit_scan.induct)
  case (1 ex m now t)
  then show ?case by simp
next
  case (2 ex m now q ps t)
  show ?case
  proof (cases "ticker q \<noteq> snap_market_id m")
    case True
    then have "exit_scan ex m now ps t = (t', rs)" using "2.prems"(2) by simp
    then show ?thesis using "2.IH"(1) [OF True "2.prems"(1)] by blast
  next
    case tk: False
    show ?thesis
    proof (cases "ex (view_of q) m")
    case nex: False
    then have "exit_scan ex m now ps t = (t', rs)" using "2.prems"(2) tk by simp
    then show ?thesis using "2.IH"(4) [OF tk nex "2.prems"(1)] by blast
  next
    case ex: True
    show ?thesis
    proof (cases "close_position t (pos_id q) (snap_yes_price m) ''strategy_exit'' now")
      case None
      then have "exit_scan ex m now ps t = (t', rs)" using "2.prems"(2) tk ex by simp
      then show ?thesis using "2.IH"(2) [OF tk ex None "2.prems"(1)] by blast
    next
      case (Some a)
      obtain t1 r where cl: "close_position t (pos_id q) (snap_yes_price m) ''strategy_exit'' now = Some (t1, r)"
        using Some by (cases a) auto
      obtain rs2 where es: "exit_scan ex m now ps t1 = (t', rs2)"
        using "2.prems"(2) tk ex cl by (auto split: prod.splits)
      have inv1: "trader_inv t1" by (rule close_position_step(1) [OF "2.prems"(1) cl])
      note IH = "2.IH"(3) [OF tk ex cl refl inv1 es]
      have gone: "open_book t1 (pos_id q) = None"
        using close_position_step(4) [OF "2.prems"(1) cl] by (simp add: open_book_None_iff)
      show ?thesis
        using IH close_position_keeps_closed [OF cl] close_position_keeps_held [OF "2.prems"(1) cl] gone
        by metis
    qed
  qed
  qed
qed

lemma check_exits_tracks:
  assumes "trader_inv t" and "check_exits t name' ex m now = (t', rs)"
  shows "(open_book t pid = None \<longrightarrow> open_book t' pid = None)
       \<and> (position_held t name p \<longrightarrow> open_book t' (pos_id p) = None \<or> position_held t' name p)"
  using assms exit_scan_tracks [OF assms(1)]
  by (auto simp: check_exits_def split: option.splits)

lemma held_open_position:
  assumes "trader_inv t" and "position_held t name p"
  obtains pf where "get_portfolio t name = Some pf" and "p \<in> set (open_positions pf)"
proof -
  obtain pf where g: "get_portfolio t name = Some pf" and mp: "map_of (positions pf) (pos_id p) = Some p"
    using assms(2) by (auto simp: position_held_def split: option.splits)
  have "pf \<in> set (dict_values (portfolios t))" using g by (force simp: get_portfolio_def dest: map_of_SomeD)
  then have "portfolio_wf pf" using assms(1) by (force simp: trader_inv_def)
  moreover have "p \<in> set (dict_values (positions pf))" using mp by (force dest: map_of_SomeD)
  ultimately show ?thesis using that g by (simp add: open_positions_wf)
qed

lemma check_exits_closes_due:
  assumes "trader_inv t" and "check_exits t name ex m now = (t', rs)"
    and "position_held t name p" and "ticker p = snap_market_id m" and "ex (view_of p) m"
  shows "open_book t' (pos_id p) = None"
proof -
  obtain pf where g: "get_portfolio t name = Some pf" and p: "p \<in> set (open_positions pf)"
    using held_open_position [OF assms(1,3)] by blast
  have es: "exit_scan ex m now (open_positions pf) t = (t', rs)" using assms(2) g by (simp add: check_exits_def)
  note sp = exit_scan_spec [OF assms(1) _ _ es] open_positions_in_book [OF assms(1) g]
  let ?due = "filter (\<lambda>p. ticker p = snap_market_id m \<and> ex (view_of p) m) (open_positions pf)"
  have fl: "pos_id p \<in> set (map pos_id ?due)" using p assms(4,5) by force
  have "map pos_id rs = map pos_id ?due" using sp by blast
  with fl have "pos_id p \<in> set (map pos_id rs)" by simp
  moreover have "open_book t' = open_book t |` (- set (map pos_id rs))" using sp by blast
  ultimately show ?thesis by simp
qed

lemma exits_for_market_tracks:
  assumes "trader_inv t" and "exits_for_market (t, tr) ss m now = (t', tr')"
  shows "trader_inv t' \<and> (open_book t pid = None \<longrightarrow> open_book t' pid = None)
       \<and> (position_held t name p \<longrightarrow> open_book t' (pos_id p) = None \<or> position_held t' name p)"
  using assms
proof (induction ss arbitrary: t tr pid)
  case Nil
  then show ?case by simp
next
  case (Cons s ss)
  obtain t1 rs where ce: "check_exits t (strategy_name_of s) (should_exit s) m now = (t1, rs)"
    by fastforce
  have "exits_for_market (t1, record_closed tr t1 (strategy_name_of s) now rs) ss m now = (t', tr')"
    using Cons.prems(2) ce by simp
  note IH = Cons.IH [OF conjunct1 [OF check_exits_step [OF Cons.prems(1) ce]] this]
  show ?case using IH check_exits_tracks [OF Cons.prems(1) ce, of pid name p] by blast
qed

lemma exits_for_market_closes_due:
  assumes "trader_inv t" and "exits_for_market (t, tr) ss m now = (t', tr')"
    and "s \<in> set ss" and "position_held t (strategy_name_of s) p"
    and "ticker p = snap_market_id m" and "should_exit s (view_of p) m"
  shows "open_book t' (pos_id p) = None"
  using assms
proof (induction ss arbitrary: t tr)
  case Nil
  then show ?case by simp
next
  case (Cons s' ss)
  obtain t1 rs where ce: "check_exits t (strategy_name_of s') (should_exit s') m now = (t1, rs)"
    by fastforce
  have rest: "exits_for_market (t1, record_closed tr t1 (strategy_name_of s') now rs) ss m now = (t', tr')"
    using Cons.prems(2) ce by simp
  have inv1: "trader_inv t1" using check_exits_step [OF Cons.prems(1) ce] by blast
  note tr = exits_for_market_tracks [OF inv1 rest]
  show ?case
  proof (cases "s' = s")
    case True
    then have "open_book t1 (pos_id p) = None"
      using check_exits_closes_due [OF Cons.prems(1) ce] Cons.prems(4-6) by blast
    then show ?thesis using tr by blast
  next
    case False
    then have s: "s \<in> set ss" using Cons.prems(3) by simp
    have "open_book t1 (pos_id p) = None \<or> position_held t1 (strategy_name_of s) p"
      using check_exits_tracks [OF Cons.prems(1) ce] Cons.prems(4) by blast
    then show ?thesis using tr Cons.IH [OF inv1 rest s _ Cons.prems(5,6)] by blast
  qed
qed

lemma exit_phase_tracks:
  assumes "trader_inv t" and "exit_phase (t, tr) ss ms now = (t', tr')"
  shows "trader_inv t' \<and> (open_book t pid = None \<longrightarrow> open_book t' pid = None)
       \<and> (position_held t name p \<longrightarrow> open_book t' (pos_id p) = None \<or> position_held t' name p)"
  using assms
proof (induction ms arbitrary: t tr pid)
  case Nil
  then show ?case by (simp add: exit_phase_def)
next
  case (Cons m ms)
  obtain t1 tr1 where e: "exits_for_market (t, tr) ss m now = (t1, tr1)" by fastforce
  have rest: "exit_phase (t1, tr1) ss ms now = (t', tr')" using Cons.prems(2) e by (simp add: exit_phase_def)
  note st = exits_for_market_tracks [OF Cons.prems(1) e]
  show ?case using st Cons.IH [OF conjunct1 [OF st] rest] by blast
qed

lemma exit_phase_closes_due:
  assumes "trader_inv t" and "exit_phase (t, tr) ss ms now = (t', tr')"
    and "s \<in> set ss" and "m \<in> set ms" and "position_held t (strategy_name_of s) p"
    and "ticker p = snap_market_id m" and "should_exit s (view_of p) m"
  shows "open_book t' (pos_id p) = None"
  using assms
proof (induction ms arbitrary: t tr)
  case Nil
  then show ?case by simp
next
  case (Cons m' ms)
  obtain t1 tr1 where e: "exits_for_market (t, tr) ss m' now = (t1, tr1)" by fastforce
  have rest: "exit_phase (t1, tr1) ss ms now = (t', tr')" using Cons.prems(2) e by (simp add: exit_phase_def)
  note st = exits_for_market_tracks [OF Cons.prems(1) e]
  note tr = exit_phase_tracks [OF conjunct1 [OF st] rest]
  show ?case
  proof (cases "m' = m")
    case True
    then show ?thesis using exits_for_market_closes_due [OF Cons.prems(1) e Cons.prems(3)] Cons.prems(5-7) tr
      by blast
  next
    case False
    then have "m \<in> set ms" using Cons.prems(4) by simp
    then show ?thesis using st tr Cons.IH [OF conjunct1 [OF st] rest Cons.prems(3) _ _ Cons.prems(6,7)] Cons.prems(5)
      by blast
  qed
qed

lemma execute_signal_keeps_held:
  assumes "execute_signal t sg price pid now = Inr (t', pos)" and "pid \<noteq> pos_id p"
    and "position_held t name p"
  shows "position_held t' name p"
  using assms
  by (cases "sig_strategy_name sg = name")
     (auto simp: execute_signal_def position_held_def get_portfolio_def Let_def update_conv'
           split: option.splits if_splits)

lemma execute_signals_keeps_held:
  assumes "\<forall>j\<ge>i. ids j \<noteq> pos_id p" and "position_held t name p"
  shows "position_held (execute_signals t cache ids i now sgs) name p"
  using assms
proof (induction sgs arbitrary: t i)
  case Nil
  then show ?case by simp
next
  case (Cons sg sgs)
  have ids: "\<forall>j\<ge>Suc i. ids j \<noteq> pos_id p" using Cons.prems(1) by simp
  have "ids i \<noteq> pos_id p" using Cons.prems(1) by simp
  then show ?case using Cons.IH [OF ids] Cons.prems(2) execute_signal_keeps_held
    by (auto split: option.splits sum.splits)
qed

lemma set_allocation_keeps_closed:
  assumes "pid \<notin> set (all_open_ids t)"
  shows "pid \<notin> set (all_open_ids (set_allocation ar t))"
proof (cases "get_portfolio t (ar_strategy_name ar)")
  case None
  then show ?thesis using assms by (simp add: set_allocation_def)
next
  case (Some pf)
  have none: "list_all (\<lambda>pf. map_of (positions pf) pid = None) (dict_values (portfolios t))"
    using assms by (simp add: not_in_open_ids list_all_iff)
  moreover have "pf \<in> set (dict_values (portfolios t))"
    using Some by (force simp: get_portfolio_def dest: map_of_SomeD)
  ultimately have "map_of (positions pf) pid = None" by (force simp: list_all_iff)
  then have "list_all (\<lambda>pf. map_of (positions pf) pid = None) (dict_values (AList.update (ar_strategy_name ar)
      (pf\<lparr>current_capital := new_allocation ar, initial_capital := new_allocation ar\<rparr>) (portfolios t)))"
    by (intro list_all_values_update [OF none]) simp
  with Some show ?thesis by (simp add: set_allocation_def not_in_open_ids list_all_iff)
qed

lemma rebalance_keeps_closed:
  assumes "rebalance a tr t now = Inr (allocs, a', tr', t')" and "pid \<notin> set (all_open_ids t)"
  shows "pid \<notin> set (all_open_ids t')"
proof -
  have fold: "pid \<notin> set (all_open_ids (fold set_allocation as t))" for as
    using assms(2) by (induction as arbitrary: t) (simp_all add: set_allocation_keeps_closed)
  have "t' = t \<or> t' = fold set_allocation allocs t"
    using assms(1) by (auto simp: rebalance_def py_bind_Inr_iff split: if_splits prod.splits)
  then show ?thesis using assms(2) fold by blast
qed

text \<open>C23: a position open in a strategy's portfolio at the start of a cycle, whose market is in the cache and for which the strategy's should_exit holds there, is closed by that cycle: once _process_cycle returns, its id is no longer open (whatever the signals and whether or not the allocator rebalances).\<close>

theorem process_cycle_closes_due:
  assumes "bot_inv rc b" and "inj ids" and "\<forall>i. ids i \<notin> set (all_open_ids (b_trader b))"
    and "position_held (b_trader b) (strategy_name_of s) p" and "s \<in> set (b_strategies b)"
    and "m \<in> set (dict_values (b_market_cache b))" and "ticker p = snap_market_id m"
    and "should_exit s (view_of p) m" and "process_cycle b sigs ids now = Inr b'"
  shows "pos_id p \<notin> set (all_open_ids (b_trader b'))"
proof -
  let ?t1 = "execute_signals (b_trader b) (b_market_cache b) ids 0 now sigs"
  have inv: "trader_inv (b_trader b)" "risk_inv (b_trader b)" using assms(1) by (simp_all add: bot_inv_def)
  have inv1: "trader_inv ?t1" using execute_signals_step [OF inv assms(2)] assms(3) by blast
  obtain pf where "get_portfolio (b_trader b) (strategy_name_of s) = Some pf" "p \<in> set (open_positions pf)"
    using held_open_position [OF inv(1) assms(4)] by blast
  then have "open_book (b_trader b) (pos_id p) = Some p" using open_positions_in_book [OF inv(1)] by blast
  then have "pos_id p \<in> set (all_open_ids (b_trader b))" by (metis open_book_None_iff option.distinct(1))
  then have "\<forall>j\<ge>0. ids j \<noteq> pos_id p" using assms(3) by metis
  from execute_signals_keeps_held [OF this assms(4)]
  have held1: "position_held ?t1 (strategy_name_of s) p" .
  obtain t2 tr2 where x: "exit_phase (?t1, b_tracker b) (b_strategies b) (dict_values (b_market_cache b)) now = (t2, tr2)"
    by fastforce
  have "open_book t2 (pos_id p) = None"
    by (rule exit_phase_closes_due [OF inv1 x assms(5,6) held1 assms(7,8)])
  then have gone: "pos_id p \<notin> set (all_open_ids t2)" by (simp add: open_book_None_iff)
  show ?thesis
  proof (cases "should_rebalance (b_allocator b) now")
    case False
    then have "b' = b\<lparr>b_trader := t2, b_tracker := tr2\<rparr>"
      using assms(9) x by (simp add: process_cycle_def Let_def)
    with gone show ?thesis by simp
  next
    case True
    then obtain allocs a' tr3 t3 where r: "rebalance (b_allocator b) tr2 t2 now = Inr (allocs, a', tr3, t3)"
      and b': "b' = b\<lparr>b_trader := t3, b_tracker := tr3, b_allocator := a'\<rparr>"
      using assms(9) x by (auto simp: process_cycle_def Let_def py_bind_Inr_iff)
    show ?thesis using rebalance_keeps_closed [OF r gone] b' by simp
  qed
qed

abbreviation closing_market :: market_snapshot where
  "closing_market \<equiv> demo_market\<lparr>snap_close_in_hours := 1/2\<rparr>"

abbreviation closing_bot :: bot where
  "closing_bot \<equiv> \<lparr>b_trader = demo_trader1, b_tracker = demo_tracker,
     b_allocator = (init_allocator default_allocator_config 1000)\<lparr>last_rebalance := Some 0\<rparr>,
     b_strategies = [MeanReversion default_mean_reversion_config],
     b_market_cache = [(''KXMKT'', closing_market)], b_scanner_config = default_scanner_config\<rparr>"

abbreviation closing_ids :: "nat \<Rightarrow> string" where
  "closing_ids \<equiv> \<lambda>i. replicate (Suc i) CHR ''q''"

lemma closing_bot_facts:
  "bot_inv default_risk_config closing_bot"
  "inj closing_ids"
  "process_cycle closing_bot [] closing_ids 60 = Inr (projr (process_cycle closing_bot [] closing_ids 60))"
proof -
  show "bot_inv default_risk_config closing_bot"
    unfolding bot_inv_def
  proof (intro conjI)
    show "trader_inv (b_trader closing_bot)" using demo_run(3) by simp
    show "tracker_inv (b_tracker closing_bot)" by (simp add: tracker_inv_init)
  qed (simp_all add: trader_eval_simps risk_inv_def get_summary_def total_pnl_def)
  show "inj closing_ids" by (simp add: inj_def)
  show "process_cycle closing_bot [] closing_ids 60 = Inr (projr (process_cycle closing_bot [] closing_ids 60))"
    by (simp add: process_cycle_def should_rebalance_def init_allocator_def default_allocator_config_def
        split_def Let_def)
qed

theorem process_cycle_closes_due_witness:
  "position_held demo_trader1 ''MeanReversion'' demo_pos1 \<and> ticker demo_pos1 = ''KXMKT'' \<and>
   should_exit (MeanReversion default_mean_reversion_config) (view_of demo_pos1) closing_market \<and>
   pos_id demo_pos1 \<notin> set (all_open_ids (b_trader (projr (process_cycle closing_bot [] closing_ids 60))))"
proof -
  have held: "position_held demo_trader1 ''MeanReversion'' demo_pos1"
    by (simp add: position_held_def trader_eval_simps)
  have tk: "ticker demo_pos1 = ''KXMKT''" by (simp add: trader_eval_simps)
  have ex: "should_exit (MeanReversion default_mean_reversion_config) (view_of demo_pos1) closing_market"
    by (simp add: mr_should_exit_def)
  have fresh: "\<forall>i. closing_ids i \<notin> set (all_open_ids (b_trader closing_bot))"
    by (simp add: all_open_ids_def trader_eval_simps)
  have "pos_id demo_pos1 \<notin> set (all_open_ids (b_trader (projr (process_cycle closing_bot [] closing_ids 60))))"
    using process_cycle_closes_due [OF closing_bot_facts(1,2) fresh _ _ _ _ _ closing_bot_facts(3),
        of "MeanReversion default_mean_reversion_config" demo_pos1 closing_market]
      held tk ex by simp
  with held tk ex show ?thesis by blast
qed

end
