(* ===== verification/ConfigLoad.thy ===== *)
theory ConfigLoad
  imports Orchestrator "HOL-Library.Monad_Syntax"
begin

text \<open>
  \<open>Config.load\<close> of src/src/config.py: from the YAML document to the configuration the
  orchestrator is built from. Reading the file, the YAML parser and \<open>load_dotenv\<close> are
  I/O; the document is an argument, \<open>None\<close> when the file does not exist. A mapping is
  an association list with distinct keys (PyYAML keeps the last of repeated keys).
  \<open>load_config\<close> returns \<open>None\<close> where the code would raise on \<open>.get\<close> of a non-mapping,
  and where a value has a type the configuration's fields do not take (the code
  stores it and fails, or not, later); both lie outside the model.
\<close>

datatype yaml =
  YNum real | YInt int | YStr string | YBool bool | YNull | YList "yaml list"
| YDict "(string \<times> yaml) list"

type_synonym ydict = "(string \<times> yaml) list"

section \<open>Reading typed values with defaults\<close>

definition get_real :: "ydict \<Rightarrow> string \<Rightarrow> real \<Rightarrow> real option" where
  "get_real d k dflt =
     (case map_of d k of None \<Rightarrow> Some dflt | Some (YNum r) \<Rightarrow> Some r | Some (YInt i) \<Rightarrow> Some (of_int i)
      | Some _ \<Rightarrow> None)"

definition get_int :: "ydict \<Rightarrow> string \<Rightarrow> int \<Rightarrow> int option" where
  "get_int d k dflt = (case map_of d k of None \<Rightarrow> Some dflt | Some (YInt i) \<Rightarrow> Some i | Some _ \<Rightarrow> None)"

definition get_nat :: "ydict \<Rightarrow> string \<Rightarrow> nat \<Rightarrow> nat option" where
  "get_nat d k dflt =
     (case map_of d k of None \<Rightarrow> Some dflt | Some (YInt i) \<Rightarrow> if 0 \<le> i then Some (nat i) else None
      | Some _ \<Rightarrow> None)"

definition get_bool :: "ydict \<Rightarrow> string \<Rightarrow> bool \<Rightarrow> bool option" where
  "get_bool d k dflt = (case map_of d k of None \<Rightarrow> Some dflt | Some (YBool b) \<Rightarrow> Some b | Some _ \<Rightarrow> None)"

definition get_str :: "ydict \<Rightarrow> string \<Rightarrow> string \<Rightarrow> string option" where
  "get_str d k dflt = (case map_of d k of None \<Rightarrow> Some dflt | Some (YStr s) \<Rightarrow> Some s | Some _ \<Rightarrow> None)"

definition get_dict :: "ydict \<Rightarrow> string \<Rightarrow> ydict option" where
  "get_dict d k = (case map_of d k of None \<Rightarrow> Some [] | Some (YDict e) \<Rightarrow> Some e | Some _ \<Rightarrow> None)"

text \<open>Python's truth value of a document, for \<open>yaml.safe_load(f) or {}\<close>.\<close>

fun yaml_falsy :: "yaml \<Rightarrow> bool" where
  "yaml_falsy (YNum r) = (r = 0)"
| "yaml_falsy (YInt i) = (i = 0)"
| "yaml_falsy (YStr s) = (s = [])"
| "yaml_falsy (YBool b) = (\<not> b)"
| "yaml_falsy YNull = True"
| "yaml_falsy (YList xs) = (xs = [])"
| "yaml_falsy (YDict d) = (d = [])"

section \<open>The sections of the file\<close>

definition load_risk :: "ydict \<Rightarrow> risk_config option" where
  "load_risk d = do {
     c \<leftarrow> get_real d ''max_total_capital'' 200;
     ps \<leftarrow> get_real d ''max_position_size'' 10;
     dl \<leftarrow> get_real d ''max_daily_loss'' 20;
     n \<leftarrow> get_int d ''max_concurrent_positions'' 10;
     e \<leftarrow> get_real d ''max_exposure_pct'' 0.20;
     Some \<lparr>max_total_capital = c, max_position_size = ps, max_daily_loss = dl,
           max_concurrent_positions = n, max_exposure_pct = e\<rparr>
   }"

text \<open>\<open>max_markets\<close> is not read from the file: it keeps its default.\<close>

definition load_scanner :: "ydict \<Rightarrow> scanner_config option" where
  "load_scanner d = do {
     p \<leftarrow> get_real d ''poll_interval_seconds'' 30;
     v \<leftarrow> get_int d ''min_volume'' 100;
     l \<leftarrow> get_real d ''min_liquidity'' 50;
     s \<leftarrow> get_str d ''market_status'' ''open'';
     Some \<lparr>poll_interval_seconds = p, min_volume = v, min_liquidity = l, market_status = s,
           max_markets = 500\<rparr>
   }"

definition load_performance :: "ydict \<Rightarrow> perf_config option" where
  "load_performance d = do {
     db \<leftarrow> get_str d ''db_path'' ''data/performance.db'';
     w \<leftarrow> get_int d ''rolling_window_days'' 30;
     mt \<leftarrow> get_int d ''min_trades_for_ranking'' 5;
     Some \<lparr>db_path = db, rolling_window_days = w, min_trades_for_ranking = mt\<rparr>
   }"

definition load_allocator :: "ydict \<Rightarrow> allocator_config option" where
  "load_allocator d = do {
     h \<leftarrow> get_real d ''rebalance_interval_hours'' 24;
     s \<leftarrow> get_real d ''min_sharpe_ratio'' 0.5;
     pw \<leftarrow> get_real d ''performance_weight'' 0.7;
     rw \<leftarrow> get_real d ''risk_weight'' 0.3;
     Some \<lparr>rebalance_interval_hours = h, min_sharpe_ratio = s, performance_weight = pw,
           risk_weight = rw\<rparr>
   }"

text \<open>
  A strategy's \<open>params\<close> dict, read the way each strategy's constructor and methods read
  it (\<open>config.get\<close> with their defaults); the same dict serves all three.
\<close>

definition params_of :: "ydict \<Rightarrow> (mean_reversion_config \<times> momentum_config \<times> market_making_config) option" where
  "params_of p = do {
     et \<leftarrow> get_real p ''extreme_threshold'' 0.95;
     mn \<leftarrow> get_real p ''min_threshold'' 0.05;
     ex \<leftarrow> get_real p ''exit_target'' 0.50;
     bs \<leftarrow> get_real p ''base_position_size'' 5;
     mx \<leftarrow> get_real p ''max_position_size'' 10;
     sm \<leftarrow> get_nat p ''short_ma'' 5;
     lm \<leftarrow> get_nat p ''long_ma'' 20;
     mt \<leftarrow> get_real p ''momentum_threshold'' 0.02;
     sz \<leftarrow> get_real p ''position_size'' 5;
     ms \<leftarrow> get_real p ''min_spread'' 0.05;
     Some (\<lparr>extreme_threshold = et, min_threshold = mn, exit_target = ex, base_position_size = bs,
             mr_max_position_size = mx\<rparr>,
           \<lparr>short_ma_period = sm, long_ma_period = lm, momentum_threshold = mt, mom_position_size = sz\<rparr>,
           \<lparr>min_spread = ms, mm_position_size = sz\<rparr>)
   }"

definition strategy_config_of ::
  "string \<Rightarrow> bool \<Rightarrow> money \<Rightarrow> money \<Rightarrow> ydict \<Rightarrow> strategy_config option" where
  "strategy_config_of name en cap mps p =
     map_option (\<lambda>ps. \<lparr>sc_name = name, sc_enabled = en, sc_initial_capital = cap,
                        sc_max_position_size = mps, sc_params = ps\<rparr>) (params_of p)"

definition load_strategy :: "string \<times> yaml \<Rightarrow> strategy_config option" where
  "load_strategy entry =
     (case snd entry of
        YDict s \<Rightarrow> do {
          en \<leftarrow> get_bool s ''enabled'' True;
          cap \<leftarrow> get_real s ''initial_capital'' 50;
          mps \<leftarrow> get_real s ''max_position_size'' 10;
          p \<leftarrow> get_dict s ''params'';
          strategy_config_of (fst entry) en cap mps p
        }
      | _ \<Rightarrow> None)"

text \<open>The three strategies \<open>load\<close> adds when the file names none, 66 each.\<close>

definition default_strategy_configs :: "strategy_config list option" where
  "default_strategy_configs = do {
     a \<leftarrow> strategy_config_of ''MeanReversion'' True 66 10
            [(''extreme_threshold'', YNum 0.95), (''min_threshold'', YNum 0.05),
             (''exit_target'', YNum 0.50), (''base_position_size'', YNum 5)];
     b \<leftarrow> strategy_config_of ''Momentum'' True 66 10
            [(''short_ma'', YInt 5), (''long_ma'', YInt 20), (''momentum_threshold'', YNum 0.02),
             (''position_size'', YNum 5)];
     c \<leftarrow> strategy_config_of ''MarketMaking'' True 66 10
            [(''min_spread'', YNum 0.05), (''position_size'', YNum 5)];
     Some [a, b, c]
   }"

fun load_strategies :: "ydict \<Rightarrow> strategy_config list option" where
  "load_strategies [] = Some []"
| "load_strategies (e # es) = do { s \<leftarrow> load_strategy e; ss \<leftarrow> load_strategies es; Some (s # ss) }"

text \<open>The sections of \<open>Config.load\<close> that make up the bot's configuration.\<close>

definition load_bot_config :: "ydict \<Rightarrow> bot_config option" where
  "load_bot_config d = do {
     r \<leftarrow> get_dict d ''risk''; risk \<leftarrow> load_risk r;
     s \<leftarrow> get_dict d ''scanner''; scanner \<leftarrow> load_scanner s;
     p \<leftarrow> get_dict d ''performance''; perf \<leftarrow> load_performance p;
     a \<leftarrow> get_dict d ''allocator''; alloc \<leftarrow> load_allocator a;
     st \<leftarrow> get_dict d ''strategies''; strategies \<leftarrow> load_strategies st;
     strategies' \<leftarrow> (if strategies = [] then default_strategy_configs else Some strategies);
     Some \<lparr>bc_risk = risk, bc_strategies = strategies', bc_performance = perf,
           bc_allocator = alloc, bc_scanner = scanner\<rparr>
   }"

text \<open>
  \<open>Config.load\<close>: the sandbox flag (forced on unless \<open>force_sandbox\<close> is false) and the
  configuration of the bot.
\<close>

definition load_config :: "yaml option \<Rightarrow> (bool \<times> bot_config) option" where
  "load_config doc =
     (let data = (case doc of None \<Rightarrow> Some [] | Some y \<Rightarrow>
                    if yaml_falsy y then Some [] else (case y of YDict d \<Rightarrow> Some d | _ \<Rightarrow> None))
      in do {
        d \<leftarrow> data;
        sb \<leftarrow> get_bool d ''sandbox'' True;
        force \<leftarrow> get_bool d ''force_sandbox'' True;
        cfg \<leftarrow> load_bot_config d;
        Some (if force then True else sb, cfg)
      })"

text \<open>
  The remaining fields of \<open>Config\<close> that \<open>load\<close> fills from the file: the name of the
  environment variable holding the API key, the key's path and the logging settings
  (\<open>log_file\<close> may be \<open>null\<close>).
\<close>

record api_settings =
  api_key_env_var :: string
  private_key_path :: string
  log_level :: string
  log_file :: "string option"

definition load_api_settings :: "ydict \<Rightarrow> api_settings option" where
  "load_api_settings d = do {
     k \<leftarrow> get_str d ''api_key_env_var'' ''KALSHI_API_KEY'';
     p \<leftarrow> get_str d ''private_key_path'' ''~/.openclaw/.secrets/kalshi_private_key.pem'';
     l \<leftarrow> get_str d ''log_level'' ''INFO'';
     f \<leftarrow> (case map_of d ''log_file'' of
             None \<Rightarrow> Some (Some ''logs/trading.log'') | Some YNull \<Rightarrow> Some None
           | Some (YStr s) \<Rightarrow> Some (Some s) | Some _ \<Rightarrow> None);
     Some \<lparr>api_key_env_var = k, private_key_path = p, log_level = l, log_file = f\<rparr>
   }"

text \<open>\<open>Config.get_api_key\<close>: the variable named by the configuration; unset or empty raises.\<close>

definition get_api_key :: "api_settings \<Rightarrow> (string \<Rightarrow> string option) \<Rightarrow> py_error + string" where
  "get_api_key s env =
     (case env (api_key_env_var s) of None \<Rightarrow> Inl ValueError | Some k \<Rightarrow> if k = [] then Inl ValueError else Inr k)"

section \<open>Properties\<close>

lemma default_strategy_configs_eval:
  "default_strategy_configs = Some
     [\<lparr>sc_name = ''MeanReversion'', sc_enabled = True, sc_initial_capital = 66, sc_max_position_size = 10,
       sc_params = (default_mean_reversion_config, default_momentum_config, default_market_making_config)\<rparr>,
      \<lparr>sc_name = ''Momentum'', sc_enabled = True, sc_initial_capital = 66, sc_max_position_size = 10,
       sc_params = (default_mean_reversion_config, default_momentum_config, default_market_making_config)\<rparr>,
      \<lparr>sc_name = ''MarketMaking'', sc_enabled = True, sc_initial_capital = 66, sc_max_position_size = 10,
       sc_params = (default_mean_reversion_config, default_momentum_config, default_market_making_config)\<rparr>]"
  by (simp add: default_strategy_configs_def strategy_config_of_def params_of_def get_real_def get_nat_def
      default_mean_reversion_config_def default_momentum_config_def default_market_making_config_def)

lemma load_sections_empty:
  "load_risk [] = Some default_risk_config" "load_scanner [] = Some default_scanner_config"
  "load_performance [] = Some default_perf_config" "load_allocator [] = Some default_allocator_config"
  by (simp_all add: load_risk_def load_scanner_def load_performance_def load_allocator_def get_real_def
      get_int_def get_str_def default_risk_config_def default_scanner_config_def default_perf_config_def
      default_allocator_config_def)

text \<open>Without a file, the defaults of the dataclasses and the three default strategies.\<close>

lemma load_config_no_file:
  "load_config None = Some (True,
     \<lparr>bc_risk = default_risk_config, bc_strategies = the default_strategy_configs,
      bc_performance = default_perf_config, bc_allocator = default_allocator_config,
      bc_scanner = default_scanner_config\<rparr>)"
  by (simp add: load_config_def load_bot_config_def get_bool_def get_dict_def load_sections_empty
      default_strategy_configs_eval)

lemma get_bool_True_default:
  "get_bool d k True = Some False \<Longrightarrow> map_of d k = Some (YBool False)"
  by (auto simp: get_bool_def split: option.splits yaml.splits)

text \<open>
  The bot runs against the sandbox unless the file sets both \<open>force_sandbox\<close> and
  \<open>sandbox\<close> to false.
\<close>

lemma load_config_sandbox:
  assumes "load_config doc = Some (sb, cfg)" and "\<not> sb"
  shows "\<exists>d. doc = Some (YDict d) \<and> map_of d ''force_sandbox'' = Some (YBool False)
             \<and> map_of d ''sandbox'' = Some (YBool False)"
proof -
  obtain d sb0 force where
    data: "(case doc of None \<Rightarrow> Some [] | Some y \<Rightarrow>
              if yaml_falsy y then Some [] else (case y of YDict d \<Rightarrow> Some d | _ \<Rightarrow> None)) = Some d"
    and s: "get_bool d ''sandbox'' True = Some sb0"
    and f: "get_bool d ''force_sandbox'' True = Some force"
    and r: "sb = (if force then True else sb0)"
    using assms(1) unfolding load_config_def Let_def by (auto simp: bind_eq_Some_conv)
  have "\<not> force" "\<not> sb0" using r assms(2) by (auto split: if_splits)
  then have mf: "map_of d ''force_sandbox'' = Some (YBool False)"
    and ms: "map_of d ''sandbox'' = Some (YBool False)"
    using s f get_bool_True_default by auto
  then have "d \<noteq> []" by auto
  then have "doc = Some (YDict d)"
    using data by (auto split: option.splits if_splits yaml.splits)
  with mf ms show ?thesis by blast
qed

lemma load_api_settings_empty:
  "load_api_settings [] = Some \<lparr>api_key_env_var = ''KALSHI_API_KEY'',
     private_key_path = ''~/.openclaw/.secrets/kalshi_private_key.pem'', log_level = ''INFO'',
     log_file = Some ''logs/trading.log''\<rparr>"
  by (simp add: load_api_settings_def get_str_def)

lemma get_api_key_Inr_iff:
  "get_api_key s env = Inr k \<longleftrightarrow> env (api_key_env_var s) = Some k \<and> k \<noteq> []"
  by (auto simp: get_api_key_def split: option.splits)

end
