(* ===== verification/ApiClient.thy ===== *)
theory ApiClient
  imports Prelude
begin

text \<open>
  The parts of \<open>KalshiClient\<close> (src/src/api/kalshi_client.py) that decide when and how
  often a request is sent: the \<open>RateLimiter\<close>, the retry loop of \<open>_request\<close> on HTTP 429,
  and the message \<open>_sign_request\<close> signs. The network, the RSA-PSS signature and the JSON
  bodies are not modelled. The clock is an argument: \<open>wait\<close> reads it before the sleep
  (\<open>now\<close>) and after it (\<open>wake\<close>). The server is the infinite sequence of attempts
  of a request, each with the two clock readings of its \<open>wait\<close> and the HTTP status the
  server answered; \<open>request_loop\<close> is a \<open>partial_function (option)\<close> whose value is
  \<open>None\<close> when the server answers 429 for ever (C13). The theory ApiEndpoints builds the
  client object and its endpoints on top of this loop.
\<close>

record rate_limiter =
  calls_per_second :: real
  last_call :: timestamp

definition init_rate_limiter :: "real \<Rightarrow> rate_limiter" where
  "init_rate_limiter cps = \<lparr>calls_per_second = cps, last_call = 0\<rparr>"

text \<open>\<open>RateLimiter.wait\<close>: the time it sleeps and the limiter after the call.\<close>

definition rate_limiter_wait ::
  "rate_limiter \<Rightarrow> timestamp \<Rightarrow> timestamp \<Rightarrow> py_error + real \<times> rate_limiter" where
  "rate_limiter_wait rl now wake =
     py_bind (py_div 1 (calls_per_second rl)) (\<lambda>min_interval.
       let elapsed = now - last_call rl
       in Inr (if elapsed < min_interval then min_interval - elapsed else 0,
               rl\<lparr>last_call := wake\<rparr>))"

datatype request_error = PyError py_error | HTTPStatusError int

type_synonym attempt = "timestamp \<times> timestamp \<times> int"

text \<open>
  \<open>_request\<close>: wait, send; on 429 sleep a second and call itself again; otherwise
  \<open>raise_for_status\<close> (httpx raises for every status outside 200--299). The server's
  answers are the sequence \<open>srv\<close>: the \<open>i\<close>-th attempt has the clock readings of its
  \<open>wait\<close> and the status it got. The loop has no bound: \<open>None\<close> is "does not return".
  The result is the limiter, the index of the last attempt and the outcome.
\<close>

partial_function (option) request_loop ::
  "(nat \<Rightarrow> attempt) \<Rightarrow> rate_limiter \<Rightarrow> nat \<Rightarrow>
   (rate_limiter \<times> nat \<times> (request_error + int)) option" where
  "request_loop srv rl i =
     (case srv i of (now, wake, status) \<Rightarrow>
        (case rate_limiter_wait rl now wake of
           Inl e \<Rightarrow> Some (rl, i, Inl (PyError e))
         | Inr (slept, rl') \<Rightarrow>
             if status = 429 then request_loop srv rl' (Suc i)
             else if 200 \<le> status \<and> status < 300 then Some (rl', i, Inr status)
             else Some (rl', i, Inl (HTTPStatusError status))))"

text \<open>The path without its query string, \<open>path.split('?')[0]\<close>.\<close>

definition strip_query :: "string \<Rightarrow> string" where
  "strip_query path = takeWhile (\<lambda>c. c \<noteq> CHR ''?'') path"

text \<open>The message \<open>_get_auth_headers\<close> has signed: timestamp, upper-cased method, path.\<close>

definition sign_message :: "string \<Rightarrow> string \<Rightarrow> string \<Rightarrow> string" where
  "sign_message timestamp method path = timestamp @ str_upper method @ strip_query path"

definition request_path :: "string \<Rightarrow> string" where
  "request_path endpoint = ''/trade-api/v2'' @ endpoint"

text \<open>The REST base URL \<open>KalshiClient.__init__\<close> picks from its \<open>sandbox\<close> flag.\<close>

definition sandbox_base_url :: string where
  "sandbox_base_url = ''https://demo-api.kalshi.co/trade-api/v2''"

definition production_base_url :: string where
  "production_base_url = ''https://api.elections.kalshi.com/trade-api/v2''"

definition base_url :: "bool \<Rightarrow> string" where
  "base_url sandbox = (if sandbox then sandbox_base_url else production_base_url)"

section \<open>Properties\<close>

text \<open>
  Two calls through one limiter are at least \<open>1 / calls_per_second\<close> apart, provided the
  sleep lasted at least the time asked for.
\<close>

lemma rate_limiter_spacing:
  assumes "rate_limiter_wait rl now wake = Inr (slept, rl')" and "now + slept \<le> wake"
  shows "last_call rl + 1 / calls_per_second rl \<le> last_call rl'"
  using assms by (auto simp: rate_limiter_wait_def py_div_def Let_def split: if_splits)

lemma rate_limiter_wait_Inl_iff:
  "(\<exists>e. rate_limiter_wait rl now wake = Inl e) \<longleftrightarrow> calls_per_second rl = 0"
  by (simp add: rate_limiter_wait_def py_div_def Let_def)

lemma rate_limiter_wait_Inr:
  "calls_per_second rl \<noteq> 0 \<Longrightarrow>
   \<exists>slept. rate_limiter_wait rl now wake = Inr (slept, rl\<lparr>last_call := wake\<rparr>)"
  by (simp add: rate_limiter_wait_def py_div_def Let_def)

lemma request_loop_returns_if:
  assumes "calls_per_second rl \<noteq> 0" and "snd (snd (srv (i + k))) \<noteq> 429"
  shows "\<exists>r. request_loop srv rl i = Some r"
  using assms
proof (induction k arbitrary: i rl)
  case 0
  obtain now wake status where a: "srv i = (now, wake, status)" by (cases "srv i") auto
  from rate_limiter_wait_Inr [OF 0(1), of now wake] a 0(2) show ?case
    by (auto simp: request_loop.simps)
next
  case (Suc k)
  obtain now wake status where a: "srv i = (now, wake, status)" by (cases "srv i") auto
  obtain slept where w: "rate_limiter_wait rl now wake = Inr (slept, rl\<lparr>last_call := wake\<rparr>)"
    using rate_limiter_wait_Inr [OF Suc.prems(1)] by blast
  have "\<exists>r. request_loop srv (rl\<lparr>last_call := wake\<rparr>) (Suc i) = Some r"
    using Suc.IH [of "rl\<lparr>last_call := wake\<rparr>" "Suc i"] Suc.prems by simp
  then show ?case using a w by (auto simp: request_loop.simps)
qed

lemma request_loop_Some:
  assumes "request_loop srv rl i = Some (rl', j, res)" and "calls_per_second rl \<noteq> 0"
  shows "i \<le> j \<and> (\<forall>k. i \<le> k \<and> k < j \<longrightarrow> snd (snd (srv k)) = 429) \<and> snd (snd (srv j)) \<noteq> 429
         \<and> res = (if 200 \<le> snd (snd (srv j)) \<and> snd (snd (srv j)) < 300 then Inr (snd (snd (srv j)))
                  else Inl (HTTPStatusError (snd (snd (srv j)))))
         \<and> rl' = rl\<lparr>last_call := fst (snd (srv j))\<rparr>"
proof -
  let ?Q = "\<lambda>srv rl i (rl', j, res). i \<le> j \<and> (\<forall>k. i \<le> k \<and> k < j \<longrightarrow> snd (snd (srv k)) = 429)
         \<and> snd (snd (srv j)) \<noteq> 429
         \<and> res = (if 200 \<le> snd (snd (srv j)) \<and> snd (snd (srv j)) < 300 then Inr (snd (snd (srv j)))
                  else Inl (HTTPStatusError (snd (snd (srv j)))))
         \<and> rl' = rl\<lparr>last_call := fst (snd (srv j))\<rparr>"
  have "calls_per_second rl \<noteq> 0 \<longrightarrow> ?Q srv rl i (rl', j, res)"
  proof (rule request_loop.raw_induct
      [where P = "\<lambda>srv rl i r. calls_per_second rl \<noteq> 0 \<longrightarrow> ?Q srv rl i r", OF _ assms(1)])
    fix f srv rl i r
    assume IH: "\<And>srv rl i r. f srv rl i = Some r \<Longrightarrow> calls_per_second rl \<noteq> 0 \<longrightarrow> ?Q srv rl i r"
      and eq: "(case srv i of (now, wake, status) \<Rightarrow>
        (case rate_limiter_wait rl now wake of
           Inl e \<Rightarrow> Some (rl, i, Inl (PyError e))
         | Inr (slept, rl') \<Rightarrow>
             if status = 429 then f srv rl' (Suc i)
             else if 200 \<le> status \<and> status < 300 then Some (rl', i, Inr status)
             else Some (rl', i, Inl (HTTPStatusError status)))) = Some r"
    show "calls_per_second rl \<noteq> 0 \<longrightarrow> ?Q srv rl i r"
    proof
      assume c: "calls_per_second rl \<noteq> 0"
      obtain now wake status where a: "srv i = (now, wake, status)" by (cases "srv i") auto
      obtain slept where w: "rate_limiter_wait rl now wake = Inr (slept, rl\<lparr>last_call := wake\<rparr>)"
        using rate_limiter_wait_Inr [OF c] by blast
      show "?Q srv rl i r"
      proof (cases "status = 429")
        case True
        then have "f srv (rl\<lparr>last_call := wake\<rparr>) (Suc i) = Some r" using eq a w by simp
        from IH [OF this] c have q: "?Q srv (rl\<lparr>last_call := wake\<rparr>) (Suc i) r" by simp
        obtain rl2 j2 res2 where r: "r = (rl2, j2, res2)" by (cases r) auto
        have "\<forall>k. i \<le> k \<and> k < j2 \<longrightarrow> snd (snd (srv k)) = 429"
        proof (intro allI impI)
          fix k assume "i \<le> k \<and> k < j2"
          then show "snd (snd (srv k)) = 429"
            using q True a by (cases "k = i") (auto simp: r)
        qed
        then show ?thesis using q by (auto simp: r)
      next
        case False
        then show ?thesis using eq a w by (auto split: if_splits)
      qed
    qed
  qed
  then show ?thesis using assms(2) by simp
qed

lemma request_loop_returns_only_if:
  assumes "request_loop srv rl i = Some r" and "calls_per_second rl \<noteq> 0"
  shows "\<exists>j\<ge>i. snd (snd (srv j)) \<noteq> 429"
proof -
  obtain rl' j res where "r = (rl', j, res)" by (cases r) auto
  with request_loop_Some [of srv rl i rl' j res] assms show ?thesis by blast
qed


lemma base_url_sandbox_iff: "base_url sb = sandbox_base_url \<longleftrightarrow> sb"
  by (simp add: base_url_def sandbox_base_url_def production_base_url_def)

lemma sign_message_ignores_query:
  assumes "CHR ''?'' \<notin> set path"
  shows "sign_message ts m (path @ CHR ''?'' # q) = sign_message ts m path"
proof -
  have all: "\<forall>x\<in>set path. x \<noteq> CHR ''?''" using assms by auto
  then have tw: "takeWhile (\<lambda>c. c \<noteq> CHR ''?'') path = path" by (simp only: takeWhile_eq_all_conv)
  from all show ?thesis by (simp add: sign_message_def strip_query_def takeWhile_append2 tw)
qed

lemma sign_message_example:
  "sign_message ''1700000000000'' ''get'' (request_path ''/markets?limit=100'') =
   ''1700000000000GET/trade-api/v2/markets''"
  by code_simp

abbreviation busy_server :: "nat \<Rightarrow> attempt" where
  "busy_server \<equiv> \<lambda>j. (real j, real j + 1, if j < 3 then 429 else 200)"

abbreviation saturated_server :: "nat \<Rightarrow> attempt" where
  "saturated_server \<equiv> \<lambda>j. (real j, real j + 1, 429)"


end
