(* ===== verification/PyFormat.thy ===== *)
theory PyFormat
  imports Prelude
begin

text \<open>
  Python's rendering of numbers as text: \<open>str\<close> of an int and the fixed-point and percent
  format specifications (\<open>:.2f\<close>, \<open>:+.2f\<close>, \<open>:.0%\<close>, \<open>:+.1%\<close>) of a float. Floats are
  reals: the rounding is to nearest with ties to even, as Python rounds the exact value.
  \<open>parse_nat\<close> and \<open>parse_fixed\<close> read the text back; they are the reference for the
  round-trip and accuracy lemmas.
\<close>

text \<open>\<open>str(n)\<close> of an int: its decimal digits.\<close>

fun py_str_nat :: "nat \<Rightarrow> string" where
  "py_str_nat n = (if n < 10 then [char_of (48 + n)] else py_str_nat (n div 10) @ [char_of (48 + n mod 10)])"

definition py_str_int :: "int \<Rightarrow> string" where
  "py_str_int i = (if i < 0 then CHR ''-'' # py_str_nat (nat (- i)) else py_str_nat (nat i))"

definition round_half_even :: "real \<Rightarrow> int" where
  "round_half_even x =
     (let n = \<lfloor>x\<rfloor>; f = x - of_int n
      in if f < 1/2 then n else if 1/2 < f then n + 1 else if even n then n else n + 1)"

definition pad_zeros :: "nat \<Rightarrow> string \<Rightarrow> string" where
  "pad_zeros k s = replicate (k - length s) CHR ''0'' @ s"

text \<open>\<open>format(x, '.df')\<close>: the sign of \<open>x\<close> (also when the digits round to zero), then the digits.\<close>

definition py_fixed :: "nat \<Rightarrow> real \<Rightarrow> string" where
  "py_fixed d x =
     (let r = nat (round_half_even (\<bar>x\<bar> * 10 ^ d))
      in (if x < 0 then ''-'' else '''') @ py_str_nat (r div 10 ^ d)
         @ (if d = 0 then '''' else ''.'' @ pad_zeros d (py_str_nat (r mod 10 ^ d))))"

text \<open>\<open>format(x, '+.df')\<close>.\<close>

definition py_fixed_plus :: "nat \<Rightarrow> real \<Rightarrow> string" where
  "py_fixed_plus d x = (if x < 0 then py_fixed d x else ''+'' @ py_fixed d x)"

text \<open>\<open>format(x, '.d%')\<close> and \<open>format(x, '+.d%')\<close>.\<close>

definition py_percent :: "nat \<Rightarrow> real \<Rightarrow> string" where
  "py_percent d x = py_fixed d (x * 100) @ ''%''"

definition py_percent_plus :: "nat \<Rightarrow> real \<Rightarrow> string" where
  "py_percent_plus d x = py_fixed_plus d (x * 100) @ ''%''"

text \<open>Reading digits back.\<close>

definition parse_nat :: "string \<Rightarrow> nat" where
  "parse_nat s = foldl (\<lambda>acc c. acc * 10 + (of_char c - 48)) 0 s"

definition parse_fixed :: "nat \<Rightarrow> string \<Rightarrow> real" where
  "parse_fixed d s =
     (let neg = (take 1 s = ''-''); u = (if take 1 s \<in> {''-'', ''+''} then drop 1 s else s);
          ip = takeWhile (\<lambda>c. c \<noteq> CHR ''.'') u; fp = drop 1 (dropWhile (\<lambda>c. c \<noteq> CHR ''.'') u);
          v = real (parse_nat ip) + real (parse_nat fp) / 10 ^ d
      in if neg then - v else v)"

section \<open>Properties\<close>

declare py_str_nat.simps [simp del]

lemma digit_chars [simp]:
  "char_of (48::nat) = CHR ''0''"
  "char_of (49::nat) = CHR ''1''"
  "char_of (50::nat) = CHR ''2''"
  "char_of (51::nat) = CHR ''3''"
  "char_of (52::nat) = CHR ''4''"
  "char_of (53::nat) = CHR ''5''"
  "char_of (54::nat) = CHR ''6''"
  "char_of (55::nat) = CHR ''7''"
  "char_of (56::nat) = CHR ''8''"
  "char_of (57::nat) = CHR ''9''"
  by code_simp+


lemma round_half_even_bound: "\<bar>of_int (round_half_even x) - x\<bar> \<le> 1/2"
proof -
  have "of_int \<lfloor>x\<rfloor> \<le> x" "x < of_int \<lfloor>x\<rfloor> + 1" by linarith+
  then show ?thesis by (auto simp: round_half_even_def Let_def)
qed

lemma round_half_even_nonneg: "0 \<le> x \<Longrightarrow> 0 \<le> round_half_even x"
  by (auto simp: round_half_even_def Let_def)

lemma parse_nat_append: "parse_nat (xs @ ys) = foldl (\<lambda>acc c. acc * 10 + (of_char c - 48)) (parse_nat xs) ys"
  by (simp add: parse_nat_def)

lemma parse_nat_zeros: "parse_nat (replicate k CHR ''0'') = 0"
  by (induction k) (simp_all add: parse_nat_def replicate_append_same [symmetric])

lemma parse_nat_pad: "parse_nat (pad_zeros k s) = parse_nat s"
  by (simp add: pad_zeros_def parse_nat_append parse_nat_zeros) (simp add: parse_nat_def)

lemma of_char_digit: "d < 10 \<Longrightarrow> of_char (char_of (48 + d) :: char) = (48 + d :: nat)"
  by (simp add: of_char_of)

lemma parse_nat_snoc: "parse_nat (xs @ [c]) = parse_nat xs * 10 + (of_char c - 48)"
  by (simp add: parse_nat_def)

lemma parse_py_str_nat: "parse_nat (py_str_nat n) = n"
proof (induction n rule: py_str_nat.induct)
  case (1 n)
  show ?case
  proof (cases "n < 10")
    case True
    then have "py_str_nat n = [] @ [char_of (48 + n)]" by (simp add: py_str_nat.simps)
    then show ?thesis using True by (simp only: parse_nat_snoc of_char_digit) (simp add: parse_nat_def)
  next
    case False
    then have e: "py_str_nat n = py_str_nat (n div 10) @ [char_of (48 + n mod 10)]"
      by (simp add: py_str_nat.simps)
    have "parse_nat (py_str_nat (n div 10)) = n div 10" using 1 False by simp
    then show ?thesis by (simp only: e parse_nat_snoc of_char_digit mod_less_divisor zero_less_numeral) simp
  qed
qed

lemma py_str_nat_digits:
  "py_str_nat n \<noteq> [] \<and> (\<forall>c \<in> set (py_str_nat n). 48 \<le> (of_char c :: nat) \<and> (of_char c :: nat) < 58)"
proof (induction n rule: py_str_nat.induct)
  case (1 n)
  show ?case
  proof (cases "n < 10")
    case True
    then have "py_str_nat n = [char_of (48 + n)]" by (simp add: py_str_nat.simps)
    then show ?thesis using of_char_digit [OF True] True by simp
  next
    case False
    then have "py_str_nat n = py_str_nat (n div 10) @ [char_of (48 + n mod 10)]"
      by (simp add: py_str_nat.simps)
    then show ?thesis using 1 False of_char_digit [of "n mod 10"] by auto
  qed
qed

lemma py_str_nat_no_dot: "CHR ''.'' \<notin> set (py_str_nat n)"
  using py_str_nat_digits [of n] by force

lemma py_str_nat_head: "take 1 (py_str_nat n) \<noteq> ''-'' \<and> take 1 (py_str_nat n) \<noteq> ''+''"
proof -
  obtain c cs where e: "py_str_nat n = c # cs" using py_str_nat_digits [of n] by (cases "py_str_nat n") auto
  then have "48 \<le> (of_char c :: nat)" using py_str_nat_digits [of n] by auto
  then show ?thesis using e by auto
qed

lemma real_div_mod_parts:
  "real (r div m) + real (r mod m) / real m = real r / real m" if "0 < m" for r m :: nat
proof -
  have "real r = real (r div m) * real m + real (r mod m)"
    by (metis div_mult_mod_eq of_nat_add of_nat_mult)
  then show ?thesis using that by (simp add: field_simps)
qed

lemma parse_fixed_digits:
  fixes r d :: nat
  defines "s \<equiv> py_str_nat (r div 10 ^ d) @ (if d = 0 then [] else CHR ''.'' # pad_zeros d (py_str_nat (r mod 10 ^ d)))"
  shows "parse_fixed d s = real r / 10 ^ d \<and> parse_fixed d (CHR ''-'' # s) = - (real r / 10 ^ d)
         \<and> parse_fixed d (CHR ''+'' # s) = real r / 10 ^ d"
proof -
  have nd: "\<forall>c \<in> set (py_str_nat (r div 10 ^ d)). c \<noteq> CHR ''.''" using py_str_nat_no_dot by blast
  have tw: "takeWhile (\<lambda>c. c \<noteq> CHR ''.'') s = py_str_nat (r div 10 ^ d)"
    using nd by (simp add: s_def takeWhile_append2)
  have dw: "drop 1 (dropWhile (\<lambda>c. c \<noteq> CHR ''.'') s) =
            (if d = 0 then [] else pad_zeros d (py_str_nat (r mod 10 ^ d)))"
    using nd by (simp add: s_def dropWhile_append2)
  have v: "real (parse_nat (py_str_nat (r div 10 ^ d))) +
           real (parse_nat (if d = 0 then [] else pad_zeros d (py_str_nat (r mod 10 ^ d)))) / 10 ^ d
           = real r / 10 ^ d"
  proof (cases "d = 0")
    case True
    have "parse_nat [] = 0" by (simp add: parse_nat_def)
    with True show ?thesis by (simp add: parse_py_str_nat)
  next
    case False
    have "real (r div 10 ^ d) + real (r mod 10 ^ d) / real (10 ^ d) = real r / real (10 ^ d)"
      by (rule real_div_mod_parts) simp
    then show ?thesis using False by (simp add: parse_py_str_nat parse_nat_pad)
  qed
  have h: "take 1 s \<noteq> ''-'' \<and> take 1 s \<noteq> ''+''"
    using py_str_nat_head [of "r div 10 ^ d"] py_str_nat_digits [of "r div 10 ^ d"]
    by (cases "py_str_nat (r div 10 ^ d)") (auto simp: s_def)
  show ?thesis
    using tw dw v h by (simp add: parse_fixed_def Let_def)
qed

lemma py_fixed_parse:
  obtains v where "\<bar>v - \<bar>x\<bar>\<bar> \<le> 1 / (2 * 10 ^ d)"
    and "parse_fixed d (py_fixed d x) = (if x < 0 then - v else v)"
    and "parse_fixed d (py_fixed_plus d x) = (if x < 0 then - v else v)"
proof -
  define r where "r = nat (round_half_even (\<bar>x\<bar> * 10 ^ d))"
  have r: "real r = of_int (round_half_even (\<bar>x\<bar> * 10 ^ d))"
    using round_half_even_nonneg [of "\<bar>x\<bar> * 10 ^ d"] by (simp add: r_def)
  have b: "\<bar>real r - \<bar>x\<bar> * 10 ^ d\<bar> \<le> 1/2" using round_half_even_bound r by simp
  have "real r / 10 ^ d - \<bar>x\<bar> = (real r - \<bar>x\<bar> * 10 ^ d) / 10 ^ d"
    by (simp add: field_simps)
  then have "\<bar>real r / 10 ^ d - \<bar>x\<bar>\<bar> = \<bar>real r - \<bar>x\<bar> * 10 ^ d\<bar> / 10 ^ d"
    by (simp add: abs_divide)
  also have "\<dots> \<le> (1/2) / 10 ^ d" by (rule divide_right_mono [OF b]) simp
  also have "\<dots> = 1 / (2 * 10 ^ d)" by simp
  finally have e: "\<bar>real r / 10 ^ d - \<bar>x\<bar>\<bar> \<le> 1 / (2 * 10 ^ d)" .
  note p = parse_fixed_digits [where r = r and d = d]
  have pf: "py_fixed d x = (if x < 0 then [CHR ''-''] else []) @ py_str_nat (r div 10 ^ d) @
              (if d = 0 then [] else CHR ''.'' # pad_zeros d (py_str_nat (r mod 10 ^ d)))"
    by (simp add: py_fixed_def r_def Let_def)
  have "parse_fixed d (py_fixed d x) = (if x < 0 then - (real r / 10 ^ d) else real r / 10 ^ d)
        \<and> parse_fixed d (py_fixed_plus d x) = (if x < 0 then - (real r / 10 ^ d) else real r / 10 ^ d)"
  proof (cases "x < 0")
    case True
    then show ?thesis using p by (simp only: py_fixed_plus_def pf if_True append_Cons append_Nil)
  next
    case False
    then show ?thesis using p
      by (simp only: py_fixed_plus_def pf if_False append_Cons append_Nil)
  qed
  with e that show ?thesis by blast
qed

lemma py_fixed_accuracy: "\<bar>parse_fixed d (py_fixed d x) - x\<bar> \<le> 1 / (2 * 10 ^ d)"
  by (rule py_fixed_parse [of x d]) (auto simp: abs_if split: if_splits)

lemma py_fixed_plus_accuracy: "\<bar>parse_fixed d (py_fixed_plus d x) - x\<bar> \<le> 1 / (2 * 10 ^ d)"
  by (rule py_fixed_parse [of x d]) (auto simp: abs_if split: if_splits)

end
