(* ===== verification/ApiEndpoints.thy ===== *)
theory ApiEndpoints
  imports ApiClient PyFormat
begin

text \<open>
  The rest of \<open>KalshiClient\<close> (src/src/api/kalshi_client.py): the client's state, the
  factory \<open>create_client_from_env\<close>, the request every endpoint method hands to
  \<open>_request\<close>, the request that goes on the wire (URL and authentication headers) and
  \<open>_request\<close> itself as the retry loop of \<open>ApiClient\<close> run on the client's rate limiter.
  Query parameters and JSON bodies are association lists in insertion order, as Python
  dicts are. The RSA-PSS signature is an argument \<open>signer\<close> applied to the signed message;
  the environment and the key file are arguments.
\<close>

section \<open>Requests of the endpoint methods\<close>

datatype param = PStr string | PInt int | PBool bool

type_synonym params = "(string \<times> param) list"

text \<open>\<open>if v: params[k] = v\<close> for an optional string: \<open>None\<close> and \<open>''\<close> are skipped.\<close>

definition set_if_truthy :: "string \<Rightarrow> string option \<Rightarrow> params \<Rightarrow> params" where
  "set_if_truthy k v ps = (case v of None \<Rightarrow> ps | Some s \<Rightarrow> if s = [] then ps else AList.update k (PStr s) ps)"

text \<open>\<open>if v: order[k] = v\<close> for an optional int: \<open>None\<close> and \<open>0\<close> are skipped.\<close>

definition set_if_nonzero :: "string \<Rightarrow> int option \<Rightarrow> params \<Rightarrow> params" where
  "set_if_nonzero k v ps = (case v of None \<Rightarrow> ps | Some i \<Rightarrow> if i = 0 then ps else AList.update k (PInt i) ps)"

text \<open>\<open>if v is not None: order[k] = v\<close>.\<close>

definition set_if_not_none :: "string \<Rightarrow> int option \<Rightarrow> params \<Rightarrow> params" where
  "set_if_not_none k v ps = (case v of None \<Rightarrow> ps | Some i \<Rightarrow> AList.update k (PInt i) ps)"

text \<open>The arguments of one call of \<open>_request(method, endpoint, params, json_data)\<close>.\<close>

record api_request =
  req_method :: string
  req_endpoint :: string
  req_params :: "params option"
  req_json :: "params option"

definition api_req :: "string \<Rightarrow> string \<Rightarrow> params option \<Rightarrow> params option \<Rightarrow> api_request" where
  "api_req m e p j = \<lparr>req_method = m, req_endpoint = e, req_params = p, req_json = j\<rparr>"

definition get_markets ::
  "string \<Rightarrow> int \<Rightarrow> string option \<Rightarrow> string option \<Rightarrow> string option \<Rightarrow> api_request" where
  "get_markets status limit cursor series_ticker event_ticker =
     api_req ''GET'' ''/markets''
       (Some (set_if_truthy ''event_ticker'' event_ticker
               (set_if_truthy ''series_ticker'' series_ticker
                 (set_if_truthy ''cursor'' cursor [(''status'', PStr status), (''limit'', PInt limit)]))))
       None"

definition get_market :: "string \<Rightarrow> api_request" where
  "get_market ticker = api_req ''GET'' (''/markets/'' @ ticker) None None"

definition get_orderbook :: "string \<Rightarrow> int \<Rightarrow> api_request" where
  "get_orderbook ticker depth =
     api_req ''GET'' (''/markets/'' @ ticker @ ''/orderbook'') (Some [(''depth'', PInt depth)]) None"

definition get_trades :: "string \<Rightarrow> int \<Rightarrow> string option \<Rightarrow> api_request" where
  "get_trades ticker limit cursor =
     api_req ''GET'' (''/markets/'' @ ticker @ ''/trades'')
       (Some (set_if_truthy ''cursor'' cursor [(''limit'', PInt limit)])) None"

definition get_events :: "string \<Rightarrow> int \<Rightarrow> bool \<Rightarrow> api_request" where
  "get_events status limit with_nested_markets =
     api_req ''GET'' ''/events''
       (Some [(''status'', PStr status), (''limit'', PInt limit),
              (''with_nested_markets'', PBool with_nested_markets)]) None"

definition get_series :: "int \<Rightarrow> api_request" where
  "get_series limit = api_req ''GET'' ''/series'' (Some [(''limit'', PInt limit)]) None"

definition get_balance :: api_request where
  "get_balance = api_req ''GET'' ''/portfolio/balance'' None None"

text \<open>\<open>get_positions\<close> sends its \<open>status\<close> argument as \<open>settlement_status\<close>.\<close>

definition get_positions :: "string \<Rightarrow> int \<Rightarrow> string option \<Rightarrow> string option \<Rightarrow> api_request" where
  "get_positions status limit cursor event_ticker =
     api_req ''GET'' ''/portfolio/positions''
       (Some (set_if_truthy ''event_ticker'' event_ticker
               (set_if_truthy ''cursor'' cursor
                 (set_if_truthy ''settlement_status'' (Some status) [(''limit'', PInt limit)]))))
       None"

definition get_fills :: "int \<Rightarrow> string option \<Rightarrow> string option \<Rightarrow> api_request" where
  "get_fills limit cursor ticker =
     api_req ''GET'' ''/portfolio/fills''
       (Some (set_if_truthy ''ticker'' ticker (set_if_truthy ''cursor'' cursor [(''limit'', PInt limit)])))
       None"

text \<open>\<open>create_order\<close>: the order body; prices are passed through unchecked.\<close>

definition create_order ::
  "string \<Rightarrow> string \<Rightarrow> string \<Rightarrow> int \<Rightarrow> string \<Rightarrow> int option \<Rightarrow> int option \<Rightarrow> int option \<Rightarrow>
   string option \<Rightarrow> api_request" where
  "create_order ticker side action count type yes_price no_price expiration_ts client_order_id =
     api_req ''POST'' ''/portfolio/orders'' None
       (Some (set_if_truthy ''client_order_id'' client_order_id
               (set_if_nonzero ''expiration_ts'' expiration_ts
                 (set_if_not_none ''no_price'' no_price
                   (set_if_not_none ''yes_price'' yes_price
                     [(''ticker'', PStr ticker), (''side'', PStr side), (''action'', PStr action),
                      (''count'', PInt count), (''type'', PStr type)])))))"

definition get_orders :: "string option \<Rightarrow> string \<Rightarrow> int \<Rightarrow> api_request" where
  "get_orders ticker status limit =
     api_req ''GET'' ''/portfolio/orders''
       (Some (set_if_truthy ''status'' (Some status) (set_if_truthy ''ticker'' ticker [(''limit'', PInt limit)])))
       None"

definition cancel_order :: "string \<Rightarrow> api_request" where
  "cancel_order order_id = api_req ''DELETE'' (''/portfolio/orders/'' @ order_id) None None"

definition batch_cancel_orders :: "string option \<Rightarrow> api_request" where
  "batch_cancel_orders ticker =
     api_req ''DELETE'' ''/portfolio/orders'' (Some (set_if_truthy ''ticker'' ticker [])) None"

definition get_exchange_status :: api_request where
  "get_exchange_status = api_req ''GET'' ''/exchange/status'' None None"

section \<open>The client\<close>

definition sandbox_ws_url :: string where
  "sandbox_ws_url = ''wss://demo-api.kalshi.co/trade-api/ws/v2''"

definition production_ws_url :: string where
  "production_ws_url = ''wss://api.elections.kalshi.com/trade-api/ws/v2''"

definition ws_url :: "bool \<Rightarrow> string" where
  "ws_url sandbox = (if sandbox then sandbox_ws_url else production_ws_url)"

text \<open>
  The state of a \<open>KalshiClient\<close>: \<open>kc_http_open\<close> stands for \<open>_client is not None\<close>. The
  loaded private key is not part of the state: the signer is an argument.
\<close>

record kalshi_client =
  kc_api_key_id :: string
  kc_sandbox :: bool
  kc_base_url :: string
  kc_ws_url :: string
  kc_rate_limiter :: rate_limiter
  kc_http_open :: bool

datatype client_error = FileNotFoundError | MissingApiKey | RequestFailed request_error

text \<open>\<open>KalshiClient.__init__\<close>: \<open>_load_private_key\<close> raises when the key file is missing.\<close>

definition init_kalshi_client :: "string \<Rightarrow> bool \<Rightarrow> bool \<Rightarrow> client_error + kalshi_client" where
  "init_kalshi_client api_key_id key_file_exists sandbox =
     (if \<not> key_file_exists then Inl FileNotFoundError
      else Inr \<lparr>kc_api_key_id = api_key_id, kc_sandbox = sandbox, kc_base_url = base_url sandbox,
                kc_ws_url = ws_url sandbox, kc_rate_limiter = init_rate_limiter 8,
                kc_http_open = False\<rparr>)"

text \<open>\<open>create_client_from_env\<close>: \<open>KALSHI_API_KEY\<close> from the environment (a \<open>ValueError\<close> when unset or empty).\<close>

definition create_client_from_env :: "string option \<Rightarrow> bool \<Rightarrow> bool \<Rightarrow> client_error + kalshi_client" where
  "create_client_from_env env_key key_file_exists sandbox =
     (case env_key of
        None \<Rightarrow> Inl MissingApiKey
      | Some k \<Rightarrow> if k = [] then Inl MissingApiKey else init_kalshi_client k key_file_exists sandbox)"

text \<open>\<open>close\<close> (also \<open>__aexit__\<close>).\<close>

definition client_close :: "kalshi_client \<Rightarrow> kalshi_client" where
  "client_close c = c\<lparr>kc_http_open := False\<rparr>"

text \<open>\<open>str(int(t * 1000))\<close>: the clock reading in milliseconds.\<close>

definition timestamp_ms :: "timestamp \<Rightarrow> string" where
  "timestamp_ms t = py_str_int (py_int (t * 1000))"

text \<open>The headers \<open>_get_auth_headers\<close> builds at clock reading \<open>ts\<close> (milliseconds, as a string).\<close>

definition auth_headers ::
  "kalshi_client \<Rightarrow> (string \<Rightarrow> string) \<Rightarrow> string \<Rightarrow> string \<Rightarrow> string \<Rightarrow> (string \<times> string) list" where
  "auth_headers c signer ts method path =
     [(''KALSHI-ACCESS-KEY'', kc_api_key_id c),
      (''KALSHI-ACCESS-SIGNATURE'', signer (sign_message ts method path)),
      (''KALSHI-ACCESS-TIMESTAMP'', ts),
      (''Content-Type'', ''application/json'')]"

record wire_request =
  w_method :: string
  w_url :: string
  w_headers :: "(string \<times> string) list"
  w_params :: "params option"
  w_json :: "params option"

text \<open>One attempt of \<open>_request\<close>: what \<open>client.request\<close> is called with.\<close>

definition wire_of :: "kalshi_client \<Rightarrow> (string \<Rightarrow> string) \<Rightarrow> string \<Rightarrow> api_request \<Rightarrow> wire_request" where
  "wire_of c signer ts r =
     \<lparr>w_method = req_method r, w_url = kc_base_url c @ req_endpoint r,
      w_headers = auth_headers c signer ts (str_upper (req_method r)) (request_path (req_endpoint r)),
      w_params = req_params r, w_json = req_json r\<rparr>"

text \<open>
  \<open>_request\<close> on the client: the retry loop on the client's limiter. Attempt \<open>k\<close> sends
  its wire request with the timestamp read after its \<open>wait\<close>; an attempt whose \<open>wait\<close>
  raised sends nothing. The HTTP client is opened (\<open>_get_client\<close>) by the first attempt
  that sends. The result is the client, the wire requests sent, and the outcome.
\<close>

definition attempts_sent :: "nat \<Rightarrow> request_error + int \<Rightarrow> nat" where
  "attempts_sent i r = (case r of Inl (PyError e) \<Rightarrow> i | _ \<Rightarrow> Suc i)"

definition client_request ::
  "kalshi_client \<Rightarrow> (string \<Rightarrow> string) \<Rightarrow> api_request \<Rightarrow> (nat \<Rightarrow> attempt) \<Rightarrow>
   (kalshi_client \<times> wire_request list \<times> (client_error + int)) option" where
  "client_request c signer r srv =
     map_option (\<lambda>(rl', i, res).
       (c\<lparr>kc_rate_limiter := rl', kc_http_open := (kc_http_open c \<or> 0 < attempts_sent i res)\<rparr>,
        map (\<lambda>k. wire_of c signer (timestamp_ms (fst (snd (srv k)))) r) [0..<attempts_sent i res],
        map_sum RequestFailed id res))
       (request_loop srv (kc_rate_limiter c) 0)"

definition client_inv :: "kalshi_client \<Rightarrow> bool" where
  "client_inv c \<longleftrightarrow> kc_base_url c = base_url (kc_sandbox c) \<and> kc_ws_url c = ws_url (kc_sandbox c)
     \<and> calls_per_second (kc_rate_limiter c) = 8"

section \<open>Properties\<close>

lemma timestamp_ms_roundtrip:
  assumes "0 \<le> t"
  shows "int (parse_nat (timestamp_ms t)) = \<lfloor>t * 1000\<rfloor>"
  using assms by (simp add: timestamp_ms_def py_str_int_def py_int_def parse_py_str_nat)

lemma create_client_from_env_Inr:
  assumes "create_client_from_env env_key key_file_exists sandbox = Inr c"
  shows "client_inv c \<and> kc_sandbox c = sandbox \<and> \<not> kc_http_open c
         \<and> env_key = Some (kc_api_key_id c) \<and> kc_api_key_id c \<noteq> []"
  using assms
  by (auto simp: create_client_from_env_def init_kalshi_client_def client_inv_def init_rate_limiter_def
      split: option.splits if_splits)

lemma create_client_from_env_Inl_iff:
  "(\<exists>e. create_client_from_env env_key key_file_exists sandbox = Inl e) \<longleftrightarrow>
   env_key = None \<or> env_key = Some [] \<or> \<not> key_file_exists"
  by (auto simp: create_client_from_env_def init_kalshi_client_def split: option.splits)

lemma wire_of_url:
  "client_inv c \<Longrightarrow> w_url (wire_of c signer ts r) = base_url (kc_sandbox c) @ req_endpoint r"
  by (simp add: wire_of_def client_inv_def)

lemma client_request_inv:
  assumes "client_inv c" and "client_request c signer r srv = Some (c', ws, res)"
  shows "client_inv c' \<and> kc_sandbox c' = kc_sandbox c \<and> kc_api_key_id c' = kc_api_key_id c"
proof -
  obtain rl' i res0 where l: "request_loop srv (kc_rate_limiter c) 0 = Some (rl', i, res0)"
    and c': "c' = c\<lparr>kc_rate_limiter := rl', kc_http_open := (kc_http_open c \<or> 0 < attempts_sent i res0)\<rparr>"
    using assms(2) by (auto simp: client_request_def)
  have "calls_per_second (kc_rate_limiter c) \<noteq> 0" using assms(1) by (simp add: client_inv_def)
  from request_loop_Some [OF l this] have "rl' = (kc_rate_limiter c)\<lparr>last_call := fst (snd (srv i))\<rparr>"
    by blast
  then show ?thesis using assms(1) c' by (simp add: client_inv_def)
qed

lemma client_close_inv: "client_inv c \<Longrightarrow> client_inv (client_close c) \<and> \<not> kc_http_open (client_close c)"
  by (simp add: client_close_def client_inv_def)

text \<open>The first answer that is not 429.\<close>

lemma first_not_429_unique:
  fixes srv :: "nat \<Rightarrow> attempt"
  assumes "\<forall>k<i. snd (snd (srv k)) = 429" "snd (snd (srv i)) \<noteq> 429"
    and "\<forall>k<j. snd (snd (srv k)) = 429" "snd (snd (srv j)) \<noteq> 429"
  shows "i = j"
proof (rule ccontr)
  assume "i \<noteq> j"
  then have "i < j \<or> j < i" by arith
  then show False using assms by blast
qed

lemma client_request_Some_iff:
  assumes "client_inv c"
  shows "client_request c signer r srv = Some (c', ws, res) \<longleftrightarrow>
    (\<exists>j. (\<forall>k<j. snd (snd (srv k)) = 429) \<and> snd (snd (srv j)) \<noteq> 429
       \<and> ws = map (\<lambda>k. wire_of c signer (timestamp_ms (fst (snd (srv k)))) r) [0..<Suc j]
       \<and> res = (if 200 \<le> snd (snd (srv j)) \<and> snd (snd (srv j)) < 300 then Inr (snd (snd (srv j)))
                else Inl (RequestFailed (HTTPStatusError (snd (snd (srv j))))))
       \<and> c' = c\<lparr>kc_rate_limiter := (kc_rate_limiter c)\<lparr>last_call := fst (snd (srv j))\<rparr>,
                 kc_http_open := True\<rparr>)"
    (is "?L \<longleftrightarrow> (\<exists>j. ?R j)")
proof -
  have cps: "calls_per_second (kc_rate_limiter c) \<noteq> 0" using assms by (simp add: client_inv_def)
  have spec: "?L \<longleftrightarrow> ?R i" if l: "request_loop srv (kc_rate_limiter c) 0 = Some (rl', i, res0)" for rl' i res0
  proof -
    note q = request_loop_Some [OF l cps]
    then have "attempts_sent i res0 = Suc i" by (auto simp: attempts_sent_def)
    then show ?thesis using q l by (auto simp: client_request_def)
  qed
  show ?thesis
  proof
    assume L: ?L
    then obtain rl' i res0 where l: "request_loop srv (kc_rate_limiter c) 0 = Some (rl', i, res0)"
      by (auto simp: client_request_def)
    with spec L show "\<exists>j. ?R j" by blast
  next
    assume "\<exists>j. ?R j"
    then obtain j where R: "?R j" by blast
    then obtain x where "request_loop srv (kc_rate_limiter c) 0 = Some x"
      using request_loop_returns_if [OF cps, of srv 0 j] by auto
    moreover obtain rl' i res0 where x: "x = (rl', i, res0)" by (cases x) auto
    ultimately have l: "request_loop srv (kc_rate_limiter c) 0 = Some (rl', i, res0)" by simp
    have "i = j"
      using request_loop_Some [OF l cps] R by (intro first_not_429_unique) auto
    with spec [OF l] R show ?L by blast
  qed
qed

lemma client_request_ok_iff:
  assumes "client_inv c"
  shows "(\<exists>c' ws x. client_request c signer r srv = Some (c', ws, Inr x)) \<longleftrightarrow>
         (\<exists>j. (\<forall>k<j. snd (snd (srv k)) = 429) \<and> 200 \<le> snd (snd (srv j)) \<and> snd (snd (srv j)) < 300)"
  using client_request_Some_iff [OF assms, of signer r srv] by (auto split: if_splits)

text \<open>
  The order body carries whatever prices it is given (the docstring's range 1--99 is not
  checked); a zero expiration is dropped while a zero price is sent.
\<close>

lemma map_of_set_if_truthy:
  "map_of (set_if_truthy k v ps) =
     (case v of None \<Rightarrow> map_of ps | Some x \<Rightarrow> if x = [] then map_of ps else (map_of ps)(k \<mapsto> PStr x))"
  by (simp add: set_if_truthy_def update_conv' split: option.splits)

lemma map_of_set_if_nonzero:
  "map_of (set_if_nonzero k v ps) =
     (case v of None \<Rightarrow> map_of ps | Some x \<Rightarrow> if x = 0 then map_of ps else (map_of ps)(k \<mapsto> PInt x))"
  by (simp add: set_if_nonzero_def update_conv' split: option.splits)

lemma map_of_set_if_not_none:
  "map_of (set_if_not_none k v ps) = (case v of None \<Rightarrow> map_of ps | Some x \<Rightarrow> (map_of ps)(k \<mapsto> PInt x))"
  by (simp add: set_if_not_none_def update_conv' split: option.splits)

lemma create_order_prices_unchecked:
  "map_of (the (req_json (create_order ticker side action count type yes_price no_price expiration_ts
       client_order_id))) ''yes_price'' = map_option PInt yes_price \<and>
   map_of (the (req_json (create_order ticker side action count type yes_price no_price expiration_ts
       client_order_id))) ''no_price'' = map_option PInt no_price \<and>
   map_of (the (req_json (create_order ticker side action count type yes_price no_price expiration_ts
       client_order_id))) ''expiration_ts'' =
     (case expiration_ts of None \<Rightarrow> None | Some e \<Rightarrow> if e = 0 then None else Some (PInt e))"
  by (cases yes_price; cases no_price; cases expiration_ts; cases client_order_id)
     (simp_all add: create_order_def api_req_def map_of_set_if_truthy map_of_set_if_nonzero
       map_of_set_if_not_none)

end
