(* ===== verification/EntryPoint.thy ===== *)
theory EntryPoint
  imports ConfigLoad ApiEndpoints
begin

text \<open>
  The entry point src/main.py and \<open>run_bot\<close> of src/src/orchestrator.py: which mode a
  command line selects, and whether the API client the run creates talks to the sandbox
  or to production. The configuration file is the parsed document of \<open>Config.load\<close>;
  the answer typed at the confirmation prompt is an argument.
\<close>

record cli_args =
  arg_config :: string
  arg_sandbox :: bool
  arg_live :: bool
  arg_once :: bool
  arg_status :: bool
  arg_verbose :: bool
  arg_yes :: bool

text \<open>\<open>parse_args\<close> with no flag given: the defaults of the parser.\<close>

definition default_cli_args :: cli_args where
  "default_cli_args = \<lparr>arg_config = ''config.yaml'', arg_sandbox = True, arg_live = False,
     arg_once = False, arg_status = False, arg_verbose = False, arg_yes = False\<rparr>"

datatype run_mode = CheckStatus | RunOnce | RunContinuous

definition main_mode :: "cli_args \<Rightarrow> run_mode" where
  "main_mode a = (if arg_status a then CheckStatus else if arg_once a then RunOnce else RunContinuous)"

text \<open>\<open>run_once\<close>: load the configuration, then overwrite its sandbox flag with the argument.\<close>

definition run_once_config :: "yaml option \<Rightarrow> bool \<Rightarrow> (bool \<times> bot_config) option" where
  "run_once_config doc sandbox = map_option (\<lambda>(sb, cfg). (sandbox, cfg)) (load_config doc)"

text \<open>\<open>run_bot\<close>: load the configuration; a true argument forces the sandbox.\<close>

definition run_bot_config :: "yaml option \<Rightarrow> bool \<Rightarrow> (bool \<times> bot_config) option" where
  "run_bot_config doc sandbox =
     map_option (\<lambda>(sb, cfg). (if sandbox then True else sb, cfg)) (load_config doc)"

definition confirm_phrase :: string where
  "confirm_phrase = ''I UNDERSTAND THE RISK''"

text \<open>The guard of \<open>run_continuous\<close>: live mode without \<open>--yes\<close> asks for the phrase.\<close>

definition run_continuous_proceeds :: "bool \<Rightarrow> bool \<Rightarrow> string \<Rightarrow> bool" where
  "run_continuous_proceeds sandbox skip_confirm confirm =
     (if \<not> sandbox \<and> \<not> skip_confirm then confirm = confirm_phrase else True)"

text \<open>
  \<open>main\<close>: the sandbox flag of the client the selected mode creates (\<open>check_status\<close> and
  \<open>Orchestrator.initialize\<close> pass it to \<open>create_client_from_env\<close>); \<open>None\<close> when no client
  is created (the configuration does not load, or the confirmation is refused).
\<close>

definition main_client_sandbox :: "cli_args \<Rightarrow> yaml option \<Rightarrow> string \<Rightarrow> bool option" where
  "main_client_sandbox a doc confirm =
     (let sandbox = \<not> arg_live a
      in case main_mode a of
           CheckStatus \<Rightarrow> Some sandbox
         | RunOnce \<Rightarrow> map_option fst (run_once_config doc sandbox)
         | RunContinuous \<Rightarrow>
             if run_continuous_proceeds sandbox (arg_yes a) confirm
             then map_option fst (run_bot_config doc sandbox) else None)"

definition main_base_url :: "cli_args \<Rightarrow> yaml option \<Rightarrow> string \<Rightarrow> string option" where
  "main_base_url a doc confirm = map_option base_url (main_client_sandbox a doc confirm)"

text \<open>
  \<open>main\<close> with \<open>--once\<close>: the exit status of \<open>run_once\<close> for the configuration document,
  the API's responses, the ids and the clock of the cycle. \<open>None\<close>: the configuration
  does not load; \<open>Inl\<close>: the cycle raised (after \<open>cleanup\<close>, the exception ends the
  process); \<open>Inr 1\<close>: \<open>initialize\<close> failed; \<open>Inr 0\<close>: the cycle ran.
\<close>

definition main_once ::
  "cli_args \<Rightarrow> yaml option \<Rightarrow> markets_response list \<Rightarrow> (string \<Rightarrow> raw_orderbook option) \<Rightarrow>
   (nat \<Rightarrow> string) \<Rightarrow> timestamp \<Rightarrow> (py_error + int) option" where
  "main_once a doc rs books ids now =
     map_option (\<lambda>(sb, cfg).
       case Orchestrator.initialize cfg of
         None \<Rightarrow> Inr 1
       | Some b \<Rightarrow> (case run_step b rs books ids now of Inl e \<Rightarrow> Inl e | Inr b' \<Rightarrow> Inr 0))
       (run_once_config doc (\<not> arg_live a))"

text \<open>
  \<open>check_status\<close>: create a client from the environment, then ask for the exchange status,
  the balance and ten open markets, in that order, each request answered by its own
  server sequence. Every exception is caught and reported as failure; \<open>None\<close> is a request
  that never returns.
\<close>

definition check_status ::
  "string option \<Rightarrow> bool \<Rightarrow> bool \<Rightarrow> (string \<Rightarrow> string) \<Rightarrow>
   (nat \<Rightarrow> attempt) \<Rightarrow> (nat \<Rightarrow> attempt) \<Rightarrow> (nat \<Rightarrow> attempt) \<Rightarrow> bool option" where
  "check_status env_key key_file_exists sandbox signer srv1 srv2 srv3 =
     (case create_client_from_env env_key key_file_exists sandbox of
        Inl e \<Rightarrow> Some False
      | Inr c \<Rightarrow>
          (case client_request c signer get_exchange_status srv1 of
             None \<Rightarrow> None
           | Some (c1, ws1, Inl e) \<Rightarrow> Some False
           | Some (c1, ws1, Inr x1) \<Rightarrow>
               (case client_request c1 signer get_balance srv2 of
                  None \<Rightarrow> None
                | Some (c2, ws2, Inl e) \<Rightarrow> Some False
                | Some (c2, ws2, Inr x2) \<Rightarrow>
                    (case client_request c2 signer (get_markets ''open'' 10 None None None) srv3 of
                       None \<Rightarrow> None
                     | Some (c3, ws3, Inl e) \<Rightarrow> Some False
                     | Some (c3, ws3, Inr x3) \<Rightarrow> Some True))))"

section \<open>Properties\<close>

lemma main_once_exit_one_iff:
  assumes "load_config doc = Some (sb, cfg)"
  shows "main_once a doc rs books ids now = Some (Inr 1) \<longleftrightarrow> create_strategies (bc_strategies cfg) = []"
  using assms
  by (auto simp: main_once_def run_once_config_def initialize_def Let_def split: option.splits sum.splits)

text \<open>C22: when the configuration loads with sandbox flag sb, the run contacts no host other than the sandbox exactly when --live is absent, or the run is the continuous loop and either the loaded configuration kept the sandbox (force_sandbox) or the confirmation was required and refused: with --live, --once and --status go to production even when the file forces the sandbox.\<close>

theorem main_base_url_sandbox_iff:
  assumes "load_config doc = Some (sb, cfg)"
  shows "main_base_url a doc confirm \<in> {None, Some sandbox_base_url} \<longleftrightarrow>
         \<not> arg_live a \<or> (\<not> arg_status a \<and> \<not> arg_once a \<and>
                          (sb \<or> (\<not> arg_yes a \<and> confirm \<noteq> confirm_phrase)))"
  using assms
  by (auto simp: main_base_url_def main_client_sandbox_def main_mode_def run_once_config_def
      run_bot_config_def run_continuous_proceeds_def base_url_sandbox_iff)

theorem main_base_url_sandbox_iff_witness:
  "main_base_url (default_cli_args\<lparr>arg_live := True, arg_once := True\<rparr>) None '''' =
     Some production_base_url \<and>
   main_base_url (default_cli_args\<lparr>arg_live := True, arg_yes := True\<rparr>) None '''' =
     Some sandbox_base_url"
proof -
  have u: "production_base_url \<noteq> sandbox_base_url"
    by (simp add: sandbox_base_url_def production_base_url_def)
  have "main_base_url (default_cli_args\<lparr>arg_live := True, arg_once := True\<rparr>) None '''' \<notin>
          {None, Some sandbox_base_url}"
    using main_base_url_sandbox_iff [OF load_config_no_file] by (simp add: default_cli_args_def)
  moreover have "main_base_url (default_cli_args\<lparr>arg_live := True, arg_yes := True\<rparr>) None '''' \<in>
          {None, Some sandbox_base_url}"
    using main_base_url_sandbox_iff [OF load_config_no_file] by (simp add: default_cli_args_def)
  ultimately show ?thesis
    by (auto simp: main_base_url_def main_client_sandbox_def main_mode_def default_cli_args_def
        run_once_config_def run_bot_config_def run_continuous_proceeds_def load_config_no_file
        base_url_def u)
qed



end
