(* ===== verification/Lifecycle.thy ===== *)
theory Lifecycle
  imports EntryPoint
begin

text \<open>
  The life of an \<open>Orchestrator\<close> object (src/src/orchestrator.py) and of \<open>run_bot\<close>: the
  object's fields, \<open>initialize\<close> with the creation of the API client and the balance check,
  \<open>run_once\<close>, \<open>shutdown\<close>, \<open>cleanup\<close>, \<open>get_status\<close>, and \<open>run\<close>, the loop over the batches of
  signals that the scanner's generator \<open>run_continuous\<close> yields, interleaved with the
  shutdown signal. The components created by \<open>initialize\<close> (scanner, trader, tracker,
  allocator, strategies) are the \<open>bot\<close> of \<open>Orchestrator\<close>; \<open>o_bot = None\<close> before a
  successful \<open>initialize\<close>.
\<close>

record orch =
  o_config :: bot_config
  o_sandbox :: bool
  o_client :: "kalshi_client option"
  o_bot :: "bot option"
  o_running :: bool
  o_scanner_running :: bool

text \<open>\<open>Orchestrator.__init__\<close>.\<close>

definition orch_new :: "bot_config \<Rightarrow> bool \<Rightarrow> orch" where
  "orch_new cfg sandbox =
     \<lparr>o_config = cfg, o_sandbox = sandbox, o_client = None, o_bot = None, o_running = False,
      o_scanner_running = False\<rparr>"

text \<open>
  \<open>Orchestrator.initialize\<close>: create the client (failure returns \<open>False\<close> with no client),
  check the connection with \<open>get_balance\<close> (failure returns \<open>False\<close>, keeping the client),
  then build the components (\<open>Orchestrator.initialize\<close> of the bot). \<open>None\<close>: the balance
  request never returns.
\<close>

definition orch_initialize ::
  "orch \<Rightarrow> string option \<Rightarrow> bool \<Rightarrow> (string \<Rightarrow> string) \<Rightarrow> (nat \<Rightarrow> attempt) \<Rightarrow> (bool \<times> orch) option" where
  "orch_initialize ob env_key key_file_exists signer srv =
     (case create_client_from_env env_key key_file_exists (o_sandbox ob) of
        Inl e \<Rightarrow> Some (False, ob)
      | Inr c \<Rightarrow>
          (case client_request c signer get_balance srv of
             None \<Rightarrow> None
           | Some (c', ws, Inl e) \<Rightarrow> Some (False, ob\<lparr>o_client := Some c'\<rparr>)
           | Some (c', ws, Inr x) \<Rightarrow>
               (case Orchestrator.initialize (o_config ob) of
                  None \<Rightarrow> Some (False, ob\<lparr>o_client := Some c'\<rparr>)
                | Some b \<Rightarrow> Some (True, ob\<lparr>o_client := Some c', o_bot := Some b\<rparr>))))"

datatype orch_error = NotInitialized | CycleRaised py_error

record run_once_result =
  markets_scanned :: nat
  signals_generated :: nat
  ro_summary :: trader_summary

text \<open>\<open>run_once\<close>: a \<open>RuntimeError\<close> before a successful \<open>initialize\<close>.\<close>

definition orch_run_once ::
  "orch \<Rightarrow> markets_response list \<Rightarrow> (string \<Rightarrow> raw_orderbook option) \<Rightarrow> (nat \<Rightarrow> string) \<Rightarrow>
   timestamp \<Rightarrow> orch_error + orch \<times> run_once_result" where
  "orch_run_once ob rs books ids now =
     (case o_bot ob of
        None \<Rightarrow> Inl NotInitialized
      | Some b \<Rightarrow>
          (let ms = scan_once (b_scanner_config b) now books rs;
               (b1, sigs) = scan_cycle b rs books now
           in case process_cycle b1 sigs ids now of
                Inl e \<Rightarrow> Inl (CycleRaised e)
              | Inr b2 \<Rightarrow> Inr (ob\<lparr>o_bot := Some b2\<rparr>,
                               \<lparr>markets_scanned = length ms, signals_generated = length sigs,
                                ro_summary = get_summary (b_trader b2)\<rparr>)))"

text \<open>\<open>shutdown\<close>: clear the flag and stop the scanner, if there is one.\<close>

definition orch_shutdown :: "orch \<Rightarrow> orch" where
  "orch_shutdown ob =
     ob\<lparr>o_running := False, o_scanner_running := (if o_bot ob = None then o_scanner_running ob else False)\<rparr>"

text \<open>\<open>cleanup\<close>: the final metrics (which may raise), then close the client.\<close>

definition orch_cleanup :: "orch \<Rightarrow> timestamp \<Rightarrow> string \<Rightarrow> py_error + orch" where
  "orch_cleanup ob now today =
     (case o_bot ob of
        None \<Rightarrow> Inr (ob\<lparr>o_client := map_option client_close (o_client ob)\<rparr>)
      | Some b \<Rightarrow> py_bind (cleanup b now today) (\<lambda>b'.
          Inr (ob\<lparr>o_bot := Some b', o_client := map_option client_close (o_client ob)\<rparr>)))"

record orch_status =
  st_running :: bool
  st_sandbox :: bool
  st_strategies :: "string list"
  st_portfolio :: "trader_summary option"
  st_metrics :: "strategy_metrics dict option"
  st_allocations :: "(money \<times> timestamp option \<times> summary_row list) option"

text \<open>\<open>get_status\<close>: reading the allocation summary computes metrics, which fills the cache.\<close>

definition orch_get_status :: "orch \<Rightarrow> timestamp \<Rightarrow> py_error + orch_status \<times> orch" where
  "orch_get_status ob now =
     (case o_bot ob of
        None \<Rightarrow> Inr (\<lparr>st_running = o_running ob, st_sandbox = o_sandbox ob, st_strategies = [],
                      st_portfolio = None, st_metrics = None, st_allocations = None\<rparr>, ob)
      | Some b \<Rightarrow>
          py_bind (get_allocation_summary (b_allocator b) (b_tracker b) (b_trader b) now) (\<lambda>(summ, tr').
            Inr (\<lparr>st_running = o_running ob, st_sandbox = o_sandbox ob,
                  st_strategies = map strategy_name_of (b_strategies b),
                  st_portfolio = Some (get_summary (b_trader b)),
                  st_metrics = Some (get_all_metrics (b_tracker b)), st_allocations = Some summ\<rparr>,
                 ob\<lparr>o_bot := Some (b\<lparr>b_tracker := tr'\<rparr>)\<rparr>)))"

section \<open>The run loop\<close>

text \<open>
  What happens while \<open>run\<close> waits: the scanner's generator finishes a scan (its responses,
  books, the ids and the clock of the cycle that follows), or the signal handler runs
  \<open>shutdown\<close>.
\<close>

datatype loop_event =
  Batch "markets_response list" "string \<Rightarrow> raw_orderbook option" "nat \<Rightarrow> string" timestamp
| ShutdownSignal

datatype loop_end = EventsExhausted | ScannerStopped | LoopBroken | LoopRaised py_error

text \<open>
  The \<open>async for\<close> of \<open>run\<close>: the generator scans while its flag is set and yields the
  signals; \<open>run\<close> breaks when its own flag is clear, and otherwise processes the cycle; an
  exception ends the loop (the state of the failed cycle is dropped).
\<close>

fun run_loop :: "orch \<Rightarrow> loop_event list \<Rightarrow> orch \<times> loop_end" where
  "run_loop ob [] = (ob, EventsExhausted)"
| "run_loop ob (ShutdownSignal # es) = run_loop (orch_shutdown ob) es"
| "run_loop ob (Batch rs books ids now # es) =
     (case o_bot ob of
        None \<Rightarrow> (ob, ScannerStopped)
      | Some b \<Rightarrow>
          if \<not> o_scanner_running ob then (ob, ScannerStopped)
          else (let (b1, sigs) = scan_cycle b rs books now
                in if \<not> o_running ob then (ob\<lparr>o_bot := Some b1\<rparr>, LoopBroken)
                   else case process_cycle b1 sigs ids now of
                          Inl e \<Rightarrow> (ob\<lparr>o_bot := Some b1\<rparr>, LoopRaised e)
                        | Inr b2 \<Rightarrow> run_loop (ob\<lparr>o_bot := Some b2\<rparr>) es))"

text \<open>\<open>run\<close>: set the flags, loop, and always \<open>cleanup\<close>.\<close>

definition orch_run :: "orch \<Rightarrow> loop_event list \<Rightarrow> timestamp \<Rightarrow> string \<Rightarrow> loop_end \<times> (py_error + orch)" where
  "orch_run ob es now today =
     (let (o1, r) = run_loop (ob\<lparr>o_running := True, o_scanner_running := True\<rparr>) es
      in (r, orch_cleanup o1 now today))"

datatype run_bot_outcome = InitFailed orch | Ran "loop_end \<times> (py_error + orch)"

text \<open>
  \<open>run_bot\<close>: load the configuration (forcing the sandbox when asked), create the
  orchestrator, and run it if \<open>initialize\<close> succeeds; \<open>None\<close> when the configuration does
  not load or the balance request never returns.
\<close>

definition run_bot ::
  "yaml option \<Rightarrow> bool \<Rightarrow> string option \<Rightarrow> bool \<Rightarrow> (string \<Rightarrow> string) \<Rightarrow> (nat \<Rightarrow> attempt) \<Rightarrow>
   loop_event list \<Rightarrow> timestamp \<Rightarrow> string \<Rightarrow> run_bot_outcome option" where
  "run_bot doc sandbox env_key key_file_exists signer srv es now today =
     (case run_bot_config doc sandbox of
        None \<Rightarrow> None
      | Some (sb, cfg) \<Rightarrow>
          (case orch_initialize (orch_new cfg sb) env_key key_file_exists signer srv of
             None \<Rightarrow> None
           | Some (False, ob) \<Rightarrow> Some (InitFailed ob)
           | Some (True, ob) \<Rightarrow> Some (Ran (orch_run ob es now today))))"

section \<open>Properties\<close>

lemma run_loop_append:
  "run_loop ob (es1 @ es2) =
     (if snd (run_loop ob es1) = EventsExhausted then run_loop (fst (run_loop ob es1)) es2 else run_loop ob es1)"
  by (induction ob es1 rule: run_loop.induct)
     (auto simp: Let_def split: option.splits sum.splits prod.splits)

lemma orch_shutdown_idem: "orch_shutdown (orch_shutdown ob) = orch_shutdown ob"
  by (simp add: orch_shutdown_def)

lemma run_loop_shut_down:
  assumes "o_bot ob \<noteq> None"
  shows "fst (run_loop (orch_shutdown ob) es) = orch_shutdown ob
         \<and> snd (run_loop (orch_shutdown ob) es) \<in> {EventsExhausted, ScannerStopped}"
proof (induction es)
  case Nil
  then show ?case by simp
next
  case (Cons e es)
  then show ?case
    using assms by (cases e) (auto simp: orch_shutdown_idem, auto simp: orch_shutdown_def)
qed

lemma run_loop_keeps_bot: "o_bot ob \<noteq> None \<Longrightarrow> o_bot (fst (run_loop ob es)) \<noteq> None"
  by (induction ob es rule: run_loop.induct)
     (auto simp: Let_def orch_shutdown_def split: option.splits sum.splits prod.splits)


lemma orch_run_once_run_step:
  assumes "o_bot ob = Some b"
  shows "(\<exists>r. orch_run_once ob rs books ids now = Inr (ob\<lparr>o_bot := Some b'\<rparr>, r)) \<longleftrightarrow>
         run_step b rs books ids now = Inr b'"
  using assms
  by (auto simp: orch_run_once_def run_step_def Let_def split: prod.splits sum.splits
      dest: arg_cong [of _ _ o_bot])

lemma orch_initialize_fail_leaves_open:
  assumes "o_client ob = None" and "orch_initialize ob env_key key_file_exists signer srv = Some (False, ob')"
    and "o_client ob' = Some c"
  shows "kc_http_open c"
proof -
  obtain c0 where cc: "create_client_from_env env_key key_file_exists (o_sandbox ob) = Inr c0"
    using assms by (cases "create_client_from_env env_key key_file_exists (o_sandbox ob)")
      (auto simp: orch_initialize_def)
  have inv: "client_inv c0" using create_client_from_env_Inr [OF cc] by blast
  obtain ws res where r: "client_request c0 signer get_balance srv = Some (c, ws, res)"
    using assms cc by (auto simp: orch_initialize_def split: option.splits sum.splits if_splits)
  from client_request_Some_iff [OF inv, of signer get_balance srv c ws res] r show ?thesis by auto
qed

lemma orch_cleanup_closes:
  assumes "orch_cleanup ob now today = Inr ob'"
  shows "pred_option (\<lambda>c. \<not> kc_http_open c) (o_client ob') \<and> o_sandbox ob' = o_sandbox ob"
  using assms
  by (auto simp: orch_cleanup_def client_close_def py_bind_Inr_iff option.pred_map comp_def option.pred_True
      split: option.splits)

lemma run_bot_init_failed_open:
  assumes "run_bot doc sandbox env_key key_file_exists signer srv es now today = Some (InitFailed ob)"
    and "o_client ob = Some c"
  shows "kc_http_open c"
proof -
  obtain sb cfg where "run_bot_config doc sandbox = Some (sb, cfg)"
    and i: "orch_initialize (orch_new cfg sb) env_key key_file_exists signer srv = Some (False, ob)"
    using assms(1) by (auto simp: run_bot_def split: option.splits prod.splits bool.splits)
  then show ?thesis
    using orch_initialize_fail_leaves_open [OF _ i assms(2)] by (simp add: orch_new_def)
qed

abbreviation demo_orch :: orch where
  "demo_orch \<equiv> \<lparr>o_config = demo_bot_config, o_sandbox = True, o_client = None, o_bot = Some closing_bot,
                 o_running = True, o_scanner_running = True\<rparr>"


end
