(* ===== verification/UFC.thy ===== *)
theory UFC
  imports Strategies
begin

text \<open>
  The four UFC strategies of src/src/strategies/ufc_strategies.py, as a datatype of
  variants with \<open>analyze\<close> and \<open>should_exit\<close>, like the built-in strategies of
  \<open>Strategies\<close>. They are not reachable from the orchestrator (\<open>_create_strategies\<close> never
  builds them) and are modelled on their own. None of the four strategies has state.
\<close>

section \<open>Parameters\<close>

record favorite_backer_config =
  min_favorite_price :: real
  max_favorite_price :: real
  fb_position_size :: money

definition default_favorite_backer_config :: favorite_backer_config where
  "default_favorite_backer_config =
     \<lparr>min_favorite_price = 0.70, max_favorite_price = 0.85, fb_position_size = 5\<rparr>"

record underdog_value_config =
  min_underdog_price :: real
  max_underdog_price :: real
  uv_position_size :: money

definition default_underdog_value_config :: underdog_value_config where
  "default_underdog_value_config =
     \<lparr>min_underdog_price = 0.15, max_underdog_price = 0.35, uv_position_size = 3\<rparr>"

record finish_prop_config =
  max_finish_price :: real
  fp_position_size :: money

definition default_finish_prop_config :: finish_prop_config where
  "default_finish_prop_config = \<lparr>max_finish_price = 0.40, fp_position_size = 4\<rparr>"

record mov_config =
  ko_fair_price :: real
  sub_fair_price :: real
  dec_fair_price :: real
  edge_threshold :: real
  mov_position_size :: money

definition default_mov_config :: mov_config where
  "default_mov_config =
     \<lparr>ko_fair_price = 0.30, sub_fair_price = 0.20, dec_fair_price = 0.45, edge_threshold = 0.10,
      mov_position_size = 4\<rparr>"

datatype ufc_strategy =
  FavoriteBacker favorite_backer_config
| UnderdogValue underdog_value_config
| FinishProp finish_prop_config
| MethodOfVictory mov_config

fun ufc_strategy_name :: "ufc_strategy \<Rightarrow> string" where
  "ufc_strategy_name (FavoriteBacker c) = ''FavoriteBacker''"
| "ufc_strategy_name (UnderdogValue c) = ''UnderdogValue''"
| "ufc_strategy_name (FinishProp c) = ''FinishProp''"
| "ufc_strategy_name (MethodOfVictory c) = ''MethodOfVictory''"

section \<open>Signals\<close>

text \<open>The signal every UFC strategy emits: a \<open>yes\<close> position on the analysed market.\<close>

definition ufc_signal ::
  "string \<Rightarrow> market_snapshot \<Rightarrow> timestamp \<Rightarrow> real \<Rightarrow> money \<Rightarrow> metadata \<Rightarrow> signal" where
  "ufc_signal name m now conf sz md =
     \<lparr>sig_market_id = snap_market_id m, sig_side = Yes, confidence = conf, sig_size = sz,
      sig_strategy_name = name, sig_timestamp = now, sig_metadata = Some md\<rparr>"

definition fb_analyze :: "favorite_backer_config \<Rightarrow> market_snapshot \<Rightarrow> timestamp \<Rightarrow> signal option" where
  "fb_analyze c m now =
     (let yes_price = snap_yes_price m
      in if \<not> str_contains ''KXUFCFIGHT'' (snap_market_id m) then None
         else if min_favorite_price c \<le> yes_price \<and> yes_price \<le> max_favorite_price c then
           Some (ufc_signal ''FavoriteBacker'' m now yes_price (fb_position_size c)
                   [(''reason'', MStr ''favorite_in_range''), (''price'', MNum yes_price)])
         else None)"

definition uv_analyze :: "underdog_value_config \<Rightarrow> market_snapshot \<Rightarrow> timestamp \<Rightarrow> signal option" where
  "uv_analyze c m now =
     (let yes_price = snap_yes_price m
      in if \<not> str_contains ''KXUFCFIGHT'' (snap_market_id m) then None
         else if min_underdog_price c \<le> yes_price \<and> yes_price \<le> max_underdog_price c then
           Some (ufc_signal ''UnderdogValue'' m now (1 - yes_price) (uv_position_size c)
                   [(''reason'', MStr ''underdog_value''), (''price'', MNum yes_price)])
         else None)"

definition fp_analyze :: "finish_prop_config \<Rightarrow> market_snapshot \<Rightarrow> timestamp \<Rightarrow> signal option" where
  "fp_analyze c m now =
     (let yes_price = snap_yes_price m
      in if \<not> str_contains ''KXUFCROUNDS'' (snap_market_id m) then None
         else if yes_price \<le> max_finish_price c \<and> yes_price > 0.05 then
           Some (ufc_signal ''FinishProp'' m now 0.55 (fp_position_size c)
                   [(''reason'', MStr ''finish_value''), (''price'', MNum yes_price)])
         else None)"

text \<open>
  The method a MOV ticker names, by the first of the substrings \<open>KOTKODQ\<close> or \<open>KO\<close>,
  \<open>SUB\<close>, \<open>DEC\<close> found in the upper-cased market id, with its fair price.
\<close>

definition mov_method :: "mov_config \<Rightarrow> string \<Rightarrow> (real \<times> string) option" where
  "mov_method c mid =
     (let u = str_upper mid
      in if str_contains ''KOTKODQ'' u \<or> str_contains ''KO'' u then Some (ko_fair_price c, ''ko'')
         else if str_contains ''SUB'' u then Some (sub_fair_price c, ''submission'')
         else if str_contains ''DEC'' u then Some (dec_fair_price c, ''decision'')
         else None)"

definition mov_analyze :: "mov_config \<Rightarrow> market_snapshot \<Rightarrow> timestamp \<Rightarrow> signal option" where
  "mov_analyze c m now =
     (let mid = snap_market_id m; yes_price = snap_yes_price m
      in if \<not> str_contains ''KXUFCMOV'' mid then None
         else case mov_method c mid of
           None \<Rightarrow> None
         | Some (fair_price, method) \<Rightarrow>
             (let edge = fair_price - yes_price
              in if edge \<ge> edge_threshold c \<and> yes_price > 0.03 then
                   Some (ufc_signal ''MethodOfVictory'' m now fair_price (mov_position_size c)
                           [(''reason'', MStr (method @ ''_value'')), (''price'', MNum yes_price),
                            (''fair_price'', MNum fair_price), (''edge'', MNum edge)])
                 else None))"

fun ufc_analyze :: "ufc_strategy \<Rightarrow> market_snapshot \<Rightarrow> timestamp \<Rightarrow> signal option" where
  "ufc_analyze (FavoriteBacker c) m now = fb_analyze c m now"
| "ufc_analyze (UnderdogValue c) m now = uv_analyze c m now"
| "ufc_analyze (FinishProp c) m now = fp_analyze c m now"
| "ufc_analyze (MethodOfVictory c) m now = mov_analyze c m now"

section \<open>Exits\<close>

definition fb_should_exit :: "position_view \<Rightarrow> market_snapshot \<Rightarrow> bool" where
  "fb_should_exit pv m =
     (let entry_price = pv_entry_price pv; current_price = snap_yes_price m
      in if current_price < entry_price * 0.85 then True
         else if current_price > entry_price * 1.20 then True
         else if snap_close_in_hours m < 0.5 then True
         else False)"

definition uv_should_exit :: "position_view \<Rightarrow> market_snapshot \<Rightarrow> bool" where
  "uv_should_exit pv m =
     (let entry_price = pv_entry_price pv; current_price = snap_yes_price m
      in if current_price \<ge> entry_price * 2 then True
         else if current_price < entry_price * 0.5 then True
         else if snap_close_in_hours m < 0.5 then True
         else False)"

definition fp_should_exit :: "position_view \<Rightarrow> market_snapshot \<Rightarrow> bool" where
  "fp_should_exit pv m =
     (let entry_price = pv_entry_price pv; current_price = snap_yes_price m
      in if current_price \<ge> entry_price * 1.5 then True
         else if current_price < entry_price * 0.6 then True
         else if snap_close_in_hours m < 0.25 then True
         else False)"

text \<open>\<open>position.get("metadata", {}).get("fair_price", 0.5)\<close>.\<close>

definition entry_fair_price :: "metadata \<Rightarrow> real" where
  "entry_fair_price md = (case map_of md ''fair_price'' of Some (MNum v) \<Rightarrow> v | _ \<Rightarrow> 0.5)"

definition mov_should_exit :: "position_view \<Rightarrow> market_snapshot \<Rightarrow> bool" where
  "mov_should_exit pv m =
     (let entry_price = pv_entry_price pv; current_price = snap_yes_price m;
          fair_price = entry_fair_price (pv_metadata pv)
      in if current_price \<ge> fair_price then True
         else if current_price < entry_price * 0.5 then True
         else if snap_close_in_hours m < 0.25 then True
         else False)"

fun ufc_should_exit :: "ufc_strategy \<Rightarrow> exit_pred" where
  "ufc_should_exit (FavoriteBacker c) pv m = fb_should_exit pv m"
| "ufc_should_exit (UnderdogValue c) pv m = uv_should_exit pv m"
| "ufc_should_exit (FinishProp c) pv m = fp_should_exit pv m"
| "ufc_should_exit (MethodOfVictory c) pv m = mov_should_exit pv m"

section \<open>Properties\<close>

lemma ufc_analyze_signal:
  assumes "ufc_analyze s m now = Some sg"
  shows "sig_side sg = Yes \<and> sig_market_id sg = snap_market_id m \<and>
         sig_strategy_name sg = ufc_strategy_name s \<and> sig_timestamp sg = now"
  using assms
  by (cases s) (auto simp: fb_analyze_def uv_analyze_def fp_analyze_def mov_analyze_def ufc_signal_def
      Let_def split: if_splits option.splits prod.splits)

lemma mov_method_ko_first:
  "str_contains ''KO'' (str_upper mid) \<Longrightarrow> mov_method c mid = Some (ko_fair_price c, ''ko'')"
  by (simp add: mov_method_def)

lemma mov_method_kotkodq_redundant:
  "(str_contains ''KOTKODQ'' u \<or> str_contains ''KO'' u) \<longleftrightarrow> str_contains ''KO'' u"
  using str_contains_mono [of "''KOTKODQ''" u "''KO''"] by (auto simp: sublist_def)

text \<open>C20: the method-of-victory strategy tests for \<open>KO\<close> before \<open>SUB\<close> and \<open>DEC\<close>: every signal it emits for a market whose upper-cased id contains \<open>KO\<close> anywhere (in a fighter's name, say) is priced with the KO fair price, also when the market is a decision or submission market.\<close>

theorem mov_analyze_ko_first:
  assumes "str_contains ''KO'' (str_upper (snap_market_id m))" and "mov_analyze c m now = Some sg"
  shows "confidence sg = ko_fair_price c \<and>
         sig_metadata sg = Some [(''reason'', MStr ''ko_value''), (''price'', MNum (snap_yes_price m)),
           (''fair_price'', MNum (ko_fair_price c)), (''edge'', MNum (ko_fair_price c - snap_yes_price m))]"
  using assms by (auto simp: mov_analyze_def mov_method_ko_first ufc_signal_def Let_def split: if_splits)

abbreviation kosta_market :: market_snapshot where
  "kosta_market \<equiv> \<lparr>snap_market_id = ''KXUFCMOV-25MAR01-DEC-KOSTA'', snap_ticker = ''KXUFCMOV-25MAR01-DEC-KOSTA'',
                     snap_yes_price = 0.15, snap_close_in_hours = 48, snap_order_book = None\<rparr>"

theorem mov_analyze_ko_first_witness:
  "\<exists>sg. mov_analyze default_mov_config kosta_market 0 = Some sg \<and> confidence sg = 0.30"
proof -
  have k: "str_contains ''KO'' (str_upper (snap_market_id kosta_market))"
    by (simp add: str_upper_def char_upper_def)
  have s: "mov_analyze default_mov_config kosta_market 0 = Some (the (mov_analyze default_mov_config kosta_market 0))"
    by (simp add: mov_analyze_def mov_method_def str_upper_def char_upper_def default_mov_config_def Let_def)
  from mov_analyze_ko_first [OF k s] s show ?thesis by (auto simp: default_mov_config_def)
qed

text \<open>
  Unlike mean reversion (C29), no UFC strategy exits a position at the snapshot it
  opened it on, as long as the market does not close within half an hour (and the
  MOV edge threshold is positive).
\<close>

lemma ufc_no_exit_at_entry:
  assumes "ufc_analyze s m now = Some sg"
    and "execute_signal t sg (snap_yes_price m) pid now = Inr (t', pos)"
    and "0.5 \<le> snap_close_in_hours m"
    and "\<And>c. s = MethodOfVictory c \<Longrightarrow> 0 < edge_threshold c"
  shows "\<not> ufc_should_exit s (view_of pos) m"
proof -
  let ?p = "snap_yes_price m"
  have sd: "sig_side sg = Yes" using ufc_analyze_signal [OF assms(1)] by simp
  obtain q where q: "0 < contract_quantity (sig_size sg) (effective_price (sig_side sg) ?p)"
    and pos: "pos = open_position_of sg pid now
                 (contract_quantity (sig_size sg) (effective_price (sig_side sg) ?p))
                 (effective_price (sig_side sg) ?p)"
    using execute_signal_Inr [OF assms(2)] by blast
  have p: "0 < ?p" using q sd by (simp add: contract_quantity_def effective_price_def split: if_splits)
  have ep: "pv_entry_price (view_of pos) = ?p" and md: "pv_metadata (view_of pos) = (case sig_metadata sg of None \<Rightarrow> [] | Some x \<Rightarrow> x)"
    using pos sd by (auto simp: view_of_def open_position_of_def effective_price_def split: option.splits)
  show ?thesis
  proof (cases s)
    case (MethodOfVictory c)
    then obtain fair meth where mm: "mov_method c (snap_market_id m) = Some (fair, meth)"
      and e: "edge_threshold c \<le> fair - ?p"
      and sg: "sg = ufc_signal ''MethodOfVictory'' m now fair (mov_position_size c)
                 [(''reason'', MStr (meth @ ''_value'')), (''price'', MNum ?p),
                  (''fair_price'', MNum fair), (''edge'', MNum (fair - ?p))]"
      using assms(1) by (auto simp: mov_analyze_def Let_def split: if_splits option.splits)
    have "?p < fair" using e assms(4) [OF MethodOfVictory] by simp
    moreover have "entry_fair_price (pv_metadata (view_of pos)) = fair"
      using md sg by (simp add: ufc_signal_def entry_fair_price_def)
    ultimately show ?thesis
      using MethodOfVictory ep p assms(3) by (simp add: mov_should_exit_def Let_def)
  qed (use ep p assms(3) in \<open>auto simp: fb_should_exit_def uv_should_exit_def fp_should_exit_def Let_def\<close>)
qed

end
