(* ===== verification/Notifications.thy ===== *)
theory Notifications
  imports PyFormat
begin

text \<open>
  \<open>TelegramNotifier\<close> of src/src/notifications.py. The notifier is never constructed by the
  orchestrator; it is modelled as a library. \<open>_send\<close> runs the \<open>openclaw\<close> CLI: the outcome
  of that subprocess is an argument. Messages are byte strings (UTF-8, as the CLI receives
  them, and the first 200 characters of an ASCII text are its first 200 bytes); numbers are
  rendered by the format specifications of \<open>PyFormat\<close>.
\<close>

record telegram_notifier =
  tn_enabled :: bool
  tn_last_daily_summary :: "timestamp option"

definition init_notifier :: "bool \<Rightarrow> telegram_notifier" where
  "init_notifier enabled = \<lparr>tn_enabled = enabled, tn_last_daily_summary = None\<rparr>"

text \<open>What \<open>subprocess.run\<close> did: returned with a code, or raised.\<close>

datatype send_outcome = Completed int | CliNotFound | SendRaised

text \<open>\<open>_send\<close>: the subprocess is only run when the notifier is enabled.\<close>

definition tn_send :: "telegram_notifier \<Rightarrow> send_outcome \<Rightarrow> bool \<times> bool" where
  "tn_send n outcome =
     (if \<not> tn_enabled n then (False, False)
      else (True, case outcome of Completed rc \<Rightarrow> rc = 0 | CliNotFound \<Rightarrow> False | SendRaised \<Rightarrow> False))"

definition utf8 :: "nat list \<Rightarrow> string" where
  "utf8 bs = map char_of bs"

definition warning_sign :: string where
  "warning_sign = utf8 [226, 154, 160, 239, 184, 143]"

definition stop_sign :: string where
  "stop_sign = utf8 [240, 159, 155, 145]"

text \<open>\<open>error\<close>: the details are cut to their first 200 characters.\<close>

definition error_message :: "string \<Rightarrow> string \<Rightarrow> string" where
  "error_message error_type details =
     warning_sign @ '' Bot Error: '' @ error_type @ ''\<newline>'' @ take 200 details"

definition shutdown_message :: "string \<Rightarrow> string" where
  "shutdown_message reason = stop_sign @ '' Kalshi Bot Stopped\<newline>Reason: '' @ reason"

definition memo_sign :: string where "memo_sign = utf8 [240, 159, 147, 157]"
definition money_bag :: string where "money_bag = utf8 [240, 159, 146, 176]"
definition green_circle :: string where "green_circle = utf8 [240, 159, 159, 162]"
definition red_circle :: string where "red_circle = utf8 [240, 159, 148, 180]"
definition check_mark :: string where "check_mark = utf8 [226, 156, 133]"
definition cross_mark :: string where "cross_mark = utf8 [226, 157, 140]"
definition chart_up :: string where "chart_up = utf8 [240, 159, 147, 136]"
definition chart_down :: string where "chart_down = utf8 [240, 159, 147, 137]"
definition robot_face :: string where "robot_face = utf8 [240, 159, 164, 150]"

definition mode_badge :: "bool \<Rightarrow> string" where
  "mode_badge paper = (if paper then memo_sign @ '' PAPER'' else money_bag @ '' LIVE'')"

text \<open>\<open>trade_executed\<close>.\<close>

definition trade_executed_message :: "string \<Rightarrow> string \<Rightarrow> string \<Rightarrow> real \<Rightarrow> real \<Rightarrow> bool \<Rightarrow> string" where
  "trade_executed_message strategy ticker side price amount paper =
     mode_badge paper @ '' Trade Executed\<newline>''
     @ (if side = ''yes'' then green_circle else red_circle) @ '' '' @ strategy @ '': ''
     @ str_upper side @ '' '' @ ticker @ ''\<newline>''
     @ ''Price: '' @ py_percent 0 price @ '' | Size: $'' @ py_fixed 2 amount"

text \<open>\<open>position_closed\<close>.\<close>

definition position_closed_message :: "string \<Rightarrow> string \<Rightarrow> real \<Rightarrow> real \<Rightarrow> bool \<Rightarrow> string" where
  "position_closed_message strategy ticker pnl pnl_pct paper =
     mode_badge paper @ '' Position Closed\<newline>''
     @ (if 0 \<le> pnl then check_mark else cross_mark) @ '' '' @ strategy @ '': '' @ ticker @ ''\<newline>''
     @ ''P&L: $'' @ py_fixed_plus 2 pnl @ '' ('' @ py_percent_plus 1 pnl_pct @ '')''"

text \<open>\<open>'\n'.join(lines)\<close> and \<open>', '.join(names)\<close>.\<close>

fun join_str :: "string \<Rightarrow> string list \<Rightarrow> string" where
  "join_str sep [] = []"
| "join_str sep [s] = s"
| "join_str sep (s # ss) = s @ sep @ join_str sep ss"

text \<open>
  A strategy's entry of \<open>daily_summary\<close>'s \<open>strategy_stats\<close>: its \<open>pnl\<close> and \<open>trades\<close>
  values, \<open>None\<close> when the key is missing (read as 0).
\<close>

type_synonym strategy_stat = "real option \<times> int option"

definition stat_line :: "string \<times> strategy_stat \<Rightarrow> string" where
  "stat_line entry =
     (let pnl = (case fst (snd entry) of None \<Rightarrow> 0 | Some v \<Rightarrow> v);
          trades = (case snd (snd entry) of None \<Rightarrow> 0 | Some k \<Rightarrow> k)
      in (if 0 \<le> pnl then check_mark else cross_mark) @ '' '' @ fst entry @ '': $''
         @ py_fixed_plus 2 pnl @ '' ('' @ py_str_int trades @ '' trades)'')"

text \<open>\<open>daily_summary\<close>.\<close>

definition daily_summary_message :: "real \<Rightarrow> int \<Rightarrow> real \<Rightarrow> (string \<times> strategy_stat) list \<Rightarrow> string" where
  "daily_summary_message total_pnl total_trades win_rate stats =
     join_str ''\<newline>''
       ([(if 0 \<le> total_pnl then chart_up else chart_down) @ '' Daily Summary'',
         ''Total P&L: $'' @ py_fixed_plus 2 total_pnl,
         ''Trades: '' @ py_str_int total_trades @ '' | Win Rate: '' @ py_percent 0 win_rate,
         '''']
        @ map stat_line stats)"

text \<open>\<open>startup\<close>.\<close>

definition startup_message :: "string \<Rightarrow> string list \<Rightarrow> real \<Rightarrow> string" where
  "startup_message mode strategies capital =
     robot_face @ '' Kalshi Bot Started\<newline>Mode: '' @ mode @ ''\<newline>Strategies: ''
     @ join_str '', '' strategies @ ''\<newline>Capital: $'' @ py_fixed 2 capital"

text \<open>
  Each notifier method builds its message and hands it to \<open>_send\<close>: the CLI receives the
  message exactly when the notifier is enabled.
\<close>

definition notify :: "telegram_notifier \<Rightarrow> send_outcome \<Rightarrow> string \<Rightarrow> string option \<times> bool" where
  "notify n outcome msg = (if fst (tn_send n outcome) then Some msg else None, snd (tn_send n outcome))"

section \<open>Properties\<close>

lemma tn_send_disabled: "\<not> tn_enabled n \<Longrightarrow> tn_send n outcome = (False, False)"
  by (simp add: tn_send_def)

lemma tn_send_success_iff:
  "snd (tn_send n outcome) \<longleftrightarrow> tn_enabled n \<and> outcome = Completed 0"
  by (cases outcome) (auto simp: tn_send_def)

lemma error_message_length:
  "length (error_message error_type details) \<le> 19 + length error_type + 200"
  by (simp add: error_message_def warning_sign_def utf8_def)

lemma notify_delivers: "fst (notify n outcome msg) = (if tn_enabled n then Some msg else None)"
  by (simp add: notify_def tn_send_def)

lemma position_closed_shows_pnl:
  "\<exists>pre s post. position_closed_message strategy ticker pnl pnl_pct paper = pre @ ''P&L: $'' @ s @ '' ('' @ post
     \<and> \<bar>parse_fixed 2 s - pnl\<bar> \<le> 1 / 200"
proof -
  have "\<bar>parse_fixed 2 (py_fixed_plus 2 pnl) - pnl\<bar> \<le> 1 / 200"
    using py_fixed_plus_accuracy [of 2 pnl] by simp
  moreover have "position_closed_message strategy ticker pnl pnl_pct paper =
      (mode_badge paper @ '' Position Closed\<newline>'' @ (if 0 \<le> pnl then check_mark else cross_mark) @ '' ''
       @ strategy @ '': '' @ ticker @ ''\<newline>'') @ ''P&L: $'' @ py_fixed_plus 2 pnl @ '' (''
      @ (py_percent_plus 1 pnl_pct @ '')'')"
    by (simp add: position_closed_message_def)
  ultimately show ?thesis by blast
qed

lemma utf8_no_newline: "list_all (\<lambda>b. b \<noteq> 10 \<and> b < 256) bs \<Longrightarrow> CHR ''\<newline>'' \<notin> set (utf8 bs)"
proof
  assume a: "list_all (\<lambda>b. b \<noteq> 10 \<and> b < 256) bs" and "CHR ''\<newline>'' \<in> set (utf8 bs)"
  then obtain b where b: "b \<in> set bs" "char_of b = CHR ''\<newline>''" by (auto simp: utf8_def)
  then have "of_char (char_of b :: char) = (of_char CHR ''\<newline>'' :: nat)" by simp
  then have "b mod 256 = 10" by (simp add: of_char_of)
  with a b show False by (auto simp: list_all_iff)
qed

lemmas emoji_defs = check_mark_def cross_mark_def chart_up_def chart_down_def memo_sign_def money_bag_def
  green_circle_def red_circle_def robot_face_def warning_sign_def stop_sign_def

lemma emoji_no_newline:
  "CHR ''\<newline>'' \<notin> set check_mark" "CHR ''\<newline>'' \<notin> set cross_mark"
  "CHR ''\<newline>'' \<notin> set chart_up" "CHR ''\<newline>'' \<notin> set chart_down"
  by (simp_all add: emoji_defs utf8_no_newline)

lemma count_join_str:
  "ss \<noteq> [] \<Longrightarrow> count_list (join_str sep ss) c = sum_list (map (\<lambda>s. count_list s c) ss) + (length ss - 1) * count_list sep c"
  by (induction sep ss rule: join_str.induct) auto

lemma py_str_nat_no_newline: "CHR ''\<newline>'' \<notin> set (py_str_nat n)"
  using py_str_nat_digits [of n] by force

lemma py_fixed_no_newline: "CHR ''\<newline>'' \<notin> set (py_fixed d x)"
  using py_str_nat_no_newline by (auto simp: py_fixed_def Let_def pad_zeros_def)

lemma daily_summary_lines:
  assumes "list_all (\<lambda>e. CHR ''\<newline>'' \<notin> set (fst e)) stats"
  shows "count_list (daily_summary_message total_pnl total_trades win_rate stats) CHR ''\<newline>'' = 3 + length stats"
proof -
  have z: "count_list s CHR ''\<newline>'' = 0" if "CHR ''\<newline>'' \<notin> set s" for s :: string
    using that by (simp add: count_list_0_iff)
  have line: "count_list (stat_line e) CHR ''\<newline>'' = 0" if "CHR ''\<newline>'' \<notin> set (fst e)" for e
    using that py_fixed_no_newline py_str_nat_no_newline
    using emoji_no_newline by (intro z) (auto simp: stat_line_def Let_def py_fixed_plus_def py_str_int_def)
  have "sum_list (map (\<lambda>s. count_list s CHR ''\<newline>'') (map stat_line stats)) = 0"
    using assms line by (induction stats) auto
  moreover have "count_list ((if 0 \<le> total_pnl then chart_up else chart_down) @ '' Daily Summary'') CHR ''\<newline>'' = 0"
    using emoji_no_newline by (intro z) simp
  moreover have "count_list (''Total P&L: $'' @ py_fixed_plus 2 total_pnl) CHR ''\<newline>'' = 0"
    using py_fixed_no_newline by (intro z) (simp add: py_fixed_plus_def)
  moreover have "count_list (''Trades: '' @ py_str_int total_trades @ '' | Win Rate: '' @ py_percent 0 win_rate)
      CHR ''\<newline>'' = 0"
    using py_fixed_no_newline py_str_nat_no_newline by (intro z) (simp add: py_str_int_def py_percent_def)
  ultimately show ?thesis by (simp add: daily_summary_message_def count_join_str)
qed

end
