(* ===== verification/Spec2Isabelle.thy ===== *)
theory Spec2Isabelle
  imports Lifecycle UFC Notifications
begin

text \<open>
  Verification development of the Kalshi paper-trading bot (src/src/ and src/main.py).

  \<^bold>\<open>The program.\<close> \<open>main\<close> (main.py) parses the command line and runs a status check, one
  cycle, or the endless loop of \<open>run_bot\<close>. \<open>Config.load\<close> (config.py) builds the
  configuration from the YAML file. \<open>Orchestrator\<close> (orchestrator.py) wires the parts
  together and owns their life: \<open>initialize\<close>, \<open>run\<close>, \<open>shutdown\<close>, \<open>cleanup\<close>. The
  \<open>MarketScanner\<close> (scanner.py) pages through the API's markets, keeps those that pass its
  filters in a cache keyed by ticker, and runs every strategy on them. The three
  strategies (strategies/mean_reversion.py, momentum.py, market_making.py, behind the
  \<open>BaseStrategy\<close> interface of base.py) emit \<open>Signal\<close>s. The \<open>PaperTrader\<close> (paper_trader.py)
  opens simulated positions for the signals under the risk limits of config.py and closes
  them when a strategy's \<open>should_exit\<close> holds. Closed trades and capital snapshots go to the
  \<open>PerformanceTracker\<close> (performance.py), whose metrics the \<open>CapitalAllocator\<close>
  (allocator.py) uses to rank the strategies and periodically overwrite their capital. The
  \<open>KalshiClient\<close> (api/kalshi_client.py) talks to the exchange, and the
  \<open>TelegramNotifier\<close> (notifications.py) formats messages for a chat.

  \<^bold>\<open>Theories.\<close> Each class is a record of its state, each method a function that
  returns the new state (and the method's result); a raised exception is a left value.
  \<^item> \<open>Prelude\<close>: the Python vocabulary: \<open>real\<close> for floats, \<open>xreal\<close> for floats that
    can be \<open>inf\<close>, \<open>py_int\<close> for \<open>int()\<close>, association lists for dicts, strings,
    \<open>py_error + 'a\<close> for exceptions; shared lemmas on dicts, lists and sums.
  \<^item> \<open>PyFormat\<close>: \<open>str\<close> of an int and the \<open>:.2f\<close>, \<open>:+.2f\<close>, \<open>:.0%\<close>, \<open>:+.1%\<close> formats
    (round half to even), with the parse back and the bound on the rounding error.
  \<^item> \<open>Portfolio\<close>: \<open>PaperPosition\<close>, \<open>StrategyPortfolio\<close> and their derived quantities.
  \<^item> \<open>PaperTrader\<close>: \<open>PaperTrader\<close> (\<open>initialize_portfolio\<close>, \<open>execute_signal\<close> with
    \<open>_check_risk_limits\<close>, \<open>close_position\<close>, \<open>check_exits\<close>, \<open>reset_daily_stats\<close>,
    \<open>get_summary\<close>); the invariants \<open>trader_inv\<close> (distinct names and ids, well-formed
    positions) and \<open>risk_inv\<close> (exposure and count within the limits); the abstraction
    \<open>open_book\<close> of all open positions by id. Claims C1--C9.
  \<^item> \<open>Performance\<close>: \<open>PerformanceTracker\<close> with its SQLite tables as lists of rows and
    \<open>calculate_metrics\<close> (Sharpe, Sortino, drawdown, profit factor) and its cache;
    the invariant \<open>tracker_inv\<close>. Claims C10, C11, C14--C19.
  \<^item> \<open>Allocator\<close>: \<open>CapitalAllocator\<close> (scoring, ranking, \<open>calculate_allocations\<close>,
    \<open>rebalance\<close>), taking and returning the tracker and the trader it reads and writes.
    Claims C12, C21, C25--C28.
  \<^item> \<open>Strategies\<close>: the three strategies as one datatype with \<open>analyze\<close> and
    \<open>should_exit\<close>; momentum's price history is its state. Claim C29.
  \<^item> \<open>UFC\<close>: the four strategies of strategies/ufc_strategies.py, which no code path
    instantiates, as a library. Claim C20.
  \<^item> \<open>Scanner\<close>: \<open>_parse_market\<close>, \<open>_parse_orderbook\<close>, \<open>_passes_filters\<close>, \<open>scan_once\<close>
    over a list of API responses, the ticker-keyed cache with \<open>get_market\<close> and
    \<open>get_all_markets\<close>, and \<open>generate_signals\<close>. Claims C30, C39, C40.
  \<^item> \<open>Orchestrator\<close>: the bot record, \<open>initialize\<close>, \<open>_process_cycle\<close> (execution,
    exits with trade recording, rebalance), one iteration of \<open>run\<close> (\<open>run_step\<close>, which
    is also \<open>run_once\<close>), \<open>cleanup\<close>'s metrics; the lemmas that every phase keeps the bot
    invariant \<open>bot_inv\<close> and never opens a both-sided position, and that the exit phase
    misses no due exit. Claims C23, C32, C34.
  \<^item> \<open>Lifecycle\<close>: the orchestrator object with its running flags, client and bot;
    \<open>initialize\<close> with the balance request, \<open>run\<close> as a loop over a finite sequence of
    events (a batch of markets from the scanner, or the shutdown signal), \<open>shutdown\<close>,
    \<open>cleanup\<close> and \<open>run_bot\<close>. Claim C24: after the shutdown signal no cycle runs.
  \<^item> \<open>ConfigLoad\<close>: \<open>Config.load\<close> from the parsed YAML document (a datatype of YAML
    values): every section with its defaults, the default strategies, the sandbox flag,
    the API settings and \<open>get_api_key\<close>.
  \<^item> \<open>ApiClient\<close>: the \<open>RateLimiter\<close>, the retry loop of \<open>_request\<close> on HTTP 429, the signed
    message and the base URL. Claim C13.
  \<^item> \<open>ApiEndpoints\<close>: the \<open>KalshiClient\<close> object (creation from the environment, its
    errors, \<open>close\<close>), the request each endpoint method builds (method, path, query
    parameters, order body), the wire request of each attempt with its authentication
    headers, and \<open>_request\<close> on the client.
  \<^item> \<open>EntryPoint\<close>: \<open>main\<close>'s modes, the sandbox decisions of \<open>check_status\<close>, \<open>run_once\<close>,
    \<open>run_continuous\<close> and \<open>run_bot\<close>, the exit status of \<open>--once\<close>, composed from
    \<open>Config.load\<close>, \<open>initialize\<close> and one cycle, and \<open>check_status\<close>'s three requests.
    Claims C22, C33.
  \<^item> \<open>Notifications\<close>: the \<open>TelegramNotifier\<close>'s send guard and every message it
    formats, as UTF-8 bytes.
  \<^item> this theory: the runs of the bot as the inductive relation \<open>reachable\<close> and the
    properties of every reachable state (C31, C35--C37), and one concrete iteration (C38).

  \<^bold>\<open>Kinds of property.\<close> Functional behaviour of each operation, errors included;
  invariants preserved by every operation and, by rule induction, of every reachable
  state (well-formedness, risk limits, the type discipline that no open position is
  both-sided); refinement of the ledger to the abstract book \<open>open_book\<close> (C7, C8);
  equivalence of the association-list cache with Python's dict (C30); liveness of exits
  (C23); termination of the retry loop exactly when the server stops answering 429 (C13);
  safety of the sandbox choice (C22) and of shutdown (C24); bounds (C14, C39) and round
  trips (C16, and the parse of the fixed-point format in PyFormat).

  \<^bold>\<open>Loops, bounds and fuel.\<close> Every loop of the modelled code but one iterates over a
  finite list (responses, markets, strategies, signals, portfolios, positions, trades,
  events) and is a structurally recursive \<open>fun\<close> or a \<open>fold\<close>, so those definitions are
  total and executable and no fuel is needed. The \<open>while True\<close> of \<open>scan_once\<close> ends with
  the list of responses (an exhausted list stands for the API returning no more markets);
  it is bounded by \<open>max_markets\<close> (C39). The \<open>async for\<close> of \<open>run\<close> is a loop over the
  finite list of events the scanner and the signal handler produce. The retry of
  \<open>_request\<close> on 429 has no bound in the code: it is a \<open>partial_function (option)\<close> over
  the server's infinite sequence of answers, and C13 proves it returns exactly when a
  later answer is not 429. The endless main loop is not a function: its states are the
  relation \<open>reachable\<close>, any finite number of iterations from \<open>initialize\<close>.

  \<^bold>\<open>Arguments for the environment.\<close> The clock, the ids \<open>uuid4\<close> draws (assumed
  distinct and unused, as \<open>uuid4\<close> makes them with overwhelming probability), the API's
  market pages, order books and HTTP answers, the parsed configuration file, the
  environment variables, the RSA-PSS signature of a message, the answer to the
  confirmation prompt and the outcome of the notifier's subprocess are arguments.
  Floats are reals: binary rounding is not modelled, and a property that holds of the
  reals can fail by a rounding error; the decimal rounding of the formats is modelled.

  \<^bold>\<open>Not modelled.\<close> The HTTP transport, the RSA-PSS signing and PEM parsing, and the
  JSON of the API's answers; reading files, the YAML parser, \<open>load_dotenv\<close>; the
  structlog set-up and the printed lines of main.py; the \<open>to_dict\<close> serialisations of
  \<open>MarketData\<close>, \<open>PaperPosition\<close> and \<open>StrategyMetrics\<close> (dict views of records the model
  reads field by field; \<open>get_status\<close>, their only caller in the loop, changes no state);
  the scanner's \<open>_last_scan\<close> and the sleeps; the scripts in src/tests (calls to the live
  sandbox). After an exception a cycle ends; the model drops the state of the failed
  iteration, while the code runs \<open>cleanup\<close> on the objects as far as that iteration had
  changed them.

  \<^bold>\<open>What the modelling showed.\<close> A mean-reversion \<open>no\<close> position is closed in the
  cycle that opens it, at zero P\&L (C29, C38). Signals for a market whose id differs
  from its ticker are never executed (C32). The market-making spread ignores the
  no side of the book (C40). The daily loss limit is checked against all P\&L since
  start (C36). The allocator can leave more capital in the portfolios than its total
  (C27), does not normalise allocations that sum to less than it (C12), and gives
  capital to portfolios that no strategy trades (C34, C38). \<open>--once --live\<close> and
  \<open>--status --live\<close> reach the production API although the configuration forces the
  sandbox (C22). A request retried on 429 never returns while the server keeps
  answering 429 (C13). The KO test of the method-of-victory strategy shadows its other
  methods (C20). A failed \<open>initialize\<close> leaves the HTTP client open
  (\<open>run_bot_init_failed_open\<close> in Lifecycle). The configured \<open>api_key_env_var\<close> is
  ignored by the client the bot creates. \<open>create_order\<close> sends prices unchecked.
\<close>

section \<open>Runs of the bot\<close>

text \<open>
  The states a run of \<open>Orchestrator\<close> reaches from a configuration: \<open>initialize\<close>, then
  iterations of the main loop (\<open>run_step\<close>: a scan, then \<open>_process_cycle\<close>) that did not
  raise; the position ids of an iteration are distinct and unused (\<open>uuid4\<close>).
\<close>

inductive reachable :: "bot_config \<Rightarrow> bot \<Rightarrow> bool" for cfg :: bot_config where
  start: "Orchestrator.initialize cfg = Some b \<Longrightarrow> reachable cfg b"
| step: "reachable cfg b \<Longrightarrow> inj ids \<Longrightarrow> \<forall>i. ids i \<notin> set (all_open_ids (b_trader b)) \<Longrightarrow>
         run_step b rs books ids now = Inr b' \<Longrightarrow> reachable cfg b'"

text \<open>
  A configuration is sane when its strategy names are distinct (they are the keys of a
  dict in \<open>config.py\<close>) and its risk limits are not negative.
\<close>

definition sane_config :: "bot_config \<Rightarrow> bool" where
  "sane_config cfg \<longleftrightarrow> distinct (map sc_name (bc_strategies cfg))
     \<and> 0 \<le> max_total_capital (bc_risk cfg) * max_exposure_pct (bc_risk cfg)
     \<and> 0 \<le> max_concurrent_positions (bc_risk cfg)"

lemma reachable_bot_inv:
  assumes "reachable cfg b" and "sane_config cfg"
  shows "bot_inv (bc_risk cfg) b"
  using assms(1)
proof induction
  case (start b)
  then show ?case using initialize_inv assms(2) by (simp add: sane_config_def)
next
  case (step b ids rs books now b')
  then show ?case using run_step_inv by blast
qed

text \<open>C35: in every state a run reaches, the open positions stay within the configured risk limits: their total cost is at most \<open>max_total_capital * max_exposure_pct\<close> and their number at most \<open>max_concurrent_positions\<close>.\<close>

theorem reachable_risk_limits:
  assumes "reachable cfg b" and "sane_config cfg"
  shows "all_exposure (b_trader b) \<le> max_total_capital (bc_risk cfg) * max_exposure_pct (bc_risk cfg) \<and>
         int (all_open_count (b_trader b)) \<le> max_concurrent_positions (bc_risk cfg)"
  using reachable_bot_inv [OF assms] by (auto simp: bot_inv_def risk_inv_def)

text \<open>C36: in every state a run reaches, the "daily" P\&L that the daily loss limit is checked against is the realised P\&L of all trades since start: nothing resets it.\<close>

theorem reachable_daily_pnl_is_lifetime:
  assumes "reachable cfg b" and "sane_config cfg"
  shows "daily_pnl (b_trader b) = (\<Sum>pf\<leftarrow>dict_values (portfolios (b_trader b)). total_pnl pf)"
  using reachable_bot_inv [OF assms] by (simp add: bot_inv_def sum_total_pnl_eq)

text \<open>C37: every state a run reaches is well formed: portfolio names and open position ids are distinct, every position is well formed, the risk configuration is the configured one, and the tracker's tables have distinct keys.\<close>

theorem reachable_well_formed:
  assumes "reachable cfg b" and "sane_config cfg"
  shows "trader_inv (b_trader b) \<and> risk (b_trader b) = bc_risk cfg \<and> tracker_inv (b_tracker b)"
  using reachable_bot_inv [OF assms] by (simp add: bot_inv_def)

lemma side_not_Both: "s \<noteq> Both \<longleftrightarrow> s \<in> {Yes, No}"
  by (cases s) auto

text \<open>C31: every position open in a reachable state is a yes or a no position: the signals of market making (side both) are never executed, so the side of an open position always has a price.\<close>

theorem reachable_positions_sided:
  assumes "reachable cfg b"
  shows "list_all (\<lambda>pf. list_all (\<lambda>p. side p \<in> {Yes, No}) (dict_values (positions pf)))
           (dict_values (portfolios (b_trader b)))"
proof -
  from assms have "sided_positions (b_trader b)"
    by induction (auto intro: initialize_sided run_step_sided)
  then show ?thesis by (simp add: sided_positions_def side_not_Both)
qed

lemmas cycle_eval_defs =
  py_div_def
  sql_replace_def
  py_int_def
  less_xreal_def
  pnl_def
  pnl_pct_def
  open_positions_def
  total_exposure_def
  available_capital_def
  total_pnl_def
  total_trades_def
  winning_trades_def
  win_rate_def
  new_portfolio_def
  default_risk_config_def
  init_trader_def
  initialize_portfolio_def
  get_portfolio_def
  all_exposure_def
  all_open_count_def
  check_risk_limits_def
  effective_price_def
  contract_quantity_def
  open_position_of_def
  execute_signal_def
  find_holder_def
  closed_position_of_def
  close_position_def
  view_of_def
  check_exits_def
  reset_daily_stats_def
  get_summary_def
  get_all_positions_def
  all_open_ids_def
  open_book_def
  default_mean_reversion_config_def
  default_momentum_config_def
  default_market_making_config_def
  mr_position_size_def
  mr_analyze_def
  mr_should_exit_def
  deque_append_def
  last_prices_def
  moving_averages_def
  momentum_signal_def
  mom_analyze_def
  entry_momentum_def
  mom_should_exit_def
  mm_analyze_def
  default_perf_config_def
  new_metrics_def
  init_tracker_def
  trade_row_of_def
  record_trade_def
  side_of_str_def
  status_of_value_def
  position_of_row_def
  record_capital_snapshot_def
  save_daily_metrics_def
  trades_per_year_def
  trade_returns_def
  calculate_sharpe_def
  calculate_sortino_def
  trade_time_def
  synthetic_history_def
  drawdown_history_def
  calculate_max_drawdown_def
  calculate_metrics_def
  get_metrics_def
  get_all_metrics_def
  get_rolling_metrics_def
  get_leaderboard_def
  default_allocator_config_def
  init_allocator_def
  calculate_strategy_score_def
  rank_strategies_def
  portfolio_capital_def
  alloc_reason_of_def
  equal_result_def
  proportional_result_def
  normalize_allocations_def
  qualifies_def
  allocate_def
  calculate_allocations_def
  should_rebalance_def
  set_allocation_def
  rebalance_def
  summary_row_of_def
  get_allocation_summary_def
  default_scanner_config_def
  close_in_hours_def
  parse_orderbook_def
  parse_market_def
  passes_filters_def
  attach_orderbook_def
  scan_once_def
  cache_markets_def
  init_portfolios_def
  initialize_def
  scan_cycle_def
  exit_phase_def
  process_cycle_def
  run_step_def
  cleanup_def

abbreviation demo_ids :: "nat \<Rightarrow> string" where
  "demo_ids \<equiv> \<lambda>i. replicate (Suc i) (CHR ''p'')"

abbreviation demo_raw_market :: raw_market where
  "demo_raw_market \<equiv> \<lparr>raw_id = None, raw_ticker = ''KXHIGH'', raw_yes_bid = Some 96,
                         raw_volume_24h = Some 1000, raw_status = Some ''open'',
                         raw_close_time = Some 172800\<rparr>"

abbreviation demo_responses :: "markets_response list" where
  "demo_responses \<equiv> [([demo_raw_market], None)]"

abbreviation no_books :: "string \<Rightarrow> raw_orderbook option" where
  "no_books \<equiv> \<lambda>tk. None"

abbreviation demo_bot :: bot where
  "demo_bot \<equiv> the (Orchestrator.initialize demo_bot_config)"

lemma inj_demo_ids: "inj demo_ids"
  by (auto simp: inj_def dest: arg_cong [where f = length])


lemma demo_step:
  "\<exists>b'. run_step demo_bot demo_responses no_books demo_ids 0 = Inr b'"
  by (simp add: cycle_eval_defs Let_def)

lemma demo_bot_reachable:
  "sane_config demo_bot_config"
  "reachable demo_bot_config demo_bot"
  "reachable demo_bot_config (projr (run_step demo_bot demo_responses no_books demo_ids 0))"
proof -
  show s: "sane_config demo_bot_config" by (simp add: sane_config_def default_risk_config_def)
  show r0: "reachable demo_bot_config demo_bot" by (rule reachable.start) (simp add: initialize_def)
  obtain b' where b': "run_step demo_bot demo_responses no_books demo_ids 0 = Inr b'" using demo_step by blast
  have fr: "\<forall>i. demo_ids i \<notin> set (all_open_ids (b_trader demo_bot))"
    by (simp add: initialize_def init_portfolios_def initialize_portfolio_def init_trader_def
        all_open_ids_def new_portfolio_def)
  from reachable.step [OF r0 inj_demo_ids fr b'] b'
  show "reachable demo_bot_config (projr (run_step demo_bot demo_responses no_books demo_ids 0))" by simp
qed

theorem reachable_risk_limits_witness:
  "all_exposure (b_trader (projr (run_step demo_bot demo_responses no_books demo_ids 0))) \<le> 200 * 0.20"
  using reachable_risk_limits [OF demo_bot_reachable(3,1)] by (simp add: default_risk_config_def)

theorem reachable_daily_pnl_is_lifetime_witness:
  "daily_pnl (b_trader (projr (run_step demo_bot demo_responses no_books demo_ids 0))) =
   (\<Sum>pf\<leftarrow>dict_values (portfolios (b_trader (projr (run_step demo_bot demo_responses no_books demo_ids 0)))).
      total_pnl pf)"
  using reachable_daily_pnl_is_lifetime [OF demo_bot_reachable(3,1)] .

theorem reachable_positions_sided_witness:
  "list_all (\<lambda>pf. list_all (\<lambda>p. side p \<in> {Yes, No}) (dict_values (positions pf)))
     (dict_values (portfolios (b_trader (projr (run_step demo_bot demo_responses no_books demo_ids 0)))))"
  by (rule reachable_positions_sided [OF demo_bot_reachable(3)])

theorem reachable_well_formed_witness:
  "trader_inv (b_trader (projr (run_step demo_bot demo_responses no_books demo_ids 0)))"
  using reachable_well_formed [OF demo_bot_reachable(3,1)] by simp

end
